(* ===== verification/Prelude.thy ===== *)
theory Prelude
  imports
    "HOL-Library.Word"
    "HOL-Library.AList"
    "HOL-Library.Sublist"
begin

text \<open>
  What the components share: fallible computations (\<open>Result\<close> is a sum whose left
  injection is the error), checked machine arithmetic, and hash maps.

  A Rust \<open>HashMap\<close> is an association list with distinct keys.  The iteration order of a
  hash map is unspecified; here it is the order of the list, and a theorem that
  quantifies over the list quantifies over every order the code may see.
\<close>

named_theorems result_simps \<open>evaluation of fallible computations\<close>
named_theorems map_simps \<open>lookups after updates of association lists\<close>
named_theorems word_facts \<open>bounds and checked arithmetic on machine words\<close>

subsection \<open>Machine integers\<close>

type_synonym u8 = "8 word"
type_synonym u16 = "16 word"
type_synonym u32 = "32 word"
type_synonym u64 = "64 word"
type_synonym usize = "64 word"

definition checked_add :: "'a::len word \<Rightarrow> 'a word \<Rightarrow> 'a word option" where
  "checked_add x y = (if unat x + unat y < 2 ^ LENGTH('a) then Some (x + y) else None)"

definition checked_sub :: "'a::len word \<Rightarrow> 'a word \<Rightarrow> 'a word option" where
  "checked_sub x y = (if y \<le> x then Some (x - y) else None)"

lemma checked_add_Some [word_facts]:
  "checked_add x y = Some z \<longleftrightarrow> unat z = unat x + unat y"
  for x y z :: "'a::len word"
proof
  assume "checked_add x y = Some z"
  then show "unat z = unat x + unat y"
    by (auto simp: checked_add_def unat_word_ariths split: if_splits)
next
  assume sum: "unat z = unat x + unat y"
  then have lt: "unat x + unat y < 2 ^ LENGTH('a)"
    by (metis unsigned_less)
  have "unat (x + y) = unat z"
    using lt sum by (simp add: unat_word_ariths)
  then show "checked_add x y = Some z"
    using lt by (simp add: checked_add_def unsigned_word_eqI)
qed

lemma checked_add_None [word_facts]:
  "checked_add x y = None \<longleftrightarrow> 2 ^ LENGTH('a) \<le> unat x + unat y"
  for x y :: "'a::len word"
  by (auto simp: checked_add_def)

lemma checked_sub_Some [word_facts]:
  "checked_sub x y = Some z \<longleftrightarrow> unat x = unat y + unat z"
  for x y z :: "'a::len word"
proof
  assume "checked_sub x y = Some z"
  then show "unat x = unat y + unat z"
    by (auto simp: checked_sub_def unat_sub word_le_nat_alt split: if_splits)
next
  assume sum: "unat x = unat y + unat z"
  then have le: "y \<le> x"
    by (simp add: word_le_nat_alt)
  have "unat (x - y) = unat z"
    using sum le by (simp add: unat_sub)
  then show "checked_sub x y = Some z"
    using le by (simp add: checked_sub_def unsigned_word_eqI)
qed

lemma checked_sub_None [word_facts]:
  "checked_sub x y = None \<longleftrightarrow> unat x < unat y"
  for x y :: "'a::len word"
  by (auto simp: checked_sub_def word_le_nat_alt)

text \<open>Widening and counting: \<open>x as u64\<close> keeps the value, \<open>len() as u32\<close> keeps it when it fits.\<close>

lemma unat_ucast_u64 [word_facts]: "unat (ucast x :: u64) = unat x" for x :: u32
proof -
  have "unat x < 2 ^ 32"
    using unsigned_less [where 'a = nat and w = x] by simp
  then show ?thesis
    by (simp add: unsigned_ucast_eq take_bit_nat_eq_self_iff)
qed

lemma unat_of_nat_u32 [word_facts]: "n < 2 ^ 32 \<Longrightarrow> unat (word_of_nat n :: u32) = n"
  by (simp add: unsigned_of_nat take_bit_nat_eq_self_iff)

lemma unat_of_nat_u64 [word_facts]: "n < 2 ^ 64 \<Longrightarrow> unat (word_of_nat n :: u64) = n"
  by (simp add: unsigned_of_nat take_bit_nat_eq_self_iff)

lemma ucast_of_nat_u32 [word_facts]: "(ucast (word_of_nat n :: u64) :: u32) = word_of_nat n"
  by transfer (simp add: take_bit_take_bit)

lemma unat_u32_less [word_facts]: "unat x < 2 ^ 32" for x :: u32
  using unsigned_less [where 'a = nat and w = x] by simp

lemma unat_u64_less [word_facts]: "unat x < 2 ^ 64" for x :: u64
  using unsigned_less [where 'a = nat and w = x] by simp

subsection \<open>Fallible computations\<close>

text \<open>
  \<open>bindR\<close> is the question-mark operator, \<open>mapR\<close> is
  \<open>iter().map(f).collect::<Result<Vec<_>, _>>()\<close>, \<open>foldR\<close> is a loop (or \<open>try_fold\<close>)
  whose body may leave with an error.
\<close>

fun bindR :: "'e + 'a \<Rightarrow> ('a \<Rightarrow> 'e + 'b) \<Rightarrow> 'e + 'b" where
  "bindR (Inl e) f = Inl e"
| "bindR (Inr x) f = f x"

fun map_err :: "('e \<Rightarrow> 'f) \<Rightarrow> 'e + 'a \<Rightarrow> 'f + 'a" where
  "map_err g (Inl e) = Inl (g e)"
| "map_err g (Inr x) = Inr x"

fun ok_or :: "'e \<Rightarrow> 'a option \<Rightarrow> 'e + 'a" where
  "ok_or e None = Inl e"
| "ok_or e (Some x) = Inr x"

fun mapR :: "('a \<Rightarrow> 'e + 'b) \<Rightarrow> 'a list \<Rightarrow> 'e + 'b list" where
  "mapR f [] = Inr []"
| "mapR f (x # xs) = bindR (f x) (\<lambda>y. bindR (mapR f xs) (\<lambda>ys. Inr (y # ys)))"

fun foldR :: "('s \<Rightarrow> 'a \<Rightarrow> 'e + 's) \<Rightarrow> 's \<Rightarrow> 'a list \<Rightarrow> 'e + 's" where
  "foldR f s [] = Inr s"
| "foldR f s (x # xs) = bindR (f s x) (\<lambda>s'. foldR f s' xs)"

lemma bindR_cong [fundef_cong]:
  "m = m' \<Longrightarrow> (\<And>x. m' = Inr x \<Longrightarrow> f x = g x) \<Longrightarrow> bindR m f = bindR m' g"
  by (cases m') auto

lemma mapR_cong [fundef_cong]:
  "xs = ys \<Longrightarrow> (\<And>x. x \<in> set ys \<Longrightarrow> f x = g x) \<Longrightarrow> mapR f xs = mapR g ys"
  by (induction ys arbitrary: xs) auto

lemma foldR_cong [fundef_cong]:
  "s = t \<Longrightarrow> xs = ys \<Longrightarrow> (\<And>u x. x \<in> set ys \<Longrightarrow> f u x = g u x) \<Longrightarrow> foldR f s xs = foldR g t ys"
proof (induction ys arbitrary: s t xs)
  case (Cons y ys)
  then show ?case
    by (cases "g t y") auto
qed simp

lemma bindR_Inr [result_simps]:
  "bindR m f = Inr y \<longleftrightarrow> (\<exists>x. m = Inr x \<and> f x = Inr y)"
  by (cases m) auto

lemma bindR_Inl [result_simps]:
  "bindR m f = Inl e \<longleftrightarrow> m = Inl e \<or> (\<exists>x. m = Inr x \<and> f x = Inl e)"
  by (cases m) auto

lemma map_err_Inr [result_simps]: "map_err g m = Inr x \<longleftrightarrow> m = Inr x"
  by (cases m) auto

lemma map_err_Inl [result_simps]: "map_err g m = Inl e \<longleftrightarrow> (\<exists>d. m = Inl d \<and> e = g d)"
  by (cases m) auto

lemma ok_or_Inr [result_simps]: "ok_or e m = Inr x \<longleftrightarrow> m = Some x"
  by (cases m) auto

lemma ok_or_Inl [result_simps]: "ok_or e m = Inl d \<longleftrightarrow> m = None \<and> d = e"
  by (cases m) auto

lemma bindR_assoc: "bindR (bindR m f) g = bindR m (\<lambda>x. bindR (f x) g)"
  by (cases m) auto

lemma bindR_Inr_right [simp]: "bindR m Inr = m"
  by (cases m) auto

lemma mapR_append [simp]:
  "mapR f (xs @ ys) = bindR (mapR f xs) (\<lambda>us. bindR (mapR f ys) (\<lambda>vs. Inr (us @ vs)))"
proof (induction xs)
  case Nil
  then show ?case by (cases "mapR f ys") auto
next
  case (Cons x xs)
  then show ?case
    by (cases "f x"; cases "mapR f xs"; cases "mapR f ys") auto
qed

lemma foldR_append [simp]: "foldR f s (xs @ ys) = bindR (foldR f s xs) (\<lambda>t. foldR f t ys)"
  by (induction xs arbitrary: s) (auto simp: bindR_assoc)

lemma mapR_Inr_iff [result_simps]:
  "mapR f xs = Inr ys \<longleftrightarrow> list_all2 (\<lambda>x y. f x = Inr y) xs ys"
  by (induction xs arbitrary: ys) (auto simp: result_simps list_all2_Cons1)

lemma mapR_Inr_length: "mapR f xs = Inr ys \<Longrightarrow> length ys = length xs"
  by (auto simp: mapR_Inr_iff list_all2_lengthD)

lemma mapR_Inr_mem: "mapR f xs = Inr ys \<Longrightarrow> y \<in> set ys \<Longrightarrow> \<exists>x\<in>set xs. f x = Inr y"
  by (induction xs arbitrary: ys) (auto simp: bindR_Inr)

lemma mapR_pure [simp]: "mapR (\<lambda>x. Inr (f x)) xs = Inr (List.map f xs)"
  by (induction xs) auto

lemma mapR_all_Inr:
  "(\<And>x. x \<in> set xs \<Longrightarrow> f x = Inr (g x)) \<Longrightarrow> mapR f xs = Inr (List.map g xs)"
  by (induction xs) auto

lemma mapR_Inl_witness:
  "mapR f xs = Inl e \<Longrightarrow>
   \<exists>us x vs ys. xs = us @ x # vs \<and> mapR f us = Inr ys \<and> f x = Inl e"
proof (induction xs)
  case (Cons x xs)
  show ?case
  proof (cases "f x")
    case (Inl d)
    then have "x # xs = [] @ x # xs \<and> mapR f [] = Inr [] \<and> f x = Inl e"
      using Cons.prems by simp
    then show ?thesis by blast
  next
    case (Inr y)
    then have "mapR f xs = Inl e"
      using Cons.prems by (auto simp: bindR_Inl)
    then obtain us z vs ys where "xs = us @ z # vs" "mapR f us = Inr ys" "f z = Inl e"
      using Cons.IH by blast
    then have "x # xs = (x # us) @ z # vs \<and> mapR f (x # us) = Inr (y # ys) \<and> f z = Inl e"
      using Inr by simp
    then show ?thesis by blast
  qed
qed simp

lemma mapR_Inl_mem: "mapR f xs = Inl e \<Longrightarrow> \<exists>x\<in>set xs. f x = Inl e"
  by (auto dest!: mapR_Inl_witness)

lemma foldR_pure [simp]: "foldR (\<lambda>s x. Inr (f s x)) s xs = Inr (foldl f s xs)"
  by (induction xs arbitrary: s) auto

lemma foldR_each:
  "foldR f s xs = Inr t \<Longrightarrow> x \<in> set xs \<Longrightarrow> \<exists>u v. f u x = Inr v"
  by (induction xs arbitrary: s) (auto simp: result_simps)

lemma foldR_invariant:
  assumes "foldR f s xs = Inr t" and "P s"
    and "\<And>u x v. x \<in> set xs \<Longrightarrow> P u \<Longrightarrow> f u x = Inr v \<Longrightarrow> P v"
  shows "P t"
  using assms by (induction xs arbitrary: s) (auto simp: result_simps)

lemma set_map_filter: "set (List.map_filter f xs) = {y. \<exists>x\<in>set xs. f x = Some y}"
  by (induction xs) (auto simp: map_filter_simps split: option.splits)

subsection \<open>Hash maps as association lists\<close>

type_synonym ('k, 'v) hmap = "('k \<times> 'v) list"

definition hm_get :: "'k \<Rightarrow> ('k, 'v) hmap \<Rightarrow> 'v option" where
  "hm_get k m = map_of m k"

definition hm_has :: "'k \<Rightarrow> ('k, 'v) hmap \<Rightarrow> bool" where
  "hm_has k m = (hm_get k m \<noteq> None)"

definition hm_insert :: "'k \<Rightarrow> 'v \<Rightarrow> ('k, 'v) hmap \<Rightarrow> ('k, 'v) hmap" where
  "hm_insert k v m = AList.update k v m"

definition hm_remove :: "'k \<Rightarrow> ('k, 'v) hmap \<Rightarrow> ('k, 'v) hmap" where
  "hm_remove k m = AList.delete k m"

definition hm_ok :: "('k, 'v) hmap \<Rightarrow> bool" where
  "hm_ok m = distinct (List.map fst m)"

lemma hm_get_insert [map_simps, simp]:
  "hm_get k (hm_insert k' v m) = (if k = k' then Some v else hm_get k m)"
  by (simp add: hm_get_def hm_insert_def update_conv')

lemma hm_get_remove [map_simps, simp]:
  "hm_get k (hm_remove k' m) = (if k = k' then None else hm_get k m)"
  by (simp add: hm_get_def hm_remove_def delete_conv')

lemma hm_has_insert [map_simps, simp]: "hm_has k (hm_insert k' v m) \<longleftrightarrow> k = k' \<or> hm_has k m"
  by (simp add: hm_has_def)

lemma hm_has_remove [map_simps, simp]: "hm_has k (hm_remove k' m) \<longleftrightarrow> k \<noteq> k' \<and> hm_has k m"
  by (simp add: hm_has_def)

lemma hm_ok_insert [intro, simp]: "hm_ok m \<Longrightarrow> hm_ok (hm_insert k v m)"
  by (simp add: hm_ok_def hm_insert_def distinct_update)

lemma hm_ok_remove [intro, simp]: "hm_ok m \<Longrightarrow> hm_ok (hm_remove k m)"
  by (simp add: hm_ok_def hm_remove_def distinct_delete)

lemma hm_ok_Nil [simp]: "hm_ok []"
  by (simp add: hm_ok_def)

lemma hm_get_Nil [simp]: "hm_get k [] = None"
  by (simp add: hm_get_def)

lemma hm_get_Cons [simp]:
  "hm_get k ((k', v) # m) = (if k = k' then Some v else hm_get k m)"
  by (simp add: hm_get_def)

lemma hm_has_iff: "hm_has k m \<longleftrightarrow> k \<in> fst ` set m"
  by (auto simp: hm_has_def hm_get_def map_of_eq_None_iff)

lemma hm_get_mem: "hm_ok m \<Longrightarrow> hm_get k m = Some v \<longleftrightarrow> (k, v) \<in> set m"
  by (simp add: hm_ok_def hm_get_def)

lemma hm_insert_new: "k \<notin> fst ` set m \<Longrightarrow> hm_insert k v m = m @ [(k, v)]"
  by (induction m) (auto simp: hm_insert_def)

lemma hm_get_in_set: "hm_get k m = Some v \<Longrightarrow> (k, v) \<in> set m"
  by (simp add: hm_get_def map_of_SomeD)

text \<open>A multi map keeps, per key, the values in the order they were inserted.\<close>

type_synonym ('k, 'v) multimap = "('k \<times> 'v list) list"

definition mm_get_vec :: "'k \<Rightarrow> ('k, 'v) multimap \<Rightarrow> 'v list option" where
  "mm_get_vec k m = hm_get k m"

definition mm_insert :: "'k \<Rightarrow> 'v \<Rightarrow> ('k, 'v) multimap \<Rightarrow> ('k, 'v) multimap" where
  "mm_insert k v m = (case hm_get k m of
      None \<Rightarrow> hm_insert k [v] m
    | Some vs \<Rightarrow> hm_insert k (vs @ [v]) m)"

lemma mm_get_vec_insert [map_simps]:
  "mm_get_vec k (mm_insert k' v m) =
    (if k = k' then Some (case mm_get_vec k m of None \<Rightarrow> [v] | Some vs \<Rightarrow> vs @ [v])
     else mm_get_vec k m)"
  by (auto simp: mm_get_vec_def mm_insert_def split: option.splits)

lemma hm_ok_mm_insert [simp]: "hm_ok m \<Longrightarrow> hm_ok (mm_insert k v m)"
  by (auto simp: mm_insert_def split: option.splits)

end
