(* ===== verification/WasmTypes.thy ===== *)
theory WasmTypes
  imports Prelude
begin

text \<open>
  Wasm level data: \<open>crates/wasm-backend-traits/src/{wtype,imports,errors}.rs\<close>, the page
  conversion of \<open>crates/utils/src/wasm_mem_pages_conversion.rs\<close> and the conversions of
  the wasmtime backend (\<open>crates/wasmtime-backend/src/{utils,function}.rs\<close>).

  Signed and unsigned machine integers of one width are the same words; a float is its
  bit pattern (the code only moves floats through \<open>to_bits\<close> and \<open>from_bits\<close>).
  An \<open>anyhow::Error\<close> is observed by the code through downcasts only, so it is one
  constructor for each type the code puts in or downcasts to.
\<close>

subsection \<open>Values and types\<close>

datatype WType = T_I32 | T_I64 | T_F32 | T_F64 | T_V128 | T_ExternRef | T_FuncRef

datatype WValue = V_I32 u32 | V_I64 u64 | V_F32 u32 | V_F64 u64

fun wtype_is_supported :: "WType \<Rightarrow> bool" where
  "wtype_is_supported T_ExternRef = False"
| "wtype_is_supported T_FuncRef = False"
| "wtype_is_supported T_V128 = False"
| "wtype_is_supported _ = True"

fun wvalue_to_u128 :: "WValue \<Rightarrow> 128 word" where
  "wvalue_to_u128 (V_I32 x) = scast x"
| "wvalue_to_u128 (V_I64 x) = scast x"
| "wvalue_to_u128 (V_F32 x) = ucast x"
| "wvalue_to_u128 (V_F64 x) = ucast x"

fun wvalue_to_i32 :: "WValue \<Rightarrow> u32" where
  "wvalue_to_i32 (V_I32 x) = x"
| "wvalue_to_i32 (V_I64 x) = ucast x"
| "wvalue_to_i32 (V_F32 x) = x"
| "wvalue_to_i32 (V_F64 x) = ucast x"

fun wvalue_type :: "WValue \<Rightarrow> WType" where
  "wvalue_type (V_I32 _) = T_I32"
| "wvalue_type (V_I64 _) = T_I64"
| "wvalue_type (V_F32 _) = T_F32"
| "wvalue_type (V_F64 _) = T_F64"

record FuncSig =
  sig_params :: "WType list"
  sig_returns :: "WType list"

definition FuncSig_new :: "WType list \<Rightarrow> WType list \<Rightarrow> FuncSig" where
  "FuncSig_new params returns = \<lparr>sig_params = params, sig_returns = returns\<rparr>"

lemma FuncSig_new_sel [simp]:
  "sig_params (FuncSig_new ps rs) = ps" "sig_returns (FuncSig_new ps rs) = rs"
  by (simp_all add: FuncSig_new_def)

subsection \<open>Errors\<close>

text \<open>An opaque error (\<open>anyhow::Error\<close>) is one of the kinds the code downcasts it to, or of another library.\<close>

datatype 'a UserError = Recoverable 'a | Unrecoverable 'a

datatype 'x RuntimeError =
    UnsupportedType WType
  | Trap "'x anyhow"
  | RT_UserError "'x anyhow UserError"
  | IncorrectResultsNumber usize usize
  | RT_Other "'x anyhow"
and 'x anyhow =
    Any_Trap 'x
  | Any_User "'x anyhow UserError"
  | Any_Runtime "'x RuntimeError"
  | Any_Other 'x

datatype 'x ResolveError =
    ExportNotFound string
  | ExportTypeMismatch string string
  | Resolve_Other "'x anyhow"

datatype 'x ModuleCreationError =
    FailedToCompileWasm "'x anyhow"
  | FailedToExtractCustomSections string
  | Creation_Other "'x anyhow"

datatype 'x ImportError = DuplicateImport string string | Import_Other "'x anyhow"

datatype 'x InstantiationError =
    Inst_RuntimeError "'x RuntimeError"
  | Inst_Other "'x anyhow"

datatype 'x WasiError =
    Wasi_IOError 'x
  | EngineWasiError "'x anyhow"
  | TooLargeArgsArray
  | TooLargeEnvsArray

datatype 'x WasmBackendError =
    WB_ResolveError "'x ResolveError"
  | WB_RuntimeError "'x RuntimeError"
  | WB_ModuleCreationError "'x ModuleCreationError"
  | WB_ImportError "'x ImportError"
  | WB_InstantiationError "'x InstantiationError"
  | WB_InitializationError "'x anyhow"

subsection \<open>Wasm pages\<close>

definition WASM_PAGE_SIZE :: u32 where
  "WASM_PAGE_SIZE = 65356"

definition bytes_to_wasm_pages_ceil :: "u32 \<Rightarrow> u32" where
  "bytes_to_wasm_pages_ceil offset =
    (if offset = 0 then 0 else 1 + (offset - 1) div WASM_PAGE_SIZE)"

definition wasm_pages_to_bytes :: "u32 \<Rightarrow> u64" where
  "wasm_pages_to_bytes pages_count = ucast pages_count * ucast WASM_PAGE_SIZE"

lemma unat_WASM_PAGE_SIZE [word_facts]: "unat WASM_PAGE_SIZE = 65356"
  by (simp add: WASM_PAGE_SIZE_def)

lemma unat_bytes_to_wasm_pages_ceil:
  "unat (bytes_to_wasm_pages_ceil n) = (if n = 0 then 0 else 1 + (unat n - 1) div 65356)"
proof (cases "n = 0")
  case False
  then have pos: "0 < unat n"
    by (simp add: unat_gt_0)
  have lt: "unat n < 2 ^ 32"
    using unsigned_less [where 'a = nat and w = n] by simp
  have pred: "unat (n - 1) = unat n - 1"
    using pos by (metis False One_nat_def unat_minus_one)
  have "1 + (unat n - 1) div 65356 < 2 ^ 32"
    using lt pos by linarith
  then show ?thesis
    using False
    by (simp add: bytes_to_wasm_pages_ceil_def unat_word_ariths pred unat_WASM_PAGE_SIZE)
qed (simp add: bytes_to_wasm_pages_ceil_def)

lemma unat_wasm_pages_to_bytes: "unat (wasm_pages_to_bytes p) = unat p * 65356"
proof -
  have lt: "unat p < 2 ^ 32"
    using unsigned_less [where 'a = nat and w = p] by simp
  have page: "unat (ucast WASM_PAGE_SIZE :: u64) = 65356"
    by (simp add: WASM_PAGE_SIZE_def)
  have wide: "unat (ucast p :: u64) = unat p"
    using lt by (simp add: unsigned_ucast_eq take_bit_nat_eq_self_iff)
  show ?thesis
    using lt by (simp add: wasm_pages_to_bytes_def unat_word_ariths page wide)
qed


end
