(* ===== verification/Memory.thy ===== *)
theory Memory
  imports WasmTypes
begin

text \<open>
  Linear memory access of the two backends:
  \<open>crates/wasmtime-backend/src/memory.rs\<close> and \<open>crates/js-backend/src/memory.rs\<close>.
  A memory is the sequence of its bytes.  \<open>wasmtime::Memory::read\<close> and \<open>write\<close> fail when
  the range leaves the memory; a JavaScript \<open>Uint8Array.subarray\<close> clamps its range, and
  \<open>copy_to\<close>/\<open>copy_from\<close> panic when the lengths differ.  A panic (\<open>expect\<close>, \<open>copy_to\<close>) is
  None.  The locale is the contract of \<open>it_memory_traits::MemoryView\<close> the rest of the
  runtime relies on: check the bounds, then access without a panic.
\<close>

type_synonym memory = "u8 list"

datatype MemoryAccessError = OutOfBounds u32 u32 u32

text \<open>A 32-bit memory has at most \<open>2 ^ 16\<close> pages of \<open>2 ^ 16\<close> bytes.\<close>

definition memory_ok :: "memory \<Rightarrow> bool" where
  "memory_ok m \<longleftrightarrow> length m \<le> 2 ^ 32"

subsection \<open>wasmtime\<close>

definition wasmtime_size :: "memory \<Rightarrow> usize" where
  "wasmtime_size m = word_of_nat (length m)"

definition wasmtime_raw_read :: "memory \<Rightarrow> nat \<Rightarrow> nat \<Rightarrow> u8 list option" where
  "wasmtime_raw_read m offset len =
    (if offset + len \<le> length m then Some (take len (drop offset m)) else None)"

definition wasmtime_raw_write :: "memory \<Rightarrow> nat \<Rightarrow> u8 list \<Rightarrow> memory option" where
  "wasmtime_raw_write m offset bs =
    (if offset + length bs \<le> length m
     then Some (take offset m @ bs @ drop (offset + length bs) m) else None)"

definition wasmtime_read_byte :: "memory \<Rightarrow> u32 \<Rightarrow> u8 option" where
  "wasmtime_read_byte m offset =
    (case wasmtime_raw_read m (unat offset) 1 of None \<Rightarrow> None | Some v \<Rightarrow> Some (v ! 0))"

definition wasmtime_read_array :: "nat \<Rightarrow> memory \<Rightarrow> u32 \<Rightarrow> u8 list option" where
  "wasmtime_read_array COUNT m offset = wasmtime_raw_read m (unat offset) COUNT"

definition wasmtime_read_vec :: "memory \<Rightarrow> u32 \<Rightarrow> u32 \<Rightarrow> u8 list option" where
  "wasmtime_read_vec m offset sz = wasmtime_raw_read m (unat offset) (unat sz)"

definition wasmtime_write_byte :: "memory \<Rightarrow> u32 \<Rightarrow> u8 \<Rightarrow> memory option" where
  "wasmtime_write_byte m offset value = wasmtime_raw_write m (unat offset) [value]"

definition wasmtime_write_bytes :: "memory \<Rightarrow> u32 \<Rightarrow> u8 list \<Rightarrow> memory option" where
  "wasmtime_write_bytes m offset bytes = wasmtime_raw_write m (unat offset) bytes"

definition wasmtime_check_bounds :: "memory \<Rightarrow> u32 \<Rightarrow> u32 \<Rightarrow> MemoryAccessError + unit" where
  "wasmtime_check_bounds m offset sz =
    (let memory_size = wasmtime_size m in
     bindR (ok_or (OutOfBounds offset sz (ucast memory_size)) (checked_add offset sz))
       (\<lambda>final_size.
         if memory_size \<le> ucast final_size
         then Inl (OutOfBounds offset sz (ucast memory_size))
         else Inr ()))"

subsection \<open>JavaScript\<close>

definition js_size :: "memory \<Rightarrow> usize" where
  "js_size m = word_of_nat (length m)"

definition js_subarray :: "memory \<Rightarrow> nat \<Rightarrow> nat \<Rightarrow> u8 list" where
  "js_subarray m from_ix to_ix =
    (let f = min from_ix (length m); t = min to_ix (length m)
     in take (t - f) (drop f m))"

definition js_check_bounds :: "memory \<Rightarrow> u32 \<Rightarrow> u32 \<Rightarrow> MemoryAccessError + unit" where
  "js_check_bounds m offset sz =
    (let memory_size = js_size m in
     bindR (ok_or (OutOfBounds offset sz (ucast memory_size)) (checked_add offset sz))
       (\<lambda>end'.
         if ucast end' \<ge> memory_size
         then Inl (OutOfBounds offset sz (ucast memory_size))
         else Inr ()))"

text \<open>\<open>get_index\<close> reads \<open>undefined\<close>, converted to 0, outside of the array; \<open>set_index\<close> is
  ignored there.\<close>

definition js_read_byte :: "memory \<Rightarrow> u32 \<Rightarrow> u8" where
  "js_read_byte m offset = (if unat offset < length m then m ! unat offset else 0)"

definition js_write_byte :: "memory \<Rightarrow> u32 \<Rightarrow> u8 \<Rightarrow> memory" where
  "js_write_byte m offset value = m[unat offset := value]"

definition js_copy_range :: "memory \<Rightarrow> u32 \<Rightarrow> u32 \<Rightarrow> u8 list option" where
  "js_copy_range m offset end' =
    (let sub = js_subarray m (unat offset) (unat end')
     in if length sub = unat end' - unat offset then Some sub else None)"

definition js_read_array :: "u32 \<Rightarrow> memory \<Rightarrow> u32 \<Rightarrow> u8 list option" where
  "js_read_array COUNT m offset =
    (case checked_add offset COUNT of None \<Rightarrow> None | Some end' \<Rightarrow> js_copy_range m offset end')"

definition js_read_vec :: "memory \<Rightarrow> u32 \<Rightarrow> u32 \<Rightarrow> u8 list option" where
  "js_read_vec m offset sz =
    (case checked_add offset sz of None \<Rightarrow> None | Some end' \<Rightarrow> js_copy_range m offset end')"

definition js_write_bytes :: "memory \<Rightarrow> u32 \<Rightarrow> u8 list \<Rightarrow> memory option" where
  "js_write_bytes m offset bytes =
    (case checked_add offset (word_of_nat (length bytes)) of
       None \<Rightarrow> None
     | Some end' \<Rightarrow>
         (if length (js_subarray m (unat offset) (unat end')) = length bytes
          then Some (take (unat offset) m @ bytes @ drop (unat offset + length bytes) m)
          else None))"

subsection \<open>The contract\<close>

text \<open>\<open>size\<close> is the length of a memory; \<open>chk m off n\<close> succeeding means that reading or
  writing \<open>n\<close> bytes at \<open>off\<close> does not panic.\<close>

locale memory_view =
  fixes ok :: "'m \<Rightarrow> bool"
    and msize :: "'m \<Rightarrow> nat"
    and chk :: "'m \<Rightarrow> u32 \<Rightarrow> u32 \<Rightarrow> MemoryAccessError + unit"
    and rd :: "'m \<Rightarrow> u32 \<Rightarrow> u32 \<Rightarrow> u8 list option"
    and wr :: "'m \<Rightarrow> u32 \<Rightarrow> u8 list \<Rightarrow> 'm option"
  assumes chk_iff: "ok m \<Longrightarrow> chk m off n = Inr () \<longleftrightarrow> unat off + unat n < min (msize m) (2 ^ 32)"
    and rd_some: "ok m \<Longrightarrow> unat off + unat n < min (msize m) (2 ^ 32) \<Longrightarrow>
        \<exists>bs. rd m off n = Some bs \<and> length bs = unat n"
    and wr_some: "ok m \<Longrightarrow> unat off + length bs < min (msize m) (2 ^ 32) \<Longrightarrow>
        \<exists>m'. wr m off bs = Some m' \<and> ok m' \<and> msize m' = msize m"
    and rd_wr_same: "ok m \<Longrightarrow> unat off + length bs < min (msize m) (2 ^ 32) \<Longrightarrow>
        wr m off bs = Some m' \<Longrightarrow> rd m' off (word_of_nat (length bs)) = Some bs"
    and rd_wr_other: "ok m \<Longrightarrow> unat off + length bs < min (msize m) (2 ^ 32) \<Longrightarrow>
        unat off' + unat n < min (msize m) (2 ^ 32) \<Longrightarrow>
        wr m off bs = Some m' \<Longrightarrow>
        unat off' + unat n \<le> unat off \<or> unat off + length bs \<le> unat off' \<Longrightarrow>
        rd m' off' n = rd m off' n"
begin

lemma chk_length: "length bs < 2 ^ 32 \<Longrightarrow> ok m \<Longrightarrow>
    chk m off (word_of_nat (length bs)) = Inr () \<longleftrightarrow> unat off + length bs < min (msize m) (2 ^ 32)"
  by (simp add: chk_iff unat_of_nat_u32)

lemma checked_read:
  assumes "ok m" and "chk m off n = Inr ()"
  shows "\<exists>bs. rd m off n = Some bs \<and> length bs = unat n"
  using assms rd_some chk_iff by blast

lemma checked_write:
  assumes "ok m" and "length bs < 2 ^ 32" and "chk m off (word_of_nat (length bs)) = Inr ()"
  shows "\<exists>m'. wr m off bs = Some m' \<and> ok m' \<and>
    (\<forall>o' n. chk m' o' n = Inr () \<longleftrightarrow> chk m o' n = Inr ()) \<and>
    rd m' off (word_of_nat (length bs)) = Some bs \<and>
    (\<forall>o' n. chk m o' n = Inr () \<longrightarrow>
       unat o' + unat n \<le> unat off \<or> unat off + length bs \<le> unat o' \<longrightarrow>
       rd m' o' n = rd m o' n)"
proof -
  have fit: "unat off + length bs < min (msize m) (2 ^ 32)"
    using assms chk_length by blast
  obtain m' where m': "wr m off bs = Some m'" "ok m'" "msize m' = msize m"
    using wr_some [OF assms(1) fit] by blast
  show ?thesis
    using m' rd_wr_same [OF assms(1) fit m'(1)] rd_wr_other [OF assms(1) fit _ m'(1)] assms(1)
    by (auto simp: chk_iff)
qed

end

subsection \<open>Both backends keep it\<close>

lemma wasmtime_check_bounds_iff:
  assumes "memory_ok m"
  shows "wasmtime_check_bounds m off n = Inr () \<longleftrightarrow> unat off + unat n < min (length m) (2 ^ 32)"
proof (cases "checked_add off n")
  case None
  then have "2 ^ 32 \<le> unat off + unat n"
    by (simp add: checked_add_None)
  then show ?thesis
    using None by (simp add: wasmtime_check_bounds_def Let_def)
next
  case (Some s)
  have len: "unat (wasmtime_size m) = length m"
    using assms by (simp add: wasmtime_size_def memory_ok_def unat_of_nat_u64)
  have sum: "unat s = unat off + unat n"
    using Some by (simp add: checked_add_Some)
  show ?thesis
    using Some sum unat_u32_less [of s]
    by (auto simp: wasmtime_check_bounds_def word_le_nat_alt len unat_ucast_u64 Let_def)
qed

lemma js_check_bounds_eq: "js_check_bounds m off n = wasmtime_check_bounds m off n"
  by (simp add: js_check_bounds_def wasmtime_check_bounds_def js_size_def wasmtime_size_def)

lemma js_subarray_in: "i \<le> j \<Longrightarrow> j \<le> length m \<Longrightarrow> js_subarray m i j = take (j - i) (drop i m)"
  by (simp add: js_subarray_def)

lemma length_js_subarray: "i \<le> j \<Longrightarrow> j \<le> length m \<Longrightarrow> length (js_subarray m i j) = j - i"
  by (simp add: js_subarray_in)

lemma js_read_vec_in:
  assumes "unat off + unat n < min (length m) (2 ^ 32)"
  shows "js_read_vec m off n = wasmtime_read_vec m off n"
proof (cases "checked_add off n")
  case (Some s)
  then have "unat s = unat off + unat n"
    by (simp add: checked_add_Some)
  moreover have "unat off + unat n \<le> length m"
    using assms by simp
  ultimately show ?thesis
    using Some
    by (simp add: js_read_vec_def js_copy_range_def length_js_subarray wasmtime_read_vec_def
        wasmtime_raw_read_def Let_def) (simp add: js_subarray_in)
qed (use assms in \<open>simp add: checked_add_None\<close>)

lemma js_write_bytes_in:
  assumes "unat off + length bs < min (length m) (2 ^ 32)"
  shows "js_write_bytes m off bs = wasmtime_write_bytes m off bs"
proof (cases "checked_add off (word_of_nat (length bs))")
  case None
  then show ?thesis
    using assms by (simp add: checked_add_None unat_of_nat_u32)
next
  case (Some s)
  then have "unat s = unat off + length bs"
    using assms by (simp add: checked_add_Some unat_of_nat_u32)
  moreover have "unat off + length bs \<le> length m"
    using assms by simp
  ultimately show ?thesis
    using Some
    by (simp add: js_write_bytes_def length_js_subarray wasmtime_write_bytes_def
        wasmtime_raw_write_def)
qed

lemma raw_write_length: "wasmtime_raw_write m off bs = Some m' \<Longrightarrow> length m' = length m"
  by (auto simp: wasmtime_raw_write_def split: if_splits)

lemma raw_read_write_same:
  "wasmtime_raw_write m off bs = Some m' \<Longrightarrow> wasmtime_raw_read m' off (length bs) = Some bs"
  by (auto simp: wasmtime_raw_write_def wasmtime_raw_read_def split: if_splits)

lemma raw_write_nth:
  "wasmtime_raw_write m off bs = Some m' \<Longrightarrow> i < length m \<Longrightarrow>
   m' ! i = (if off \<le> i \<and> i < off + length bs then bs ! (i - off) else m ! i)"
  by (auto simp: wasmtime_raw_write_def nth_append split: if_splits)

lemma raw_read_write_other:
  assumes "wasmtime_raw_write m off bs = Some m'"
    and "o' + n \<le> off \<or> off + length bs \<le> o'"
  shows "wasmtime_raw_read m' o' n = wasmtime_raw_read m o' n"
proof -
  have "take n (drop o' m') = take n (drop o' m)" if "o' + n \<le> length m"
    using that assms raw_write_length [OF assms(1)]
    by (intro nth_equalityI) (auto simp: raw_write_nth [OF assms(1)])
  then show ?thesis
    using raw_write_length [OF assms(1)] by (simp add: wasmtime_raw_read_def)
qed

lemmas wasmtime_access_defs =
  wasmtime_read_vec_def wasmtime_write_bytes_def wasmtime_raw_read_def wasmtime_raw_write_def

interpretation wasmtime: memory_view memory_ok length wasmtime_check_bounds
    wasmtime_read_vec wasmtime_write_bytes
proof
  fix m m' :: memory and off off' n :: u32 and bs :: "u8 list"
  assume ok: "memory_ok m"
  show "wasmtime_check_bounds m off n = Inr () \<longleftrightarrow> unat off + unat n < min (length m) (2 ^ 32)"
    using ok by (rule wasmtime_check_bounds_iff)
  assume fit: "unat off + length bs < min (length m) (2 ^ 32)"
  then show "\<exists>m'. wasmtime_write_bytes m off bs = Some m' \<and> memory_ok m' \<and> length m' = length m"
    using ok by (simp add: wasmtime_access_defs memory_ok_def)
  assume wr: "wasmtime_write_bytes m off bs = Some m'"
  show "wasmtime_read_vec m' off (word_of_nat (length bs)) = Some bs"
    using wr fit raw_read_write_same
    by (simp add: wasmtime_read_vec_def wasmtime_write_bytes_def unat_of_nat_u32)
  assume "unat off' + unat n \<le> unat off \<or> unat off + length bs \<le> unat off'"
  with wr show "wasmtime_read_vec m' off' n = wasmtime_read_vec m off' n"
    by (simp add: wasmtime_read_vec_def wasmtime_write_bytes_def raw_read_write_other)
qed (auto simp: wasmtime_access_defs)

interpretation js: memory_view memory_ok length js_check_bounds js_read_vec js_write_bytes
proof
  fix m m' :: memory and off off' n :: u32 and bs :: "u8 list"
  assume ok: "memory_ok m"
  show "js_check_bounds m off n = Inr () \<longleftrightarrow> unat off + unat n < min (length m) (2 ^ 32)"
    using ok by (simp add: js_check_bounds_eq wasmtime_check_bounds_iff)
  show "\<exists>bs. js_read_vec m off n = Some bs \<and> length bs = unat n"
    if "unat off + unat n < min (length m) (2 ^ 32)"
    using that ok wasmtime.rd_some by (simp add: js_read_vec_in)
  assume fit: "unat off + length bs < min (length m) (2 ^ 32)"
  then show "\<exists>m'. js_write_bytes m off bs = Some m' \<and> memory_ok m' \<and> length m' = length m"
    using ok wasmtime.wr_some by (simp add: js_write_bytes_in)
  assume wr: "js_write_bytes m off bs = Some m'"
  then have wr': "wasmtime_write_bytes m off bs = Some m'"
    using fit by (simp add: js_write_bytes_in)
  then have len: "length m' = length m"
    by (simp add: wasmtime_write_bytes_def raw_write_length)
  show "js_read_vec m' off (word_of_nat (length bs)) = Some bs"
    using wr' fit len wasmtime.rd_wr_same [OF ok fit wr']
    by (simp add: js_read_vec_in unat_of_nat_u32)
  assume "unat off' + unat n < min (length m) (2 ^ 32)"
    and "unat off' + unat n \<le> unat off \<or> unat off + length bs \<le> unat off'"
  with wr' len show "js_read_vec m' off' n = js_read_vec m off' n"
    using wasmtime.rd_wr_other [OF ok fit _ wr'] by (simp add: js_read_vec_in)
qed

subsection \<open>Properties\<close>

text \<open>C29: For wasmtime, a write that passed the bounds check does not panic, leaves the size and so
  every later bounds check alone, is read back in full, and changes nothing outside of its
  range.\<close>

theorem wasmtime_checked_write:
  assumes "memory_ok m" and "length bs < 2 ^ 32"
    and "wasmtime_check_bounds m off (word_of_nat (length bs)) = Inr ()"
  shows "\<exists>m'. wasmtime_write_bytes m off bs = Some m' \<and> memory_ok m' \<and>
    (\<forall>o' n. wasmtime_check_bounds m' o' n = Inr () \<longleftrightarrow> wasmtime_check_bounds m o' n = Inr ()) \<and>
    wasmtime_read_vec m' off (word_of_nat (length bs)) = Some bs \<and>
    (\<forall>o' n. wasmtime_check_bounds m o' n = Inr () \<longrightarrow>
       unat o' + unat n \<le> unat off \<or> unat off + length bs \<le> unat o' \<longrightarrow>
       wasmtime_read_vec m' o' n = wasmtime_read_vec m o' n)"
  using assms by (rule wasmtime.checked_write)

lemma wasmtime_checked_write_witness:
  "\<exists>m'. wasmtime_write_bytes [0, 0, 0, 0] 1 [5, 6] = Some m' \<and>
     wasmtime_read_vec m' 1 2 = Some [5, 6]"
  using wasmtime_checked_write [of "[0, 0, 0, 0]" "[5, 6]" 1]
  by (simp add: memory_ok_def wasmtime_check_bounds_def wasmtime_size_def checked_add_def)
    blast



text \<open>The bounds check is stricter than the memory: it accepts a range exactly when the range
  ends before the last byte, so the range that ends with the memory is always refused, although
  reading it would succeed.\<close>

theorem bounds_check_refuses_last_byte:
  assumes "memory_ok m" and "unat off + unat n = length m" and "length m < 2 ^ 32"
  shows "wasmtime_check_bounds m off n = Inl (OutOfBounds off n (word_of_nat (length m))) \<and>
    js_check_bounds m off n = Inl (OutOfBounds off n (word_of_nat (length m))) \<and>
    wasmtime_read_vec m off n = Some (drop (unat off) m)"
proof -
  have sum: "checked_add off n = Some (off + n)"
    using assms by (simp add: checked_add_def)
  then have "unat (off + n) = length m"
    using assms by (simp add: checked_add_Some)
  then have "wasmtime_size m \<le> ucast (off + n)"
    using assms by (simp add: wasmtime_size_def word_le_nat_alt unat_ucast_u64 unat_of_nat_u64)
  then have "wasmtime_check_bounds m off n = Inl (OutOfBounds off n (word_of_nat (length m)))"
    using sum by (simp add: wasmtime_check_bounds_def wasmtime_size_def ucast_of_nat_u32)
  moreover have "wasmtime_read_vec m off n = Some (drop (unat off) m)"
    using assms by (simp add: wasmtime_access_defs)
  ultimately show ?thesis
    by (simp add: js_check_bounds_eq)
qed

lemma bounds_check_refuses_last_byte_witness:
  "wasmtime_check_bounds [1, 2, 3, 4] 2 2 = Inl (OutOfBounds 2 2 4)"
  using bounds_check_refuses_last_byte [of "[1, 2, 3, 4]" 2 2]
  by (simp add: memory_ok_def)

end
