(* ===== verification/StoreLimiter.thy ===== *)
theory StoreLimiter
  imports WasmTypes
begin

text \<open>
  The store of the wasmtime backend as far as Marine sees it
  (\<open>crates/wasmtime-backend/src/store.rs\<close>, \<open>lib.rs\<close>): the memory limiter wasmtime asks before
  a memory or table grows, and its statistics.  Machine arithmetic is that of the release
  profile of the workspace: it wraps.  The step relation is what the outside world can do to
  a store; the trace of granted sizes is recorded beside the state, to state the accounting.
\<close>

record MemoryAllocationStats =
  allocation_rejects :: u32

record MemoryLimiter =
  remaining_memory :: u64
  allocation_stats :: MemoryAllocationStats

definition MemoryAllocationStats_default :: MemoryAllocationStats where
  "MemoryAllocationStats_default = \<lparr>allocation_rejects = 0\<rparr>"

definition MemoryLimiter_new :: "u64 \<Rightarrow> MemoryLimiter" where
  "MemoryLimiter_new max_total_memory =
    \<lparr>remaining_memory = max_total_memory, allocation_stats = MemoryAllocationStats_default\<rparr>"

definition count_allocation_reject :: "MemoryLimiter \<Rightarrow> MemoryLimiter" where
  "count_allocation_reject l =
    l\<lparr>allocation_stats := (allocation_stats l)
        \<lparr>allocation_rejects := allocation_rejects (allocation_stats l) + 1\<rparr>\<rparr>"

definition try_alloc :: "u64 \<Rightarrow> MemoryLimiter \<Rightarrow> bool \<times> MemoryLimiter" where
  "try_alloc amount l =
    (case checked_sub (remaining_memory l) amount of
       Some r \<Rightarrow> (True, l\<lparr>remaining_memory := r\<rparr>)
     | None \<Rightarrow> (False, count_allocation_reject l))"

definition memory_growing :: "usize \<Rightarrow> usize \<Rightarrow> usize option \<Rightarrow> MemoryLimiter \<Rightarrow> bool \<times> MemoryLimiter" where
  "memory_growing current desired maximum l = (let grow_size = desired - current in try_alloc grow_size l)"

definition size_of_usize :: usize where
  "size_of_usize = 8"

definition table_growing :: "u32 \<Rightarrow> u32 \<Rightarrow> u32 option \<Rightarrow> MemoryLimiter \<Rightarrow> bool \<times> MemoryLimiter" where
  "table_growing current desired maximum l =
    (let grow_size = ucast (desired - current) * size_of_usize in try_alloc grow_size l)"

text \<open>The state the store carries, and the operations of the \<open>Store\<close> trait on it.  The default
  state has a limit of zero which wasmtime does not consult: \<open>limiter\<close> is installed by
  \<open>set_total_memory_limit\<close> only.\<close>

record StoreState =
  st_limits :: MemoryLimiter
  st_limiter_installed :: bool

definition Store_new :: StoreState where
  "Store_new = \<lparr>st_limits = MemoryLimiter_new 0, st_limiter_installed = False\<rparr>"

definition set_total_memory_limit :: "u64 \<Rightarrow> StoreState \<Rightarrow> StoreState" where
  "set_total_memory_limit lim st =
    st\<lparr>st_limits := MemoryLimiter_new lim, st_limiter_installed := True\<rparr>"

definition report_memory_allocation_stats :: "StoreState \<Rightarrow> MemoryAllocationStats option" where
  "report_memory_allocation_stats st = Some (allocation_stats (st_limits st))"

definition clear_allocation_stats :: "StoreState \<Rightarrow> StoreState" where
  "clear_allocation_stats st =
    st\<lparr>st_limits := (st_limits st)\<lparr>allocation_stats := MemoryAllocationStats_default\<rparr>\<rparr>"

subsection \<open>One allocation\<close>

lemma try_alloc_True:
  "try_alloc amount l = (True, l') \<Longrightarrow>
   unat (remaining_memory l) = unat amount + unat (remaining_memory l') \<and>
   allocation_stats l' = allocation_stats l"
  by (auto simp: try_alloc_def checked_sub_Some split: option.splits)

lemma try_alloc_False:
  "try_alloc amount l = (False, l') \<Longrightarrow>
   unat (remaining_memory l) < unat amount \<and> remaining_memory l' = remaining_memory l \<and>
   allocation_rejects (allocation_stats l') = allocation_rejects (allocation_stats l) + 1"
  by (auto simp: try_alloc_def checked_sub_None count_allocation_reject_def split: option.splits)

lemma try_alloc_iff: "fst (try_alloc amount l) \<longleftrightarrow> unat amount \<le> unat (remaining_memory l)"
  by (auto simp: try_alloc_def checked_sub_def word_le_nat_alt)

lemma unat_table_bytes: "unat (ucast (n :: u32) * size_of_usize) = 8 * unat n"
proof -
  have "unat (ucast n * size_of_usize :: u64) = (unat n * 8) mod 2 ^ 64"
    by (simp add: unat_word_ariths size_of_usize_def unat_ucast_u64)
  then show ?thesis
    using unat_u32_less [of n] by simp
qed

subsection \<open>Sequences of requests\<close>

datatype request = GrowMemory usize usize | GrowTable u32 u32 | ClearStats

text \<open>What a request costs: the amount the limiter is asked for.\<close>

fun request_bytes :: "request \<Rightarrow> nat" where
  "request_bytes (GrowMemory current desired) = unat (desired - current)"
| "request_bytes (GrowTable current desired) = 8 * unat (desired - current)"
| "request_bytes ClearStats = 0"

fun serve :: "request \<Rightarrow> StoreState \<Rightarrow> bool \<times> StoreState" where
  "serve (GrowMemory current desired) st =
    (let (ok, l) = memory_growing current desired None (st_limits st) in (ok, st\<lparr>st_limits := l\<rparr>))"
| "serve (GrowTable current desired) st =
    (let (ok, l) = table_growing current desired None (st_limits st) in (ok, st\<lparr>st_limits := l\<rparr>))"
| "serve ClearStats st = (True, clear_allocation_stats st)"

text \<open>A step serves one request and appends what it granted to the trace.\<close>

inductive limiter_step :: "StoreState \<times> nat list \<Rightarrow> StoreState \<times> nat list \<Rightarrow> bool" where
  granted: "serve r st = (True, st') \<Longrightarrow> limiter_step (st, tr) (st', tr @ [request_bytes r])"
| refused: "serve r st = (False, st') \<Longrightarrow> limiter_step (st, tr) (st', tr)"

inductive_cases limiter_stepE: "limiter_step s s'"

inductive limiter_reachable :: "u64 \<Rightarrow> StoreState \<times> nat list \<Rightarrow> bool" for lim where
  start: "limiter_reachable lim (set_total_memory_limit lim Store_new, [])"
| step: "limiter_reachable lim s \<Longrightarrow> limiter_step s s' \<Longrightarrow> limiter_reachable lim s'"

lemma serve_granted:
  "serve r st = (True, st') \<Longrightarrow>
   unat (remaining_memory (st_limits st)) = request_bytes r + unat (remaining_memory (st_limits st'))"
  by (cases r) (auto simp: memory_growing_def table_growing_def clear_allocation_stats_def
      unat_table_bytes dest!: try_alloc_True split: prod.splits)

lemma serve_refused:
  "serve r st = (False, st') \<Longrightarrow>
   remaining_memory (st_limits st') = remaining_memory (st_limits st) \<and>
   unat (remaining_memory (st_limits st)) < request_bytes r"
  by (cases r) (auto simp: memory_growing_def table_growing_def unat_table_bytes
      dest!: try_alloc_False split: prod.splits)

lemma serve_iff: "fst (serve r st) \<longleftrightarrow> request_bytes r \<le> unat (remaining_memory (st_limits st))"
  by (cases r) (simp_all add: memory_growing_def table_growing_def try_alloc_iff unat_table_bytes
      case_prod_beta)

lemma limiter_step_accounting:
  assumes "limiter_step (st, tr) (st', tr')"
  shows "unat (remaining_memory (st_limits st')) + sum_list tr' =
    unat (remaining_memory (st_limits st)) + sum_list tr"
  using assms by (auto elim!: limiter_stepE dest: serve_granted serve_refused)

subsection \<open>Properties\<close>

text \<open>C14: Accounting of the memory limit: in every state reachable by any interleaving of memory
  growths, table growths and resets of the statistics, what was granted so far plus what
  remains is the configured limit; so the grants never exceed the limit, and the next request
  is granted exactly when it still fits.\<close>

theorem limiter_never_exceeds_limit:
  assumes "limiter_reachable lim (st, tr)"
  shows "sum_list tr + unat (remaining_memory (st_limits st)) = unat lim \<and>
    (fst (serve r st) \<longleftrightarrow> sum_list tr + request_bytes r \<le> unat lim)"
proof -
  have "unat (remaining_memory (st_limits (fst s))) + sum_list (snd s) = unat lim"
    if "limiter_reachable lim s" for s
    using that
  proof induction
    case start
    then show ?case
      by (simp add: set_total_memory_limit_def MemoryLimiter_new_def)
  next
    case (step s s')
    then show ?case
      using limiter_step_accounting [of "fst s" "snd s" "fst s'" "snd s'"] by simp
  qed
  from this [OF assms] show ?thesis
    by (auto simp: serve_iff)
qed

lemma limiter_reachable_example:
  "limiter_reachable 65536 (set_total_memory_limit 65536 Store_new
      \<lparr>st_limits := MemoryLimiter_new 32768\<rparr>, [32768])"
proof -
  have "serve (GrowMemory 0 32768) (set_total_memory_limit 65536 Store_new) =
      (True, set_total_memory_limit 65536 Store_new \<lparr>st_limits := MemoryLimiter_new 32768\<rparr>)"
    by (simp add: memory_growing_def try_alloc_def checked_sub_def set_total_memory_limit_def
        MemoryLimiter_new_def)
  from limiter_step.granted [OF this, of "[]"] show ?thesis
    using limiter_reachable.step [OF limiter_reachable.start] by simp
qed

lemma limiter_never_exceeds_limit_witness:
  "\<not> fst (serve (GrowTable 0 5000) (set_total_memory_limit 65536 Store_new
      \<lparr>st_limits := MemoryLimiter_new 32768\<rparr>))"
  using limiter_never_exceeds_limit [OF limiter_reachable_example, of "GrowTable 0 5000"] by simp

text \<open>A refused request changes nothing but the counter of rejects, which grows by one modulo
  \<open>2 ^ 32\<close>; a granted one does not touch the counter; clearing the statistics resets the
  counter and keeps the budget.\<close>

theorem limiter_statistics:
  "(let (ok, st') = serve r st in
     r \<noteq> ClearStats \<longrightarrow>
     st_limiter_installed st' = st_limiter_installed st \<and>
     allocation_rejects (the (report_memory_allocation_stats st')) =
       (if ok then allocation_rejects (the (report_memory_allocation_stats st))
        else allocation_rejects (the (report_memory_allocation_stats st)) + 1)) \<and>
   remaining_memory (st_limits (clear_allocation_stats st)) = remaining_memory (st_limits st) \<and>
   allocation_rejects (the (report_memory_allocation_stats (clear_allocation_stats st))) = 0"
  by (cases r)
    (auto simp: report_memory_allocation_stats_def memory_growing_def table_growing_def
      clear_allocation_stats_def MemoryAllocationStats_default_def
      dest!: try_alloc_True try_alloc_False split: prod.splits)

lemma limiter_statistics_witness:
  "allocation_rejects (the (report_memory_allocation_stats
     (snd (serve (GrowMemory 0 8) (set_total_memory_limit 4 Store_new))))) = 1"
  using limiter_statistics [of "GrowMemory 0 8" "set_total_memory_limit 4 Store_new"]
  by (simp add: memory_growing_def try_alloc_def checked_sub_def set_total_memory_limit_def
      MemoryLimiter_new_def report_memory_allocation_stats_def MemoryAllocationStats_default_def
      count_allocation_reject_def)

end
