(* ===== verification/WasmtimeFunction.thy ===== *)
theory WasmtimeFunction
  imports WasmTypes
begin

text \<open>
  The value boundary between Marine and wasmtime:
  \<open>crates/wasmtime-backend/src/utils.rs\<close> and the function wrappers of
  \<open>crates/wasmtime-backend/src/function.rs\<close>.  Calling compiled code is the parameter
  \<open>call\<close> of \<open>wasmtime_call_async\<close>; a host closure is the parameter \<open>func\<close> of
  \<open>wasmtime_host_fn\<close>.  The reference payloads of wasmtime's \<open>Val\<close> are opaque.
\<close>

datatype ValType = VT_I32 | VT_I64 | VT_F32 | VT_F64 | VT_V128 | VT_FuncRef | VT_ExternRef

datatype 'r Val =
    Val_I32 u32 | Val_I64 u64 | Val_F32 u32 | Val_F64 u64
  | Val_V128 "128 word" | Val_FuncRef 'r | Val_ExternRef 'r

fun val_type_to_wtype :: "ValType \<Rightarrow> WType" where
  "val_type_to_wtype VT_I32 = T_I32"
| "val_type_to_wtype VT_I64 = T_I64"
| "val_type_to_wtype VT_F32 = T_F32"
| "val_type_to_wtype VT_F64 = T_F64"
| "val_type_to_wtype VT_V128 = T_V128"
| "val_type_to_wtype VT_FuncRef = T_FuncRef"
| "val_type_to_wtype VT_ExternRef = T_ExternRef"

fun wtype_to_val_type :: "WType \<Rightarrow> ValType" where
  "wtype_to_val_type T_I32 = VT_I32"
| "wtype_to_val_type T_I64 = VT_I64"
| "wtype_to_val_type T_F32 = VT_F32"
| "wtype_to_val_type T_F64 = VT_F64"
| "wtype_to_val_type T_V128 = VT_V128"
| "wtype_to_val_type T_FuncRef = VT_FuncRef"
| "wtype_to_val_type T_ExternRef = VT_ExternRef"

fun wvalue_to_val :: "WValue \<Rightarrow> 'r Val" where
  "wvalue_to_val (V_I32 x) = Val_I32 x"
| "wvalue_to_val (V_I64 x) = Val_I64 x"
| "wvalue_to_val (V_F32 x) = Val_F32 x"
| "wvalue_to_val (V_F64 x) = Val_F64 x"

fun val_to_wvalue :: "'r Val \<Rightarrow> 'x RuntimeError + WValue" where
  "val_to_wvalue (Val_I32 x) = Inr (V_I32 x)"
| "val_to_wvalue (Val_I64 x) = Inr (V_I64 x)"
| "val_to_wvalue (Val_F32 x) = Inr (V_F32 x)"
| "val_to_wvalue (Val_F64 x) = Inr (V_F64 x)"
| "val_to_wvalue (Val_V128 _) = Inl (UnsupportedType T_V128)"
| "val_to_wvalue (Val_FuncRef _) = Inl (UnsupportedType T_V128)"
| "val_to_wvalue (Val_ExternRef _) = Inl (UnsupportedType T_V128)"

record FuncType =
  ft_params :: "ValType list"
  ft_results :: "ValType list"

definition sig_to_fn_ty :: "FuncSig \<Rightarrow> FuncType" where
  "sig_to_fn_ty sig =
    \<lparr>ft_params = List.map wtype_to_val_type (sig_params sig),
     ft_results = List.map wtype_to_val_type (sig_returns sig)\<rparr>"

definition fn_ty_to_sig :: "FuncType \<Rightarrow> FuncSig" where
  "fn_ty_to_sig ty =
    FuncSig_new (List.map val_type_to_wtype (ft_params ty))
      (List.map val_type_to_wtype (ft_results ty))"

fun inspect_call_error :: "'x anyhow \<Rightarrow> 'x RuntimeError" where
  "inspect_call_error (Any_Trap x) = Trap (Any_Trap x)"
| "inspect_call_error (Any_User u) = RT_UserError u"
| "inspect_call_error e = RT_Other e"

fun inspect_instantiation_error :: "'x anyhow \<Rightarrow> 'x InstantiationError" where
  "inspect_instantiation_error (Any_Trap x) = Inst_RuntimeError (Trap (Any_Trap x))"
| "inspect_instantiation_error (Any_User u) = Inst_RuntimeError (RT_UserError u)"
| "inspect_instantiation_error e = Inst_Other e"

subsection \<open>Host and export functions\<close>

definition process_func_args :: "'r Val list \<Rightarrow> 'x RuntimeError + WValue list" where
  "process_func_args args = mapR val_to_wvalue args"

text \<open>The result slots are written in place, from index 0 on.\<close>

fun write_results :: "WValue list \<Rightarrow> nat \<Rightarrow> 'r Val list \<Rightarrow> 'r Val list" where
  "write_results [] i out = out"
| "write_results (v # vs) i out = write_results vs (Suc i) (out[i := wvalue_to_val v])"

definition process_func_results ::
  "WValue list \<Rightarrow> 'r Val list \<Rightarrow> 'x RuntimeError + 'r Val list" where
  "process_func_results results_in results_out =
    (if length results_in \<noteq> length results_out
     then Inl (IncorrectResultsNumber (word_of_nat (length results_out))
                 (word_of_nat (length results_in)))
     else Inr (write_results results_in 0 results_out))"

definition wasmtime_host_fn ::
  "(WValue list \<Rightarrow> 'x anyhow + WValue list) \<Rightarrow> 'r Val list \<Rightarrow> 'r Val list
   \<Rightarrow> 'x anyhow + 'r Val list" where
  "wasmtime_host_fn func args results_out =
    bindR (map_err Any_Runtime (process_func_args args)) (\<lambda>args.
    bindR (func args) (\<lambda>results.
    map_err Any_Runtime (process_func_results results results_out)))"

text \<open>\<open>call args results\<close> runs the export and fills the slots it is given.\<close>

definition wasmtime_call_async ::
  "FuncType \<Rightarrow> 'r Val \<Rightarrow> ('r Val list \<Rightarrow> 'r Val list \<Rightarrow> 'x anyhow + 'r Val list) \<Rightarrow>
   WValue list \<Rightarrow> 'x RuntimeError + WValue list" where
  "wasmtime_call_async ty null call args =
    (let args = List.map wvalue_to_val args;
         results = replicate (length (ft_results ty)) null
     in bindR (map_err inspect_call_error (call args results)) (mapR val_to_wvalue))"

subsection \<open>Lemmas\<close>

lemma val_wvalue_inverse [simp]: "val_to_wvalue (wvalue_to_val v) = Inr v"
  by (cases v) auto

lemma wtype_val_type_inverse [simp]:
  "val_type_to_wtype (wtype_to_val_type t) = t"
  "wtype_to_val_type (val_type_to_wtype u) = u"
  by (cases t; simp) (cases u; simp)

lemma length_write_results [simp]: "length (write_results vs i out) = length out"
  by (induction vs i out rule: write_results.induct) auto

lemma write_results_nth:
  "i + length vs \<le> length out \<Longrightarrow> k < length out \<Longrightarrow>
   write_results vs i out ! k =
     (if i \<le> k \<and> k < i + length vs then wvalue_to_val (vs ! (k - i)) else out ! k)"
proof (induction vs i out rule: write_results.induct)
  case (2 v vs i out)
  then show ?case
    by (auto simp: nth_list_update nth_Cons')
qed auto

lemma write_results_all:
  "length vs = length out \<Longrightarrow> write_results vs 0 out = List.map wvalue_to_val vs"
  by (rule nth_equalityI) (auto simp: write_results_nth)

lemma process_func_args_values [simp]:
  "process_func_args (List.map wvalue_to_val vs) = Inr vs"
  by (induction vs) (auto simp: process_func_args_def)

lemma process_func_results_Inr:
  "length vs = length out \<Longrightarrow> process_func_results vs out = Inr (List.map wvalue_to_val vs)"
  by (simp add: process_func_results_def write_results_all)

lemma sig_fn_ty_inverse [simp]: "fn_ty_to_sig (sig_to_fn_ty sig) = sig"
  by (simp add: fn_ty_to_sig_def sig_to_fn_ty_def FuncSig_new_def o_def)


lemma val_to_wvalue_Inl: "val_to_wvalue a = Inl e \<Longrightarrow> e = UnsupportedType T_V128"
  by (cases a) auto

lemma val_to_wvalue_Inr: "val_to_wvalue a = Inr v \<longleftrightarrow> a = wvalue_to_val v"
  by (cases a; cases v) auto

lemma process_func_args_Inr: "process_func_args args = Inr vs \<longleftrightarrow> args = List.map wvalue_to_val vs"
  unfolding process_func_args_def mapR_Inr_iff val_to_wvalue_Inr
  by (auto simp: list_all2_conv_all_nth intro: nth_equalityI)

lemma process_func_args_Inl: "process_func_args args = Inl e \<Longrightarrow> e = UnsupportedType T_V128"
  unfolding process_func_args_def by (auto dest!: mapR_Inl_mem val_to_wvalue_Inl)

text \<open>The arguments of a host call are rejected exactly when one of them is not a number, and
  then always as \<open>UnsupportedType V128\<close>, whatever the offending value is: a function or
  extern reference is never reported as such.\<close>

theorem unsupported_values_reported_as_v128:
  fixes e :: "'x RuntimeError"
  shows "((process_func_args args :: 'x RuntimeError + WValue list) = Inr vs \<longleftrightarrow> args = List.map wvalue_to_val vs) \<and>
    (process_func_args args = Inl e \<longleftrightarrow>
       e = UnsupportedType T_V128 \<and> args \<notin> range (List.map wvalue_to_val))"
proof -
  let ?r = "process_func_args args :: 'x RuntimeError + WValue list"
  have ok: "?r = Inr ws \<longleftrightarrow> args = List.map wvalue_to_val ws" for ws
    by (rule process_func_args_Inr)
  show ?thesis
    by (cases ?r) (auto simp flip: ok dest: process_func_args_Inl)
qed

end
