(* ===== verification/ItTypes.thy ===== *)
theory ItTypes
  imports Prelude
begin

text \<open>
  The interface types Marine computes with.  They are declared by the package \<open>wasmer_it\<close>,
  outside of this repository; their constructors are the ones the exhaustive matches of
  the sources list (\<open>crates/module-interface/src/interface/itype_to_text.rs\<close> for \<open>IType\<close>,
  \<open>core/src/host_imports/lowering/lower_ivalues.rs\<close> for \<open>IValue\<close>) and their fields the ones
  the sources read and write.  The content of a non-empty vector (\<open>NEVec\<close>) is a list; the
  code that builds one panics on the empty list.
\<close>

datatype IType =
    IT_Boolean
  | IT_S8 | IT_S16 | IT_S32 | IT_S64
  | IT_U8 | IT_U16 | IT_U32 | IT_U64
  | IT_F32 | IT_F64
  | IT_String
  | IT_ByteArray
  | IT_Array IType
  | IT_I32 | IT_I64
  | IT_Record u64

datatype IValue =
    IV_Boolean bool
  | IV_S8 u8 | IV_S16 u16 | IV_S32 u32 | IV_S64 u64
  | IV_U8 u8 | IV_U16 u16 | IV_U32 u32 | IV_U64 u64
  | IV_F32 u32 | IV_F64 u64
  | IV_String string
  | IV_ByteArray "u8 list"
  | IV_Array "IValue list"
  | IV_I32 u32 | IV_I64 u64
  | IV_Record "IValue list"

record FunctionArg =
  fa_name :: string
  fa_ty :: IType

record RecordFieldType =
  rf_name :: string
  rf_ty :: IType

record IRecordType =
  rt_name :: string
  rt_fields :: "RecordFieldType list"

type_synonym IRecordTypes = "(u64, IRecordType) hmap"

record FunctionType =
  ft_arguments :: "FunctionArg list"
  ft_output_types :: "IType list"

subsection \<open>Typing of values\<close>

fun scalar_type :: "IType \<Rightarrow> bool" where
  "scalar_type IT_ByteArray = False"
| "scalar_type (IT_Array _) = False"
| "scalar_type (IT_Record _) = False"
| "scalar_type _ = True"

fun ivalue_has_scalar_type :: "IValue \<Rightarrow> IType \<Rightarrow> bool" where
  "ivalue_has_scalar_type (IV_Boolean _) t = (t = IT_Boolean)"
| "ivalue_has_scalar_type (IV_S8 _) t = (t = IT_S8)"
| "ivalue_has_scalar_type (IV_S16 _) t = (t = IT_S16)"
| "ivalue_has_scalar_type (IV_S32 _) t = (t = IT_S32)"
| "ivalue_has_scalar_type (IV_S64 _) t = (t = IT_S64)"
| "ivalue_has_scalar_type (IV_U8 _) t = (t = IT_U8)"
| "ivalue_has_scalar_type (IV_U16 _) t = (t = IT_U16)"
| "ivalue_has_scalar_type (IV_U32 _) t = (t = IT_U32)"
| "ivalue_has_scalar_type (IV_U64 _) t = (t = IT_U64)"
| "ivalue_has_scalar_type (IV_F32 _) t = (t = IT_F32)"
| "ivalue_has_scalar_type (IV_F64 _) t = (t = IT_F64)"
| "ivalue_has_scalar_type (IV_String _) t = (t = IT_String)"
| "ivalue_has_scalar_type (IV_I32 _) t = (t = IT_I32)"
| "ivalue_has_scalar_type (IV_I64 _) t = (t = IT_I64)"
| "ivalue_has_scalar_type _ t = False"

lemma ivalue_has_scalar_type_scalar: "ivalue_has_scalar_type v t \<Longrightarrow> scalar_type t"
  by (cases v) auto

text \<open>\<open>has_type rts v t\<close>: the value \<open>v\<close> inhabits \<open>t\<close>, with record ids resolved in \<open>rts\<close>.  A
  byte array may be given as an array of bytes and the other way round, as the code does.\<close>

inductive has_type :: "IRecordTypes \<Rightarrow> IValue \<Rightarrow> IType \<Rightarrow> bool" for rts where
  ht_scalar: "ivalue_has_scalar_type v t \<Longrightarrow> has_type rts v t"
| ht_bytes: "has_type rts (IV_ByteArray bs) IT_ByteArray"
| ht_bytes_array: "bs = [] \<or> t = IT_U8 \<Longrightarrow> has_type rts (IV_ByteArray bs) (IT_Array t)"
| ht_array_bytes: "\<forall>v\<in>set vs. has_type rts v IT_U8 \<Longrightarrow> has_type rts (IV_Array vs) IT_ByteArray"
| ht_array: "\<forall>v\<in>set vs. has_type rts v t \<Longrightarrow> has_type rts (IV_Array vs) (IT_Array t)"
| ht_record: "hm_get i rts = Some r \<Longrightarrow>
    list_all2 (\<lambda>v f. has_type rts v (rf_ty f)) vs (rt_fields r) \<Longrightarrow>
    has_type rts (IV_Record vs) (IT_Record i)"

inductive_cases has_type_ArrayE: "has_type rts (IV_Array vs) t"
inductive_cases has_type_RecordE: "has_type rts (IV_Record vs) t"
inductive_cases has_type_ByteArrayE: "has_type rts (IV_ByteArray bs) t"
inductive_simps has_type_U8_simp: "has_type rts v IT_U8"

fun scalar_value :: "IValue \<Rightarrow> bool" where
  "scalar_value (IV_ByteArray _) = False"
| "scalar_value (IV_Array _) = False"
| "scalar_value (IV_Record _) = False"
| "scalar_value _ = True"

lemma has_type_scalar:
  "scalar_value v \<Longrightarrow> has_type rts v t \<longleftrightarrow> ivalue_has_scalar_type v t"
  by (auto intro: ht_scalar elim: has_type.cases)

lemma has_type_array_bytes_iff:
  "has_type rts (IV_Array vs) IT_ByteArray \<longleftrightarrow> (\<forall>v\<in>set vs. has_type rts v IT_U8)"
  by (auto intro: has_type.intros elim: has_type_ArrayE)

lemma has_type_array_iff:
  "has_type rts (IV_Array vs) (IT_Array t) \<longleftrightarrow> (\<forall>v\<in>set vs. has_type rts v t)"
  by (auto intro: has_type.intros elim: has_type_ArrayE)

lemma has_type_record_iff:
  "has_type rts (IV_Record vs) (IT_Record i) \<longleftrightarrow>
   (\<exists>r. hm_get i rts = Some r \<and> list_all2 (\<lambda>v f. has_type rts v (rf_ty f)) vs (rt_fields r))"
  by (auto intro: has_type.intros elim: has_type_RecordE)

lemma has_type_bytes_iff:
  "has_type rts (IV_ByteArray bs) t \<longleftrightarrow>
   t = IT_ByteArray \<or> (\<exists>u. t = IT_Array u \<and> (bs = [] \<or> u = IT_U8))"
  by (auto intro: has_type.intros elim: has_type_ByteArrayE)

lemma has_type_array_only:
  "has_type rts (IV_Array vs) t \<Longrightarrow> t = IT_ByteArray \<or> (\<exists>u. t = IT_Array u)"
  by (auto elim: has_type_ArrayE)

lemma has_type_record_only: "has_type rts (IV_Record vs) t \<Longrightarrow> \<exists>i. t = IT_Record i"
  by (auto elim: has_type_RecordE)

lemma has_type_array_cases:
  "has_type rts (IV_Array vs) t \<longleftrightarrow>
   (case t of IT_ByteArray \<Rightarrow> \<forall>v\<in>set vs. has_type rts v IT_U8
    | IT_Array u \<Rightarrow> \<forall>v\<in>set vs. has_type rts v u | _ \<Rightarrow> False)"
  by (cases t) (auto simp: has_type_array_bytes_iff has_type_array_iff dest: has_type_array_only)

lemma has_type_record_cases:
  "has_type rts (IV_Record vs) t \<longleftrightarrow>
   (case t of IT_Record i \<Rightarrow> (\<exists>r. hm_get i rts = Some r \<and>
        list_all2 (\<lambda>v f. has_type rts v (rf_ty f)) vs (rt_fields r)) | _ \<Rightarrow> False)"
  by (cases t) (auto simp: has_type_record_iff dest: has_type_record_only)

lemmas has_type_iffs = has_type_array_bytes_iff has_type_array_iff has_type_record_iff
  has_type_bytes_iff has_type_scalar

end
