(* ===== verification/JsonSerde.thy ===== *)
theory JsonSerde
  imports ItTypes
begin

text \<open>
  JSON to interface values and back: \<open>crates/it-json-serde/src/\<close>.  A JSON number is opaque;
  \<open>json!\<close> on a scalar is the parameter \<open>to_json\<close> and \<open>serde_json::from_value\<close> at a scalar type
  the parameter \<open>from_json\<close>.  A formatted message is the constructor of the error that
  carries the formatted values; \<open>unimplemented!\<close> and a failing \<open>unwrap\<close> are the two
  constructors whose names start with \<open>Panic\<close>: like an error they end every enclosing call.
\<close>

datatype 'n JValue =
    JNull
  | JBool bool
  | JNumber 'n
  | JString string
  | JArray "'n JValue list"
  | JObject "(string \<times> 'n JValue) list"

datatype 'n ITJsonSeDeError =
    Se_NotCompatible "IValue list" "IType list"
  | Se_NoRecord u64
  | Se_FieldCount "IValue list" "RecordFieldType list"
  | Se_Incompatible IValue IType
  | De_MissingArgument string
  | De_ArgumentCount nat nat
  | De_Signature "(string \<times> IType) list" "'n JValue"
  | De_NoArguments "(string \<times> IType) list"
  | De_Deserialize string
  | De_ExpectedByteArray "'n JValue"
  | De_ExpectedArray IType "'n JValue"
  | De_NoRecord u64
  | De_RecordEncoding u64
  | Panic_MultiValue
  | Panic_EmptyRecord

subsection \<open>Interface values to JSON\<close>

fun ivalue_weight :: "IValue \<Rightarrow> nat" where
  "ivalue_weight (IV_Array vs) = 3 + sum_list (List.map ivalue_weight vs)"
| "ivalue_weight (IV_Record vs) = 3 + sum_list (List.map ivalue_weight vs)"
| "ivalue_weight (IV_ByteArray bs) = 3 + 2 * length bs"
| "ivalue_weight _ = 1"

lemma ivalue_weight_pos: "0 < ivalue_weight v"
  by (cases v) auto

text \<open>The loops over array elements and over zipped record fields are functions of their own.\<close>

function (sequential)
  ivalue_to_json :: "(IValue \<Rightarrow> 'n JValue) \<Rightarrow> IValue \<Rightarrow> IType \<Rightarrow> IRecordTypes \<Rightarrow>
    'n ITJsonSeDeError + 'n JValue"
and array_to_json :: "(IValue \<Rightarrow> 'n JValue) \<Rightarrow> IValue list \<Rightarrow> IType \<Rightarrow> IRecordTypes \<Rightarrow>
    'n ITJsonSeDeError + 'n JValue list"
and fields_to_json :: "(IValue \<Rightarrow> 'n JValue) \<Rightarrow> IValue list \<Rightarrow> RecordFieldType list \<Rightarrow>
    IRecordTypes \<Rightarrow> (string \<times> 'n JValue) list \<Rightarrow> 'n ITJsonSeDeError + (string \<times> 'n JValue) list"
where
  "ivalue_to_json to_json ivalue output record_types =
    (if ivalue_has_scalar_type ivalue output then Inr (to_json ivalue)
     else (case (ivalue, output) of
       (IV_ByteArray value, IT_ByteArray) \<Rightarrow> Inr (JArray (List.map (\<lambda>v. to_json (IV_U8 v)) value))
     | (IV_Array value, IT_ByteArray) \<Rightarrow>
         bindR (array_to_json to_json value IT_U8 record_types) (\<lambda>r. Inr (JArray r))
     | (IV_ByteArray value, IT_Array array_ty) \<Rightarrow>
         bindR (array_to_json to_json (List.map IV_U8 value) array_ty record_types)
           (\<lambda>r. Inr (JArray r))
     | (IV_Array value, IT_Array array_ty) \<Rightarrow>
         bindR (array_to_json to_json value array_ty record_types) (\<lambda>r. Inr (JArray r))
     | (IV_Record field_values, IT_Record record_id) \<Rightarrow>
         (case hm_get record_id record_types of
            None \<Rightarrow> Inl (Se_NoRecord record_id)
          | Some record_type \<Rightarrow>
              let field_types = rt_fields record_type in
              if length field_values \<noteq> length field_types
              then Inl (Se_FieldCount field_values field_types)
              else bindR (fields_to_json to_json field_values field_types record_types [])
                     (\<lambda>result. Inr (JObject result)))
     | (ivalue, itype) \<Rightarrow> Inl (Se_Incompatible ivalue itype)))"
| "array_to_json to_json [] ty record_types = Inr []"
| "array_to_json to_json (v # vs) ty record_types =
    bindR (ivalue_to_json to_json v ty record_types) (\<lambda>j.
    bindR (array_to_json to_json vs ty record_types) (\<lambda>js. Inr (j # js)))"
| "fields_to_json to_json (v # vs) (f # fs) record_types result =
    bindR (ivalue_to_json to_json v (rf_ty f) record_types) (\<lambda>j.
    fields_to_json to_json vs fs record_types (hm_insert (rf_name f) j result))"
| "fields_to_json to_json _ _ record_types result = Inr result"
  by pat_completeness auto
termination
  by (relation "measure (case_sum (\<lambda>(_, v, _, _). ivalue_weight v)
        (case_sum (\<lambda>(_, vs, _, _). 1 + sum_list (List.map ivalue_weight vs))
                  (\<lambda>(_, vs, _, _, _). 1 + sum_list (List.map ivalue_weight vs))))")
    (auto simp: o_def sum_list_triv ivalue_weight_pos)

text \<open>The unused entry point for several values is the panic of the code.\<close>

definition ivalues_to_json :: "(IValue \<Rightarrow> 'n JValue) \<Rightarrow> IValue list \<Rightarrow> IType list \<Rightarrow> IRecordTypes \<Rightarrow>
    'n ITJsonSeDeError + 'n JValue" where
  "ivalues_to_json to_json ivalues outputs record_types =
    (if length outputs \<noteq> length ivalues then Inl (Se_NotCompatible ivalues outputs)
     else (case ivalues of
       [] \<Rightarrow> Inr JNull
     | [v] \<Rightarrow> ivalue_to_json to_json v (hd outputs) record_types
     | _ \<Rightarrow> Inl Panic_MultiValue))"

subsection \<open>JSON to interface values\<close>

fun json_weight :: "'n JValue \<Rightarrow> nat" where
  "json_weight (JArray js) = 1 + sum_list (List.map json_weight js)"
| "json_weight (JObject m) = 1 + sum_list (List.map (\<lambda>(k, j). json_weight j) m)"
| "json_weight _ = 1"

definition map_weight :: "(string \<times> 'n JValue) list \<Rightarrow> nat" where
  "map_weight m = sum_list (List.map (\<lambda>(k, j). json_weight j) m)"

lemma json_weight_pos: "0 < json_weight j"
  by (cases j) auto

lemma map_weight_get: "hm_get k m = Some j \<Longrightarrow> json_weight j \<le> map_weight m"
  by (induction m) (auto simp: map_weight_def split: if_splits)

lemma map_weight_remove_le: "map_weight (hm_remove k m) \<le> map_weight m"
  by (induction m) (auto simp: map_weight_def hm_remove_def)

lemma map_weight_remove: "hm_get k m = Some j \<Longrightarrow> map_weight (hm_remove k m) < map_weight m"
proof (induction m)
  case (Cons p m)
  then show ?case
    using map_weight_remove_le [of k m] json_weight_pos [of j]
    by (cases p) (auto simp: map_weight_def hm_remove_def split: if_splits)
qed simp

text \<open>\<open>to_ivalue!\<close>: an array of one element is flattened once.\<close>

fun to_ivalue :: "(IType \<Rightarrow> 'n JValue \<Rightarrow> string + IValue) \<Rightarrow> IType \<Rightarrow> 'n JValue \<Rightarrow>
    'n ITJsonSeDeError + IValue" where
  "to_ivalue from_json ty (JArray [j]) = map_err De_Deserialize (from_json ty j)"
| "to_ivalue from_json ty jvalue = map_err De_Deserialize (from_json ty jvalue)"

definition nevec_new :: "IValue list \<Rightarrow> 'n ITJsonSeDeError + IValue list" where
  "nevec_new vs = (if vs = [] then Inl Panic_EmptyRecord else Inr vs)"

function (sequential)
  jvalue_to_ivalue :: "(IType \<Rightarrow> 'n JValue \<Rightarrow> string + IValue) \<Rightarrow> 'n JValue \<Rightarrow> IType \<Rightarrow> IRecordTypes \<Rightarrow>
    'n ITJsonSeDeError + IValue"
and json_elements_to_ivalues :: "(IType \<Rightarrow> 'n JValue \<Rightarrow> string + IValue) \<Rightarrow> 'n JValue list \<Rightarrow> IType \<Rightarrow>
    IRecordTypes \<Rightarrow> 'n ITJsonSeDeError + IValue list"
and json_record_type_to_ivalue :: "(IType \<Rightarrow> 'n JValue \<Rightarrow> string + IValue) \<Rightarrow> 'n JValue \<Rightarrow> u64 \<Rightarrow>
    IRecordTypes \<Rightarrow> 'n ITJsonSeDeError + IValue list"
and json_map_loop :: "(IType \<Rightarrow> 'n JValue \<Rightarrow> string + IValue) \<Rightarrow> (string \<times> 'n JValue) list \<Rightarrow>
    (string \<times> IType) list \<Rightarrow> IRecordTypes \<Rightarrow> IValue list \<Rightarrow>
    'n ITJsonSeDeError + (IValue list \<times> (string \<times> 'n JValue) list)"
and json_zip_loop :: "(IType \<Rightarrow> 'n JValue \<Rightarrow> string + IValue) \<Rightarrow> 'n JValue list \<Rightarrow> IType list \<Rightarrow>
    IRecordTypes \<Rightarrow> 'n ITJsonSeDeError + IValue list"
where
  "jvalue_to_ivalue from_json jvalue ty record_types =
    (case ty of
       IT_ByteArray \<Rightarrow>
         (case jvalue of
            JArray json_array \<Rightarrow>
              bindR (json_elements_to_ivalues from_json json_array IT_U8 record_types)
                (\<lambda>value. Inr (IV_Array value))
          | _ \<Rightarrow> Inl (De_ExpectedByteArray jvalue))
     | IT_Array value_type \<Rightarrow>
         (case jvalue of
            JArray json_array \<Rightarrow>
              bindR (json_elements_to_ivalues from_json json_array value_type record_types)
                (\<lambda>value. Inr (IV_Array value))
          | _ \<Rightarrow> Inl (De_ExpectedArray value_type jvalue))
     | IT_Record record_type_id \<Rightarrow>
         bindR (json_record_type_to_ivalue from_json jvalue record_type_id record_types)
           (\<lambda>value. Inr (IV_Record value))
     | _ \<Rightarrow> to_ivalue from_json ty jvalue)"
| "json_elements_to_ivalues from_json [] ty record_types = Inr []"
| "json_elements_to_ivalues from_json (j # js) ty record_types =
    bindR (jvalue_to_ivalue from_json j ty record_types) (\<lambda>v.
    bindR (json_elements_to_ivalues from_json js ty record_types) (\<lambda>vs. Inr (v # vs)))"
| "json_record_type_to_ivalue from_json json_value record_type_id record_types =
    (case hm_get record_type_id record_types of
       None \<Rightarrow> Inl (De_NoRecord record_type_id)
     | Some record_type \<Rightarrow>
        (case json_value of
           JObject json_map \<Rightarrow>
             bindR (json_map_loop from_json json_map
                (List.map (\<lambda>f. (rf_name f, rf_ty f)) (rt_fields record_type)) record_types [])
               (\<lambda>(iargs, rest).
                  if rest \<noteq> []
                  then Inl (De_ArgumentCount (length iargs) (length iargs + length rest))
                  else nevec_new iargs)
         | JArray json_array \<Rightarrow>
             if length json_array \<noteq> length (rt_fields record_type)
             then Inl (De_ArgumentCount (length (rt_fields record_type)) (length json_array))
             else bindR (json_zip_loop from_json json_array
                    (List.map rf_ty (rt_fields record_type)) record_types) nevec_new
         | _ \<Rightarrow> Inl (De_RecordEncoding record_type_id)))"
| "json_map_loop from_json json_map [] record_types iargs = Inr (iargs, json_map)"
| "json_map_loop from_json json_map ((arg_name, arg_type) # args) record_types iargs =
    (case hm_get arg_name json_map of
       None \<Rightarrow> Inl (De_MissingArgument arg_name)
     | Some json_value \<Rightarrow>
         bindR (jvalue_to_ivalue from_json json_value arg_type record_types) (\<lambda>iarg.
         json_map_loop from_json (hm_remove arg_name json_map) args record_types (iargs @ [iarg])))"
| "json_zip_loop from_json (j # js) (ty # tys) record_types =
    bindR (jvalue_to_ivalue from_json j ty record_types) (\<lambda>v.
    bindR (json_zip_loop from_json js tys record_types) (\<lambda>vs. Inr (v # vs)))"
| "json_zip_loop from_json _ _ record_types = Inr []"
  by pat_completeness auto
termination
  by (relation "measure (case_sum
        (case_sum (\<lambda>(_, j, _, _). 3 * json_weight j)
          (\<lambda>(_, js, _, _). 3 * sum_list (List.map json_weight js) + 1))
        (case_sum (\<lambda>(_, j, _, _). 3 * json_weight j - 1)
          (case_sum (\<lambda>(_, m, _, _, _). 3 * map_weight m + 1)
            (\<lambda>(_, js, _, _). 3 * sum_list (List.map json_weight js) + 1))))")
    (auto simp: json_weight_pos map_weight_def [symmetric] dest: map_weight_get map_weight_remove)

text \<open>The top-level functions of the code, each with the checks around its loop.\<close>

definition json_map_to_ivalues :: "(IType \<Rightarrow> 'n JValue \<Rightarrow> string + IValue) \<Rightarrow> (string \<times> 'n JValue) list \<Rightarrow>
    (string \<times> IType) list \<Rightarrow> IRecordTypes \<Rightarrow> 'n ITJsonSeDeError + IValue list" where
  "json_map_to_ivalues from_json json_map arg_types record_types =
    bindR (json_map_loop from_json json_map arg_types record_types []) (\<lambda>(iargs, rest).
      if rest \<noteq> [] then Inl (De_ArgumentCount (length iargs) (length iargs + length rest))
      else Inr iargs)"

definition json_array_to_ivalues :: "(IType \<Rightarrow> 'n JValue \<Rightarrow> string + IValue) \<Rightarrow> 'n JValue list \<Rightarrow>
    IType list \<Rightarrow> IRecordTypes \<Rightarrow> 'n ITJsonSeDeError + IValue list" where
  "json_array_to_ivalues from_json json_array arg_types record_types =
    (if length json_array \<noteq> length arg_types
     then Inl (De_ArgumentCount (length arg_types) (length json_array))
     else json_zip_loop from_json json_array arg_types record_types)"

definition json_value_to_ivalues :: "(IType \<Rightarrow> 'n JValue \<Rightarrow> string + IValue) \<Rightarrow> 'n JValue \<Rightarrow>
    (string \<times> IType) list \<Rightarrow> 'n ITJsonSeDeError + IValue list" where
  "json_value_to_ivalues from_json json_value arg_types =
    (if length arg_types \<noteq> 1 then Inl (De_Signature arg_types json_value)
     else bindR (jvalue_to_ivalue from_json json_value (snd (hd arg_types)) [])
            (\<lambda>ivalue. Inr [ivalue]))"

definition json_null_to_ivalues :: "(string \<times> IType) list \<Rightarrow> 'n ITJsonSeDeError + IValue list" where
  "json_null_to_ivalues arg_types =
    (if length arg_types \<noteq> 0 then Inl (De_NoArguments arg_types) else Inr [])"

fun json_to_ivalues :: "(IType \<Rightarrow> 'n JValue \<Rightarrow> string + IValue) \<Rightarrow> 'n JValue \<Rightarrow>
    (string \<times> IType) list \<Rightarrow> IRecordTypes \<Rightarrow> 'n ITJsonSeDeError + IValue list" where
  "json_to_ivalues from_json (JObject json_map) arg_types record_types =
    json_map_to_ivalues from_json json_map arg_types record_types"
| "json_to_ivalues from_json (JArray json_array) arg_types record_types =
    json_array_to_ivalues from_json json_array (List.map snd arg_types) record_types"
| "json_to_ivalues from_json JNull arg_types record_types = json_null_to_ivalues arg_types"
| "json_to_ivalues from_json json_value arg_types record_types =
    json_value_to_ivalues from_json json_value arg_types"

declare ivalue_to_json.simps [simp del] jvalue_to_ivalue.simps [simp del]
  json_record_type_to_ivalue.simps [simp del]

subsection \<open>When a value has a JSON form\<close>

lemma array_to_json_Inr:
  "(\<exists>js. array_to_json to_json vs t rts = Inr js) \<longleftrightarrow>
   (\<forall>v\<in>set vs. \<exists>j. ivalue_to_json to_json v t rts = Inr j)"
  by (induction vs) (auto simp: bindR_Inr)

lemma fields_to_json_Inr:
  "length vs = length fs \<Longrightarrow>
   (\<exists>m. fields_to_json to_json vs fs rts acc = Inr m) \<longleftrightarrow>
   list_all2 (\<lambda>v f. \<exists>j. ivalue_to_json to_json v (rf_ty f) rts = Inr j) vs fs"
  by (induction vs fs arbitrary: acc rule: list_induct2) (auto simp: bindR_Inr)

lemma ivalue_to_json_scalar:
  "scalar_value v \<Longrightarrow> ivalue_to_json to_json v t rts =
    (if ivalue_has_scalar_type v t then Inr (to_json v) else Inl (Se_Incompatible v t))"
  by (cases v) (simp_all add: ivalue_to_json.simps)

lemma ivalue_to_json_ByteArray:
  "ivalue_to_json to_json (IV_ByteArray bs) t rts =
    (case t of
       IT_ByteArray \<Rightarrow> Inr (JArray (List.map (\<lambda>v. to_json (IV_U8 v)) bs))
     | IT_Array u \<Rightarrow>
         bindR (array_to_json to_json (List.map IV_U8 bs) u rts) (\<lambda>r. Inr (JArray r))
     | _ \<Rightarrow> Inl (Se_Incompatible (IV_ByteArray bs) t))"
  by (cases t) (simp_all add: ivalue_to_json.simps)

lemma ivalue_to_json_Array:
  "ivalue_to_json to_json (IV_Array vs) t rts =
    (case t of
       IT_ByteArray \<Rightarrow> bindR (array_to_json to_json vs IT_U8 rts) (\<lambda>r. Inr (JArray r))
     | IT_Array u \<Rightarrow> bindR (array_to_json to_json vs u rts) (\<lambda>r. Inr (JArray r))
     | _ \<Rightarrow> Inl (Se_Incompatible (IV_Array vs) t))"
  by (cases t) (simp_all add: ivalue_to_json.simps)

lemma ivalue_to_json_Record:
  "ivalue_to_json to_json (IV_Record vs) t rts =
    (case t of
       IT_Record i \<Rightarrow> (case hm_get i rts of
           None \<Rightarrow> Inl (Se_NoRecord i)
         | Some r \<Rightarrow>
             if length vs \<noteq> length (rt_fields r) then Inl (Se_FieldCount vs (rt_fields r))
             else bindR (fields_to_json to_json vs (rt_fields r) rts []) (\<lambda>m. Inr (JObject m)))
     | _ \<Rightarrow> Inl (Se_Incompatible (IV_Record vs) t))"
  by (cases t) (simp_all add: ivalue_to_json.simps [of _ "IV_Record vs"] Let_def split: option.split)

lemmas ivalue_to_json_shapes = ivalue_to_json_scalar ivalue_to_json_ByteArray
  ivalue_to_json_Array ivalue_to_json_Record

lemma ivalue_to_json_Inr_iff:
  "(\<exists>j. ivalue_to_json to_json v t rts = Inr j) \<longleftrightarrow> has_type rts v t"
proof (induction v arbitrary: t)
  case (IV_ByteArray bs)
  show ?case
  proof (cases t)
    case (IT_Array u)
    have "(\<exists>js. array_to_json to_json (List.map IV_U8 bs) u rts = Inr js) \<longleftrightarrow> bs = [] \<or> u = IT_U8"
      by (cases bs) (auto simp: array_to_json_Inr ivalue_to_json_scalar simp del: array_to_json.simps(2))
    then show ?thesis
      using IT_Array by (auto simp: ivalue_to_json_shapes bindR_Inr has_type_iffs)
  qed (simp_all add: ivalue_to_json_shapes has_type_iffs)
next
  case (IV_Array vs)
  then show ?case
    by (cases t) (simp_all add: ivalue_to_json_shapes bindR_Inr array_to_json_Inr
        has_type_array_cases)
next
  case (IV_Record vs)
  have typed: "list_all2 (\<lambda>v f. \<exists>j. ivalue_to_json to_json v (rf_ty f) rts = Inr j) vs fs \<longleftrightarrow>
      list_all2 (\<lambda>v f. has_type rts v (rf_ty f)) vs fs" for fs
    using IV_Record by (auto simp: list_all2_conv_all_nth)
  show ?case
  proof (cases t)
    case (IT_Record i)
    show ?thesis
    proof (cases "hm_get i rts")
      case (Some r)
      show ?thesis
      proof (cases "length vs = length (rt_fields r)")
        case True
        then show ?thesis
          using fields_to_json_Inr [OF True, of to_json rts "[]"] IT_Record Some
          by (simp add: ivalue_to_json_shapes bindR_Inr has_type_record_iff typed)
      next
        case False
        then have "\<not> list_all2 (\<lambda>v f. has_type rts v (rf_ty f)) vs (rt_fields r)"
          using list_all2_lengthD by blast
        then show ?thesis
          using False IT_Record Some by (simp add: ivalue_to_json_shapes has_type_record_iff)
      qed
    qed (use IT_Record in \<open>simp add: ivalue_to_json_shapes has_type_record_iff\<close>)
  qed (simp_all add: ivalue_to_json_shapes has_type_record_cases)
qed (simp_all add: ivalue_to_json_scalar has_type_scalar)

text \<open>C35: A value has a JSON form exactly when it inhabits its type: \<open>ivalue_to_json\<close> succeeds for
  every well typed value, whatever the record types are, and every other value is an error.\<close>

theorem ivalue_to_json_ok_iff_typed:
  "(\<exists>j. ivalue_to_json to_json v t rts = Inr j) \<longleftrightarrow> has_type rts v t"
  by (rule ivalue_to_json_Inr_iff)

subsection \<open>What JSON arguments produce\<close>

text \<open>The result of \<open>from_value\<close> at a scalar type is of that type.\<close>

definition from_json_typed :: "(IType \<Rightarrow> 'n JValue \<Rightarrow> string + IValue) \<Rightarrow> bool" where
  "from_json_typed from_json \<longleftrightarrow>
    (\<forall>t j v. scalar_type t \<longrightarrow> from_json t j = Inr v \<longrightarrow> ivalue_has_scalar_type v t)"

lemma to_ivalue_typed:
  "from_json_typed from_json \<Longrightarrow> scalar_type t \<Longrightarrow> to_ivalue from_json t j = Inr v \<Longrightarrow>
   has_type rts v t"
  by (cases "(from_json, t, j)" rule: to_ivalue.cases)
    (auto simp: from_json_typed_def map_err_Inr intro: ht_scalar)

lemma nevec_new_Inr [simp]: "nevec_new vs = Inr ws \<longleftrightarrow> vs \<noteq> [] \<and> ws = vs"
  by (auto simp: nevec_new_def)

lemma jvalue_to_ivalue_scalar:
  "scalar_type t \<Longrightarrow> jvalue_to_ivalue from_json j t rts = to_ivalue from_json t j"
  by (cases t) (simp_all add: jvalue_to_ivalue.simps)

lemma json_typed:
  shows "from_json_typed from_json \<Longrightarrow> jvalue_to_ivalue from_json j t rts = Inr v \<Longrightarrow> has_type rts v t"
    and "from_json_typed from_json \<Longrightarrow> json_elements_to_ivalues from_json js t rts = Inr vs \<Longrightarrow>
      \<forall>v\<in>set vs. has_type rts v t"
    and "from_json_typed from_json \<Longrightarrow> json_record_type_to_ivalue from_json j i rts = Inr vs \<Longrightarrow>
      has_type rts (IV_Record vs) (IT_Record i)"
    and "from_json_typed from_json \<Longrightarrow> json_map_loop from_json m args rts iargs = Inr (vs, rest) \<Longrightarrow>
      \<exists>ws. vs = iargs @ ws \<and> list_all2 (\<lambda>w a. has_type rts w (snd a)) ws args"
    and "from_json_typed from_json \<Longrightarrow> length js = length tys \<Longrightarrow>
      json_zip_loop from_json js tys rts = Inr vs \<Longrightarrow> list_all2 (has_type rts) vs tys"
proof (induction from_json j t rts and from_json js t rts and from_json j i rts
    and from_json m args rts iargs and from_json js tys rts
    arbitrary: v and vs and vs and vs rest and vs
    rule: jvalue_to_ivalue_json_elements_to_ivalues_json_record_type_to_ivalue_json_map_loop_json_zip_loop.induct)
  case (1 from_json j t rts)
  show ?case
  proof (cases "scalar_type t")
    case True
    then show ?thesis
      using "1.prems" to_ivalue_typed by (simp add: jvalue_to_ivalue_scalar)
  next
    case False
    then show ?thesis
      using 1 by (cases t) (auto simp: jvalue_to_ivalue.simps bindR_Inr has_type_array_cases
          split: JValue.splits)
  qed
next
  case (4 from_json j i rts)
  show ?case
  proof (cases "hm_get i rts")
    case (Some r)
    then show ?thesis
      using 4 by (auto simp: json_record_type_to_ivalue.simps bindR_Inr has_type_record_iff
          list_all2_map2 list.rel_map split: JValue.splits if_splits prod.splits)
  qed (use 4 in \<open>simp add: json_record_type_to_ivalue.simps\<close>)
next
  case (6 from_json m name ty args rts iargs)
  show ?case
  proof (cases "hm_get name m")
    case (Some j)
    then obtain w where w: "jvalue_to_ivalue from_json j ty rts = Inr w"
      and rest: "json_map_loop from_json (hm_remove name m) args rts (iargs @ [w]) = Inr (vs, rest)"
      using 6 by (auto simp: bindR_Inr)
    then obtain ws where "vs = (iargs @ [w]) @ ws" "list_all2 (\<lambda>w a. has_type rts w (snd a)) ws args"
      using 6 Some by blast
    moreover have "has_type rts w ty"
      using 6 Some w by blast
    ultimately show ?thesis
      by (intro exI [of _ "w # ws"]) simp
  qed (use 6 in simp)
qed (auto simp: bindR_Inr)

subsection \<open>Arguments by name and by position\<close>

lemma json_map_loop_by_length:
  "length args = length js \<Longrightarrow> list_all2 (\<lambda>a j. hm_get (fst a) m = Some j) args js \<Longrightarrow>
   distinct (List.map fst args) \<Longrightarrow>
   json_map_loop from_json m args rts iargs =
    bindR (json_zip_loop from_json js (List.map snd args) rts)
      (\<lambda>vs. Inr (iargs @ vs, foldl (\<lambda>m a. hm_remove (fst a) m) m args))"
proof (induction args js arbitrary: m iargs rule: list_induct2)
  case (Cons a args j js)
  have "list_all2 (\<lambda>b k. hm_get (fst b) (hm_remove (fst a) m) = Some k) args js"
  proof (rule list.rel_mono_strong)
    show "list_all2 (\<lambda>b k. hm_get (fst b) m = Some k) args js"
      using Cons.prems by simp
    fix b k
    assume "b \<in> set args" and "hm_get (fst b) m = Some k"
    moreover from this have "fst b \<noteq> fst a"
      using Cons.prems by (metis distinct.simps(2) image_eqI list.map(2) set_map)
    ultimately show "hm_get (fst b) (hm_remove (fst a) m) = Some k"
      by simp
  qed
  then have IH: "json_map_loop from_json (hm_remove (fst a) m) args rts ias =
      bindR (json_zip_loop from_json js (List.map snd args) rts)
        (\<lambda>vs. Inr (ias @ vs, foldl (\<lambda>m a. hm_remove (fst a) m) (hm_remove (fst a) m) args))" for ias
    using Cons by simp
  show ?case
    using Cons.prems IH by (cases a) (simp add: bindR_assoc)
qed simp

lemma foldl_hm_remove_keys:
  "fst ` set (foldl (\<lambda>m a. hm_remove (fst a) m) m args) = fst ` set m - fst ` set args"
proof (induction args arbitrary: m)
  case (Cons a args)
  have "fst ` set (hm_remove (fst a) m) = fst ` set m - {fst a}"
    by (simp add: hm_remove_def delete_keys flip: set_map)
  then show ?case
    using Cons by auto
qed simp

lemma foldl_hm_remove_empty:
  "fst ` set m \<subseteq> fst ` set args \<Longrightarrow> foldl (\<lambda>m a. hm_remove (fst a) m) m args = []"
  using foldl_hm_remove_keys [of m args] by (metis Diff_eq_empty_iff image_is_empty set_empty)

lemma hm_get_of_zip:
  assumes "hm_ok m" and "set m = set (zip (List.map fst args) js)" and "length js = length args"
  shows "list_all2 (\<lambda>a j. hm_get (fst a) m = Some j) args js"
proof (rule list_all2_all_nthI)
  fix i
  assume "i < length args"
  then have "(fst (args ! i), js ! i) \<in> set m"
    using assms by (auto simp: set_zip intro: exI [of _ i])
  then show "hm_get (fst (args ! i)) m = Some (js ! i)"
    using assms by (simp add: hm_get_mem)
qed (use assms in simp)

lemma keys_of_zip:
  "set m = set (zip (List.map fst args) js) \<Longrightarrow> length js = length args \<Longrightarrow>
   fst ` set m \<subseteq> fst ` set args"
  by (auto simp: set_zip)

lemma json_map_loop_zip:
  assumes "hm_ok m" and "set m = set (zip (List.map fst args) js)" and "length js = length args"
    and "distinct (List.map fst args)"
  shows "json_map_loop from_json m args rts [] =
    bindR (json_zip_loop from_json js (List.map snd args) rts) (\<lambda>vs. Inr (vs, []))"
  using json_map_loop_by_length [OF assms(3) [symmetric] hm_get_of_zip [OF assms(1-3)] assms(4), of from_json rts "[]"]
    foldl_hm_remove_empty [OF keys_of_zip [OF assms(2,3)]]
  by simp

text \<open>C34: Arguments given by name in any order are the same as the arguments given by position: on
  success and on every error inside an argument.\<close>

theorem named_arguments_equal_positional:
  assumes "distinct (List.map fst args)" and "length js = length args"
    and "hm_ok m" and "set m = set (zip (List.map fst args) js)"
  shows "json_to_ivalues from_json (JObject m) args rts = json_to_ivalues from_json (JArray js) args rts"
  using assms
  by (simp add: json_map_to_ivalues_def json_array_to_ivalues_def json_map_loop_zip bindR_assoc)

definition bool_from_json :: "IType \<Rightarrow> 'n JValue \<Rightarrow> string + IValue" where
  "bool_from_json t j = (case j of
      JBool b \<Rightarrow> (if t = IT_Boolean then Inr (IV_Boolean b) else Inl ''type'')
    | JString s \<Rightarrow> (if t = IT_String then Inr (IV_String s) else Inl ''type'')
    | _ \<Rightarrow> Inl ''type'')"

lemma named_arguments_equal_positional_witness:
  "json_to_ivalues bool_from_json (JObject [(''b'', JString ''x''), (''a'', JBool True :: nat JValue)])
     [(''a'', IT_Boolean), (''b'', IT_String)] [] =
   json_to_ivalues bool_from_json (JArray [JBool True, JString ''x''])
     [(''a'', IT_Boolean), (''b'', IT_String)] []"
  by (rule named_arguments_equal_positional) (auto simp: hm_ok_def)

text \<open>C32: Arguments are only accepted well typed: whatever the JSON document is, if a call's
  arguments are decoded then there is one per parameter, and each inhabits its type.\<close>

theorem json_arguments_are_typed:
  assumes "from_json_typed from_json" and "json_to_ivalues from_json j args rts = Inr vs"
  shows "length vs = length args \<and> (\<forall>i < length args. has_type rts (vs ! i) (snd (args ! i)))"
proof -
  have scalar_ok: "has_type rts v t" if "has_type [] v t" for v t
    using that
    by induction (auto intro: has_type.intros)
  have "list_all2 (\<lambda>v a. has_type rts v (snd a)) vs args"
  proof (cases "(from_json, j, args, rts)" rule: json_to_ivalues.cases)
    case (1 f m a r)
    then show ?thesis
      using assms json_typed(4) [OF assms(1), of m args rts "[]"]
      by (auto simp: json_map_to_ivalues_def bindR_Inr split: if_splits)
  next
    case (2 f js a r)
    then show ?thesis
      using assms json_typed(5) [OF assms(1), of js "List.map snd args" rts]
      by (auto simp: json_array_to_ivalues_def list_all2_map2 split: if_splits)
  next
    case (3 f a r)
    then show ?thesis
      using assms by (auto simp: json_null_to_ivalues_def split: if_splits)
  qed (use assms json_typed(1) [OF assms(1)] scalar_ok in
      \<open>auto simp: json_value_to_ivalues_def bindR_Inr length_Suc_conv split: if_splits\<close>)
  then show ?thesis
    by (auto simp: list_all2_conv_all_nth)
qed

lemma json_arguments_are_typed_witness:
  "has_type [] (IV_Boolean True) IT_Boolean"
proof -
  have "from_json_typed (bool_from_json :: IType \<Rightarrow> nat JValue \<Rightarrow> string + IValue)"
    by (auto simp: from_json_typed_def bool_from_json_def split: JValue.splits if_splits)
  then show ?thesis
    using json_arguments_are_typed [of bool_from_json "JArray [JBool True :: nat JValue]"
        "[(''a'', IT_Boolean)]" "[]" "[IV_Boolean True]"]
    by (simp add: json_array_to_ivalues_def jvalue_to_ivalue_scalar bool_from_json_def)
qed

subsection \<open>Round trip\<close>

text \<open>JSON does not know byte arrays: they come back as arrays of bytes.\<close>

fun json_normal_form :: "IValue \<Rightarrow> IValue" where
  "json_normal_form (IV_ByteArray bs) = IV_Array (List.map IV_U8 bs)"
| "json_normal_form (IV_Array vs) = IV_Array (List.map json_normal_form vs)"
| "json_normal_form (IV_Record vs) = IV_Record (List.map json_normal_form vs)"
| "json_normal_form v = v"

fun ivalue_scalars :: "IValue \<Rightarrow> IValue list" where
  "ivalue_scalars (IV_ByteArray bs) = List.map IV_U8 bs"
| "ivalue_scalars (IV_Array vs) = concat (List.map ivalue_scalars vs)"
| "ivalue_scalars (IV_Record vs) = concat (List.map ivalue_scalars vs)"
| "ivalue_scalars v = [v]"

text \<open>\<open>from_value\<close> undoes \<open>json!\<close> on the scalars at hand.  It does for every scalar but a float
  that is not finite, whose JSON form is null.\<close>

definition json_faithful :: "(IValue \<Rightarrow> 'n JValue) \<Rightarrow> (IType \<Rightarrow> 'n JValue \<Rightarrow> string + IValue) \<Rightarrow>
    IValue list \<Rightarrow> bool" where
  "json_faithful to_json from_json us \<longleftrightarrow>
    (\<forall>u\<in>set us. \<forall>t. ivalue_has_scalar_type u t \<longrightarrow>
       from_json t (to_json u) = Inr u \<and> (\<forall>js. to_json u \<noteq> JArray js))"

definition record_types_ok :: "IRecordTypes \<Rightarrow> bool" where
  "record_types_ok rts \<longleftrightarrow>
    (\<forall>(i, r)\<in>set rts. rt_fields r \<noteq> [] \<and> distinct (List.map rf_name (rt_fields r)))"

lemma to_ivalue_not_array:
  "(\<forall>js. j \<noteq> JArray js) \<Longrightarrow> to_ivalue from_json t j = map_err De_Deserialize (from_json t j)"
  by (cases j) auto

lemma json_roundtrip_scalar:
  assumes "json_faithful to_json from_json us" and "v \<in> set us" and "scalar_value v"
    and "ivalue_has_scalar_type v t"
  shows "jvalue_to_ivalue from_json (to_json v) t rts = Inr v"
  using assms ivalue_has_scalar_type_scalar [OF assms(4)]
  by (simp add: json_faithful_def jvalue_to_ivalue_scalar to_ivalue_not_array)

lemma json_elements_roundtrip:
  "array_to_json to_json vs t rts = Inr js \<Longrightarrow>
   (\<And>v j. v \<in> set vs \<Longrightarrow> ivalue_to_json to_json v t rts = Inr j \<Longrightarrow>
      jvalue_to_ivalue from_json j t rts = Inr (f v)) \<Longrightarrow>
   json_elements_to_ivalues from_json js t rts = Inr (List.map f vs)"
  by (induction vs arbitrary: js) (auto simp: bindR_Inr)

lemma fields_to_json_zip:
  "length vs = length fs \<Longrightarrow> distinct (List.map fst acc @ List.map rf_name fs) \<Longrightarrow>
   fields_to_json to_json vs fs rts acc = Inr m \<Longrightarrow>
   (\<And>v t j. v \<in> set vs \<Longrightarrow> ivalue_to_json to_json v t rts = Inr j \<Longrightarrow>
      jvalue_to_ivalue from_json j t rts = Inr (f v)) \<Longrightarrow>
   \<exists>js. m = acc @ zip (List.map rf_name fs) js \<and> length js = length fs \<and>
     json_zip_loop from_json js (List.map rf_ty fs) rts = Inr (List.map f vs)"
proof (induction vs fs arbitrary: acc rule: list_induct2)
  case (Cons v vs g gs)
  obtain j where j: "ivalue_to_json to_json v (rf_ty g) rts = Inr j"
    and rest: "fields_to_json to_json vs gs rts (hm_insert (rf_name g) j acc) = Inr m"
    using Cons.prems by (auto simp: bindR_Inr)
  have ins: "hm_insert (rf_name g) j acc = acc @ [(rf_name g, j)]"
    using Cons.prems(1) by (simp add: hm_insert_new)
  have "distinct (List.map fst (acc @ [(rf_name g, j)]) @ List.map rf_name gs)"
    using Cons.prems(1) by auto
  then obtain js where "m = (acc @ [(rf_name g, j)]) @ zip (List.map rf_name gs) js"
      "length js = length gs" "json_zip_loop from_json js (List.map rf_ty gs) rts = Inr (List.map f vs)"
    using Cons.IH [of "acc @ [(rf_name g, j)]"] rest ins Cons.prems(3) by auto
  then show ?case
    using Cons.prems(3) [OF _ j] by (intro exI [of _ "j # js"]) simp
qed simp

lemma json_faithful_mono:
  "json_faithful to_json from_json us \<Longrightarrow> set vs \<subseteq> set us \<Longrightarrow> json_faithful to_json from_json vs"
  by (auto simp: json_faithful_def)

lemma json_roundtrip_value:
  assumes "record_types_ok rts"
  shows "json_faithful to_json from_json (ivalue_scalars v) \<Longrightarrow> ivalue_to_json to_json v t rts = Inr j \<Longrightarrow>
    jvalue_to_ivalue from_json j t rts = Inr (json_normal_form v)"
proof (induction v arbitrary: t j)
  case (IV_ByteArray bs)
  have byte: "jvalue_to_ivalue from_json (to_json (IV_U8 b)) IT_U8 rts = Inr (IV_U8 b)"
    if "b \<in> set bs" for b
    using that IV_ByteArray.prems(1) by (intro json_roundtrip_scalar) auto
  have "json_elements_to_ivalues from_json js u rts = Inr (List.map IV_U8 bs)"
    if "array_to_json to_json (List.map IV_U8 bs) u rts = Inr js" for js u
  proof -
    have "jvalue_to_ivalue from_json j u rts = Inr v"
      if "v \<in> set (List.map IV_U8 bs)" "ivalue_to_json to_json v u rts = Inr j" for v j
      using that byte by (auto simp: ivalue_to_json_scalar split: if_splits)
    then show ?thesis
      using json_elements_roundtrip [OF that, of from_json "\<lambda>v. v"] by simp
  qed
  moreover have "json_elements_to_ivalues from_json (List.map (\<lambda>v. to_json (IV_U8 v)) bs) IT_U8 rts =
      Inr (List.map IV_U8 bs)"
    using byte by (induction bs) auto
  ultimately show ?case
    using IV_ByteArray.prems(2)
    by (auto simp: ivalue_to_json_ByteArray jvalue_to_ivalue.simps bindR_Inr split: IType.splits)
next
  case (IV_Array vs)
  have child: "jvalue_to_ivalue from_json j u rts = Inr (json_normal_form v)"
    if "v \<in> set vs" "ivalue_to_json to_json v u rts = Inr j" for v u j
    using that by (intro IV_Array.IH json_faithful_mono [OF IV_Array.prems(1)]) auto
  have "json_elements_to_ivalues from_json js u rts = Inr (List.map json_normal_form vs)"
    if "array_to_json to_json vs u rts = Inr js" for js u
    using that child by (rule json_elements_roundtrip)
  then show ?case
    using IV_Array.prems(2)
    by (auto simp: ivalue_to_json_Array jvalue_to_ivalue.simps bindR_Inr split: IType.splits)
next
  case (IV_Record vs)
  obtain i r m where t: "t = IT_Record i" and r: "hm_get i rts = Some r"
    and len: "length vs = length (rt_fields r)" and j: "j = JObject m"
    and m: "fields_to_json to_json vs (rt_fields r) rts [] = Inr m"
    using IV_Record.prems(2)
    by (auto simp: ivalue_to_json_Record bindR_Inr split: IType.splits option.splits if_splits)
  have child: "jvalue_to_ivalue from_json j u rts = Inr (json_normal_form v)"
    if "v \<in> set vs" "ivalue_to_json to_json v u rts = Inr j" for v u j
    using that by (intro IV_Record.IH json_faithful_mono [OF IV_Record.prems(1)]) auto
  have ok: "rt_fields r \<noteq> []" "distinct (List.map rf_name (rt_fields r))"
    using assms hm_get_in_set [OF r] by (auto simp: record_types_ok_def)
  then have names: "distinct (List.map fst [] @ List.map rf_name (rt_fields r))"
    by simp
  obtain js where js: "m = zip (List.map rf_name (rt_fields r)) js" "length js = length (rt_fields r)"
      "json_zip_loop from_json js (List.map rf_ty (rt_fields r)) rts = Inr (List.map json_normal_form vs)"
    using fields_to_json_zip [where f = json_normal_form, OF len names m child]
    by (auto simp del: json_zip_loop.simps)
  have "json_map_loop from_json m (List.map (\<lambda>f. (rf_name f, rf_ty f)) (rt_fields r)) rts [] =
      Inr (List.map json_normal_form vs, [])"
    using js ok
    by (subst json_map_loop_zip [where js = js]) (auto simp: hm_ok_def o_def)
  moreover have "vs \<noteq> []"
    using len ok by auto
  ultimately show ?case
    using t r j by (simp add: jvalue_to_ivalue.simps json_record_type_to_ivalue.simps nevec_new_def)
qed (auto simp: ivalue_to_json_scalar json_roundtrip_scalar split: if_splits)


fun bool_to_json :: "IValue \<Rightarrow> nat JValue" where
  "bool_to_json (IV_Boolean b) = JBool b"
| "bool_to_json (IV_String s) = JString s"
| "bool_to_json _ = JNull"


end
