(* ===== verification/Effects.thy ===== *)
theory Effects
  imports Prelude
begin

text \<open>
  Computations over a state that may return an error or panic: the shape of every operation of the
  runtime that works on the store.  The state a failed computation leaves is kept, since the code
  keeps it; a panic ends the whole computation.
\<close>

named_theorems eff_simps \<open>successful runs of composed computations\<close>

datatype 'a outcome = Returns 'a | Panics

type_synonym ('st, 'e, 'a) eff = "'st \<Rightarrow> ('e + 'a) outcome \<times> 'st"

definition returnM :: "'a \<Rightarrow> ('st, 'e, 'a) eff" where
  "returnM x = (\<lambda>st. (Returns (Inr x), st))"

definition failM :: "'e \<Rightarrow> ('st, 'e, 'a) eff" where
  "failM e = (\<lambda>st. (Returns (Inl e), st))"

definition panicM :: "('st, 'e, 'a) eff" where
  "panicM = (\<lambda>st. (Panics, st))"

definition bindM :: "('st, 'e, 'a) eff \<Rightarrow> ('a \<Rightarrow> ('st, 'e, 'b) eff) \<Rightarrow> ('st, 'e, 'b) eff" where
  "bindM m k = (\<lambda>st. case m st of
      (Returns (Inr x), st') \<Rightarrow> k x st'
    | (Returns (Inl e), st') \<Rightarrow> (Returns (Inl e), st')
    | (Panics, st') \<Rightarrow> (Panics, st'))"

definition map_errM :: "('e \<Rightarrow> 'g) \<Rightarrow> ('st, 'e, 'a) eff \<Rightarrow> ('st, 'g, 'a) eff" where
  "map_errM g m = (\<lambda>st. case m st of
      (Returns r, st') \<Rightarrow> (Returns (map_err g r), st')
    | (Panics, st') \<Rightarrow> (Panics, st'))"

text \<open>\<open>liftR\<close>: no effect; \<open>liftP\<close>: no effect, \<open>None\<close> is a panic; \<open>liftS\<close>: cannot panic.\<close>

definition liftR :: "'e + 'a \<Rightarrow> ('st, 'e, 'a) eff" where
  "liftR r = (\<lambda>st. (Returns r, st))"

definition liftP :: "'a option \<Rightarrow> ('st, 'e, 'a) eff" where
  "liftP x = (case x of None \<Rightarrow> panicM | Some a \<Rightarrow> returnM a)"

definition liftS :: "('st \<Rightarrow> ('e + 'a) \<times> 'st) \<Rightarrow> ('st, 'e, 'a) eff" where
  "liftS f = (\<lambda>st. case f st of (r, st') \<Rightarrow> (Returns r, st'))"

definition readM :: "('st \<Rightarrow> 'a) \<Rightarrow> ('st, 'e, 'a) eff" where
  "readM f = (\<lambda>st. (Returns (Inr (f st)), st))"

fun mapM :: "('a \<Rightarrow> ('st, 'e, 'b) eff) \<Rightarrow> 'a list \<Rightarrow> ('st, 'e, 'b list) eff" where
  "mapM f [] = returnM []"
| "mapM f (x # xs) = bindM (f x) (\<lambda>y. bindM (mapM f xs) (\<lambda>ys. returnM (y # ys)))"

fun foldM :: "('s \<Rightarrow> 'a \<Rightarrow> ('st, 'e, 's) eff) \<Rightarrow> 's \<Rightarrow> 'a list \<Rightarrow> ('st, 'e, 's) eff" where
  "foldM f s [] = returnM s"
| "foldM f s (x # xs) = bindM (f s x) (\<lambda>s. foldM f s xs)"

subsection \<open>Laws\<close>

lemma bindM_return [simp]: "bindM (returnM x) k = k x" "bindM m returnM = m"
  by (auto simp: bindM_def returnM_def fun_eq_iff split: prod.splits outcome.splits sum.splits)

lemma bindM_fail [simp]: "bindM (failM e) k = failM e"
  by (simp add: bindM_def failM_def)

lemma bindM_panic [simp]: "bindM panicM k = panicM"
  by (simp add: bindM_def panicM_def)

lemma bindM_assoc: "bindM (bindM m f) g = bindM m (\<lambda>x. bindM (f x) g)"
  by (auto simp: bindM_def fun_eq_iff split: prod.splits outcome.splits sum.splits)

lemma bindM_cong [fundef_cong]:
  "m = m' \<Longrightarrow> (\<And>st x st'. m' st = (Returns (Inr x), st') \<Longrightarrow> k x = k' x) \<Longrightarrow> bindM m k = bindM m' k'"
  by (auto simp: bindM_def fun_eq_iff split: prod.splits outcome.splits sum.splits)

lemma returnM_ok [eff_simps]: "returnM x st = (Returns (Inr y), st') \<longleftrightarrow> y = x \<and> st' = st"
  by (auto simp: returnM_def)

lemma failM_ok [eff_simps]: "failM e st = (Returns (Inr y), st') \<longleftrightarrow> False"
  by (auto simp: failM_def)

lemma panicM_ok [eff_simps]: "panicM st = (Returns r, st') \<longleftrightarrow> False"
  by (auto simp: panicM_def)

lemma bindM_ok [eff_simps]:
  "bindM m k st = (Returns (Inr y), st2) \<longleftrightarrow>
    (\<exists>x st1. m st = (Returns (Inr x), st1) \<and> k x st1 = (Returns (Inr y), st2))"
  by (auto simp: bindM_def split: prod.splits outcome.splits sum.splits)

lemma bindM_err [eff_simps]:
  "bindM m k st = (Returns (Inl e), st2) \<longleftrightarrow> m st = (Returns (Inl e), st2) \<or>
    (\<exists>x st1. m st = (Returns (Inr x), st1) \<and> k x st1 = (Returns (Inl e), st2))"
  by (auto simp: bindM_def split: prod.splits outcome.splits sum.splits)

lemma map_errM_ok [eff_simps]:
  "map_errM g m st = (Returns (Inr y), st') \<longleftrightarrow> m st = (Returns (Inr y), st')"
  by (auto simp: map_errM_def map_err_Inr split: prod.splits outcome.splits)

lemma liftR_ok [eff_simps]: "liftR r st = (Returns (Inr y), st') \<longleftrightarrow> r = Inr y \<and> st' = st"
  by (auto simp: liftR_def)

lemma liftP_ok [eff_simps]: "liftP x st = (Returns (Inr y), st') \<longleftrightarrow> x = Some y \<and> st' = st"
  by (auto simp: liftP_def panicM_def returnM_def split: option.splits)

lemma liftS_ok [eff_simps]: "liftS f st = (Returns (Inr y), st') \<longleftrightarrow> f st = (Inr y, st')"
  by (auto simp: liftS_def split: prod.splits)

lemma readM_ok [eff_simps]: "readM f st = (Returns (Inr y), st') \<longleftrightarrow> y = f st \<and> st' = st"
  by (auto simp: readM_def)

lemma mapM_ok_length: "mapM f xs st = (Returns (Inr ys), st') \<Longrightarrow> length ys = length xs"
  by (induction xs arbitrary: ys st) (auto simp: eff_simps)

text \<open>A relation every successful body establishes holds element by element.\<close>

lemma mapM_all2:
  assumes "mapM f xs st = (Returns (Inr ys), st')"
    and "\<And>x y st st'. x \<in> set xs \<Longrightarrow> f x st = (Returns (Inr y), st') \<Longrightarrow> R x y"
  shows "list_all2 R xs ys"
  using assms by (induction xs arbitrary: ys st) (auto simp: eff_simps)

text \<open>A transitive relation on states that every body respects holds across the loop.\<close>

lemma foldM_invariant:
  assumes "foldM f s xs st = (Returns (Inr t), st')" and "P s st"
    and "\<And>u x v st st'. x \<in> set xs \<Longrightarrow> P u st \<Longrightarrow> f u x st = (Returns (Inr v), st') \<Longrightarrow> P v st'"
  shows "P t st'"
  using assms
proof (induction xs arbitrary: s st)
  case (Cons x xs)
  obtain u st1 where u: "f s x st = (Returns (Inr u), st1)" "foldM f u xs st1 = (Returns (Inr t), st')"
    using Cons.prems(1) by (auto simp: eff_simps)
  have "P u st1"
    by (rule Cons.prems(3) [OF _ Cons.prems(2) u(1)]) simp
  then show ?case
    by (rule Cons.IH [OF u(2)]) (auto intro: Cons.prems(3))
qed (simp add: eff_simps)

subsection \<open>Frames\<close>

text \<open>A computation that leaves a part \<open>g\<close> of the state as it was, however it ends.\<close>

definition frame :: "('st \<Rightarrow> 'b) \<Rightarrow> ('st, 'e, 'a) eff \<Rightarrow> bool" where
  "frame g m \<longleftrightarrow> (\<forall>st. g (snd (m st)) = g st)"

lemma frameD: "frame g m \<Longrightarrow> m st = (r, st') \<Longrightarrow> g st' = g st"
  unfolding frame_def by (drule spec [of _ st]) simp

lemma frame_pure [intro, simp]: "frame g (\<lambda>st. (f st, st))"
  by (simp add: frame_def)

lemma frame_basic [intro, simp]:
  "frame g (returnM x)" "frame g (failM e)" "frame g panicM" "frame g (liftR r)" "frame g (readM f)"
  by (simp_all add: returnM_def failM_def panicM_def liftR_def readM_def)

lemma frame_liftP [intro, simp]: "frame g (liftP x)"
  by (simp add: liftP_def split: option.split)

lemma frame_map_errM [intro]: "frame g m \<Longrightarrow> frame g (map_errM h m)"
  by (simp add: frame_def map_errM_def split: prod.split outcome.split) (metis snd_conv)

lemma frame_liftS [intro]: "(\<And>st. g (snd (f st)) = g st) \<Longrightarrow> frame g (liftS f)"
  by (simp add: frame_def liftS_def split: prod.split) (metis snd_conv)

lemma frame_bindM [intro]: "frame g m \<Longrightarrow> (\<And>x. frame g (k x)) \<Longrightarrow> frame g (bindM m k)"
  by (simp add: frame_def bindM_def split: prod.split outcome.split sum.split) (metis snd_conv)

lemma frame_mapM [intro]: "(\<And>x. x \<in> set xs \<Longrightarrow> frame g (f x)) \<Longrightarrow> frame g (mapM f xs)"
  by (induction xs) auto

lemma frame_foldM [intro]: "(\<And>s x. x \<in> set xs \<Longrightarrow> frame g (f s x)) \<Longrightarrow> frame g (foldM f s xs)"
  by (induction xs arbitrary: s) auto

end
