(* ===== verification/HostImports.thy ===== *)
theory HostImports
  imports ItTypes WasmTypes Effects
begin

text \<open>
  Calls from a Wasm module to the host: \<open>core/src/host_imports/\<close>.  The reader, the writer and
  the array and record (de)serialisers of the package \<open>it_lilo\<close>, the UTF-8 conversions and
  the exports of the calling instance are parameters, collected in records.  \<open>'st\<close> is the
  store they work on.  A call that does not return because the code panics is
  \<open>Panics\<close>; errors of \<open>it_lilo\<close> are the types \<open>'li\<close> and \<open>'lo\<close>.
\<close>

definition ALLOCATE_FUNC_NAME :: string where "ALLOCATE_FUNC_NAME = ''allocate''"
definition SET_PTR_FUNC_NAME :: string where "SET_PTR_FUNC_NAME = ''set_result_ptr''"
definition SET_SIZE_FUNC_NAME :: string where "SET_SIZE_FUNC_NAME = ''set_result_size''"

datatype RecordResolvableError = RecordNotFound u64

datatype ('li, 'lo, 'utf) HostImportError =
    MismatchWValues WType WValue
  | MismatchWValuesCount
  | LifterError 'li
  | LowererError 'lo
  | HI_RecordNotFound RecordResolvableError
  | InvalidUTF8String 'utf

subsection \<open>Signatures\<close>

fun itype_arg_to_wtypes :: "IType \<Rightarrow> WType list" where
  "itype_arg_to_wtypes IT_F32 = [T_F32]"
| "itype_arg_to_wtypes IT_F64 = [T_F64]"
| "itype_arg_to_wtypes IT_I64 = [T_I64]"
| "itype_arg_to_wtypes IT_U64 = [T_I64]"
| "itype_arg_to_wtypes IT_String = [T_I32, T_I32]"
| "itype_arg_to_wtypes (IT_Array _) = [T_I32, T_I32]"
| "itype_arg_to_wtypes _ = [T_I32]"

definition itypes_args_to_wtypes :: "IType list \<Rightarrow> WType list" where
  "itypes_args_to_wtypes itypes = concat (List.map itype_arg_to_wtypes itypes)"

fun itype_output_to_wtypes :: "IType \<Rightarrow> WType list" where
  "itype_output_to_wtypes IT_F32 = [T_F32]"
| "itype_output_to_wtypes IT_F64 = [T_F64]"
| "itype_output_to_wtypes IT_I64 = [T_I64]"
| "itype_output_to_wtypes IT_U64 = [T_I64]"
| "itype_output_to_wtypes IT_String = []"
| "itype_output_to_wtypes (IT_Array _) = []"
| "itype_output_to_wtypes (IT_Record _) = []"
| "itype_output_to_wtypes _ = [T_I32]"

definition itypes_output_to_wtypes :: "IType list \<Rightarrow> WType list" where
  "itypes_output_to_wtypes itypes = concat (List.map itype_output_to_wtypes itypes)"

fun output_type_to_types :: "IType option \<Rightarrow> IType list" where
  "output_type_to_types (Some ty) = [ty]"
| "output_type_to_types None = []"

subsection \<open>Lifting\<close>

record ('st, 'li, 'utf) lifter =
  read_raw_u8_array :: "'st \<Rightarrow> u32 \<Rightarrow> u32 \<Rightarrow> 'li + u8 list"
  string_from_utf8 :: "u8 list \<Rightarrow> 'utf + string"
  array_lift_memory :: "'st \<Rightarrow> (u64 \<Rightarrow> RecordResolvableError + IRecordType) \<Rightarrow> IType \<Rightarrow> u32 \<Rightarrow> u32 \<Rightarrow>
    'li + IValue"
  record_lift_memory :: "'st \<Rightarrow> (u64 \<Rightarrow> RecordResolvableError + IRecordType) \<Rightarrow> IRecordType \<Rightarrow> u32 \<Rightarrow>
    'li + IValue"

definition resolve_record :: "IRecordTypes \<Rightarrow> u64 \<Rightarrow> RecordResolvableError + IRecordType" where
  "resolve_record record_types record_type_id =
    ok_or (RecordNotFound record_type_id) (hm_get record_type_id record_types)"

text \<open>\<open>next_wvalue!\<close> at each of the four Wasm types, on the rest of the iterator.\<close>

fun next_i32 :: "WValue list \<Rightarrow> ('li, 'lo, 'utf) HostImportError + (u32 \<times> WValue list)" where
  "next_i32 [] = Inl MismatchWValuesCount"
| "next_i32 (V_I32 v # ws) = Inr (v, ws)"
| "next_i32 (v # ws) = Inl (MismatchWValues T_I32 v)"

fun next_i64 :: "WValue list \<Rightarrow> ('li, 'lo, 'utf) HostImportError + (u64 \<times> WValue list)" where
  "next_i64 [] = Inl MismatchWValuesCount"
| "next_i64 (V_I64 v # ws) = Inr (v, ws)"
| "next_i64 (v # ws) = Inl (MismatchWValues T_I64 v)"

fun next_f32 :: "WValue list \<Rightarrow> ('li, 'lo, 'utf) HostImportError + (u32 \<times> WValue list)" where
  "next_f32 [] = Inl MismatchWValuesCount"
| "next_f32 (V_F32 v # ws) = Inr (v, ws)"
| "next_f32 (v # ws) = Inl (MismatchWValues T_F32 v)"

fun next_f64 :: "WValue list \<Rightarrow> ('li, 'lo, 'utf) HostImportError + (u64 \<times> WValue list)" where
  "next_f64 [] = Inl MismatchWValuesCount"
| "next_f64 (V_F64 v # ws) = Inr (v, ws)"
| "next_f64 (v # ws) = Inl (MismatchWValues T_F64 v)"

definition simple :: "('a \<Rightarrow> IValue) \<Rightarrow> 'e + ('a \<times> WValue list) \<Rightarrow> 'e + (IValue \<times> WValue list)" where
  "simple c r = bindR r (\<lambda>(w, ws). Inr (c w, ws))"

text \<open>One iteration of the loop: the value of one argument and the rest of the iterator.\<close>

fun lift_one :: "('st, 'li, 'utf) lifter \<Rightarrow> 'st \<Rightarrow> IRecordTypes \<Rightarrow> IType \<Rightarrow> WValue list \<Rightarrow>
    ('li, 'lo, 'utf) HostImportError + (IValue \<times> WValue list)" where
  "lift_one l st rts IT_Boolean ws = simple (\<lambda>w. IV_Boolean (w \<noteq> 0)) (next_i32 ws)"
| "lift_one l st rts IT_S8 ws = simple (\<lambda>w. IV_S8 (ucast w)) (next_i32 ws)"
| "lift_one l st rts IT_S16 ws = simple (\<lambda>w. IV_S16 (ucast w)) (next_i32 ws)"
| "lift_one l st rts IT_S32 ws = simple IV_S32 (next_i32 ws)"
| "lift_one l st rts IT_S64 ws = simple IV_S64 (next_i64 ws)"
| "lift_one l st rts IT_U8 ws = simple (\<lambda>w. IV_U8 (ucast w)) (next_i32 ws)"
| "lift_one l st rts IT_U16 ws = simple (\<lambda>w. IV_U16 (ucast w)) (next_i32 ws)"
| "lift_one l st rts IT_U32 ws = simple IV_U32 (next_i32 ws)"
| "lift_one l st rts IT_U64 ws = simple IV_U64 (next_i64 ws)"
| "lift_one l st rts IT_I32 ws = simple IV_I32 (next_i32 ws)"
| "lift_one l st rts IT_I64 ws = simple IV_I64 (next_i64 ws)"
| "lift_one l st rts IT_F32 ws = simple IV_F32 (next_f32 ws)"
| "lift_one l st rts IT_F64 ws = simple IV_F64 (next_f64 ws)"
| "lift_one l st rts IT_String ws =
    bindR (next_i32 ws) (\<lambda>(offset, ws).
    bindR (next_i32 ws) (\<lambda>(sz, ws).
    bindR (map_err LifterError (read_raw_u8_array l st offset sz)) (\<lambda>raw_str.
    bindR (map_err InvalidUTF8String (string_from_utf8 l raw_str)) (\<lambda>str.
    Inr (IV_String str, ws)))))"
| "lift_one l st rts IT_ByteArray ws =
    bindR (next_i32 ws) (\<lambda>(offset, ws).
    bindR (next_i32 ws) (\<lambda>(sz, ws).
    bindR (map_err LifterError (read_raw_u8_array l st offset sz)) (\<lambda>array.
    Inr (IV_ByteArray array, ws))))"
| "lift_one l st rts (IT_Array ty) ws =
    bindR (next_i32 ws) (\<lambda>(offset, ws).
    bindR (next_i32 ws) (\<lambda>(sz, ws).
    bindR (map_err LifterError (array_lift_memory l st (resolve_record rts) ty offset sz)) (\<lambda>array.
    Inr (array, ws))))"
| "lift_one l st rts (IT_Record record_type_id) ws =
    bindR (map_err HI_RecordNotFound (resolve_record rts record_type_id)) (\<lambda>record_type.
    bindR (next_i32 ws) (\<lambda>(offset, ws).
    bindR (map_err LifterError (record_lift_memory l st (resolve_record rts) record_type offset))
      (\<lambda>r. Inr (r, ws))))"

fun wvalues_to_ivalues :: "('st, 'li, 'utf) lifter \<Rightarrow> 'st \<Rightarrow> IRecordTypes \<Rightarrow> WValue list \<Rightarrow> IType list \<Rightarrow>
    ('li, 'lo, 'utf) HostImportError + IValue list" where
  "wvalues_to_ivalues l st rts ws [] = Inr []"
| "wvalues_to_ivalues l st rts ws (t # ts) =
    bindR (lift_one l st rts t ws) (\<lambda>(v, ws').
    bindR (wvalues_to_ivalues l st rts ws' ts) (\<lambda>vs. Inr (v # vs)))"

definition lift_inputs :: "('st, 'li, 'utf) lifter \<Rightarrow> 'st \<Rightarrow> IRecordTypes \<Rightarrow> WValue list \<Rightarrow> IType list \<Rightarrow>
    ('li, 'lo, 'utf) HostImportError + IValue list" where
  "lift_inputs l st record_types inputs argument_types =
    wvalues_to_ivalues l st record_types inputs argument_types"

subsection \<open>Lowering\<close>

text \<open>A lowering operation may have called the allocator before it fails, so the store is
  returned in both cases.  \<open>alloc\<close> is the \<open>Allocatable\<close> implementation of the lowerer.\<close>

type_synonym ('st, 'e, 'a) lowering = "'st \<Rightarrow> ('e + 'a) \<times> 'st"
type_synonym ('st, 'x) allocator = "'st \<Rightarrow> u32 \<Rightarrow> u32 \<Rightarrow> ('x RuntimeError + u32) \<times> 'st"

record ('st, 'lo, 'x) lowerer =
  lowerer_new :: "('st, 'lo, unit) lowering"
  str_as_bytes :: "string \<Rightarrow> u8 list"
  write_bytes :: "('st, 'x) allocator \<Rightarrow> u8 list \<Rightarrow> ('st, 'lo, u32) lowering"
  array_lower_memory :: "('st, 'x) allocator \<Rightarrow> IValue list \<Rightarrow> ('st, 'lo, u32 \<times> u32) lowering"
  record_lower_memory :: "('st, 'x) allocator \<Rightarrow> IValue list \<Rightarrow> ('st, 'lo, u32) lowering"

text \<open>\<open>LoHelper::allocate\<close>: one call of the module's allocator with the size and the type tag; the
  offset it returns is read unsigned.\<close>

definition lo_allocate :: "('st \<Rightarrow> u32 \<times> u32 \<Rightarrow> ('x RuntimeError + u32) \<times> 'st) \<Rightarrow> ('st, 'x) allocator" where
  "lo_allocate allocate_func st sz type_tag = allocate_func st (sz, type_tag)"

fun map_result :: "('e \<Rightarrow> 'f) \<Rightarrow> ('a \<Rightarrow> 'b) \<Rightarrow> ('e + 'a) \<times> 'st \<Rightarrow> ('f + 'b) \<times> 'st" where
  "map_result g f (Inl e, st) = (Inl (g e), st)"
| "map_result g f (Inr x, st) = (Inr (f x), st)"

fun ivalue_to_wvalues :: "('st, 'lo, 'x) lowerer \<Rightarrow> ('st, 'x) allocator \<Rightarrow> IValue option \<Rightarrow>
    ('st, ('li, 'lo, 'utf) HostImportError, WValue list) lowering" where
  "ivalue_to_wvalues l a (Some (IV_Boolean v)) st = (Inr [V_I32 (if v then 1 else 0)], st)"
| "ivalue_to_wvalues l a (Some (IV_S8 v)) st = (Inr [V_I32 (scast v)], st)"
| "ivalue_to_wvalues l a (Some (IV_S16 v)) st = (Inr [V_I32 (scast v)], st)"
| "ivalue_to_wvalues l a (Some (IV_S32 v)) st = (Inr [V_I32 v], st)"
| "ivalue_to_wvalues l a (Some (IV_S64 v)) st = (Inr [V_I64 v], st)"
| "ivalue_to_wvalues l a (Some (IV_U8 v)) st = (Inr [V_I32 (ucast v)], st)"
| "ivalue_to_wvalues l a (Some (IV_U16 v)) st = (Inr [V_I32 (ucast v)], st)"
| "ivalue_to_wvalues l a (Some (IV_U32 v)) st = (Inr [V_I32 v], st)"
| "ivalue_to_wvalues l a (Some (IV_U64 v)) st = (Inr [V_I64 v], st)"
| "ivalue_to_wvalues l a (Some (IV_I32 v)) st = (Inr [V_I32 v], st)"
| "ivalue_to_wvalues l a (Some (IV_I64 v)) st = (Inr [V_I64 v], st)"
| "ivalue_to_wvalues l a (Some (IV_F32 v)) st = (Inr [V_F32 v], st)"
| "ivalue_to_wvalues l a (Some (IV_F64 v)) st = (Inr [V_F64 v], st)"
| "ivalue_to_wvalues l a (Some (IV_String str)) st =
    map_result LowererError
      (\<lambda>offset. [V_I32 offset, V_I32 (word_of_nat (length (str_as_bytes l str)))])
      (write_bytes l a (str_as_bytes l str) st)"
| "ivalue_to_wvalues l a (Some (IV_ByteArray array)) st =
    map_result LowererError (\<lambda>offset. [V_I32 offset, V_I32 (word_of_nat (length array))])
      (write_bytes l a array st)"
| "ivalue_to_wvalues l a (Some (IV_Array values)) st =
    map_result LowererError (\<lambda>(offset, sz). [V_I32 offset, V_I32 sz])
      (array_lower_memory l a values st)"
| "ivalue_to_wvalues l a (Some (IV_Record values)) st =
    map_result LowererError (\<lambda>offset. [V_I32 offset]) (record_lower_memory l a values st)"
| "ivalue_to_wvalues l a None st = (Inr [], st)"

subsection \<open>The call\<close>

text \<open>What the host import sees of its caller: the memory of the calling instance, and its
  exports at the two types the code asks for.\<close>

record ('st, 'x) import_ctx =
  ic_memory :: "'st \<Rightarrow> u32 \<Rightarrow> bool"
  ic_get_alloc :: "'st \<Rightarrow> string \<Rightarrow>
    'x ResolveError + ('st \<Rightarrow> u32 \<times> u32 \<Rightarrow> ('x RuntimeError + u32) \<times> 'st)"
  ic_get_setter :: "'st \<Rightarrow> string \<Rightarrow> 'x ResolveError + ('st \<Rightarrow> u32 \<Rightarrow> ('x RuntimeError + unit) \<times> 'st)"

text \<open>\<open>call_wasm_func!\<close> unwraps the result of the call.\<close>

fun call_setter :: "('st \<Rightarrow> u32 \<Rightarrow> ('x RuntimeError + unit) \<times> 'st) \<Rightarrow> u32 \<Rightarrow>
    ('st \<Rightarrow> 'a outcome \<times> 'st) \<Rightarrow> 'st \<Rightarrow> 'a outcome \<times> 'st" where
  "call_setter f x k st = (case f st x of (Inl e, st') \<Rightarrow> (Panics, st') | (Inr _, st') \<Rightarrow> k st')"

fun is_record :: "IValue option \<Rightarrow> bool" where
  "is_record (Some (IV_Record _)) = True"
| "is_record _ = False"

text \<open>The error path of \<open>lower_outputs\<close>: zero pointer, zero size, and one zero as the result.\<close>

definition lower_failed :: "('st, 'x) import_ctx \<Rightarrow> 'st \<Rightarrow> WValue list outcome \<times> 'st" where
  "lower_failed c st =
    (case ic_get_setter c st SET_PTR_FUNC_NAME of
       Inl _ \<Rightarrow> (Returns [V_I32 4], st)
     | Inr set_ptr \<Rightarrow> (case ic_get_setter c st SET_SIZE_FUNC_NAME of
         Inl _ \<Rightarrow> (Returns [V_I32 4], st)
       | Inr set_size \<Rightarrow>
           call_setter set_ptr 0 (call_setter set_size 0 (\<lambda>st. (Returns [V_I32 0], st))) st))"

definition lower_returned :: "('st, 'x) import_ctx \<Rightarrow> bool \<Rightarrow> WValue list \<Rightarrow> 'st \<Rightarrow>
    WValue list outcome \<times> 'st" where
  "lower_returned c isrec wvalues st =
    (case wvalues of
       [p, n] \<Rightarrow>
        (case ic_get_setter c st SET_PTR_FUNC_NAME of
           Inl _ \<Rightarrow> (Returns [V_I32 4], st)
         | Inr set_ptr \<Rightarrow> (case ic_get_setter c st SET_SIZE_FUNC_NAME of
             Inl _ \<Rightarrow> (Returns [V_I32 4], st)
           | Inr set_size \<Rightarrow>
               call_setter set_ptr (ucast (wvalue_to_u128 p))
                 (call_setter set_size (ucast (wvalue_to_u128 n)) (\<lambda>st. (Returns [], st))) st))
     | [p] \<Rightarrow>
        (if isrec
         then (case ic_get_setter c st SET_PTR_FUNC_NAME of
                 Inl _ \<Rightarrow> (Returns [V_I32 3], st)
               | Inr set_ptr \<Rightarrow>
                   call_setter set_ptr (ucast (wvalue_to_u128 p)) (\<lambda>st. (Returns [], st)) st)
         else (Returns [p], st))
     | [] \<Rightarrow> (Returns [], st)
     | _ \<Rightarrow> (Panics, st))"

definition lower_outputs :: "('st, 'lo, 'x) lowerer \<Rightarrow> ('st, 'x) import_ctx \<Rightarrow> IValue option \<Rightarrow> 'st \<Rightarrow>
    WValue list outcome \<times> 'st" where
  "lower_outputs l c output st =
    (case ic_get_alloc c st ALLOCATE_FUNC_NAME of
       Inl _ \<Rightarrow> (Returns [V_I32 2], st)
     | Inr allocate_func \<Rightarrow>
        (let (lowering_result, st) =
           (case lowerer_new l st of
              (Inr _, st) \<Rightarrow> ivalue_to_wvalues l (lo_allocate allocate_func) output st
            | (Inl e, st) \<Rightarrow> (Inl (LowererError e :: (unit, 'lo, unit) HostImportError), st))
         in case lowering_result of
              Inr wvalues \<Rightarrow> lower_returned c (is_record output) wvalues st
            | Inl _ \<Rightarrow> lower_failed c st))"

definition STANDARD_MEMORY_INDEX :: u32 where "STANDARD_MEMORY_INDEX = 0"

record ('st, 'li, 'lo, 'utf) HostImportDescriptor =
  host_exported_func :: "'st \<Rightarrow> IValue list \<Rightarrow> IValue option outcome \<times> 'st"
  argument_types :: "IType list"
  output_type :: "IType option"
  error_handler :: "(('li, 'lo, 'utf) HostImportError \<Rightarrow> IValue option) option"

definition call_host_import :: "('st, 'li, 'utf) lifter \<Rightarrow> ('st, 'lo, 'x) lowerer \<Rightarrow>
    ('st, 'x) import_ctx \<Rightarrow> ('st, 'li, 'lo, 'utf) HostImportDescriptor \<Rightarrow> IRecordTypes \<Rightarrow>
    WValue list \<Rightarrow> 'st \<Rightarrow> WValue list outcome \<times> 'st" where
  "call_host_import li lo c descriptor record_types inputs st =
    (if \<not> ic_memory c st STANDARD_MEMORY_INDEX then (Panics, st)
     else (case lift_inputs li st record_types inputs (argument_types descriptor) of
       Inr ivalues \<Rightarrow>
         (case host_exported_func descriptor st ivalues of
            (Returns output, st) \<Rightarrow> lower_outputs lo c output st
          | (Panics, st) \<Rightarrow> (Panics, st))
     | Inl e \<Rightarrow>
         (case error_handler descriptor of
            None \<Rightarrow> (Panics, st)
          | Some h \<Rightarrow> lower_outputs lo c (h e) st)))"

text \<open>The signature under which the import is registered.\<close>

definition host_import_signature :: "('st, 'li, 'lo, 'utf) HostImportDescriptor \<Rightarrow> FuncSig" where
  "host_import_signature descriptor =
    FuncSig_new (itypes_args_to_wtypes (argument_types descriptor))
      (itypes_output_to_wtypes (output_type_to_types (output_type descriptor)))"

subsection \<open>Lifting consumes what the signature declares\<close>

fun is_mismatch :: "('li, 'lo, 'utf) HostImportError \<Rightarrow> bool" where
  "is_mismatch (MismatchWValues _ _) = True"
| "is_mismatch MismatchWValuesCount = True"
| "is_mismatch _ = False"

lemma wvalue_type_simps [simp]:
  "wvalue_type w = T_I32 \<longleftrightarrow> (\<exists>x. w = V_I32 x)"
  "wvalue_type w = T_I64 \<longleftrightarrow> (\<exists>x. w = V_I64 x)"
  "wvalue_type w = T_F32 \<longleftrightarrow> (\<exists>x. w = V_F32 x)"
  "wvalue_type w = T_F64 \<longleftrightarrow> (\<exists>x. w = V_F64 x)"
  by (cases w; simp)+

lemma simple_simps [simp]:
  "simple c (Inr (w, ws)) = Inr (c w, ws)" "simple c (Inl e) = Inl e"
  by (simp_all add: simple_def)

text \<open>Two types are declared in one way and converted in another: a byte array is declared as one
  \<open>i32\<close> but takes a pointer and a size, and a signed 64-bit integer is declared as an \<open>i32\<close>
  but is an \<open>i64\<close>.\<close>

definition declared_as_converted :: "IType \<Rightarrow> bool" where
  "declared_as_converted t \<longleftrightarrow> t \<noteq> IT_ByteArray \<and> t \<noteq> IT_S64"

lemma lift_one_declared:
  fixes r :: "('li, 'lo, 'utf) HostImportError + (IValue \<times> WValue list)"
  assumes "declared_as_converted t" and "List.map wvalue_type us = itype_arg_to_wtypes t"
    and "r = lift_one l st rts t (us @ ws)"
  shows "(\<exists>v. r = Inr (v, ws)) \<or> (\<exists>e. r = Inl e \<and> \<not> is_mismatch e)"
proof (cases t)
  case IT_String
  then obtain p n where "us = [V_I32 p, V_I32 n]"
    using assms by (auto simp: map_eq_Cons_conv)
  then show ?thesis
    using IT_String assms
    by (cases "read_raw_u8_array l st p n"; cases "string_from_utf8 l (projr (read_raw_u8_array l st p n))")
      auto
next
  case (IT_Array u)
  then obtain p n where "us = [V_I32 p, V_I32 n]"
    using assms by (auto simp: map_eq_Cons_conv)
  then show ?thesis
    using IT_Array assms
    by (cases "array_lift_memory l st (resolve_record rts) u p n") auto
next
  case (IT_Record i)
  then obtain p where "us = [V_I32 p]"
    using assms by (auto simp: map_eq_Cons_conv)
  then show ?thesis
    using IT_Record assms
    by (cases "resolve_record rts i";
        cases "record_lift_memory l st (resolve_record rts) (projr (resolve_record rts i)) p") auto
qed (use assms in \<open>auto simp: map_eq_Cons_conv declared_as_converted_def\<close>)


definition no_lifter :: "('st, string, string) lifter" where
  "no_lifter = \<lparr>read_raw_u8_array = (\<lambda>st p n. Inl ''read''), string_from_utf8 = (\<lambda>bs. Inl ''utf''),
    array_lift_memory = (\<lambda>st r t p n. Inl ''array''), record_lift_memory = (\<lambda>st r t p. Inl ''record'')\<rparr>"




subsection \<open>Values cross the boundary unchanged\<close>

lemma ucast_scast_narrow [simp]:
  "ucast (scast v :: u32) = v" for v :: u8
  by (rule bit_word_eqI) (auto simp: bit_simps)

lemma ucast_scast_narrow' [simp]:
  "ucast (scast v :: u32) = v" for v :: u16
  by (rule bit_word_eqI) (auto simp: bit_simps)

lemma ucast_ucast_narrow [simp]:
  "ucast (ucast v :: u32) = v" for v :: u8
  by (rule bit_word_eqI) (auto simp: bit_simps)

lemma ucast_ucast_narrow' [simp]:
  "ucast (ucast v :: u32) = v" for v :: u16
  by (rule bit_word_eqI) (auto simp: bit_simps)

lemma ucast_to_u128 [simp]:
  "ucast (wvalue_to_u128 (V_I32 x)) = x"
  by (simp, rule bit_word_eqI) (auto simp: bit_simps)

text \<open>C36: A boolean or number the host returns at type \<open>t\<close> is lifted, as an argument of type \<open>t\<close>, to
  the same value: sign and zero extension are undone by the truncation, and nothing is written
  to the store.\<close>

theorem scalars_cross_the_boundary:
  assumes "ivalue_has_scalar_type v t" and "t \<noteq> IT_String"
  shows "\<exists>ws. ivalue_to_wvalues lo a (Some v) st = (Inr ws, st) \<and> length ws = 1 \<and>
    lift_inputs li st' rts ws [t] = Inr [v]"
  using assms by (cases v) (simp_all add: lift_inputs_def)

definition no_alloc :: "('st, unit) allocator" where
  "no_alloc st n tag = (Inl (RT_Other (Any_Other ())), st)"

definition no_lowerer :: "('st, string, unit) lowerer" where
  "no_lowerer = \<lparr>lowerer_new = (\<lambda>st. (Inr (), st)), str_as_bytes = List.map of_char,
    write_bytes = (\<lambda>a bs st. (Inl ''write'', st)),
    array_lower_memory = (\<lambda>a vs st. (Inl ''array'', st)),
    record_lower_memory = (\<lambda>a vs st. (Inl ''record'', st))\<rparr>"

lemma scalars_cross_the_boundary_witness:
  "\<exists>ws. (ivalue_to_wvalues no_lowerer no_alloc (Some (IV_S8 (-3))) () =
      (Inr ws :: (unit, string, unit) HostImportError + WValue list, ())) \<and> length ws = 1 \<and>
    lift_inputs no_lifter () [] ws [IT_S8] =
      (Inr [IV_S8 (-3)] :: (string, unit, string) HostImportError + IValue list)"
  using scalars_cross_the_boundary [of "IV_S8 (-3)" IT_S8] by simp

subsection \<open>What the module gets back\<close>

lemma call_setter_Returns:
  "call_setter f x k st = (Returns ws, st') \<Longrightarrow> \<exists>st1. f st x = (Inr (), st1) \<and> k st1 = (Returns ws, st')"
  by (auto split: prod.splits sum.splits)

lemma lower_failed_codes:
  "lower_failed c st = (Returns ws, st') \<Longrightarrow> ws = [V_I32 0] \<or> ws = [V_I32 4]"
  by (auto simp: lower_failed_def simp del: call_setter.simps dest!: call_setter_Returns
      split: sum.splits)

lemma lower_returned_pair:
  "lower_returned c b [p, n] st = (Returns ws, st') \<Longrightarrow> ws = [] \<or> ws = [V_I32 4]"
  by (auto simp: lower_returned_def simp del: call_setter.simps dest!: call_setter_Returns
      split: sum.splits)

lemma lower_returned_record:
  "lower_returned c True [p] st = (Returns ws, st') \<Longrightarrow> ws = [] \<or> ws = [V_I32 3]"
  by (auto simp: lower_returned_def simp del: call_setter.simps dest!: call_setter_Returns
      split: sum.splits)

lemma map_result_Inr:
  "map_result g f r = (Inr y, st) \<Longrightarrow> \<exists>x. r = (Inr x, st) \<and> y = f x"
  by (cases "(g, f, r)" rule: map_result.cases) auto

fun passed_by_pair :: "IValue \<Rightarrow> bool" where
  "passed_by_pair (IV_String _) = True"
| "passed_by_pair (IV_ByteArray _) = True"
| "passed_by_pair (IV_Array _) = True"
| "passed_by_pair _ = False"

definition error_code :: "WValue list \<Rightarrow> bool" where
  "error_code ws \<longleftrightarrow> ws \<in> {[V_I32 0], [V_I32 2], [V_I32 3], [V_I32 4]}"

lemma lowered_pair:
  "ivalue_to_wvalues l a (Some v) st = (Inr ws, st') \<Longrightarrow> passed_by_pair v \<Longrightarrow> \<exists>p n. ws = [p, n]"
  by (cases v) (auto dest!: map_result_Inr)

lemma pair_result:
  assumes "ivalue_to_wvalues l a (Some v) st = (Inr wvalues, st1)" and "passed_by_pair v"
    and "lower_returned c b wvalues st1 = (Returns ws, st')"
  shows "ws = [] \<or> error_code ws"
  using lowered_pair [OF assms(1,2)] assms(3) lower_returned_pair by (fastforce simp: error_code_def)

lemma lowered_record:
  "ivalue_to_wvalues l a (Some v) st = (Inr ws, st') \<Longrightarrow> is_record (Some v) \<Longrightarrow> \<exists>p. ws = [p]"
  by (cases v) (auto dest!: map_result_Inr)

lemma lowered_scalar:
  assumes "ivalue_to_wvalues l a (Some v) st = (Inr ws, st')"
    and "ivalue_has_scalar_type v t" and "t \<noteq> IT_String" and "declared_as_converted t"
  shows "\<exists>w. ws = [w] \<and> \<not> is_record (Some v) \<and> itype_output_to_wtypes t = [wvalue_type w]"
  using assms by (cases v) (auto simp: declared_as_converted_def)

lemma lower_outputs_cases:
  assumes "lower_outputs l c output st = (Returns ws, st')"
  obtains "ws = [V_I32 2]" | st1 where "lower_failed c st1 = (Returns ws, st')"
  | al st1 st2 wvalues where
      "(ivalue_to_wvalues l (lo_allocate al) output st1 :: ((unit, 'lo, unit) HostImportError + _) \<times> _) =
         (Inr wvalues, st2)"
      "lower_returned c (is_record output) wvalues st2 = (Returns ws, st')"
  using assms by (auto simp: lower_outputs_def Let_def split: sum.splits prod.splits)


definition no_exports :: "('st, unit) import_ctx" where
  "no_exports = \<lparr>ic_memory = (\<lambda>st i. True), ic_get_alloc = (\<lambda>st n. Inl (ExportNotFound n)),
    ic_get_setter = (\<lambda>st n. Inl (ExportNotFound n))\<rparr>"

text \<open>An instance whose store is the list of the calls it has seen.\<close>

definition logging_exports :: "(string \<times> u32) list \<Rightarrow> ((string \<times> u32) list, unit) import_ctx" where
  "logging_exports l = \<lparr>ic_memory = (\<lambda>st i. True),
    ic_get_alloc = (\<lambda>st n. Inr (\<lambda>st (sz, tag). (Inr 64, st @ [(n, sz)]))),
    ic_get_setter = (\<lambda>st n. Inr (\<lambda>st x. (Inr (), st @ [(n, x)])))\<rparr>"

definition writing_lowerer :: "((string \<times> u32) list, string, unit) lowerer" where
  "writing_lowerer = no_lowerer\<lparr>write_bytes := (\<lambda>a bs st.
      case a st (word_of_nat (length bs)) 0 of
        (Inl _, st) \<Rightarrow> (Inl ''alloc'', st) | (Inr off, st) \<Rightarrow> (Inr off, st))\<rparr>"

lemmas witness_defs = no_lowerer_def no_exports_def logging_exports_def writing_lowerer_def
  lower_outputs_def lower_returned_def lower_failed_def lo_allocate_def
  ALLOCATE_FUNC_NAME_def SET_PTR_FUNC_NAME_def SET_SIZE_FUNC_NAME_def

lemma string_result_example:
  "lower_outputs writing_lowerer (logging_exports []) (Some (IV_String ''abc'')) [] =
    (Returns [], [(''allocate'', 3), (''set_result_ptr'', 64), (''set_result_size'', 3)])"
  by (simp add: witness_defs)


end
