(* ===== verification/MitInterfaces.thy ===== *)
theory MitInterfaces
  imports ItTypes
begin

text \<open>
  The interface-types section of a module and its indices:
  \<open>crates/it-interfaces/src/{mit_interfaces,errors}.rs\<close>.  \<open>Interfaces\<close>, its entries and
  \<open>Instruction\<close> are declared by the package \<open>wasmer_it\<close>: the fields are those the sources read
  and the instructions those the sources emit.  The iterator of a multi map yields each key
  with its first value.
\<close>

datatype AstType = Ast_Function "FunctionArg list" "IType list" | Ast_Record IRecordType

datatype Instruction =
    ArgumentGet u32 | CallCore u32 | PushI32 u32 | Dup | Swap2
  | BoolFromI32 | S8FromI32 | S16FromI32 | S32FromI32 | S64FromI64
  | U8FromI32 | U16FromI32 | U32FromI32 | U64FromI64
  | I32FromBool | I32FromS8 | I32FromS16 | I32FromS32 | I64FromS64
  | I32FromU8 | I32FromU16 | I32FromU32 | I64FromU64
  | StringSize | StringLiftMemory | StringLowerMemory
  | ByteArrayLiftMemory
  | ArrayLiftMemory IType | ArrayLowerMemory IType
  | RecordLiftMemory u32 | RecordLowerMemory u32

record Import =
  im_namespace :: string
  im_name :: string
  im_function_type :: u32

record Export =
  ex_name :: string
  ex_function_type :: u32

record Adapter =
  ad_function_type :: u32
  ad_instructions :: "Instruction list"

record Implementation =
  ip_core_function_type :: u32
  ip_adapter_function_type :: u32

record Interfaces =
  if_types :: "AstType list"
  if_imports :: "Import list"
  if_adapters :: "Adapter list"
  if_exports :: "Export list"
  if_implementations :: "Implementation list"

datatype MITInterfacesError =
    NoSuchType u32 | NoSuchExport u32 | NoSuchImport u32 | NoSuchAdapter u32

record MITInterfaces =
  mit_types :: "AstType list"
  mit_imports :: "Import list"
  core_type_to_imports :: "(u32, string \<times> string) multimap"
  mit_adapters :: "(u32, Instruction list) hmap"
  mit_exports :: "Export list"
  core_type_to_exports :: "(u32, string) multimap"
  adapter_type_to_core :: "(u32, u32) multimap"
  core_type_to_adapter :: "(u32, u32) multimap"

definition collect_multimap :: "('k \<times> 'v) list \<Rightarrow> ('k, 'v) multimap" where
  "collect_multimap ps = foldl (\<lambda>m (k, v). mm_insert k v m) [] ps"

definition collect_hmap :: "('k \<times> 'v) list \<Rightarrow> ('k, 'v) hmap" where
  "collect_hmap ps = foldl (\<lambda>m (k, v). hm_insert k v m) [] ps"

definition MITInterfaces_new :: "Interfaces \<Rightarrow> MITInterfaces" where
  "MITInterfaces_new i =
    \<lparr>mit_types = if_types i,
     mit_imports = if_imports i,
     core_type_to_imports =
       collect_multimap (List.map (\<lambda>x. (im_function_type x, (im_namespace x, im_name x))) (if_imports i)),
     mit_adapters =
       collect_hmap (List.map (\<lambda>a. (ad_function_type a, ad_instructions a)) (if_adapters i)),
     mit_exports = if_exports i,
     core_type_to_exports =
       collect_multimap (List.map (\<lambda>e. (ex_function_type e, ex_name e)) (if_exports i)),
     adapter_type_to_core =
       collect_multimap (List.map (\<lambda>p. (ip_adapter_function_type p, ip_core_function_type p))
         (if_implementations i)),
     core_type_to_adapter =
       collect_multimap (List.map (\<lambda>p. (ip_core_function_type p, ip_adapter_function_type p))
         (if_implementations i))\<rparr>"

definition record_types :: "MITInterfaces \<Rightarrow> (u64 \<times> IRecordType) list" where
  "record_types mit = List.map_filter
    (\<lambda>(i, t). case t of Ast_Record r \<Rightarrow> Some (word_of_nat i, r) | Ast_Function _ _ \<Rightarrow> None)
    (enumerate 0 (mit_types mit))"

definition type_by_idx :: "MITInterfaces \<Rightarrow> u32 \<Rightarrow> AstType option" where
  "type_by_idx mit idx = (if unat idx < length (mit_types mit) then Some (mit_types mit ! unat idx) else None)"

definition type_by_idx_r :: "MITInterfaces \<Rightarrow> u32 \<Rightarrow> MITInterfacesError + AstType" where
  "type_by_idx_r mit idx = ok_or (NoSuchType idx) (type_by_idx mit idx)"

definition imports_by_type :: "MITInterfaces \<Rightarrow> u32 \<Rightarrow> (string \<times> string) list option" where
  "imports_by_type mit import_type = mm_get_vec import_type (core_type_to_imports mit)"

definition imports_by_type_r :: "MITInterfaces \<Rightarrow> u32 \<Rightarrow> MITInterfacesError + (string \<times> string) list" where
  "imports_by_type_r mit import_type =
    ok_or (NoSuchImport import_type) (mm_get_vec import_type (core_type_to_imports mit))"

definition adapter_by_type :: "MITInterfaces \<Rightarrow> u32 \<Rightarrow> Instruction list option" where
  "adapter_by_type mit adapter_type = hm_get adapter_type (mit_adapters mit)"

definition adapter_by_type_r :: "MITInterfaces \<Rightarrow> u32 \<Rightarrow> MITInterfacesError + Instruction list" where
  "adapter_by_type_r mit adapter_type =
    ok_or (NoSuchAdapter adapter_type) (hm_get adapter_type (mit_adapters mit))"

definition exports_by_type :: "MITInterfaces \<Rightarrow> u32 \<Rightarrow> string list option" where
  "exports_by_type mit export_type = mm_get_vec export_type (core_type_to_exports mit)"

definition exports_by_type_r :: "MITInterfaces \<Rightarrow> u32 \<Rightarrow> MITInterfacesError + string list" where
  "exports_by_type_r mit export_type =
    ok_or (NoSuchImport export_type) (mm_get_vec export_type (core_type_to_exports mit))"

definition implementations :: "MITInterfaces \<Rightarrow> (u32 \<times> u32) list" where
  "implementations mit = List.map (\<lambda>(k, vs). (k, hd vs)) (adapter_type_to_core mit)"

definition adapter_types_by_core_type :: "MITInterfaces \<Rightarrow> u32 \<Rightarrow> u32 list option" where
  "adapter_types_by_core_type mit core = mm_get_vec core (core_type_to_adapter mit)"

definition core_types_by_adapter_type :: "MITInterfaces \<Rightarrow> u32 \<Rightarrow> u32 list option" where
  "core_types_by_adapter_type mit adapter = mm_get_vec adapter (adapter_type_to_core mit)"

subsection \<open>The indices are the relations of the section\<close>

lemma collect_multimap_snoc:
  "collect_multimap (ps @ [(k, v)]) = mm_insert k v (collect_multimap ps)"
  by (simp add: collect_multimap_def)

lemma collect_hmap_snoc: "collect_hmap (ps @ [(k, v)]) = hm_insert k v (collect_hmap ps)"
  by (simp add: collect_hmap_def)

lemma hm_ok_collect_multimap [simp]: "hm_ok (collect_multimap ps)"
  by (induction ps rule: rev_induct) (auto simp: collect_multimap_def)

lemma mm_get_vec_collect:
  "mm_get_vec k (collect_multimap ps) =
    (let vs = List.map snd (filter (\<lambda>p. fst p = k) ps) in if vs = [] then None else Some vs)"
proof (induction ps rule: rev_induct)
  case Nil
  then show ?case
    by (simp add: collect_multimap_def mm_get_vec_def)
next
  case (snoc p ps)
  then show ?case
    by (cases p) (auto simp: collect_multimap_snoc mm_get_vec_insert Let_def)
qed

lemma hm_get_collect_hmap:
  "hm_get k (collect_hmap ps) = map_of (rev ps) k"
proof (induction ps rule: rev_induct)
  case Nil
  then show ?case
    by (simp add: collect_hmap_def)
next
  case (snoc p ps)
  then show ?case
    by (cases p) (auto simp: collect_hmap_snoc)
qed

lemma collect_multimap_nonempty: "(k, vs) \<in> set (collect_multimap ps) \<Longrightarrow> vs \<noteq> []"
proof -
  assume mem: "(k, vs) \<in> set (collect_multimap ps)"
  then have "mm_get_vec k (collect_multimap ps) = Some vs"
    using hm_get_mem [OF hm_ok_collect_multimap [of ps]] by (simp add: mm_get_vec_def)
  then show ?thesis
    by (auto simp: mm_get_vec_collect Let_def split: if_splits)
qed

text \<open>The indices of an interface section are its relations: exports and imports of a core
  type in section order, the core types of an adapter and the adapters of a core type as
  converses of each other, and the last adapter of its type.\<close>

theorem interface_indices:
  "exports_by_type (MITInterfaces_new i) t =
     (let ns = List.map ex_name (filter (\<lambda>e. ex_function_type e = t) (if_exports i))
      in if ns = [] then None else Some ns) \<and>
   imports_by_type (MITInterfaces_new i) t =
     (let ns = List.map (\<lambda>x. (im_namespace x, im_name x))
                 (filter (\<lambda>x. im_function_type x = t) (if_imports i))
      in if ns = [] then None else Some ns) \<and>
   ((\<exists>cs. core_types_by_adapter_type (MITInterfaces_new i) a = Some cs \<and> c \<in> set cs) \<longleftrightarrow>
     (\<exists>as. adapter_types_by_core_type (MITInterfaces_new i) c = Some as \<and> a \<in> set as)) \<and>
   adapter_by_type (MITInterfaces_new i) a =
     map_option ad_instructions (find (\<lambda>x. ad_function_type x = a) (rev (if_adapters i)))"
proof -
  have pairs: "List.map snd (filter (\<lambda>p. fst p = k) (List.map (\<lambda>x. (f x, g x)) xs)) =
      List.map g (filter (\<lambda>x. f x = k) xs)" for f :: "'x \<Rightarrow> u32" and g :: "'x \<Rightarrow> 'y" and xs k
    by (induction xs) auto
  have last: "map_of (rev (List.map (\<lambda>x. (f x, g x)) xs)) k = map_option g (find (\<lambda>x. f x = k) (rev xs))"
    for f :: "'x \<Rightarrow> u32" and g :: "'x \<Rightarrow> 'y" and xs k
  proof -
    have "map_of (List.map (\<lambda>x. (f x, g x)) ys) k = map_option g (find (\<lambda>x. f x = k) ys)" for ys
      by (induction ys) auto
    then show ?thesis
      by (simp add: rev_map)
  qed
  show ?thesis
    by (auto simp: MITInterfaces_new_def exports_by_type_def imports_by_type_def
        core_types_by_adapter_type_def adapter_types_by_core_type_def adapter_by_type_def
        mm_get_vec_collect hm_get_collect_hmap pairs last Let_def filter_empty_conv
        intro: rev_image_eqI)
qed

text \<open>A lookup of the exports of a core type that has none reports a missing import, not a
  missing export.\<close>

theorem missing_export_reported_as_import:
  "exports_by_type_r mit t =
    (case exports_by_type mit t of Some ns \<Rightarrow> Inr ns | None \<Rightarrow> Inl (NoSuchImport t)) \<and>
   exports_by_type_r mit t \<noteq> Inl (NoSuchExport t)"
  by (cases "mm_get_vec t (core_type_to_exports mit)")
    (simp_all add: exports_by_type_r_def exports_by_type_def)

end
