(* ===== verification/ModuleInfo.thy ===== *)
theory ModuleInfo
  imports Prelude
begin

unbundle bit_operations_syntax

text \<open>
  What a Wasm module says about itself in custom sections:
  \<open>crates/module-info-parser/src/\<close> (SDK version, manifest, effects).

  A module of the package \<open>walrus\<close> is its arena of custom sections (identifier, name and data)
  and its imports; \<open>parse_file\<close> and \<open>emit\<close> of \<open>walrus\<close> are parameters over a file system \<open>'f\<close>.
  Further parameters: \<open>from_utf8\<close> (bytes to text), \<open>as_bytes\<close> (text to bytes), \<open>from_str\<close> and
  \<open>to_string\<close> of \<open>semver::Version\<close> (the type \<open>'v\<close>), \<open>parse_time\<close> of \<open>chrono\<close> (the type \<open>'t\<close>),
  and the section names, which \<open>marine_rs_sdk_main\<close> declares.  A panic is an error constructor.
\<close>

subsection \<open>Errors\<close>

datatype SDKVersionError = VersionNotValidUtf8 string | VersionCorrupted string

datatype ManifestError =
    NotEnoughBytesForPrefix string
  | NotEnoughBytesForField string usize
  | FieldNotValidUtf8 string string
  | TooBigFieldSize string u64
  | ModuleVersionCorrupted string
  | ManifestRemainderNotEmpty
  | DateTimeParseError string
  | Panic_SliceIndex

datatype ModuleInfoError =
    NoCustomSection string
  | MultipleCustomSections string nat
  | VersionError SDKVersionError
  | ManifestError ManifestError
  | MI_CorruptedWasmFile string
  | MI_WasmEmitError string

subsection \<open>Modules\<close>

record Walrus =
  wm_customs :: "(nat \<times> string \<times> u8 list) list"
  wm_imports :: "(string \<times> string) list"

definition customs_delete :: "nat \<Rightarrow> Walrus \<Rightarrow> Walrus" where
  "customs_delete i m = m\<lparr>wm_customs := filter (\<lambda>(j, _). j \<noteq> i) (wm_customs m)\<rparr>"

definition fresh_custom_id :: "Walrus \<Rightarrow> nat" where
  "fresh_custom_id m = Max (insert 0 (Suc ` fst ` set (wm_customs m)))"

definition customs_add :: "string \<Rightarrow> u8 list \<Rightarrow> Walrus \<Rightarrow> Walrus" where
  "customs_add name data m = m\<lparr>wm_customs := wm_customs m @ [(fresh_custom_id m, name, data)]\<rparr>"

definition section_ids :: "string \<Rightarrow> Walrus \<Rightarrow> nat list" where
  "section_ids section_name m =
    List.map_filter (\<lambda>(i, name, _). if name = section_name then Some i else None) (wm_customs m)"

definition extract_custom_sections_by_name :: "Walrus \<Rightarrow> string \<Rightarrow> ModuleInfoError + u8 list list" where
  "extract_custom_sections_by_name wasm_module section_name =
    Inr (List.map (\<lambda>(_, _, data). data)
      (filter (\<lambda>(_, name, _). name = section_name) (wm_customs wasm_module)))"

definition try_as_one_section :: "'a list \<Rightarrow> string \<Rightarrow> ModuleInfoError + 'a" where
  "try_as_one_section sections section_name =
    (if length sections > 1 then Inl (MultipleCustomSections section_name (length sections))
     else if length sections = 0 then Inl (NoCustomSection section_name)
     else Inr (sections ! 0))"

subsection \<open>SDK version\<close>

definition as_semver :: "(u8 list \<Rightarrow> string + string) \<Rightarrow> (string \<Rightarrow> string + 'v) \<Rightarrow> u8 list \<Rightarrow>
    SDKVersionError + 'v" where
  "as_semver from_utf8 from_str bytes =
    (case from_utf8 bytes of
       Inr s \<Rightarrow> map_err VersionCorrupted (from_str s)
     | Inl e \<Rightarrow> Inl (VersionNotValidUtf8 e))"

definition sdk_extract_from_module :: "string \<Rightarrow> (u8 list \<Rightarrow> string + string) \<Rightarrow>
    (string \<Rightarrow> string + 'v) \<Rightarrow> Walrus \<Rightarrow> ModuleInfoError + 'v" where
  "sdk_extract_from_module version_section from_utf8 from_str wasm_module =
    bindR (extract_custom_sections_by_name wasm_module version_section) (\<lambda>sections.
    bindR (try_as_one_section sections version_section) (\<lambda>bytes.
    map_err VersionError (as_semver from_utf8 from_str bytes)))"

definition sdk_extract_from_path :: "('p \<Rightarrow> string + Walrus) \<Rightarrow> string \<Rightarrow> (u8 list \<Rightarrow> string + string) \<Rightarrow>
    (string \<Rightarrow> string + 'v) \<Rightarrow> 'p \<Rightarrow> ModuleInfoError + 'v" where
  "sdk_extract_from_path parse_file version_section from_utf8 from_str path =
    bindR (map_err MI_CorruptedWasmFile (parse_file path))
      (sdk_extract_from_module version_section from_utf8 from_str)"

text \<open>A module compiled by a backend offers its custom sections by name (\<open>custom_sections\<close>).\<close>

definition sdk_extract_from_compiled_module :: "string \<Rightarrow> (u8 list \<Rightarrow> string + string) \<Rightarrow>
    (string \<Rightarrow> string + 'v) \<Rightarrow> (string \<Rightarrow> u8 list list) \<Rightarrow> ModuleInfoError + 'v" where
  "sdk_extract_from_compiled_module version_section from_utf8 from_str custom_sections =
    bindR (try_as_one_section (custom_sections version_section) version_section) (\<lambda>bytes.
    map_err VersionError (as_semver from_utf8 from_str bytes))"

definition delete_version_sections :: "string \<Rightarrow> Walrus \<Rightarrow> Walrus" where
  "delete_version_sections version_section wasm_module =
    fold customs_delete (section_ids version_section wasm_module) wasm_module"

definition embed_from_module :: "string \<Rightarrow> (string \<Rightarrow> u8 list) \<Rightarrow> ('v \<Rightarrow> string) \<Rightarrow> Walrus \<Rightarrow> 'v \<Rightarrow> Walrus" where
  "embed_from_module version_section as_bytes to_string wasm_module version =
    customs_add version_section (as_bytes (to_string version))
      (delete_version_sections version_section wasm_module)"

definition embed_from_path :: "('p \<Rightarrow> 'f \<Rightarrow> string + Walrus) \<Rightarrow> (Walrus \<Rightarrow> 'p \<Rightarrow> 'f \<Rightarrow> (string + unit) \<times> 'f) \<Rightarrow>
    string \<Rightarrow> (string \<Rightarrow> u8 list) \<Rightarrow> ('v \<Rightarrow> string) \<Rightarrow> 'p \<Rightarrow> 'p \<Rightarrow> 'v \<Rightarrow> 'f \<Rightarrow> (ModuleInfoError + unit) \<times> 'f" where
  "embed_from_path parse_file emit version_section as_bytes to_string in_path out_path version fs =
    (case parse_file in_path fs of
       Inl e \<Rightarrow> (Inl (MI_CorruptedWasmFile e), fs)
     | Inr wasm_module \<Rightarrow>
        (let (res, fs) = emit (embed_from_module version_section as_bytes to_string wasm_module version) out_path fs
         in (map_err MI_WasmEmitError res, fs)))"

subsection \<open>Manifest\<close>

record ('v, 't) ModuleManifest =
  authors :: string
  mm_version :: 'v
  description :: string
  repository :: string
  build_time :: 't

definition PREFIX_SIZE :: usize where
  "PREFIX_SIZE = 8"

fun from_le_bytes :: "u8 list \<Rightarrow> u64" where
  "from_le_bytes [] = 0"
| "from_le_bytes (b # bs) = ucast b OR push_bit 8 (from_le_bytes bs)"

definition slice :: "nat \<Rightarrow> nat \<Rightarrow> 'a list \<Rightarrow> ManifestError + 'a list" where
  "slice from to xs = (if from \<le> to \<and> to \<le> length xs then Inr (take (to - from) (drop from xs))
    else Inl Panic_SliceIndex)"

definition try_extract_field_len :: "u8 list \<Rightarrow> string \<Rightarrow> ManifestError + usize" where
  "try_extract_field_len array field_name =
    (if word_of_nat (length array) < PREFIX_SIZE then Inl (NotEnoughBytesForPrefix field_name)
     else bindR (slice 0 (unat PREFIX_SIZE) array) (\<lambda>bytes.
       let field_len = from_le_bytes bytes
       in if checked_add field_len PREFIX_SIZE = None
          then Inl (TooBigFieldSize field_name field_len)
          else Inr field_len))"

definition try_extract_field :: "u8 list \<Rightarrow> usize \<Rightarrow> string \<Rightarrow> ManifestError + u8 list" where
  "try_extract_field array field_len field_name =
    (if word_of_nat (length array) < PREFIX_SIZE + field_len
     then Inl (NotEnoughBytesForField field_name field_len)
     else slice (unat PREFIX_SIZE) (unat (PREFIX_SIZE + field_len)) array)"

definition try_extract_prefixed_field :: "u8 list \<Rightarrow> string \<Rightarrow> ManifestError + (u8 list \<times> nat)" where
  "try_extract_prefixed_field array field_name =
    bindR (try_extract_field_len array field_name) (\<lambda>field_len.
    bindR (try_extract_field array field_len field_name) (\<lambda>field.
    Inr (field, unat PREFIX_SIZE + length field)))"

definition try_to_str :: "(u8 list \<Rightarrow> string + string) \<Rightarrow> u8 list \<Rightarrow> string \<Rightarrow> ManifestError + string" where
  "try_to_str from_utf8 value field_name = map_err (FieldNotValidUtf8 field_name) (from_utf8 value)"

definition try_extract_field_as_string :: "(u8 list \<Rightarrow> string + string) \<Rightarrow> u8 list \<Rightarrow> nat \<Rightarrow> string \<Rightarrow>
    ManifestError + (string \<times> nat)" where
  "try_extract_field_as_string from_utf8 raw_manifest offset field_name =
    bindR (slice offset (length raw_manifest) raw_manifest) (\<lambda>raw_manifest.
    bindR (try_extract_prefixed_field raw_manifest field_name) (\<lambda>(field_as_bytes, read_len).
    bindR (try_to_str from_utf8 field_as_bytes field_name) (\<lambda>field_as_string.
    Inr (field_as_string, offset + read_len))))"

definition try_extract_field_as_version :: "(u8 list \<Rightarrow> string + string) \<Rightarrow> (string \<Rightarrow> string + 'v) \<Rightarrow>
    u8 list \<Rightarrow> nat \<Rightarrow> string \<Rightarrow> ManifestError + ('v \<times> nat)" where
  "try_extract_field_as_version from_utf8 from_str raw_manifest offset field_name =
    bindR (slice offset (length raw_manifest) raw_manifest) (\<lambda>raw_manifest.
    bindR (try_extract_prefixed_field raw_manifest field_name) (\<lambda>(field_as_bytes, read_len).
    bindR (try_to_str from_utf8 field_as_bytes field_name) (\<lambda>field_as_str.
    bindR (map_err ModuleVersionCorrupted (from_str field_as_str)) (\<lambda>version.
    Inr (version, offset + read_len)))))"

definition manifest_try_from :: "(u8 list \<Rightarrow> string + string) \<Rightarrow> (string \<Rightarrow> string + 'v) \<Rightarrow>
    (string \<Rightarrow> string + 't) \<Rightarrow> u8 list \<Rightarrow> ManifestError + ('v, 't) ModuleManifest" where
  "manifest_try_from from_utf8 from_str parse_time value =
    bindR (try_extract_field_as_string from_utf8 value 0 ''authors'') (\<lambda>(authors, next_offset).
    bindR (try_extract_field_as_version from_utf8 from_str value next_offset ''version'') (\<lambda>(version, next_offset).
    bindR (try_extract_field_as_string from_utf8 value next_offset ''description'') (\<lambda>(description, next_offset).
    bindR (try_extract_field_as_string from_utf8 value next_offset ''repository'') (\<lambda>(repository, next_offset).
    bindR (try_extract_field_as_string from_utf8 value next_offset ''build time'') (\<lambda>(build_time, next_offset).
    if next_offset \<noteq> length value then Inl ManifestRemainderNotEmpty
    else bindR (map_err DateTimeParseError (parse_time build_time)) (\<lambda>build_time.
      Inr \<lparr>authors = authors, mm_version = version, description = description,
        repository = repository, build_time = build_time\<rparr>))))))"

definition manifest_extract_from_module :: "string \<Rightarrow> (u8 list \<Rightarrow> string + string) \<Rightarrow>
    (string \<Rightarrow> string + 'v) \<Rightarrow> (string \<Rightarrow> string + 't) \<Rightarrow> Walrus \<Rightarrow>
    ModuleInfoError + ('v, 't) ModuleManifest" where
  "manifest_extract_from_module manifest_section from_utf8 from_str parse_time wasm_module =
    bindR (extract_custom_sections_by_name wasm_module manifest_section) (\<lambda>sections.
    bindR (try_as_one_section sections manifest_section) (\<lambda>bytes.
    map_err ManifestError (manifest_try_from from_utf8 from_str parse_time bytes)))"

text \<open>\<open>source\<close> is a path for \<open>extract_from_path\<close> and bytes for \<open>extract_from_bytes\<close>.\<close>

definition manifest_extract_from :: "('p \<Rightarrow> string + Walrus) \<Rightarrow> string \<Rightarrow> (u8 list \<Rightarrow> string + string) \<Rightarrow>
    (string \<Rightarrow> string + 'v) \<Rightarrow> (string \<Rightarrow> string + 't) \<Rightarrow> 'p \<Rightarrow>
    ModuleInfoError + ('v, 't) ModuleManifest" where
  "manifest_extract_from parse manifest_section from_utf8 from_str parse_time source =
    bindR (map_err MI_CorruptedWasmFile (parse source))
      (manifest_extract_from_module manifest_section from_utf8 from_str parse_time)"

definition manifest_extract_from_compiled_module :: "string \<Rightarrow> (u8 list \<Rightarrow> string + string) \<Rightarrow>
    (string \<Rightarrow> string + 'v) \<Rightarrow> (string \<Rightarrow> string + 't) \<Rightarrow> (string \<Rightarrow> u8 list list) \<Rightarrow>
    ModuleInfoError + ('v, 't) ModuleManifest" where
  "manifest_extract_from_compiled_module manifest_section from_utf8 from_str parse_time custom_sections =
    bindR (try_as_one_section (custom_sections manifest_section) manifest_section) (\<lambda>bytes.
    map_err ManifestError (manifest_try_from from_utf8 from_str parse_time bytes))"

subsection \<open>Effects\<close>

definition HOST_IMPORT_NAMESPACE_V0 :: string where
  "HOST_IMPORT_NAMESPACE_V0 = ''host''"

definition HOST_IMPORT_NAMESPACE_PREFIX :: string where
  "HOST_IMPORT_NAMESPACE_PREFIX = ''__marine_host_api_v''"

definition LOGGER_IMPORT_NAME :: string where
  "LOGGER_IMPORT_NAME = ''log_utf8_string''"

definition CALL_PARAMETERS_IMPORT_NAME :: string where
  "CALL_PARAMETERS_IMPORT_NAME = ''get_call_parameters''"

datatype WasmEffect = Logger | MountedBinary string

definition effects_is_host_import :: "string \<Rightarrow> bool" where
  "effects_is_host_import namespace \<longleftrightarrow>
    namespace = HOST_IMPORT_NAMESPACE_V0 \<or> prefix HOST_IMPORT_NAMESPACE_PREFIX namespace"

definition inspect_import :: "string \<Rightarrow> string \<Rightarrow> WasmEffect option" where
  "inspect_import module name =
    (if \<not> effects_is_host_import module then None
     else if name = LOGGER_IMPORT_NAME then Some Logger
     else if name = CALL_PARAMETERS_IMPORT_NAME then None
     else Some (MountedBinary name))"

definition effects_extract_from_module :: "Walrus \<Rightarrow> ModuleInfoError + WasmEffect list" where
  "effects_extract_from_module wasm_module =
    Inr (List.map_filter (\<lambda>(module, name). inspect_import module name) (wm_imports wasm_module))"

definition effects_extract_from :: "('p \<Rightarrow> string + Walrus) \<Rightarrow> 'p \<Rightarrow> ModuleInfoError + WasmEffect list" where
  "effects_extract_from parse source =
    bindR (map_err MI_CorruptedWasmFile (parse source)) effects_extract_from_module"

subsection \<open>Embedding\<close>

lemma sections_delete [simp]:
  "wm_customs (fold customs_delete is m) = filter (\<lambda>(j, _). j \<notin> set is) (wm_customs m)"
proof (induction "is" arbitrary: m)
  case (Cons i js)
  show ?case
    unfolding fold_Cons o_apply Cons.IH by (auto simp: customs_delete_def intro!: filter_cong)
qed (simp add: case_prod_beta)

lemma set_section_ids: "set (section_ids section_name m) = {i. \<exists>d. (i, section_name, d) \<in> set (wm_customs m)}"
  by (auto simp: section_ids_def set_map_filter split: if_splits intro!: bexI)

lemma no_section_left: "(i, section_name, d) \<notin> set (wm_customs (delete_version_sections section_name m))"
  by (auto simp: delete_version_sections_def set_section_ids)

text \<open>Embedding an SDK version into any module, whatever version sections it had, makes the
  extractor return that version, and leaves every other custom section as it was (identifiers are
  unique, and printing a version and parsing it gives it back).\<close>

theorem sdk_version_roundtrip:
  assumes "from_utf8 (as_bytes (to_string v)) = Inr (to_string v)" and "from_str (to_string v) = Inr v"
    and "distinct (List.map fst (wm_customs m))"
  shows "sdk_extract_from_module vs from_utf8 from_str (embed_from_module vs as_bytes to_string m v) = Inr v \<and>
    filter (\<lambda>(_, name, _). name \<noteq> vs) (wm_customs (embed_from_module vs as_bytes to_string m v)) =
    filter (\<lambda>(_, name, _). name \<noteq> vs) (wm_customs m)"
proof
  let ?m = "delete_version_sections vs m"
  have "filter (\<lambda>(_, name, _). name = vs) (wm_customs ?m) = []"
    using no_section_left [of _ vs _ m] by (auto simp: filter_empty_conv)
  then show "sdk_extract_from_module vs from_utf8 from_str (embed_from_module vs as_bytes to_string m v) = Inr v"
    using assms(1,2) by (simp add: sdk_extract_from_module_def extract_custom_sections_by_name_def
        embed_from_module_def customs_add_def try_as_one_section_def as_semver_def)
  have "(i \<notin> set (section_ids vs m) \<and> name \<noteq> vs) = (name \<noteq> vs)" if "(i, name, d) \<in> set (wm_customs m)" for i name d
    using that assms(3) by (auto simp: set_section_ids dest: eq_key_imp_eq_value)
  then show "filter (\<lambda>(_, name, _). name \<noteq> vs) (wm_customs (embed_from_module vs as_bytes to_string m v)) =
      filter (\<lambda>(_, name, _). name \<noteq> vs) (wm_customs m)"
    by (auto simp: embed_from_module_def customs_add_def delete_version_sections_def intro!: filter_cong)
qed

text \<open>One byte per character stands for UTF-8, and a version is its text.\<close>

definition sample_from_utf8 :: "u8 list \<Rightarrow> string + string" where
  "sample_from_utf8 bs = Inr (List.map (\<lambda>b. char_of (unat b)) bs)"

definition sample_as_bytes :: "string \<Rightarrow> u8 list" where
  "sample_as_bytes s = List.map (\<lambda>c. word_of_nat (of_char c)) s"

lemma sample_text: "sample_from_utf8 (sample_as_bytes ''0.7.1'') = Inr ''0.7.1''"
  by code_simp

theorem sdk_version_roundtrip_witness:
  "sdk_extract_from_module ''version'' sample_from_utf8 Inr
    (embed_from_module ''version'' sample_as_bytes (\<lambda>v. v)
      \<lparr>wm_customs = [(0, ''version'', [1]), (2, ''interface-types'', [2]), (3, ''version'', [3])],
       wm_imports = []\<rparr> ''0.7.1'') = Inr ''0.7.1''"
  by (rule sdk_version_roundtrip [THEN conjunct1]) (simp_all add: sample_text)

subsection \<open>The manifest format\<close>

definition to_le_bytes :: "u64 \<Rightarrow> u8 list" where
  "to_le_bytes x = List.map (\<lambda>i. ucast (drop_bit (8 * i) x)) [0..<8]"

lemma length_to_le_bytes [simp]: "length (to_le_bytes x) = 8"
  by (simp add: to_le_bytes_def)

lemma bit_from_le_bytes:
  "bit (from_le_bytes bs) n \<longleftrightarrow> n < 64 \<and> n < 8 * length bs \<and> bit (bs ! (n div 8)) (n mod 8)"
proof (induction bs arbitrary: n)
  case (Cons b bs)
  have "bit (from_le_bytes (b # bs)) n \<longleftrightarrow>
      n < 64 \<and> (bit b n \<or> 8 \<le> n \<and> bit (from_le_bytes bs) (n - 8))"
    by (auto simp: bit_simps)
  also have "\<dots> \<longleftrightarrow> n < 64 \<and> n < 8 * length (b # bs) \<and> bit ((b # bs) ! (n div 8)) (n mod 8)"
  proof (cases "n < 8")
    case False
    then have "\<not> bit b n"
      using bit_imp_le_length [of b n] by auto
    moreover have "n div 8 = Suc ((n - 8) div 8)" "n mod 8 = (n - 8) mod 8"
      using False by (simp_all add: le_div_geq le_mod_geq)
    ultimately show ?thesis
      using False Cons.IH [of "n - 8"] by auto
  qed simp
  finally show ?case .
qed simp

lemma from_to_le_bytes [simp]: "from_le_bytes (to_le_bytes x) = x"
proof (rule bit_word_eqI)
  fix n
  assume n: "n < LENGTH(64)"
  then have i: "n div 8 < 8"
    by (simp add: div_less_iff_less_mult)
  then have "to_le_bytes x ! (n div 8) = ucast (drop_bit (8 * (n div 8)) x)"
    by (simp add: to_le_bytes_def)
  then have "bit (to_le_bytes x ! (n div 8)) (n mod 8) \<longleftrightarrow> bit x (8 * (n div 8) + n mod 8)"
    by (simp add: bit_simps)
  then show "bit (from_le_bytes (to_le_bytes x)) n \<longleftrightarrow> bit x n"
    using n by (simp add: bit_from_le_bytes)
qed

lemma to_from_le_bytes:
  assumes "length bs = 8"
  shows "to_le_bytes (from_le_bytes bs) = bs"
proof (rule nth_equalityI)
  fix i
  assume "i < length (to_le_bytes (from_le_bytes bs))"
  then have i: "i < 8" by simp
  have "(ucast (drop_bit (8 * i) (from_le_bytes bs)) :: u8) = bs ! i"
  proof (rule bit_word_eqI)
    fix n
    assume n: "n < LENGTH(8)"
    then have "(8 * i + n) div 8 = i" "(8 * i + n) mod 8 = n"
      by simp_all
    then show "bit (ucast (drop_bit (8 * i) (from_le_bytes bs)) :: u8) n \<longleftrightarrow> bit (bs ! i) n"
      using n i assms by (simp add: bit_simps bit_from_le_bytes)
  qed
  then show "to_le_bytes (from_le_bytes bs) ! i = bs ! i"
    using i by (simp add: to_le_bytes_def)
qed (simp add: assms)

text \<open>A field is its length in eight bytes and then its bytes.\<close>

definition field_bytes :: "u8 list \<Rightarrow> u8 list" where
  "field_bytes bs = to_le_bytes (word_of_nat (length bs)) @ bs"

lemma length_field_bytes [simp]: "length (field_bytes bs) = 8 + length bs"
  by (simp add: field_bytes_def)

lemma field_len_of_prefix:
  assumes "length array < 2 ^ 63" and "8 \<le> length array"
  shows "try_extract_field_len array name =
    (let field_len = from_le_bytes (take 8 array)
     in if checked_add field_len PREFIX_SIZE = None then Inl (TooBigFieldSize name field_len) else Inr field_len)"
proof -
  have "\<not> (word_of_nat (length array) :: u64) < 8"
    using assms by (simp add: word_less_nat_alt unat_of_nat_u64)
  then show ?thesis
    using assms by (simp add: try_extract_field_len_def slice_def PREFIX_SIZE_def Let_def)
qed

lemma extract_field_iff:
  assumes "length array < 2 ^ 63"
  shows "try_extract_prefixed_field array name = Inr (field, n) \<longleftrightarrow>
    n = 8 + length field \<and> (\<exists>rest. array = field_bytes field @ rest)"
proof
  assume read: "try_extract_prefixed_field array name = Inr (field, n)"
  then have len: "8 \<le> length array"
    using assms by (auto simp: try_extract_prefixed_field_def try_extract_field_len_def PREFIX_SIZE_def
        bindR_Inr word_less_nat_alt unat_of_nat_u64 split: if_splits)
  let ?n = "from_le_bytes (take 8 array)"
  have add: "unat ?n + 8 < 2 ^ 64"
    and field: "try_extract_field array ?n name = Inr field" and n: "n = 8 + length field"
    using read field_len_of_prefix [OF assms len, of name]
    by (auto simp: try_extract_prefixed_field_def bindR_Inr Let_def PREFIX_SIZE_def checked_add_def split: if_splits)
  have sum: "unat (8 + ?n :: u64) = 8 + unat ?n"
    using add by (simp add: unat_word_ariths)
  have short: "8 + unat ?n \<le> length array" and eq: "field = take (unat ?n) (drop 8 array)"
    using field assms
    by (auto simp: try_extract_field_def PREFIX_SIZE_def slice_def word_less_nat_alt unat_of_nat_u64 sum split: if_splits)
  then have "length field = unat ?n"
    by simp
  then have "to_le_bytes (word_of_nat (length field)) = take 8 array"
    using to_from_le_bytes [of "take 8 array"] len by simp
  moreover have "take 8 array @ field @ drop (8 + unat ?n) array = array"
    using eq by (metis append_take_drop_id drop_drop add.commute)
  ultimately have "array = field_bytes field @ drop (8 + unat ?n) array"
    by (simp add: field_bytes_def)
  then show "n = 8 + length field \<and> (\<exists>rest. array = field_bytes field @ rest)"
    using n by blast
next
  assume "n = 8 + length field \<and> (\<exists>rest. array = field_bytes field @ rest)"
  then obtain rest where n: "n = 8 + length field" and array: "array = field_bytes field @ rest"
    by blast
  have small: "length field < 2 ^ 63"
    using assms array by simp
  let ?n = "word_of_nat (length field) :: u64"
  have un: "unat ?n = length field"
    using small by (simp add: unat_of_nat_u64)
  have sum: "unat (8 + ?n) = 8 + length field"
    using small un by (simp add: unat_word_ariths)
  have "try_extract_field_len array name = Inr ?n"
    using field_len_of_prefix [OF assms, of name] small un
    by (simp add: array field_bytes_def Let_def PREFIX_SIZE_def checked_add_def)
  moreover have "try_extract_field array ?n name = Inr field"
    using assms by (simp add: try_extract_field_def PREFIX_SIZE_def slice_def word_less_nat_alt
        unat_of_nat_u64 sum) (simp add: array field_bytes_def)
  ultimately show "try_extract_prefixed_field array name = Inr (field, n)"
    using n by (simp add: try_extract_prefixed_field_def PREFIX_SIZE_def)
qed

lemma slice_to_end [simp]: "slice (length pre) (length pre + length rest) (pre @ rest) = Inr rest"
  by (simp add: slice_def)

lemma as_string_iff:
  assumes "length (pre @ rest) < 2 ^ 63"
  shows "try_extract_field_as_string from_utf8 (pre @ rest) (length pre) name = Inr (s, n) \<longleftrightarrow>
    (\<exists>bs rest'. rest = field_bytes bs @ rest' \<and> n = length (pre @ field_bytes bs) \<and> from_utf8 bs = Inr s)"
proof -
  have "length rest < 2 ^ 63"
    using assms by simp
  note field = extract_field_iff [OF this]
  show ?thesis
    by (simp add: try_extract_field_as_string_def try_to_str_def bindR_Inr map_err_Inr field) blast
qed

lemma as_version_iff:
  assumes "length (pre @ rest) < 2 ^ 63"
  shows "try_extract_field_as_version from_utf8 from_str (pre @ rest) (length pre) name = Inr (v, n) \<longleftrightarrow>
    (\<exists>bs rest' s. rest = field_bytes bs @ rest' \<and> n = length (pre @ field_bytes bs) \<and>
      from_utf8 bs = Inr s \<and> from_str s = Inr v)"
proof -
  have "length rest < 2 ^ 63"
    using assms by simp
  note field = extract_field_iff [OF this]
  show ?thesis
    by (simp add: try_extract_field_as_version_def try_to_str_def bindR_Inr map_err_Inr field) blast
qed

lemma as_string_elim:
  assumes "try_extract_field_as_string from_utf8 raw off name = Inr (s, n)"
    and "raw = pre @ rest" and "off = length pre" and "length raw < 2 ^ 63"
  obtains bs rest' where "raw = (pre @ field_bytes bs) @ rest'" and "n = length (pre @ field_bytes bs)"
    and "from_utf8 bs = Inr s"
proof -
  have "length (pre @ rest) < 2 ^ 63"
    using assms(2,4) by simp
  then obtain bs rest' where "rest = field_bytes bs @ rest'" "n = length (pre @ field_bytes bs)" "from_utf8 bs = Inr s"
    using as_string_iff [of pre rest from_utf8 name s n] assms(1-3) by blast
  then show ?thesis
    using that [of bs rest'] assms(2) by simp
qed

lemma as_version_elim:
  assumes "try_extract_field_as_version from_utf8 from_str raw off name = Inr (v, n)"
    and "raw = pre @ rest" and "off = length pre" and "length raw < 2 ^ 63"
  obtains bs rest' s where "raw = (pre @ field_bytes bs) @ rest'" and "n = length (pre @ field_bytes bs)"
    and "from_utf8 bs = Inr s" and "from_str s = Inr v"
proof -
  have "length (pre @ rest) < 2 ^ 63"
    using assms(2,4) by simp
  then obtain bs rest' s where "rest = field_bytes bs @ rest'" "n = length (pre @ field_bytes bs)"
      "from_utf8 bs = Inr s" "from_str s = Inr v"
    using as_version_iff [of pre rest from_utf8 from_str name v n] assms(1-3) by blast
  then show ?thesis
    using that [of bs rest' s] assms(2) by simp
qed

lemma as_string_intro:
  assumes "raw = pre @ field_bytes bs @ rest" and "length raw < 2 ^ 63" and "from_utf8 bs = Inr s"
    and "off = length pre" and "n = length (pre @ field_bytes bs)"
  shows "try_extract_field_as_string from_utf8 raw off name = Inr (s, n)"
  unfolding assms(1,4) using assms(2,3,5) unfolding assms(1) by (subst as_string_iff) auto

lemma as_version_intro:
  assumes "raw = pre @ field_bytes bs @ rest" and "length raw < 2 ^ 63" and "from_utf8 bs = Inr s"
    and "from_str s = Inr v" and "off = length pre" and "n = length (pre @ field_bytes bs)"
  shows "try_extract_field_as_version from_utf8 from_str raw off name = Inr (v, n)"
  unfolding assms(1,5) using assms(2,3,4,6) unfolding assms(1) by (subst as_version_iff) auto

text \<open>The texts and values of the five fields are those of the manifest.\<close>

definition manifest_of :: "(u8 list \<Rightarrow> string + string) \<Rightarrow> (string \<Rightarrow> string + 'v) \<Rightarrow> (string \<Rightarrow> string + 't) \<Rightarrow>
    u8 list \<Rightarrow> u8 list \<Rightarrow> u8 list \<Rightarrow> u8 list \<Rightarrow> u8 list \<Rightarrow> ('v, 't) ModuleManifest \<Rightarrow> bool" where
  "manifest_of from_utf8 from_str parse_time a v d r t m \<longleftrightarrow>
    from_utf8 a = Inr (authors m) \<and> bindR (from_utf8 v) from_str = Inr (mm_version m) \<and>
    from_utf8 d = Inr (description m) \<and> from_utf8 r = Inr (repository m) \<and>
    bindR (from_utf8 t) parse_time = Inr (build_time m)"

lemma manifest_fields_read:
  assumes "length value < 2 ^ 63" and "manifest_try_from from_utf8 from_str parse_time value = Inr m"
  shows "\<exists>a v d r t. value = field_bytes a @ field_bytes v @ field_bytes d @ field_bytes r @ field_bytes t \<and>
    manifest_of from_utf8 from_str parse_time a v d r t m"
proof -
  obtain sa na v1 nv sd nd sr nr st tm where
      a: "try_extract_field_as_string from_utf8 value 0 ''authors'' = Inr (sa, na)"
    and v: "try_extract_field_as_version from_utf8 from_str value na ''version'' = Inr (v1, nv)"
    and d: "try_extract_field_as_string from_utf8 value nv ''description'' = Inr (sd, nd)"
    and r: "try_extract_field_as_string from_utf8 value nd ''repository'' = Inr (sr, nr)"
    and t: "try_extract_field_as_string from_utf8 value nr ''build time'' = Inr (st, length value)"
    and tm: "parse_time st = Inr tm"
    and m: "m = \<lparr>authors = sa, mm_version = v1, description = sd, repository = sr, build_time = tm\<rparr>"
    using assms(2) by (auto simp: manifest_try_from_def bindR_Inr map_err_Inr split: if_splits)
  obtain ba ra where A: "value = ([] @ field_bytes ba) @ ra" "na = length ([] @ field_bytes ba)" "from_utf8 ba = Inr sa"
    by (rule as_string_elim [OF a _ _ assms(1), of "[]"]) simp_all
  obtain bv rv sv where V: "value = (([] @ field_bytes ba) @ field_bytes bv) @ rv"
      "nv = length (([] @ field_bytes ba) @ field_bytes bv)" "from_utf8 bv = Inr sv" "from_str sv = Inr v1"
    by (rule as_version_elim [OF v A(1,2) assms(1)])
  obtain bd rd where D: "value = ((([] @ field_bytes ba) @ field_bytes bv) @ field_bytes bd) @ rd"
      "nd = length ((([] @ field_bytes ba) @ field_bytes bv) @ field_bytes bd)" "from_utf8 bd = Inr sd"
    by (rule as_string_elim [OF d V(1,2) assms(1)])
  obtain br rr where R: "value = (((([] @ field_bytes ba) @ field_bytes bv) @ field_bytes bd) @ field_bytes br) @ rr"
      "nr = length (((([] @ field_bytes ba) @ field_bytes bv) @ field_bytes bd) @ field_bytes br)" "from_utf8 br = Inr sr"
    by (rule as_string_elim [OF r D(1,2) assms(1)])
  obtain bt rt where T: "value = ((((([] @ field_bytes ba) @ field_bytes bv) @ field_bytes bd) @ field_bytes br) @ field_bytes bt) @ rt"
      "length value = length ((((([] @ field_bytes ba) @ field_bytes bv) @ field_bytes bd) @ field_bytes br) @ field_bytes bt)"
      "from_utf8 bt = Inr st"
    by (rule as_string_elim [OF t R(1,2) assms(1)])
  have "length rt = 0"
    using arg_cong [OF T(1), of length] T(2) by simp
  then have "value = field_bytes ba @ field_bytes bv @ field_bytes bd @ field_bytes br @ field_bytes bt"
    using T(1) by simp
  moreover have "manifest_of from_utf8 from_str parse_time ba bv bd br bt m"
    using A(3) V(3,4) D(3) R(3) T(3) tm m by (simp add: manifest_of_def)
  ultimately show ?thesis
    by blast
qed

lemma manifest_fields_written:
  assumes "length value < 2 ^ 63"
    and "value = field_bytes a @ field_bytes v @ field_bytes d @ field_bytes r @ field_bytes t"
    and "manifest_of from_utf8 from_str parse_time a v d r t m"
  shows "manifest_try_from from_utf8 from_str parse_time value = Inr m"
proof -
  obtain sv st where s: "from_utf8 v = Inr sv" "from_str sv = Inr (mm_version m)"
      "from_utf8 t = Inr st" "parse_time st = Inr (build_time m)"
    using assms(3) by (auto simp: manifest_of_def bindR_Inr)
  let ?n = "\<lambda>bss. length (concat (List.map field_bytes bss))"
  have "try_extract_field_as_string from_utf8 value 0 ''authors'' = Inr (authors m, ?n [a])"
    by (rule as_string_intro [where pre = "[]" and bs = a and rest = "field_bytes v @ field_bytes d @ field_bytes r @ field_bytes t"])
      (use assms s in \<open>simp_all add: assms(2) manifest_of_def\<close>)
  moreover have "try_extract_field_as_version from_utf8 from_str value (?n [a]) ''version'' = Inr (mm_version m, ?n [a, v])"
    by (rule as_version_intro [where pre = "field_bytes a" and bs = v and rest = "field_bytes d @ field_bytes r @ field_bytes t"])
      (use assms s in \<open>simp_all add: assms(2) manifest_of_def\<close>)
  moreover have "try_extract_field_as_string from_utf8 value (?n [a, v]) ''description'' = Inr (description m, ?n [a, v, d])"
    by (rule as_string_intro [where pre = "field_bytes a @ field_bytes v" and bs = d and rest = "field_bytes r @ field_bytes t"])
      (use assms s in \<open>simp_all add: assms(2) manifest_of_def\<close>)
  moreover have "try_extract_field_as_string from_utf8 value (?n [a, v, d]) ''repository'' = Inr (repository m, ?n [a, v, d, r])"
    by (rule as_string_intro [where pre = "field_bytes a @ field_bytes v @ field_bytes d" and bs = r and rest = "field_bytes t"])
      (use assms s in \<open>simp_all add: assms(2) manifest_of_def\<close>)
  moreover have "try_extract_field_as_string from_utf8 value (?n [a, v, d, r]) ''build time'' = Inr (st, ?n [a, v, d, r, t])"
    by (rule as_string_intro [where pre = "field_bytes a @ field_bytes v @ field_bytes d @ field_bytes r" and bs = t and rest = "[]"])
      (use assms s in \<open>simp_all add: assms(2) manifest_of_def\<close>)
  moreover have "?n [a, v, d, r, t] = length value"
    by (simp add: assms(2))
  ultimately show ?thesis
    unfolding manifest_try_from_def using s(4) by simp
qed

text \<open>C25: a manifest is read from a byte sequence exactly when the sequence is the five fields
  (authors, version, description, repository, build time), each as its length in eight
  little-endian bytes followed by its text, with nothing after them; the manifest then holds the
  decoded fields.  So every manifest that was written is read back, and nothing else is accepted.\<close>

theorem manifest_accepts_exactly_its_encoding:
  assumes "length value < 2 ^ 63"
  shows "manifest_try_from from_utf8 from_str parse_time value = Inr m \<longleftrightarrow>
    (\<exists>a v d r t. value = field_bytes a @ field_bytes v @ field_bytes d @ field_bytes r @ field_bytes t \<and>
      manifest_of from_utf8 from_str parse_time a v d r t m)"
  using manifest_fields_read [OF assms] manifest_fields_written [OF assms] by blast

definition sample_manifest :: "u8 list" where
  "sample_manifest = concat (List.map (\<lambda>s. field_bytes (sample_as_bytes s))
    [''Fluence'', ''0.1.0'', ''greets'', ''github'', ''now''])"

theorem manifest_accepts_exactly_its_encoding_witness:
  "\<exists>m :: (string, string) ModuleManifest.
    manifest_try_from sample_from_utf8 Inr Inr sample_manifest = Inr m \<and> mm_version m = ''0.1.0''"
proof (rule exI conjI)+
  let ?b = sample_as_bytes
  show "manifest_try_from sample_from_utf8 Inr Inr sample_manifest = Inr (\<lparr>authors = ''Fluence'', mm_version = ''0.1.0'',
      description = ''greets'', repository = ''github'', build_time = ''now''\<rparr> :: (string, string) ModuleManifest)"
  proof (rule manifest_accepts_exactly_its_encoding [THEN iffD2])
    show "length sample_manifest < 2 ^ 63"
      by (simp add: sample_manifest_def sample_as_bytes_def)
    have "sample_manifest = field_bytes (?b ''Fluence'') @ field_bytes (?b ''0.1.0'') @ field_bytes (?b ''greets'') @
        field_bytes (?b ''github'') @ field_bytes (?b ''now'')"
      by (simp add: sample_manifest_def)
    moreover have "manifest_of sample_from_utf8 Inr Inr (?b ''Fluence'') (?b ''0.1.0'') (?b ''greets'')
        (?b ''github'') (?b ''now'') (\<lparr>authors = ''Fluence'', mm_version = ''0.1.0'',
        description = ''greets'', repository = ''github'', build_time = ''now''\<rparr> :: (string, string) ModuleManifest)"
      by code_simp
    ultimately show "\<exists>a v d r t. sample_manifest =
        field_bytes a @ field_bytes v @ field_bytes d @ field_bytes r @ field_bytes t \<and>
        manifest_of sample_from_utf8 Inr Inr a v d r t (\<lparr>authors = ''Fluence'', mm_version = ''0.1.0'',
        description = ''greets'', repository = ''github'', build_time = ''now''\<rparr> :: (string, string) ModuleManifest)"
      by blast
  qed
qed simp

lemma prefixed_field_no_panic:
  assumes "length array < 2 ^ 63"
  shows "try_extract_prefixed_field array name \<noteq> Inl Panic_SliceIndex"
proof (cases "8 \<le> length array")
  case True
  let ?n = "from_le_bytes (take 8 array)"
  have "try_extract_field array ?n name \<noteq> Inl Panic_SliceIndex" if add: "unat ?n + 8 < 2 ^ 64"
  proof -
    have "unat (8 + ?n :: u64) = 8 + unat ?n"
      using add by (simp add: unat_word_ariths)
    then show ?thesis
      using assms by (auto simp: try_extract_field_def slice_def PREFIX_SIZE_def word_less_nat_alt unat_of_nat_u64)
  qed
  then show ?thesis
    using field_len_of_prefix [OF assms True, of name]
    by (auto simp: try_extract_prefixed_field_def bindR_Inl Let_def checked_add_def PREFIX_SIZE_def)
next
  case False
  then show ?thesis
    using assms by (auto simp: try_extract_prefixed_field_def try_extract_field_len_def PREFIX_SIZE_def
        word_less_nat_alt unat_of_nat_u64)
qed

lemma as_string_no_panic:
  assumes "length raw < 2 ^ 63" and "off \<le> length raw"
  shows "try_extract_field_as_string from_utf8 raw off name \<noteq> Inl Panic_SliceIndex"
  using prefixed_field_no_panic [of "drop off raw" name] assms
  by (auto simp: try_extract_field_as_string_def try_to_str_def bindR_Inl map_err_Inl slice_def)

lemma as_version_no_panic:
  assumes "length raw < 2 ^ 63" and "off \<le> length raw"
  shows "try_extract_field_as_version from_utf8 from_str raw off name \<noteq> Inl Panic_SliceIndex"
  using prefixed_field_no_panic [of "drop off raw" name] assms
  by (auto simp: try_extract_field_as_version_def try_to_str_def bindR_Inl map_err_Inl slice_def)

lemma as_string_offset:
  assumes "try_extract_field_as_string from_utf8 raw off name = Inr (s, n)" and "off \<le> length raw"
    and "length raw < 2 ^ 63"
  shows "n \<le> length raw"
proof -
  obtain bs rest where raw: "raw = (take off raw @ field_bytes bs) @ rest" and n: "n = length (take off raw @ field_bytes bs)"
    by (rule as_string_elim [OF assms(1), of "take off raw" "drop off raw"]) (use assms in auto)
  have "length raw = n + length rest"
    unfolding n by (subst raw) (simp only: length_append)
  then show ?thesis
    by simp
qed

lemma as_version_offset:
  assumes "try_extract_field_as_version from_utf8 from_str raw off name = Inr (v, n)" and "off \<le> length raw"
    and "length raw < 2 ^ 63"
  shows "n \<le> length raw"
proof -
  obtain bs rest where raw: "raw = (take off raw @ field_bytes bs) @ rest" and n: "n = length (take off raw @ field_bytes bs)"
    by (rule as_version_elim [OF assms(1), of "take off raw" "drop off raw"]) (use assms in auto)
  have "length raw = n + length rest"
    unfolding n by (subst raw) (simp only: length_append)
  then show ?thesis
    by simp
qed

text \<open>Reading a manifest never panics: whatever lengths the prefixes of a byte sequence claim,
  no slice leaves the sequence and no addition of lengths wraps around (a Rust slice is shorter than
  \<open>2 ^ 63\<close> bytes).\<close>

theorem manifest_reading_never_panics:
  assumes "length value < 2 ^ 63"
  shows "manifest_try_from from_utf8 from_str parse_time value \<noteq> Inl Panic_SliceIndex"
proof
  assume "manifest_try_from from_utf8 from_str parse_time value = Inl Panic_SliceIndex"
  then show False
    by (auto simp: manifest_try_from_def bindR_Inl map_err_Inl assms split: if_splits
        dest!: as_string_no_panic [OF assms, THEN notE, rotated] as_version_no_panic [OF assms, THEN notE, rotated]
        dest: as_string_offset [OF _ _ assms] as_version_offset [OF _ _ assms])
qed

theorem manifest_reading_never_panics_witness:
  "manifest_try_from sample_from_utf8 Inr Inr (List.replicate 8 255) \<noteq>
    (Inl Panic_SliceIndex :: ManifestError + (string, string) ModuleManifest)"
  by (rule manifest_reading_never_panics) simp

end
