(* ===== verification/ItInterface.thy ===== *)
theory ItInterface
  imports MitInterfaces
begin

text \<open>
  The interface of a module: \<open>crates/module-interface/src/it_interface/\<close>.  The recursion over
  record types is bounded by the level the code counts; the measure of the definition is the
  distance to that bound.
\<close>

record IFunctionSignature =
  fs_name :: string
  fs_arguments :: "FunctionArg list"
  fs_outputs :: "IType list"
  fs_adapter_function_type :: u32

record IModuleInterface =
  export_record_types :: IRecordTypes
  all_record_types :: IRecordTypes
  function_signatures :: "IFunctionSignature list"

datatype ITInterfaceError =
    ITTypeNotFunction u32
  | NotFoundRecordTypeId u64
  | TooManyRecursionLevels
  | II_MITInterfacesError MITInterfacesError

subsection \<open>Exported functions\<close>

record ITExportFuncDescriptor =
  ed_adapter_function_type :: u32
  ed_name :: string

definition get_export_funcs_descriptors :: "MITInterfaces \<Rightarrow> ITExportFuncDescriptor list" where
  "get_export_funcs_descriptors mit =
    concat (List.map (\<lambda>(a, names). List.map (\<lambda>n. \<lparr>ed_adapter_function_type = a, ed_name = n\<rparr>) names)
      (List.map_filter (\<lambda>(a, c). map_option (\<lambda>names. (a, names)) (exports_by_type mit c))
        (implementations mit)))"

definition get_export_funcs :: "MITInterfaces \<Rightarrow> ITInterfaceError + IFunctionSignature list" where
  "get_export_funcs mit =
    mapR (\<lambda>d. bindR (map_err II_MITInterfacesError (type_by_idx_r mit (ed_adapter_function_type d)))
      (\<lambda>it_type. case it_type of
         Ast_Function arguments output_types \<Rightarrow>
           Inr \<lparr>fs_name = ed_name d, fs_arguments = arguments, fs_outputs = output_types,
             fs_adapter_function_type = ed_adapter_function_type d\<rparr>
       | _ \<Rightarrow> Inl (ITTypeNotFunction (ed_adapter_function_type d))))
      (get_export_funcs_descriptors mit)"

subsection \<open>Exported record types\<close>

definition TYPE_RESOLVE_RECURSION_LIMIT :: nat where
  "TYPE_RESOLVE_RECURSION_LIMIT = 1024"

fun get_all_records_from :: "nat \<Rightarrow> AstType list \<Rightarrow> IRecordTypes \<Rightarrow> IRecordTypes" where
  "get_all_records_from i [] m = m"
| "get_all_records_from i (Ast_Record r # ts) m = get_all_records_from (Suc i) ts (hm_insert (word_of_nat i) r m)"
| "get_all_records_from i (Ast_Function _ _ # ts) m = get_all_records_from (Suc i) ts m"

definition get_all_records :: "MITInterfaces \<Rightarrow> IRecordTypes" where
  "get_all_records mit = get_all_records_from 0 (mit_types mit) []"

function (sequential)
  handle_itype :: "IType \<Rightarrow> IRecordTypes \<Rightarrow> IRecordTypes \<Rightarrow> nat \<Rightarrow> ITInterfaceError + IRecordTypes"
and handle_record_type :: "u64 \<Rightarrow> IRecordTypes \<Rightarrow> IRecordTypes \<Rightarrow> nat \<Rightarrow> ITInterfaceError + IRecordTypes"
where
  "handle_itype itype all_records exported recursion_level =
    (if recursion_level > TYPE_RESOLVE_RECURSION_LIMIT then Inl TooManyRecursionLevels
     else (case itype of
       IT_Record record_type_id \<Rightarrow>
         handle_record_type record_type_id all_records exported (recursion_level + 1)
     | IT_Array array_ty \<Rightarrow> handle_itype array_ty all_records exported (recursion_level + 1)
     | _ \<Rightarrow> Inr exported))"
| "handle_record_type record_type_id all_records exported recursion_level =
    (case hm_get record_type_id all_records of
       None \<Rightarrow> Inl (NotFoundRecordTypeId record_type_id)
     | Some record_type \<Rightarrow>
         foldR (\<lambda>exported field. handle_itype (rf_ty field) all_records exported (recursion_level + 1))
           (hm_insert record_type_id record_type exported) (rt_fields record_type))"
  by pat_completeness auto
termination
  by (relation "measure (case_sum (\<lambda>(_, _, _, l). 2 * (3000 - l)) (\<lambda>(_, _, _, l). 2 * (3000 - l) + 1))")
    (auto simp: TYPE_RESOLVE_RECURSION_LIMIT_def)

declare handle_itype.simps [simp del] handle_record_type.simps [simp del]

record FullRecordTypes =
  full_record_types :: IRecordTypes
  full_export_record_types :: IRecordTypes

definition get_record_types :: "MITInterfaces \<Rightarrow> IFunctionSignature list \<Rightarrow> ITInterfaceError + FullRecordTypes" where
  "get_record_types mit export_funcs =
    (let all_records = get_all_records mit;
         itypes = concat (List.map (\<lambda>s. List.map fa_ty (fs_arguments s) @ fs_outputs s) export_funcs)
     in bindR (foldR (\<lambda>exported itype. handle_itype itype all_records exported 0) [] itypes)
          (\<lambda>exported. Inr \<lparr>full_record_types = all_records, full_export_record_types = exported\<rparr>))"

definition it_get_interface :: "MITInterfaces \<Rightarrow> ITInterfaceError + IModuleInterface" where
  "it_get_interface mit =
    bindR (get_export_funcs mit) (\<lambda>signatures.
    bindR (get_record_types mit signatures) (\<lambda>full.
    Inr \<lparr>export_record_types = full_export_record_types full,
      all_record_types = full_record_types full, function_signatures = signatures\<rparr>))"

subsection \<open>The graph of record types\<close>

text \<open>The record a type mentions, below any number of arrays, and the edges between records.\<close>

fun type_record :: "IType \<Rightarrow> u64 option" where
  "type_record (IT_Record i) = Some i"
| "type_record (IT_Array t) = type_record t"
| "type_record _ = None"

definition record_edges :: "IRecordTypes \<Rightarrow> (u64 \<times> u64) set" where
  "record_edges rts = {(i, j). \<exists>r f. hm_get i rts = Some r \<and> f \<in> set (rt_fields r) \<and>
      type_record (rf_ty f) = Some j}"

definition records_closed :: "IRecordTypes \<Rightarrow> bool" where
  "records_closed rts \<longleftrightarrow> (\<forall>(i, j)\<in>record_edges rts. hm_has j rts)"

text \<open>\<open>exported\<close> is a part of \<open>all\<close> with the same record types.\<close>

definition part_of :: "IRecordTypes \<Rightarrow> IRecordTypes \<Rightarrow> bool" where
  "part_of exported all_records \<longleftrightarrow>
    hm_ok exported \<and> (\<forall>i r. hm_get i exported = Some r \<longrightarrow> hm_get i all_records = Some r)"

lemma part_of_insert:
  "part_of exported all_records \<Longrightarrow> hm_get i all_records = Some r \<Longrightarrow> part_of (hm_insert i r exported) all_records"
  by (auto simp: part_of_def split: if_splits)

lemma handle_itype_ok:
  "handle_itype t all_records exported l = Inr exported' \<Longrightarrow> l \<le> 1024"
  by (auto simp: handle_itype.simps TYPE_RESOLVE_RECURSION_LIMIT_def split: if_splits)

text \<open>What a successful traversal adds: nothing is lost, what is added is part of all records,
  what it mentions is present, and the children of every added record are present.\<close>

definition extends :: "IRecordTypes \<Rightarrow> IRecordTypes \<Rightarrow> IRecordTypes \<Rightarrow> bool" where
  "extends all_records exported exported' \<longleftrightarrow>
    (part_of exported all_records \<longrightarrow> part_of exported' all_records) \<and>
    (\<forall>i. hm_has i exported \<longrightarrow> hm_has i exported') \<and>
    (\<forall>i j. hm_has i exported' \<longrightarrow> \<not> hm_has i exported \<longrightarrow> (i, j) \<in> record_edges all_records \<longrightarrow>
       hm_has j exported')"

lemma extends_refl [simp]: "extends all_records exported exported"
  by (simp add: extends_def)

lemma extends_trans:
  "extends all_records a b \<Longrightarrow> extends all_records b c \<Longrightarrow> extends all_records a c"
  unfolding extends_def by blast

lemma foldR_extends:
  assumes "foldR (\<lambda>e x. h x e) a xs = Inr c"
    and "\<And>x b b'. x \<in> set xs \<Longrightarrow> h x b = Inr b' \<Longrightarrow>
      extends all_records b b' \<and> (\<forall>j. ty x = Some j \<longrightarrow> hm_has j b')"
  shows "extends all_records a c \<and> (\<forall>x\<in>set xs. \<forall>j. ty x = Some j \<longrightarrow> hm_has j c)"
  using assms
proof (induction xs arbitrary: a)
  case (Cons x xs)
  then obtain b where b: "h x a = Inr b" "foldR (\<lambda>e x. h x e) b xs = Inr c"
    by (auto simp: bindR_Inr)
  then have "extends all_records a b" "\<forall>j. ty x = Some j \<longrightarrow> hm_has j b"
    using Cons.prems(2) [of x a b] by auto
  moreover have "extends all_records b c \<and> (\<forall>x\<in>set xs. \<forall>j. ty x = Some j \<longrightarrow> hm_has j c)"
    using Cons.IH [OF b(2)] Cons.prems(2) by auto
  moreover have "hm_has j c" if "hm_has j b" "extends all_records b c" for j
    using that by (simp add: extends_def)
  ultimately show ?case
    using extends_trans [of all_records a b c] by simp
qed simp

lemma handle_extends:
  "handle_itype t all_records e l = Inr e' \<Longrightarrow>
    extends all_records e e' \<and> (\<forall>j. type_record t = Some j \<longrightarrow> hm_has j e')"
  "handle_record_type i all_records e l = Inr e' \<Longrightarrow> extends all_records e e' \<and> hm_has i e'"
proof (induction t all_records e l and i all_records e l arbitrary: e' and e'
    rule: handle_itype_handle_record_type.induct)
  case (1 t all_records e l)
  then show ?case
    by (cases t) (auto simp: handle_itype.simps split: if_splits)
next
  case (2 i all_records e l)
  then obtain r where r: "hm_get i all_records = Some r"
    and run: "foldR (\<lambda>e f. handle_itype (rf_ty f) all_records e (l + 1)) (hm_insert i r e) (rt_fields r) = Inr e'"
    by (auto simp: handle_record_type.simps split: option.splits)
  have step: "extends all_records (hm_insert i r e) e' \<and>
      (\<forall>f\<in>set (rt_fields r). \<forall>j. type_record (rf_ty f) = Some j \<longrightarrow> hm_has j e')"
    using foldR_extends [OF run, of all_records "\<lambda>f. type_record (rf_ty f)"] 2(1) [OF r] by blast
  then have "hm_has j e'" if "(i, j) \<in> record_edges all_records" for j
    using that r by (auto simp: record_edges_def)
  moreover have "part_of e all_records \<Longrightarrow> part_of e' all_records" and "hm_has i e'"
    using step part_of_insert [OF _ r, of e] by (auto simp: extends_def)
  ultimately show ?case
    using step by (auto simp: extends_def)
qed

lemma handle_depth:
  "handle_itype t all_records e l = Inr e' \<Longrightarrow> type_record t = Some i \<Longrightarrow>
    (i, j) \<in> record_edges all_records ^^ n \<Longrightarrow> l + n \<le> 1024"
  "handle_record_type i all_records e l = Inr e' \<Longrightarrow>
    (i, j) \<in> record_edges all_records ^^ n \<Longrightarrow> n \<noteq> 0 \<Longrightarrow> l + n \<le> 1024"
proof (induction t all_records e l and i all_records e l arbitrary: e' i n and e' n
    rule: handle_itype_handle_record_type.induct)
  case (1 t all_records e l)
  then have "l \<le> 1024"
    by (auto dest: handle_itype_ok)
  then show ?case
    using 1 by (cases t; cases "n = 0")
      (fastforce simp: handle_itype.simps TYPE_RESOLVE_RECURSION_LIMIT_def split: if_splits)+
next
  case (2 i all_records e l)
  then obtain r where r: "hm_get i all_records = Some r"
    and run: "foldR (\<lambda>e f. handle_itype (rf_ty f) all_records e (l + 1)) (hm_insert i r e) (rt_fields r) = Inr e'"
    by (auto simp: handle_record_type.simps split: option.splits)
  obtain m where m: "n = Suc m"
    using 2(4) by (cases n) auto
  then obtain k where k: "(i, k) \<in> record_edges all_records" "(k, j) \<in> record_edges all_records ^^ m"
    using relpow_Suc_D2 [of i j m "record_edges all_records"] 2(3) by blast
  then obtain f where f: "f \<in> set (rt_fields r)" "type_record (rf_ty f) = Some k"
    using r by (auto simp: record_edges_def)
  obtain u v where "handle_itype (rf_ty f) all_records u (l + 1) = Inr v"
    using foldR_each [OF run f(1)] by auto
  then have "l + 1 + m \<le> 1024"
    using 2(1) [OF r f(1)] f(2) k(2) by blast
  then show ?case
    using m by simp
qed

text \<open>A record from which only paths of bounded length start cannot lie on a cycle.\<close>

definition bounded_paths :: "IRecordTypes \<Rightarrow> u64 \<Rightarrow> bool" where
  "bounded_paths rts i \<longleftrightarrow> (\<forall>n j. (i, j) \<in> record_edges rts ^^ n \<longrightarrow> n \<le> 1024)"

lemma handle_bounded:
  "handle_itype t all_records e l = Inr e' \<Longrightarrow> hm_has i e' \<Longrightarrow> \<not> hm_has i e \<Longrightarrow> bounded_paths all_records i"
  "handle_record_type k all_records e l = Inr e' \<Longrightarrow> hm_has i e' \<Longrightarrow> \<not> hm_has i e \<Longrightarrow>
    bounded_paths all_records i"
proof (induction t all_records e l and k all_records e l arbitrary: e' and e'
    rule: handle_itype_handle_record_type.induct)
  case (1 t all_records e l)
  then show ?case
    by (cases t) (auto simp: handle_itype.simps split: if_splits)
next
  case (2 k all_records e l)
  then obtain r where r: "hm_get k all_records = Some r"
    and run: "foldR (\<lambda>e f. handle_itype (rf_ty f) all_records e (l + 1)) (hm_insert k r e) (rt_fields r) = Inr e'"
    by (auto simp: handle_record_type.simps split: option.splits)
  have "n \<le> 1024" if "(k, j) \<in> record_edges all_records ^^ n" for n j
    using handle_depth(2) [OF 2(2) that] by (cases "n = 0") auto
  then have k: "bounded_paths all_records k"
    by (simp add: bounded_paths_def)
  have "hm_has i e' \<longrightarrow> hm_has i e \<or> bounded_paths all_records i"
    using run
  proof (rule foldR_invariant [where P = "\<lambda>u. hm_has i u \<longrightarrow> hm_has i e \<or> bounded_paths all_records i"])
    show "hm_has i (hm_insert k r e) \<longrightarrow> hm_has i e \<or> bounded_paths all_records i"
      using k by auto
    fix u f v
    assume "f \<in> set (rt_fields r)" "hm_has i u \<longrightarrow> hm_has i e \<or> bounded_paths all_records i"
      "handle_itype (rf_ty f) all_records u (l + 1) = Inr v"
    then show "hm_has i v \<longrightarrow> hm_has i e \<or> bounded_paths all_records i"
      using 2(1) [OF r] by blast
  qed
  then show ?case
    using 2(3,4) by blast
qed

lemma relpow_cycle: "(i, i) \<in> R ^^ n \<Longrightarrow> (i, i) \<in> R ^^ (k * n)"
  by (induction k) (auto simp: relpow_add)

lemma bounded_not_on_cycle:
  assumes "bounded_paths rts i"
  shows "(i, i) \<notin> (record_edges rts)\<^sup>+"
proof
  assume "(i, i) \<in> (record_edges rts)\<^sup>+"
  then obtain n where n: "n > 0" "(i, i) \<in> record_edges rts ^^ n"
    by (auto simp: trancl_power)
  then have "(i, i) \<in> record_edges rts ^^ (1025 * n)"
    by (rule_tac relpow_cycle)
  then have "1025 * n \<le> 1024"
    using assms by (simp only: bounded_paths_def)
  with n(1) show False
    by simp
qed

lemma record_edges_part: "part_of e all_records \<Longrightarrow> record_edges e \<subseteq> record_edges all_records"
  by (auto simp: part_of_def record_edges_def)

lemma get_record_types_spec:
  assumes "get_record_types mit sigs = Inr full"
  defines "e \<equiv> full_export_record_types full"
  shows "part_of e (get_all_records mit)" and "records_closed e" and "acyclic (record_edges e)"
    and "\<And>s t j. s \<in> set sigs \<Longrightarrow> t \<in> fa_ty ` set (fs_arguments s) \<union> set (fs_outputs s) \<Longrightarrow>
      type_record t = Some j \<Longrightarrow> hm_has j e"
proof -
  let ?all = "get_all_records mit"
  let ?types = "concat (List.map (\<lambda>s. List.map fa_ty (fs_arguments s) @ fs_outputs s) sigs)"
  have run: "foldR (\<lambda>e t. handle_itype t ?all e 0) [] ?types = Inr e"
    using assms by (auto simp: get_record_types_def Let_def bindR_Inr)
  have ext: "extends ?all [] e \<and> (\<forall>t\<in>set ?types. \<forall>j. type_record t = Some j \<longrightarrow> hm_has j e)"
    using handle_extends(1) by (intro foldR_extends [OF run]) auto
  show part: "part_of e ?all"
    using ext by (simp add: extends_def part_of_def)
  have sub: "record_edges e \<subseteq> record_edges ?all"
    using part by (rule record_edges_part)
  have dom: "hm_has i e" if "(i, j) \<in> record_edges e" for i j
    using that by (auto simp: record_edges_def hm_has_def)
  have empty: "\<not> hm_has i []" for i :: u64
    by (simp add: hm_has_def)
  show "records_closed e"
    using ext dom sub empty unfolding records_closed_def extends_def by blast
  show "hm_has j e" if "s \<in> set sigs" "t \<in> fa_ty ` set (fs_arguments s) \<union> set (fs_outputs s)"
      "type_record t = Some j" for s t j
    using ext that by auto
  have bounded: "hm_has i e \<longrightarrow> bounded_paths ?all i" for i
    using run
  proof (rule foldR_invariant [where P = "\<lambda>u. hm_has i u \<longrightarrow> bounded_paths ?all i"])
    fix u t v
    assume "hm_has i u \<longrightarrow> bounded_paths ?all i" "handle_itype t ?all u 0 = Inr v"
    then show "hm_has i v \<longrightarrow> bounded_paths ?all i"
      using handle_bounded(1) by blast
  qed (simp add: empty)
  show "acyclic (record_edges e)"
  proof (rule acyclicI, rule allI, rule notI)
    fix i
    assume cyc: "(i, i) \<in> (record_edges e)\<^sup>+"
    then have "hm_has i e"
      using dom by (auto dest: tranclD)
    moreover have "(i, i) \<in> (record_edges ?all)\<^sup>+"
      using cyc sub by (rule trancl_mono)
    ultimately show False
      using bounded bounded_not_on_cycle by blast
  qed
qed

text \<open>C22: The interface of a module is self-contained: if it is computed at all, every record its
  functions mention and every record those mention, however deep and below arrays, is among
  the exported record types, those are record types of the module, and they do not refer to
  themselves in a cycle: a recursive record is always an error.\<close>

theorem interface_records_closed_and_acyclic:
  assumes "it_get_interface mit = Inr i"
  shows "records_closed (export_record_types i) \<and> acyclic (record_edges (export_record_types i)) \<and>
    part_of (export_record_types i) (all_record_types i) \<and>
    (\<forall>s\<in>set (function_signatures i). \<forall>t\<in>fa_ty ` set (fs_arguments s) \<union> set (fs_outputs s).
       \<forall>j. type_record t = Some j \<longrightarrow> hm_has j (export_record_types i))"
proof -
  obtain full where full: "get_record_types mit (function_signatures i) = Inr full"
      "export_record_types i = full_export_record_types full"
      "all_record_types i = full_record_types full"
    using assms by (auto simp: it_get_interface_def bindR_Inr)
  then have "full_record_types full = get_all_records mit"
    by (auto simp: get_record_types_def Let_def bindR_Inr)
  then show ?thesis
    using get_record_types_spec [OF full(1)] full(2,3) by auto
qed

definition sample_interfaces :: Interfaces where
  "sample_interfaces = \<lparr>
    if_types = [Ast_Record \<lparr>rt_name = ''inner'', rt_fields = [\<lparr>rf_name = ''x'', rf_ty = IT_U8\<rparr>]\<rparr>,
      Ast_Record \<lparr>rt_name = ''outer'',
        rt_fields = [\<lparr>rf_name = ''r'', rf_ty = IT_Array (IT_Record 0)\<rparr>]\<rparr>,
      Ast_Function [\<lparr>fa_name = ''a'', fa_ty = IT_Record 1\<rparr>] [],
      Ast_Function [\<lparr>fa_name = ''a'', fa_ty = IT_Record 1\<rparr>] []],
    if_imports = [], if_adapters = [\<lparr>ad_function_type = 2, ad_instructions = [ArgumentGet 0]\<rparr>],
    if_exports = [\<lparr>ex_name = ''f'', ex_function_type = 3\<rparr>],
    if_implementations = [\<lparr>ip_core_function_type = 3, ip_adapter_function_type = 2\<rparr>]\<rparr>"

lemmas interface_defs = sample_interfaces_def MITInterfaces_new_def it_get_interface_def
  get_export_funcs_def get_export_funcs_descriptors_def implementations_def exports_by_type_def
  mm_get_vec_def mm_insert_def collect_multimap_def collect_hmap_def hm_insert_def map_filter_def
  type_by_idx_r_def type_by_idx_def get_record_types_def get_all_records_def Let_def
  handle_itype.simps handle_record_type.simps TYPE_RESOLVE_RECURSION_LIMIT_def

lemma sample_interface:
  "\<exists>i. it_get_interface (MITInterfaces_new sample_interfaces) = Inr i \<and> hm_has 0 (export_record_types i) \<and>
    List.map fs_name (function_signatures i) = [''f'']"
  by (simp add: interface_defs hm_has_def)

lemma interface_records_closed_and_acyclic_witness:
  "\<exists>i. it_get_interface (MITInterfaces_new sample_interfaces) = Inr i \<and>
    records_closed (export_record_types i) \<and> acyclic (record_edges (export_record_types i))"
proof -
  obtain i where "it_get_interface (MITInterfaces_new sample_interfaces) = Inr i"
    using sample_interface by blast
  with interface_records_closed_and_acyclic [OF this] show ?thesis
    by blast
qed

end
