(* ===== verification/ModuleInterface.thy ===== *)
theory ModuleInterface
  imports ItInterface "HOL-Library.List_Lexorder" "HOL-Library.Char_ord" "HOL-Library.Multiset"
begin

text \<open>
  The textual interface of a module: \<open>crates/module-interface/src/interface/\<close>.  Records are
  listed by a depth first search over their fields, so that a record comes after the records
  it mentions.  An \<open>unwrap\<close> that fails is None.
\<close>

record FunctionSignature =
  sg_name :: string
  sg_arguments :: "(string \<times> string) list"
  sg_output_types :: "string list"

record RecordField =
  rd_name :: string
  rd_ty :: string

record RecordType =
  rc_name :: string
  rc_id :: u64
  rc_fields :: "RecordField list"

record ModuleInterface =
  mi_function_signatures :: "FunctionSignature list"
  mi_record_types :: "RecordType list"

datatype InterfaceError = IE_NotFoundRecordTypeId u64 | IE_ITInterfaceError ITInterfaceError

subsection \<open>Types as text\<close>

fun itype_text_view :: "IType \<Rightarrow> IRecordTypes \<Rightarrow> string option" where
  "itype_text_view (IT_Record record_type_id) rts = map_option rt_name (hm_get record_type_id rts)"
| "itype_text_view (IT_Array array_ty) rts = map_option (\<lambda>s. ''[]'' @ s) (itype_text_view array_ty rts)"
| "itype_text_view IT_Boolean rts = Some ''bool''"
| "itype_text_view IT_S8 rts = Some ''i8''"
| "itype_text_view IT_S16 rts = Some ''i16''"
| "itype_text_view IT_S32 rts = Some ''i32''"
| "itype_text_view IT_S64 rts = Some ''i64''"
| "itype_text_view IT_U8 rts = Some ''u8''"
| "itype_text_view IT_U16 rts = Some ''u16''"
| "itype_text_view IT_U32 rts = Some ''u32''"
| "itype_text_view IT_U64 rts = Some ''u64''"
| "itype_text_view IT_F32 rts = Some ''f32''"
| "itype_text_view IT_F64 rts = Some ''f64''"
| "itype_text_view IT_String rts = Some ''string''"
| "itype_text_view IT_ByteArray rts = Some ''[]u8''"
| "itype_text_view IT_I32 rts = Some ''i32''"
| "itype_text_view IT_I64 rts = Some ''i64''"

text \<open>A list of optional results, None when one of them is.\<close>

fun sequence :: "'a option list \<Rightarrow> 'a list option" where
  "sequence [] = Some []"
| "sequence (x # xs) = (case x of None \<Rightarrow> None | Some y \<Rightarrow> map_option (\<lambda>ys. y # ys) (sequence xs))"

definition serialize_function_signature :: "IFunctionSignature \<Rightarrow> IRecordTypes \<Rightarrow> FunctionSignature option" where
  "serialize_function_signature signature rts =
    (case sequence (List.map (\<lambda>a. map_option (\<lambda>t. (fa_name a, t)) (itype_text_view (fa_ty a) rts))
        (fs_arguments signature)) of
       None \<Rightarrow> None
     | Some arguments \<Rightarrow>
        (case sequence (List.map (\<lambda>t. itype_text_view t rts) (fs_outputs signature)) of
           None \<Rightarrow> None
         | Some outputs \<Rightarrow> Some \<lparr>sg_name = fs_name signature, sg_arguments = arguments,
             sg_output_types = outputs\<rparr>))"

subsection \<open>The order of signatures\<close>

datatype Ordering = Less | Equal | Greater

definition signature_cmp :: "FunctionSignature \<Rightarrow> FunctionSignature \<Rightarrow> Ordering" where
  "signature_cmp a b = (if sg_name a < sg_name b then Less else if a = b then Equal else Greater)"

subsection \<open>Records in topological order\<close>

record RecordsTransformer =
  tr_used :: "u64 list"
  tr_sorted_order :: "u64 list"

text \<open>The keys a search can still mark: the record types, and for a call on a record the record
  itself.\<close>

definition unmarked :: "u64 set \<Rightarrow> RecordsTransformer \<Rightarrow> nat" where
  "unmarked K st = card (K - set (tr_used st))"

lemma unmarked_mono:
  "finite K \<Longrightarrow> set (tr_used st) \<subseteq> set (tr_used st') \<Longrightarrow> unmarked K st' \<le> unmarked K st"
  unfolding unmarked_def by (rule card_mono) auto

lemma unmarked_insert:
  "finite K \<Longrightarrow> i \<notin> set (tr_used st) \<Longrightarrow>
   unmarked K (st\<lparr>tr_used := i # tr_used st\<rparr>) < unmarked (insert i K) st"
  unfolding unmarked_def by (rule psubset_card_mono) auto

definition dfs_size :: "u64 \<times> IRecordType \<times> IRecordTypes \<times> RecordsTransformer +
    (RecordFieldType list \<times> IRecordTypes \<times> RecordsTransformer + IType \<times> IRecordTypes \<times> RecordsTransformer) \<Rightarrow>
    nat \<times> nat" where
  "dfs_size = case_sum (\<lambda>(i, r, rts, st). (unmarked (insert i (fst ` set rts)) st, 0))
    (case_sum
      (\<lambda>(fs, rts, st). (unmarked (fst ` set rts) st, 1 + sum_list (List.map (\<lambda>f. 2 + size (rf_ty f)) fs)))
      (\<lambda>(t, rts, st). (unmarked (fst ` set rts) st, 1 + size t)))"

function (sequential)
  dfs :: "u64 \<Rightarrow> IRecordType \<Rightarrow> IRecordTypes \<Rightarrow> RecordsTransformer \<Rightarrow> InterfaceError + RecordsTransformer"
and fields_dfs :: "RecordFieldType list \<Rightarrow> IRecordTypes \<Rightarrow> RecordsTransformer \<Rightarrow>
    InterfaceError + RecordsTransformer"
and type_dfs :: "IType \<Rightarrow> IRecordTypes \<Rightarrow> RecordsTransformer \<Rightarrow> InterfaceError + RecordsTransformer"
where
  "dfs record_id r rts st =
    (if record_id \<in> set (tr_used st) then Inr st
     else bindR (fields_dfs (rt_fields r) rts (st\<lparr>tr_used := record_id # tr_used st\<rparr>))
       (\<lambda>st. Inr (st\<lparr>tr_sorted_order := tr_sorted_order st @ [record_id]\<rparr>)))"
| "fields_dfs [] rts st = Inr st"
| "fields_dfs (f # fs) rts st = bindR (type_dfs (rf_ty f) rts st) (\<lambda>st. fields_dfs fs rts st)"
| "type_dfs (IT_Record type_id) rts st =
    (case hm_get type_id rts of
       None \<Rightarrow> Inl (IE_NotFoundRecordTypeId type_id)
     | Some child \<Rightarrow> dfs type_id child rts st)"
| "type_dfs (IT_Array ty) rts st = type_dfs ty rts st"
| "type_dfs _ rts st = Inr st"
  by pat_completeness auto

lemma dfs_used_mono:
  "dfs_fields_dfs_type_dfs_dom (Inl (i, r, rts, st)) \<Longrightarrow> dfs i r rts st = Inr st' \<Longrightarrow>
    set (tr_used st) \<subseteq> set (tr_used st')"
  "dfs_fields_dfs_type_dfs_dom (Inr (Inl (fs, rts, st))) \<Longrightarrow> fields_dfs fs rts st = Inr st' \<Longrightarrow>
    set (tr_used st) \<subseteq> set (tr_used st')"
  "dfs_fields_dfs_type_dfs_dom (Inr (Inr (t, rts, st))) \<Longrightarrow> type_dfs t rts st = Inr st' \<Longrightarrow>
    set (tr_used st) \<subseteq> set (tr_used st')"
proof (induction i r rts st and fs rts st and t rts st arbitrary: st' and st' and st'
    rule: dfs_fields_dfs_type_dfs.pinduct)
  case (1 i r rts st)
  then show ?case
    by (fastforce simp: dfs.psimps bindR_Inr split: if_splits)
next
  case (3 f fs rts st)
  then show ?case
    by (fastforce simp: fields_dfs.psimps bindR_Inr)
next
  case (4 i rts st)
  then show ?case
    by (auto simp: type_dfs.psimps split: option.splits)
qed (simp_all add: fields_dfs.psimps type_dfs.psimps)

termination dfs
proof (relation "inv_image (less_than <*lex*> less_than) dfs_size")
  show "wf (inv_image (less_than <*lex*> less_than) dfs_size)"
    by auto
next
  fix i :: u64 and r :: IRecordType and rts :: IRecordTypes and st :: RecordsTransformer
  assume "i \<notin> set (tr_used st)"
  then show "(Inr (Inl (rt_fields r, rts, st\<lparr>tr_used := i # tr_used st\<rparr>)), Inl (i, r, rts, st))
      \<in> inv_image (less_than <*lex*> less_than) dfs_size"
    using unmarked_insert [of "fst ` set rts" i st] by (simp add: dfs_size_def)
next
  fix f :: RecordFieldType and fs rts and st :: RecordsTransformer
  show "(Inr (Inr (rf_ty f, rts, st)), Inr (Inl (f # fs, rts, st)))
      \<in> inv_image (less_than <*lex*> less_than) dfs_size"
    by (simp add: dfs_size_def)
next
  fix f :: RecordFieldType and fs :: "RecordFieldType list" and rts and st st' :: RecordsTransformer
  assume run: "type_dfs (rf_ty f) rts st = Inr st'"
    and dom: "dfs_fields_dfs_type_dfs_dom (Inr (Inr (rf_ty f, rts, st)))"
  have "unmarked (fst ` set rts) st' \<le> unmarked (fst ` set rts) st"
    by (rule unmarked_mono [OF _ dfs_used_mono(3) [OF dom run]]) simp
  then show "(Inr (Inl (fs, rts, st')), Inr (Inl (f # fs, rts, st)))
      \<in> inv_image (less_than <*lex*> less_than) dfs_size"
    by (auto simp: dfs_size_def)
next
  fix type_id and rts :: IRecordTypes and st :: RecordsTransformer and child
  assume "hm_get type_id rts = Some child"
  then have "type_id \<in> fst ` set rts"
    using hm_get_in_set [of type_id rts child] by (metis fst_conv imageI)
  then have "insert type_id (fst ` set rts) = fst ` set rts"
    by (rule insert_absorb)
  then show "(Inl (type_id, child, rts, st), Inr (Inr (IT_Record type_id, rts, st)))
      \<in> inv_image (less_than <*lex*> less_than) dfs_size"
    by (simp add: dfs_size_def)
next
  fix ty and rts :: IRecordTypes and st :: RecordsTransformer
  show "(Inr (Inr (ty, rts, st)), Inr (Inr (IT_Array ty, rts, st)))
      \<in> inv_image (less_than <*lex*> less_than) dfs_size"
    by (simp add: dfs_size_def)
qed

declare dfs.simps [simp del]

text \<open>The outer loop visits the records in the order of their names, which makes the result
  independent of the order of the hash map up to records of one name.\<close>

definition topological_sort :: "IRecordTypes \<Rightarrow> RecordsTransformer \<Rightarrow> InterfaceError + RecordsTransformer" where
  "topological_sort exported st =
    foldR (\<lambda>st (i, r). dfs i r exported st) st (sort_key (\<lambda>(i, r). rt_name r) exported)"

definition convert_record :: "u64 \<Rightarrow> IRecordType \<Rightarrow> IRecordTypes \<Rightarrow> RecordType option" where
  "convert_record i r rts =
    map_option (\<lambda>fields. \<lparr>rc_name = rt_name r, rc_id = i, rc_fields = fields\<rparr>)
      (sequence (List.map (\<lambda>f. map_option (\<lambda>t. \<lparr>rd_name = rf_name f, rd_ty = t\<rparr>)
        (itype_text_view (rf_ty f) rts)) (rt_fields r)))"

definition into_transformed_records :: "RecordsTransformer \<Rightarrow> IRecordTypes \<Rightarrow> RecordType list option" where
  "into_transformed_records st rts =
    sequence (List.map (\<lambda>i. case hm_get i rts of None \<Rightarrow> None | Some r \<Rightarrow> convert_record i r rts)
      (tr_sorted_order st))"

definition transform :: "IRecordTypes \<Rightarrow> (InterfaceError + RecordType list) option" where
  "transform rts =
    (case topological_sort rts \<lparr>tr_used = [], tr_sorted_order = []\<rparr> of
       Inl e \<Rightarrow> Some (Inl e)
     | Inr st \<Rightarrow> map_option Inr (into_transformed_records st rts))"

definition it_to_module_interface :: "IModuleInterface \<Rightarrow> (InterfaceError + ModuleInterface) option" where
  "it_to_module_interface i =
    (let rts = export_record_types i in
     case sequence (List.map (\<lambda>s. serialize_function_signature s rts) (function_signatures i)) of
       None \<Rightarrow> None
     | Some signatures \<Rightarrow>
        (case transform rts of
           None \<Rightarrow> None
         | Some (Inl e) \<Rightarrow> Some (Inl e)
         | Some (Inr records) \<Rightarrow>
             Some (Inr \<lparr>mi_function_signatures = signatures, mi_record_types = records\<rparr>)))"

definition get_interface :: "MITInterfaces \<Rightarrow> (InterfaceError + ModuleInterface) option" where
  "get_interface mit =
    (case it_get_interface mit of
       Inl e \<Rightarrow> Some (Inl (IE_ITInterfaceError e))
     | Inr i \<Rightarrow> it_to_module_interface i)"

subsection \<open>The order is topological\<close>

definition children_before :: "IRecordTypes \<Rightarrow> u64 list \<Rightarrow> bool" where
  "children_before rts order \<longleftrightarrow>
    (\<forall>k < length order. \<forall>j. (order ! k, j) \<in> record_edges rts \<longrightarrow> j \<in> set (take k order))"

text \<open>Between two steps the marked records are the finished ones and those on the current path
  \<open>G\<close>.\<close>

definition dfs_inv :: "IRecordTypes \<Rightarrow> u64 set \<Rightarrow> RecordsTransformer \<Rightarrow> bool" where
  "dfs_inv rts G st \<longleftrightarrow>
    distinct (tr_sorted_order st) \<and> set (tr_used st) = set (tr_sorted_order st) \<union> G \<and>
    set (tr_sorted_order st) \<inter> G = {} \<and> children_before rts (tr_sorted_order st) \<and>
    (\<forall>i\<in>set (tr_sorted_order st). hm_has i rts)"

lemma children_before_snoc:
  "children_before rts order \<Longrightarrow> (\<And>j. (i, j) \<in> record_edges rts \<Longrightarrow> j \<in> set order) \<Longrightarrow>
   children_before rts (order @ [i])"
  by (auto simp: children_before_def nth_append less_Suc_eq)

lemma dfs_inv_push:
  "dfs_inv rts G st \<Longrightarrow> i \<notin> set (tr_used st) \<Longrightarrow>
   dfs_inv rts (insert i G) (st\<lparr>tr_used := i # tr_used st\<rparr>)"
  by (auto simp: dfs_inv_def)

lemma dfs_inv_pop:
  "dfs_inv rts (insert i G) st \<Longrightarrow> i \<notin> G \<Longrightarrow> hm_has i rts \<Longrightarrow>
   (\<And>j. (i, j) \<in> record_edges rts \<Longrightarrow> j \<in> set (tr_sorted_order st)) \<Longrightarrow>
   dfs_inv rts G (st\<lparr>tr_sorted_order := tr_sorted_order st @ [i]\<rparr>)"
  by (auto simp: dfs_inv_def children_before_snoc)

lemma dfs_topological:
  "records_closed rts \<Longrightarrow> acyclic (record_edges rts) \<Longrightarrow> hm_get i rts = Some r \<Longrightarrow> dfs_inv rts G st \<Longrightarrow>
    (\<forall>g\<in>G. (g, i) \<in> (record_edges rts)\<^sup>+) \<Longrightarrow>
    \<exists>st'. dfs i r rts st = Inr st' \<and> dfs_inv rts G st' \<and> i \<in> set (tr_sorted_order st') \<and>
      set (tr_sorted_order st) \<subseteq> set (tr_sorted_order st')"
  "records_closed rts \<Longrightarrow> acyclic (record_edges rts) \<Longrightarrow> hm_get p rts = Some q \<Longrightarrow>
    set fs \<subseteq> set (rt_fields q) \<Longrightarrow> dfs_inv rts G st \<Longrightarrow> (\<forall>g\<in>G. (g, p) \<in> (record_edges rts)\<^sup>*) \<Longrightarrow>
    \<exists>st'. fields_dfs fs rts st = Inr st' \<and> dfs_inv rts G st' \<and>
      (\<forall>f\<in>set fs. \<forall>j. type_record (rf_ty f) = Some j \<longrightarrow> j \<in> set (tr_sorted_order st')) \<and>
      set (tr_sorted_order st) \<subseteq> set (tr_sorted_order st')"
  "records_closed rts \<Longrightarrow> acyclic (record_edges rts) \<Longrightarrow> dfs_inv rts G st \<Longrightarrow>
    (\<forall>j. type_record t = Some j \<longrightarrow> hm_has j rts \<and> (\<forall>g\<in>G. (g, j) \<in> (record_edges rts)\<^sup>+)) \<Longrightarrow>
    \<exists>st'. type_dfs t rts st = Inr st' \<and> dfs_inv rts G st' \<and>
      (\<forall>j. type_record t = Some j \<longrightarrow> j \<in> set (tr_sorted_order st')) \<and>
      set (tr_sorted_order st) \<subseteq> set (tr_sorted_order st')"
proof (induction i r rts st and fs rts st and t rts st arbitrary: G and G p q and G
    rule: dfs_fields_dfs_type_dfs.induct)
  case (1 i r rts st)
  show ?case
  proof (cases "i \<in> set (tr_used st)")
    case True
    have "i \<notin> G"
      using 1(3,6) by (auto simp: acyclic_def)
    then show ?thesis
      using True 1(5) by (auto simp: dfs.simps dfs_inv_def)
  next
    case False
    have path: "\<forall>g\<in>insert i G. (g, i) \<in> (record_edges rts)\<^sup>*"
      using 1(6) by auto
    obtain st2 where st2: "fields_dfs (rt_fields r) rts (st\<lparr>tr_used := i # tr_used st\<rparr>) = Inr st2"
        "dfs_inv rts (insert i G) st2"
        "\<forall>f\<in>set (rt_fields r). \<forall>j. type_record (rf_ty f) = Some j \<longrightarrow> j \<in> set (tr_sorted_order st2)"
        "set (tr_sorted_order st) \<subseteq> set (tr_sorted_order st2)"
      using 1(1) [OF False 1(2-4) subset_refl dfs_inv_push [OF 1(5) False] path] by auto
    have "j \<in> set (tr_sorted_order st2)" if "(i, j) \<in> record_edges rts" for j
      using that st2(3) 1(4) by (auto simp: record_edges_def)
    moreover have "i \<notin> G"
      using False 1(5) by (auto simp: dfs_inv_def)
    moreover have "hm_has i rts"
      using 1(4) by (simp add: hm_has_def)
    ultimately have "dfs_inv rts G (st2\<lparr>tr_sorted_order := tr_sorted_order st2 @ [i]\<rparr>)"
      using dfs_inv_pop [OF st2(2)] by blast
    then show ?thesis
      using False st2 by (auto simp: dfs.simps)
  qed
next
  case (3 f fs rts st)
  have child: "hm_has j rts \<and> (\<forall>g\<in>G. (g, j) \<in> (record_edges rts)\<^sup>+)"
    if "type_record (rf_ty f) = Some j" for j
  proof -
    have "(p, j) \<in> record_edges rts"
      using that 3(5,6) by (auto simp: record_edges_def)
    then show ?thesis
      using 3(3,8) by (auto simp: records_closed_def intro: rtrancl_into_trancl1)
  qed
  obtain st1 where st1: "type_dfs (rf_ty f) rts st = Inr st1" "dfs_inv rts G st1"
      "\<forall>j. type_record (rf_ty f) = Some j \<longrightarrow> j \<in> set (tr_sorted_order st1)"
      "set (tr_sorted_order st) \<subseteq> set (tr_sorted_order st1)"
    using 3(1) [OF 3(3,4,7)] child by auto
  have "set fs \<subseteq> set (rt_fields q)"
    using 3(6) by simp
  then show ?case
    using 3(2) [OF st1(1) 3(3-5) _ st1(2) 3(8)] st1 by fastforce
next
  case (4 i rts st)
  then obtain r where "hm_get i rts = Some r"
    by (auto simp: hm_has_def)
  then show ?case
    using 4 by auto
qed auto

lemma topological_sort_from:
  assumes "records_closed rts" and "acyclic (record_edges rts)"
  shows "(\<And>i r. (i, r) \<in> set xs \<Longrightarrow> hm_get i rts = Some r) \<Longrightarrow> dfs_inv rts {} st \<Longrightarrow>
    \<exists>st'. foldR (\<lambda>st (i, r). dfs i r rts st) st xs = Inr st' \<and> dfs_inv rts {} st' \<and>
      fst ` set xs \<subseteq> set (tr_sorted_order st') \<and>
      set (tr_sorted_order st) \<subseteq> set (tr_sorted_order st')"
proof (induction xs arbitrary: st)
  case (Cons x xs)
  obtain i r where x: "x = (i, r)" by (cases x)
  then obtain st1 where st1: "dfs i r rts st = Inr st1" "dfs_inv rts {} st1"
      "i \<in> set (tr_sorted_order st1)" "set (tr_sorted_order st) \<subseteq> set (tr_sorted_order st1)"
    using dfs_topological(1) [OF assms _ Cons.prems(2)] Cons.prems(1) by force
  have "\<And>i r. (i, r) \<in> set xs \<Longrightarrow> hm_get i rts = Some r"
    using Cons.prems(1) by simp
  then show ?case
    using Cons.IH [OF _ st1(2)] st1 x by fastforce
qed auto

lemma topological_sort_ok:
  assumes "records_closed rts" and "acyclic (record_edges rts)" and "hm_ok rts"
  shows "\<exists>st. topological_sort rts \<lparr>tr_used = [], tr_sorted_order = []\<rparr> = Inr st \<and>
    dfs_inv rts {} st \<and> set (tr_sorted_order st) = fst ` set rts"
proof -
  let ?st = "\<lparr>tr_used = [], tr_sorted_order = []\<rparr>"
  have start: "dfs_inv rts {} ?st"
    by (simp add: dfs_inv_def children_before_def)
  obtain st where st: "topological_sort rts ?st = Inr st" "dfs_inv rts {} st"
      "fst ` set rts \<subseteq> set (tr_sorted_order st)"
    using topological_sort_from [OF assms(1,2) _ start, of "sort_key (\<lambda>(i, r). rt_name r) rts"]
      hm_get_mem [OF assms(3)] by (auto simp: topological_sort_def)
  moreover have "set (tr_sorted_order st) \<subseteq> fst ` set rts"
    using st(2) by (auto simp: dfs_inv_def hm_has_iff)
  ultimately show ?thesis
    by blast
qed

lemma sequence_Some: "sequence xs = Some ys \<longleftrightarrow> xs = List.map Some ys"
  by (induction xs arbitrary: ys) (auto split: option.splits)

lemma sequence_total: "(\<And>x. x \<in> set xs \<Longrightarrow> \<exists>y. x = Some y) \<Longrightarrow> \<exists>ys. sequence xs = Some ys"
  by (induction xs) fastforce+

lemma sequence_map_total:
  "(\<And>x. x \<in> set xs \<Longrightarrow> \<exists>y. f x = Some y) \<Longrightarrow> \<exists>ys. sequence (List.map f xs) = Some ys"
  by (rule sequence_total) auto

lemma sequence_map_proj:
  "sequence (List.map f xs) = Some ys \<Longrightarrow> (\<And>x y. x \<in> set xs \<Longrightarrow> f x = Some y \<Longrightarrow> g y = h x) \<Longrightarrow>
   List.map g ys = List.map h xs"
  by (induction xs arbitrary: ys) (auto split: option.splits)

lemma itype_text_view_total:
  "(\<And>j. type_record t = Some j \<Longrightarrow> hm_has j rts) \<Longrightarrow> \<exists>s. itype_text_view t rts = Some s"
  by (induction t) (auto simp: hm_has_def)

lemma convert_record_total:
  assumes "records_closed rts" and "hm_get i rts = Some r"
  shows "\<exists>c. convert_record i r rts = Some c \<and> rc_id c = i"
proof -
  have "\<exists>s. itype_text_view (rf_ty f) rts = Some s" if "f \<in> set (rt_fields r)" for f
    using assms that by (intro itype_text_view_total) (auto simp: records_closed_def record_edges_def)
  then have "\<exists>fields. sequence (List.map (\<lambda>f. map_option (\<lambda>t. \<lparr>rd_name = rf_name f, rd_ty = t\<rparr>)
      (itype_text_view (rf_ty f) rts)) (rt_fields r)) = Some fields"
    by (intro sequence_map_total) auto
  then show ?thesis
    by (auto simp: convert_record_def)
qed

lemma serialize_total:
  assumes "\<And>t j. t \<in> fa_ty ` set (fs_arguments s) \<union> set (fs_outputs s) \<Longrightarrow> type_record t = Some j \<Longrightarrow>
      hm_has j rts"
  shows "\<exists>g. serialize_function_signature s rts = Some g \<and> sg_name g = fs_name s"
proof -
  have shown: "\<exists>x. itype_text_view t rts = Some x"
    if "t \<in> fa_ty ` set (fs_arguments s) \<union> set (fs_outputs s)" for t
    using assms that itype_text_view_total by blast
  have "\<exists>as. sequence (List.map (\<lambda>a. map_option (\<lambda>t. (fa_name a, t)) (itype_text_view (fa_ty a) rts))
      (fs_arguments s)) = Some as"
    using shown by (intro sequence_map_total) auto
  moreover have "\<exists>os. sequence (List.map (\<lambda>t. itype_text_view t rts) (fs_outputs s)) = Some os"
    using shown by (intro sequence_map_total) auto
  ultimately show ?thesis
    by (auto simp: serialize_function_signature_def)
qed

lemma transform_ok:
  assumes "records_closed rts" and "acyclic (record_edges rts)" and "hm_ok rts"
  shows "\<exists>cs. transform rts = Some (Inr cs) \<and> distinct (List.map rc_id cs) \<and>
    set (List.map rc_id cs) = fst ` set rts \<and> children_before rts (List.map rc_id cs)"
proof -
  obtain st where st: "topological_sort rts \<lparr>tr_used = [], tr_sorted_order = []\<rparr> = Inr st"
      "dfs_inv rts {} st" "set (tr_sorted_order st) = fst ` set rts"
    using topological_sort_ok [OF assms] by blast
  let ?f = "\<lambda>i. case hm_get i rts of None \<Rightarrow> None | Some r \<Rightarrow> convert_record i r rts"
  have each: "\<exists>c. ?f i = Some c \<and> rc_id c = i" if "i \<in> set (tr_sorted_order st)" for i
  proof -
    have "hm_has i rts"
      using that st(2) unfolding dfs_inv_def by blast
    then obtain r where "hm_get i rts = Some r"
      by (auto simp: hm_has_def)
    then show ?thesis
      using convert_record_total [OF assms(1)] by simp
  qed
  obtain cs where cs: "sequence (List.map ?f (tr_sorted_order st)) = Some cs"
    using sequence_map_total [of "tr_sorted_order st" ?f] each by blast
  have "List.map rc_id cs = List.map (\<lambda>i. i) (tr_sorted_order st)"
    using cs by (rule sequence_map_proj) (use each in fastforce)
  then have ids: "List.map rc_id cs = tr_sorted_order st"
    by simp
  have "transform rts = Some (Inr cs)"
    using st(1) cs by (simp add: transform_def into_transformed_records_def)
  then show ?thesis
    using st(2,3) by (intro exI [of _ cs]) (simp add: ids dfs_inv_def del: set_map)
qed

text \<open>C13: The textual interface of a module never panics: it fails exactly when the interface itself
  cannot be computed, with that error, and otherwise lists every exported record type once,
  each after all the records its fields mention, with one signature per exported function.\<close>

theorem module_interface_topologically_sorted:
  "case it_get_interface mit of
     Inl e \<Rightarrow> get_interface mit = Some (Inl (IE_ITInterfaceError e))
   | Inr i \<Rightarrow> \<exists>m. get_interface mit = Some (Inr m) \<and>
       List.map sg_name (mi_function_signatures m) = List.map fs_name (function_signatures i) \<and>
       distinct (List.map rc_id (mi_record_types m)) \<and>
       set (List.map rc_id (mi_record_types m)) = fst ` set (export_record_types i) \<and>
       children_before (export_record_types i) (List.map rc_id (mi_record_types m))"
proof (cases "it_get_interface mit")
  case (Inr i)
  let ?rts = "export_record_types i"
  obtain full where full: "get_record_types mit (function_signatures i) = Inr full"
      "?rts = full_export_record_types full"
    using Inr by (auto simp: it_get_interface_def bindR_Inr)
  note spec = get_record_types_spec [OF full(1), folded full(2)]
  obtain cs where cs: "transform ?rts = Some (Inr cs)" "distinct (List.map rc_id cs)"
      "set (List.map rc_id cs) = fst ` set ?rts" "children_before ?rts (List.map rc_id cs)"
    using transform_ok [OF spec(2,3)] spec(1) by (auto simp: part_of_def)
  have each: "\<exists>g. serialize_function_signature s ?rts = Some g \<and> sg_name g = fs_name s"
    if "s \<in> set (function_signatures i)" for s
    using spec(4) [OF that] by (rule serialize_total)
  have "\<exists>gs. sequence (List.map (\<lambda>s. serialize_function_signature s ?rts)
      (function_signatures i)) = Some gs"
    by (rule sequence_map_total) (use each in blast)
  then obtain gs where gs: "sequence (List.map (\<lambda>s. serialize_function_signature s ?rts)
      (function_signatures i)) = Some gs" ..
  have "List.map sg_name gs = List.map fs_name (function_signatures i)"
    using gs by (rule sequence_map_proj) (use each in fastforce)
  then have names: "List.map sg_name gs = List.map fs_name (function_signatures i)" .
  let ?m = "\<lparr>mi_function_signatures = gs, mi_record_types = cs\<rparr>"
  have "get_interface mit = Some (Inr ?m)"
    using Inr gs cs(1) by (simp add: get_interface_def it_to_module_interface_def Let_def)
  then show ?thesis
    unfolding Inr sum.case using names cs(2-4)
    by (intro exI [of _ ?m]) (simp del: set_map)
qed (simp add: get_interface_def)

subsection \<open>Determinism\<close>

lemma dfs_lookup_cong:
  "(\<And>j. hm_get j a = hm_get j b) \<Longrightarrow> dfs i r a st = dfs i r b st"
  "(\<And>j. hm_get j a = hm_get j b) \<Longrightarrow> fields_dfs fs a st = fields_dfs fs b st"
  "(\<And>j. hm_get j a = hm_get j b) \<Longrightarrow> type_dfs t a st = type_dfs t b st"
proof (induction i r a st and fs a st and t a st rule: dfs_fields_dfs_type_dfs.induct)
  case (1 i r a st)
  then show ?case
    by (simp add: dfs.simps)
next
  case (3 f fs a st)
  then show ?case
    by (auto intro!: bindR_cong)
next
  case (4 i a st)
  then show ?case
    by (auto split: option.splits)
qed simp_all

lemma itype_text_view_cong:
  "(\<And>j. hm_get j a = hm_get j b) \<Longrightarrow> itype_text_view t a = itype_text_view t b"
  by (induction t) auto

lemma hm_get_same_set:
  assumes "hm_ok a" and "hm_ok b" and "set a = set b"
  shows "hm_get j a = hm_get j b"
proof -
  have "hm_get j a = Some v \<longleftrightarrow> hm_get j b = Some v" for v
    by (simp only: hm_get_mem [OF assms(1)] hm_get_mem [OF assms(2)] assms(3))
  then show ?thesis
    by (metis not_Some_eq)
qed

lemma convert_record_cong:
  assumes "\<And>j. hm_get j a = hm_get j b"
  shows "convert_record i r a = convert_record i r b"
  using assms itype_text_view_cong [of a b] by (simp add: convert_record_def cong: list.map_cong)

lemma transform_lookup_cong:
  assumes "\<And>j. hm_get j a = hm_get j b"
    and "sort_key (\<lambda>(i, r). rt_name r) a = sort_key (\<lambda>(i, r). rt_name r) b"
  shows "transform a = transform b"
proof -
  have "dfs i r a st = dfs i r b st" for i r st
    using assms(1) by (rule dfs_lookup_cong)
  then have "topological_sort a st = topological_sort b st" for st
    using assms(2) by (simp add: topological_sort_def)
  moreover have "convert_record i r a = convert_record i r b" for i r
    using assms(1) by (rule convert_record_cong)
  then have "into_transformed_records st a = into_transformed_records st b" for st
    using assms(1) by (simp add: into_transformed_records_def cong: option.case_cong)
  ultimately show ?thesis
    by (simp add: transform_def split: sum.split)
qed

text \<open>The listing of the records does not depend on the order in which the hash map iterates, as
  long as no two records have one name.\<close>

theorem records_order_is_deterministic:
  assumes "hm_ok a" and "mset a = mset b" and "distinct (List.map (\<lambda>(i, r). rt_name r) a)"
  shows "transform a = transform b"
proof (rule transform_lookup_cong)
  have "mset (List.map fst a) = mset (List.map fst b)"
    using assms(2) by simp
  then have "hm_ok b"
    using assms(1) mset_eq_imp_distinct_iff unfolding hm_ok_def by blast
  moreover have "set a = set b"
    using assms(2) by (rule mset_eq_setD)
  ultimately show "hm_get j a = hm_get j b" for j
    by (rule hm_get_same_set [OF assms(1)])
  show "sort_key (\<lambda>(i, r). rt_name r) a = sort_key (\<lambda>(i, r). rt_name r) b"
    by (rule sort_key_inj_key_eq) (use assms(2,3) in \<open>simp_all add: distinct_map\<close>)
qed

lemma records_order_is_deterministic_witness:
  "transform [(0, \<lparr>rt_name = ''a'', rt_fields = []\<rparr>), (1, \<lparr>rt_name = ''b'', rt_fields = []\<rparr>)] =
   transform [(1, \<lparr>rt_name = ''b'', rt_fields = []\<rparr>), (0, \<lparr>rt_name = ''a'', rt_fields = []\<rparr>)]"
  by (rule records_order_is_deterministic) (auto simp: hm_ok_def)

text \<open>The comparison of signatures is not an order: two signatures of one name and different
  types are each greater than the other, so a sorted list of signatures is not determined.\<close>

theorem signature_cmp_not_antisymmetric:
  assumes "sg_name a = sg_name b" and "a \<noteq> b"
  shows "signature_cmp a b = Greater \<and> signature_cmp b a = Greater"
  using assms by (auto simp: signature_cmp_def)

lemma signature_cmp_not_antisymmetric_witness:
  "signature_cmp \<lparr>sg_name = ''f'', sg_arguments = [], sg_output_types = []\<rparr>
     \<lparr>sg_name = ''f'', sg_arguments = [], sg_output_types = [''u8'']\<rparr> = Greater"
  using signature_cmp_not_antisymmetric
    [of "\<lparr>sg_name = ''f'', sg_arguments = [], sg_output_types = []\<rparr>"
        "\<lparr>sg_name = ''f'', sg_arguments = [], sg_output_types = [''u8'']\<rparr>"]
  by simp

end
