(* ===== verification/ItParser.thy ===== *)
theory ItParser
  imports ModuleInfo ModuleInterface
begin

text \<open>
  The custom section with the interface types: \<open>crates/it-parser/src/\<close>.  Parameters: the binary
  decoder \<open>parse\<close> of \<open>wasmer_it\<close> (the rest of the input and the section, or an error), its encoder
  \<open>to_bytes\<close>, its text parser and printer, and the file operations of \<open>walrus\<close>.  The section is a
  pair of its version (\<open>'v\<close>, a \<open>semver::Version\<close>) and its entries, since nothing but the version
  check reads the version.
\<close>

datatype ITParserError =
    NoITSection
  | MultipleITSections
  | ITRemainderNotEmpty
  | CorruptedITSection string
  | IncorrectITFormat string
  | IP_ModuleInterfaceError InterfaceError
  | IP_ModuleITInterfaceError ITInterfaceError
  | CorruptedITFile string
  | IP_CorruptedWasmFile string
  | AstToBytesError string
  | IP_WasmEmitError string

definition IT_SECTION_NAME :: string where
  "IT_SECTION_NAME = ''interface-types''"

type_synonym 'v decoder = "u8 list \<Rightarrow> string + (u8 list \<times> 'v \<times> Interfaces)"

subsection \<open>Extraction\<close>

definition extract_it_from_bytes :: "'v decoder \<Rightarrow> u8 list \<Rightarrow> ITParserError + ('v \<times> Interfaces)" where
  "extract_it_from_bytes parse bytes =
    (case parse bytes of
       Inr (remainder, it) \<Rightarrow> if remainder = [] then Inr it else Inl ITRemainderNotEmpty
     | Inl e \<Rightarrow> Inl (CorruptedITSection e))"

definition extract_custom_section :: "Walrus \<Rightarrow> ITParserError + u8 list" where
  "extract_custom_section module =
    (let sections = filter (\<lambda>(_, name, _). name = IT_SECTION_NAME) (wm_customs module)
     in if sections = [] then Inl NoITSection
        else if length sections > 1 then Inl MultipleITSections
        else Inr (snd (snd (sections ! 0))))"

definition extract_it_from_module :: "'v decoder \<Rightarrow> (string \<Rightarrow> u8 list list) \<Rightarrow>
    ITParserError + ('v \<times> Interfaces)" where
  "extract_it_from_module parse custom_sections =
    (let wit_sections = custom_sections IT_SECTION_NAME
     in bindR (if length wit_sections = 0 then Inl NoITSection
               else if length wit_sections = 1 then Inr (wit_sections ! 0)
               else Inl MultipleITSections)
          (extract_it_from_bytes parse))"

definition extract_version_from_module :: "'v decoder \<Rightarrow> Walrus \<Rightarrow> ITParserError + 'v" where
  "extract_version_from_module parse module =
    bindR (extract_custom_section module) (\<lambda>bytes.
    bindR (extract_it_from_bytes parse bytes) (\<lambda>(version, _). Inr version))"

definition extract_text_it :: "('p \<Rightarrow> string + Walrus) \<Rightarrow> 'v decoder \<Rightarrow> ('v \<times> Interfaces \<Rightarrow> string) \<Rightarrow> 'p \<Rightarrow>
    ITParserError + string" where
  "extract_text_it parse_file parse to_string path =
    bindR (map_err IP_CorruptedWasmFile (parse_file path)) (\<lambda>module.
    bindR (extract_custom_section module) (\<lambda>bytes.
    bindR (extract_it_from_bytes parse bytes) (\<lambda>it. Inr (to_string it))))"

definition create_mit_with :: "('p \<Rightarrow> string + Walrus) \<Rightarrow> 'v decoder \<Rightarrow> ('e \<Rightarrow> ITParserError) \<Rightarrow> 'p \<Rightarrow>
    (MITInterfaces \<Rightarrow> 'e + 'a) \<Rightarrow> ITParserError + 'a" where
  "create_mit_with parse_file parse from_error path transformer =
    bindR (map_err IP_CorruptedWasmFile (parse_file path)) (\<lambda>module.
    bindR (extract_custom_section module) (\<lambda>bytes.
    bindR (extract_it_from_bytes parse bytes) (\<lambda>(_, it).
    map_err from_error (transformer (MITInterfaces_new it)))))"

definition module_it_interface :: "('p \<Rightarrow> string + Walrus) \<Rightarrow> 'v decoder \<Rightarrow> 'p \<Rightarrow>
    ITParserError + IModuleInterface" where
  "module_it_interface parse_file parse path =
    create_mit_with parse_file parse IP_ModuleITInterfaceError path it_get_interface"

text \<open>\<open>interface::get_interface\<close> may panic (\<open>None\<close>), and so may its caller.\<close>

definition module_interface :: "('p \<Rightarrow> string + Walrus) \<Rightarrow> 'v decoder \<Rightarrow> 'p \<Rightarrow>
    (ITParserError + ModuleInterface) option" where
  "module_interface parse_file parse path =
    (case create_mit_with parse_file parse IP_ModuleInterfaceError path (\<lambda>mit. Inr (get_interface mit)) of
       Inl e \<Rightarrow> Some (Inl e)
     | Inr None \<Rightarrow> None
     | Inr (Some res) \<Rightarrow> Some (map_err IP_ModuleInterfaceError res))"

subsection \<open>Embedding and deletion\<close>

definition delete_it_section :: "Walrus \<Rightarrow> Walrus" where
  "delete_it_section wasm_module = fold customs_delete (section_ids IT_SECTION_NAME wasm_module) wasm_module"

definition embed_it :: "('v \<times> Interfaces \<Rightarrow> u8 list) \<Rightarrow> Walrus \<Rightarrow> 'v \<times> Interfaces \<Rightarrow> Walrus" where
  "embed_it to_bytes wasm_module interfaces = customs_add IT_SECTION_NAME (to_bytes interfaces) wasm_module"

definition delete_it_section_from_file :: "('p \<Rightarrow> 'f \<Rightarrow> string + Walrus) \<Rightarrow>
    (Walrus \<Rightarrow> 'p \<Rightarrow> 'f \<Rightarrow> (string + unit) \<times> 'f) \<Rightarrow> 'p \<Rightarrow> 'p \<Rightarrow> 'f \<Rightarrow> (ITParserError + unit) \<times> 'f" where
  "delete_it_section_from_file parse_file emit in_path out_path fs =
    (case parse_file in_path fs of
       Inl e \<Rightarrow> (Inl (IP_CorruptedWasmFile e), fs)
     | Inr module \<Rightarrow>
        (let (res, fs) = emit (delete_it_section module) out_path fs in (map_err IP_WasmEmitError res, fs)))"

text \<open>\<open>parse_text\<close> stands for \<open>Buffer::new\<close> and \<open>wat::parse\<close> of \<open>wasmer_it\<close>.\<close>

definition embed_text_it :: "('p \<Rightarrow> 'f \<Rightarrow> string + Walrus) \<Rightarrow> (Walrus \<Rightarrow> 'p \<Rightarrow> 'f \<Rightarrow> (string + unit) \<times> 'f) \<Rightarrow>
    ('v \<times> Interfaces \<Rightarrow> u8 list) \<Rightarrow> (string \<Rightarrow> string + ('v \<times> Interfaces)) \<Rightarrow> 'p \<Rightarrow> 'p \<Rightarrow> string \<Rightarrow> 'f \<Rightarrow>
    (ITParserError + unit) \<times> 'f" where
  "embed_text_it parse_file emit to_bytes parse_text in_path out_path it fs =
    (case parse_file in_path fs of
       Inl e \<Rightarrow> (Inl (IP_CorruptedWasmFile e), fs)
     | Inr module \<Rightarrow>
        (case parse_text it of
           Inl e \<Rightarrow> (Inl (CorruptedITFile e), fs)
         | Inr ast \<Rightarrow>
            (let (res, fs) = emit (embed_it to_bytes module ast) out_path fs
             in (map_err IP_WasmEmitError res, fs))))"

subsection \<open>Round trip\<close>

definition it_sections :: "Walrus \<Rightarrow> u8 list list" where
  "it_sections m = List.map (\<lambda>(_, _, d). d) (filter (\<lambda>(_, name, _). name = IT_SECTION_NAME) (wm_customs m))"

lemma extract_custom_section_sections:
  "extract_custom_section m = (case it_sections m of [] \<Rightarrow> Inl NoITSection | [d] \<Rightarrow> Inr d
    | _ # _ # _ \<Rightarrow> Inl MultipleITSections)"
  by (auto simp: extract_custom_section_def it_sections_def Let_def case_prod_beta split: list.splits)

lemma it_sections_embed [simp]: "it_sections (embed_it to_bytes m it) = it_sections m @ [to_bytes it]"
  by (simp add: it_sections_def embed_it_def customs_add_def)

lemma it_sections_delete [simp]: "it_sections (delete_it_section m) = []"
  by (auto simp: it_sections_def delete_it_section_def set_section_ids filter_empty_conv)

text \<open>Replacing the interface section (deleting every one and embedding a new one, as the
  generator does) makes the extractor return the embedded section, whatever the module had before;
  embedding without deleting makes a module that had a section unreadable.\<close>

theorem interface_section_replaced:
  assumes "parse (to_bytes it) = Inr ([], it)"
  shows "bindR (extract_custom_section (embed_it to_bytes (delete_it_section m) it)) (extract_it_from_bytes parse) = Inr it \<and>
    (it_sections m = [] \<longrightarrow>
      bindR (extract_custom_section (embed_it to_bytes m it)) (extract_it_from_bytes parse) = Inr it) \<and>
    (it_sections m \<noteq> [] \<longrightarrow> extract_custom_section (embed_it to_bytes m it) = Inl MultipleITSections)"
  using assms by (auto simp: extract_custom_section_sections extract_it_from_bytes_def
      split: list.splits)

theorem interface_section_replaced_witness:
  "bindR (extract_custom_section (embed_it (\<lambda>(v, it). [v])
      (delete_it_section \<lparr>wm_customs = [(0, IT_SECTION_NAME, [9])], wm_imports = []\<rparr>) (7, sample_interfaces)))
    (extract_it_from_bytes (\<lambda>bs. Inr ([], hd bs, sample_interfaces))) = Inr (7, sample_interfaces)"
  by (rule interface_section_replaced [THEN conjunct1]) simp

end
