(* ===== verification/ItInstance.thy ===== *)
theory ItInstance
  imports Effects WasmTypes MitInterfaces ItParser HostImports
begin

text \<open>
  Functions and instances of the interface-types interpreter:
  \<open>core/src/module/{type_converters,exports,wit_function,wit_instance}.rs\<close>, the callables of
  \<open>core/src/module/marine_module.rs\<close> and the errors of \<open>core/src/{errors,misc/errors}.rs\<close>.

  A Wasm backend is a record of its operations over the state \<open>'st\<close>; the interpreter of
  \<open>wasmer_it\<close> is a record too: it compiles instructions, and it runs a compiled adapter, seeing an
  instance only through the operations of the trait \<open>wasm::structures::Instance\<close> (\<open>it_env\<close>).
  \<open>'x\<close> stands for opaque third-party errors and \<open>'v\<close> for \<open>semver::Version\<close>.  A panic
  (\<open>unimplemented!\<close>) is \<open>None\<close>, or \<open>Panics\<close> in a computation.
\<close>

subsection \<open>Errors\<close>

datatype 'v PrepareError =
    MemSizesOverflow u32 u32
  | ModuleVersionParseError ModuleInfoError
  | ModuleWithoutVersion string
  | IncompatibleSDKVersions string 'v 'v
  | IncompatibleITVersions string 'v 'v

text \<open>Formatted messages are kept as the values they are built from.\<close>

datatype wit_message =
    Wit_Interfaces MITInterfacesError
  | Wit_NotAFunction AstType
  | Wit_NotAFunctionAt u32
  | Wit_BadInstructions

datatype ('x, 'v) MError =
    RecordResolveError string
  | WASIPrepareError "'x WasiError"
  | ModuleInterfaceError ITInterfaceError
  | ITInstructionError 'x
  | PrepareError "'v PrepareError"
  | NonUniqueModuleName string
  | NoSuchFunction string string
  | NoSuchModule string
  | M_HostImportError "('x, 'x, 'x) HostImportError"
  | WITParseError ITParserError
  | IncorrectWIT wit_message
  | M_WasmBackendError "'x WasmBackendError"

definition M_of_interfaces :: "MITInterfacesError \<Rightarrow> ('x, 'v) MError" where
  "M_of_interfaces err = IncorrectWIT (Wit_Interfaces err)"

definition M_of_creation :: "'x ModuleCreationError \<Rightarrow> ('x, 'v) MError" where
  "M_of_creation e = M_WasmBackendError (WB_ModuleCreationError e)"

definition M_of_resolve :: "'x ResolveError \<Rightarrow> ('x, 'v) MError" where
  "M_of_resolve e = M_WasmBackendError (WB_ResolveError e)"

definition M_of_import :: "'x ImportError \<Rightarrow> ('x, 'v) MError" where
  "M_of_import e = M_WasmBackendError (WB_ImportError e)"

definition M_of_instantiation :: "'x InstantiationError \<Rightarrow> ('x, 'v) MError" where
  "M_of_instantiation e = M_WasmBackendError (WB_InstantiationError e)"

definition M_of_runtime :: "'x RuntimeError \<Rightarrow> ('x, 'v) MError" where
  "M_of_runtime e = M_WasmBackendError (WB_RuntimeError e)"

subsection \<open>Type converters\<close>

fun core_wtype_to_itype :: "WType \<Rightarrow> IType option" where
  "core_wtype_to_itype T_I32 = Some IT_I32"
| "core_wtype_to_itype T_I64 = Some IT_I64"
| "core_wtype_to_itype T_F32 = Some IT_F32"
| "core_wtype_to_itype T_F64 = Some IT_F64"
| "core_wtype_to_itype _ = None"

fun itype_to_wtype :: "IType \<Rightarrow> WType option" where
  "itype_to_wtype IT_S8 = Some T_I32"
| "itype_to_wtype IT_S16 = Some T_I32"
| "itype_to_wtype IT_S32 = Some T_I32"
| "itype_to_wtype IT_S64 = Some T_I64"
| "itype_to_wtype IT_U8 = Some T_I32"
| "itype_to_wtype IT_U16 = Some T_I32"
| "itype_to_wtype IT_U32 = Some T_I32"
| "itype_to_wtype IT_U64 = Some T_I64"
| "itype_to_wtype IT_I32 = Some T_I32"
| "itype_to_wtype IT_I64 = Some T_I64"
| "itype_to_wtype IT_F32 = Some T_F32"
| "itype_to_wtype IT_F64 = Some T_F64"
| "itype_to_wtype _ = None"

fun ival_to_wval :: "IValue \<Rightarrow> WValue option" where
  "ival_to_wval (IV_I32 v) = Some (V_I32 v)"
| "ival_to_wval (IV_I64 v) = Some (V_I64 v)"
| "ival_to_wval (IV_F32 v) = Some (V_F32 v)"
| "ival_to_wval (IV_F64 v) = Some (V_F64 v)"
| "ival_to_wval _ = None"

fun wval_to_ival :: "WValue \<Rightarrow> IValue" where
  "wval_to_ival (V_I32 v) = IV_I32 v"
| "wval_to_ival (V_I64 v) = IV_I64 v"
| "wval_to_ival (V_F32 v) = IV_F32 v"
| "wval_to_ival (V_F64 v) = IV_F64 v"

subsection \<open>The backend and the interpreter\<close>

record WasiParameters =
  wasi_args :: "string list"
  wasi_envs :: "(string, string) hmap"
  wasi_mapped_dirs :: "(string, string) hmap"

record ('st, 'w, 'l, 'i, 'f, 'h, 'm, 'x) backend =
  module_new :: "u8 list \<Rightarrow> 'st \<Rightarrow> ('x ModuleCreationError + 'w) \<times> 'st"
  custom_sections :: "'w \<Rightarrow> string \<Rightarrow> u8 list list"
  imports_new :: "'st \<Rightarrow> 'l"
  imports_register :: "'st \<Rightarrow> string \<Rightarrow> (string \<times> 'h) list \<Rightarrow> 'l \<Rightarrow> ('x ImportError + unit) \<times> 'l"
  new_with_caller :: "FuncSig \<Rightarrow> (WValue list \<Rightarrow> ('st, 'x anyhow, WValue list) eff) \<Rightarrow> 'st \<Rightarrow> 'h \<times> 'st"
  wasi_register :: "WasiParameters \<Rightarrow> 'l \<Rightarrow> 'st \<Rightarrow> ('x WasiError + 'l) \<times> 'st"
  instantiate :: "'w \<Rightarrow> 'l \<Rightarrow> ('st, 'x InstantiationError, 'i) eff"
  get_function :: "'i \<Rightarrow> string \<Rightarrow> 'st \<Rightarrow> 'x ResolveError + 'f"
  signature :: "'f \<Rightarrow> 'st \<Rightarrow> FuncSig"
  call_export :: "'f \<Rightarrow> WValue list \<Rightarrow> ('st, 'x RuntimeError, WValue list) eff"
  exported_memories :: "'i \<Rightarrow> 'st \<Rightarrow> 'm list"
  get_memory :: "'i \<Rightarrow> string \<Rightarrow> 'st \<Rightarrow> 'x ResolveError + 'm"
  get_nth_memory :: "'i \<Rightarrow> u32 \<Rightarrow> 'st \<Rightarrow> 'm option"
  memory_size_of :: "'m \<Rightarrow> 'st \<Rightarrow> usize"

record ('st, 'x) local_import =
  li_name :: string
  li_arguments :: "FunctionArg list"
  li_outputs :: "IType list"
  li_call :: "IValue list \<Rightarrow> ('st, 'x anyhow, IValue list) eff"

record ('st, 'm, 'x) it_env =
  env_funcs :: "(nat, ('st, 'x) local_import) hmap"
  env_memories :: "'m list"
  env_records :: IRecordTypes

record ('st, 'm, 'p, 'x, 'v) it_engine =
  compile :: "Instruction list \<Rightarrow> 'p option"
  run :: "'p \<Rightarrow> IValue list \<Rightarrow> ('st, 'm, 'x) it_env \<Rightarrow> ('st, 'x, IValue list) eff"
  anyhow_of :: "('x, 'v) MError \<Rightarrow> 'x anyhow"

definition local_or_import :: "('st, 'm, 'x) it_env \<Rightarrow> nat \<Rightarrow> ('st, 'x) local_import option" where
  "local_or_import env index = hm_get index (env_funcs env)"

definition env_memory :: "('st, 'm, 'x) it_env \<Rightarrow> nat \<Rightarrow> 'm option" where
  "env_memory env index = (if index \<ge> length (env_memories env) then None else Some (env_memories env ! index))"

definition wit_record_by_id :: "('st, 'm, 'x) it_env \<Rightarrow> u64 \<Rightarrow> IRecordType option" where
  "wit_record_by_id env index = hm_get index (env_records env)"

definition inputs_cardinality :: "('st, 'x) local_import \<Rightarrow> nat" where
  "inputs_cardinality f = length (li_arguments f)"

definition outputs_cardinality :: "('st, 'x) local_import \<Rightarrow> nat" where
  "outputs_cardinality f = length (li_outputs f)"

subsection \<open>Functions and instances\<close>

record 'p ITModuleFunc =
  imf_interpreter :: 'p
  imf_arguments :: "FunctionArg list"
  imf_output_types :: "IType list"

datatype ('f, 'm, 'p) WITFunction =
    WITFunction (wf_name: string) (wf_arguments: "FunctionArg list") (wf_outputs: "IType list")
      (wf_inner: "('f, 'm, 'p) WITFunctionInner")
and ('f, 'm, 'p) WITFunctionInner = WI_Export 'f | WI_Import "('f, 'm, 'p) Callable"
and ('f, 'm, 'p) Callable =
    Callable (it_instance: "('f, 'm, 'p) ITInstance") (it_module_func: "'p ITModuleFunc")
and ('f, 'm, 'p) ITInstance =
    ITInstance (it_funcs: "(nat \<times> ('f, 'm, 'p) WITFunction) list") (it_memories: "'m list")
      (record_types_by_id: IRecordTypes)

text \<open>
  Calls.  The recursion goes from an imported function to the instance of the module that exports
  it; it ends because a callable holds the instance it runs on.
\<close>

primrec wit_function :: "('st, 'm, 'p, 'x, 'v) it_engine \<Rightarrow>
    ('f \<Rightarrow> WValue list \<Rightarrow> ('st, 'x RuntimeError, WValue list) eff) \<Rightarrow> ('f, 'm, 'p) WITFunction \<Rightarrow>
    ('st, 'x) local_import"
and inner_call :: "('st, 'm, 'p, 'x, 'v) it_engine \<Rightarrow>
    ('f \<Rightarrow> WValue list \<Rightarrow> ('st, 'x RuntimeError, WValue list) eff) \<Rightarrow> ('f, 'm, 'p) WITFunctionInner \<Rightarrow>
    IValue list \<Rightarrow> ('st, 'x anyhow, IValue list) eff"
and callable_call :: "('st, 'm, 'p, 'x, 'v) it_engine \<Rightarrow>
    ('f \<Rightarrow> WValue list \<Rightarrow> ('st, 'x RuntimeError, WValue list) eff) \<Rightarrow> ('f, 'm, 'p) Callable \<Rightarrow>
    IValue list \<Rightarrow> ('st, ('x, 'v) MError, IValue list) eff"
and instance_env :: "('st, 'm, 'p, 'x, 'v) it_engine \<Rightarrow>
    ('f \<Rightarrow> WValue list \<Rightarrow> ('st, 'x RuntimeError, WValue list) eff) \<Rightarrow> ('f, 'm, 'p) ITInstance \<Rightarrow>
    ('st, 'm, 'x) it_env"
where
  "wit_function E call (WITFunction name arguments outputs inner) =
    \<lparr>li_name = name, li_arguments = arguments, li_outputs = outputs, li_call = inner_call E call inner\<rparr>"
| "inner_call E call (WI_Export func) = (\<lambda>arguments.
    bindM (liftP (those (List.map ival_to_wval arguments))) (\<lambda>arguments.
    bindM (map_errM Any_Runtime (call func arguments)) (\<lambda>results.
    returnM (List.map wval_to_ival results))))"
| "inner_call E call (WI_Import callable) = (\<lambda>arguments.
    map_errM (anyhow_of E) (callable_call E call callable arguments))"
| "callable_call E call (Callable inst func) = (\<lambda>args.
    map_errM ITInstructionError (run E (imf_interpreter func) args (instance_env E call inst)))"
| "instance_env E call (ITInstance funcs memories records) =
    \<lparr>env_funcs = List.map (map_prod id (wit_function E call)) funcs,
     env_memories = memories, env_records = records\<rparr>"

text \<open>\<open>ITExport\<close> is only required by the interface of the interpreter and does nothing.\<close>

record ITExport =
  ie_name :: string
  ie_arguments :: "FunctionArg list"
  ie_outputs :: "IType list"
  ie_function :: "IValue list \<Rightarrow> unit + IValue list"

definition ITExport_new :: ITExport where
  "ITExport_new = \<lparr>ie_name = [], ie_arguments = [], ie_outputs = [], ie_function = (\<lambda>_. Inr [])\<rparr>"

subsection \<open>Building an instance\<close>

definition from_export :: "('st, 'w, 'l, 'i, 'f, 'h, 'm, 'x) backend \<Rightarrow> 'f \<Rightarrow> string \<Rightarrow>
    ('st, ('x, 'v) MError, ('f, 'm, 'p) WITFunction) eff" where
  "from_export B dyn_func name =
    bindM (readM (signature B dyn_func)) (\<lambda>sig.
    bindM (liftP (those (List.map core_wtype_to_itype (sig_params sig)))) (\<lambda>params.
    bindM (liftP (those (List.map core_wtype_to_itype (sig_returns sig)))) (\<lambda>outputs.
    returnM (WITFunction name (List.map (\<lambda>t. \<lparr>fa_name = [], fa_ty = t\<rparr>) params) outputs
      (WI_Export dyn_func)))))"

text \<open>A loaded module: its Wasm instance, its exported callables and their record types.\<close>

record ('i, 'f, 'm, 'p) MModule =
  wasm_instance :: 'i
  export_funcs :: "(string, ('f, 'm, 'p) Callable) hmap"
  mod_export_record_types :: IRecordTypes

definition get_callable :: "('i, 'f, 'm, 'p) MModule \<Rightarrow> string \<Rightarrow> string \<Rightarrow>
    ('x, 'v) MError + ('f, 'm, 'p) Callable" where
  "get_callable module module_name function_name =
    (case hm_get function_name (export_funcs module) of
       Some func \<Rightarrow> Inr func
     | None \<Rightarrow> Inl (NoSuchFunction module_name function_name))"

definition from_import :: "('i, 'f, 'm, 'p) MModule \<Rightarrow> string \<Rightarrow> string \<Rightarrow> FunctionArg list \<Rightarrow> IType list \<Rightarrow>
    ('x, 'v) MError + ('f, 'm, 'p) WITFunction" where
  "from_import wit_module module_name function_name arguments outputs =
    bindR (get_callable wit_module module_name function_name) (\<lambda>callable.
    Inr (WITFunction function_name arguments outputs (WI_Import callable)))"

definition extract_raw_exports :: "('st, 'w, 'l, 'i, 'f, 'h, 'm, 'x) backend \<Rightarrow> 'i \<Rightarrow> MITInterfaces \<Rightarrow>
    ('st, ('x, 'v) MError, (nat, ('f, 'm, 'p) WITFunction) hmap) eff" where
  "extract_raw_exports B wasm_inst it =
    mapM (\<lambda>(export_id, export).
      bindM (map_errM M_of_resolve (\<lambda>st. (Returns (get_function B wasm_inst (ex_name export) st), st))) (\<lambda>export_func.
      bindM (from_export B export_func (ex_name export)) (\<lambda>f.
      returnM (export_id, f)))) (enumerate 0 (mit_exports it))"

definition extract_import :: "string \<Rightarrow> (string, ('i, 'f, 'm, 'p) MModule) hmap \<Rightarrow> MITInterfaces \<Rightarrow> nat \<Rightarrow>
    nat \<times> Import \<Rightarrow> ('x, 'v) MError + (nat \<times> ('f, 'm, 'p) WITFunction)" where
  "extract_import module_name modules wit start_index = (\<lambda>(idx, import).
    (case hm_get (im_namespace import) modules of
       Some module \<Rightarrow>
         bindR (map_err M_of_interfaces (type_by_idx_r wit (im_function_type import - 2))) (\<lambda>ty.
         bindR (case ty of
             Ast_Function arguments output_types \<Rightarrow> Inr (arguments, output_types)
           | ty \<Rightarrow> Inl (IncorrectWIT (Wit_NotAFunction ty))) (\<lambda>(arguments, output_types).
         bindR (from_import module module_name (im_name import) arguments output_types) (\<lambda>func.
         Inr (start_index + idx, func))))
     | None \<Rightarrow> Inl (NoSuchModule (im_namespace import))))"

definition extract_imports :: "string \<Rightarrow> (string, ('i, 'f, 'm, 'p) MModule) hmap \<Rightarrow> MITInterfaces \<Rightarrow> nat \<Rightarrow>
    ('x, 'v) MError + (nat, ('f, 'm, 'p) WITFunction) hmap" where
  "extract_imports module_name modules wit start_index =
    mapR (extract_import module_name modules wit start_index)
      (enumerate 0 (filter (\<lambda>import. adapter_types_by_core_type wit (im_function_type import) \<noteq> None)
        (mit_imports wit)))"

definition STANDARD_MEMORY_EXPORT_NAME :: string where
  "STANDARD_MEMORY_EXPORT_NAME = ''memory''"

definition extract_memories :: "('st, 'w, 'l, 'i, 'f, 'h, 'm, 'x) backend \<Rightarrow> 'i \<Rightarrow> 'st \<Rightarrow> 'm list" where
  "extract_memories B wasm_inst st =
    (let memories = exported_memories B wasm_inst st
     in case get_memory B wasm_inst STANDARD_MEMORY_EXPORT_NAME st of
          Inr memory \<Rightarrow> memories @ [memory]
        | Inl _ \<Rightarrow> memories)"

fun extract_record_types_from :: "u64 \<Rightarrow> AstType list \<Rightarrow> IRecordTypes \<Rightarrow> IRecordTypes" where
  "extract_record_types_from i [] m = m"
| "extract_record_types_from i (Ast_Record r # ts) m = extract_record_types_from (i + 1) ts (hm_insert i r m)"
| "extract_record_types_from i (Ast_Function as os # ts) m = extract_record_types_from (i + 1) ts m"

definition extract_record_types :: "MITInterfaces \<Rightarrow> IRecordTypes" where
  "extract_record_types wit = extract_record_types_from 0 (mit_types wit) []"

definition hm_extend :: "('k, 'v) hmap \<Rightarrow> ('k, 'v) hmap \<Rightarrow> ('k, 'v) hmap" where
  "hm_extend m kvs = foldl (\<lambda>m (k, v). hm_insert k v m) m kvs"

definition ITInstance_new :: "('st, 'w, 'l, 'i, 'f, 'h, 'm, 'x) backend \<Rightarrow> 'i \<Rightarrow> string \<Rightarrow> MITInterfaces \<Rightarrow>
    (string, ('i, 'f, 'm, 'p) MModule) hmap \<Rightarrow> ('st, ('x, 'v) MError, ('f, 'm, 'p) ITInstance) eff" where
  "ITInstance_new B wasm_inst module_name wit modules =
    bindM (extract_raw_exports B wasm_inst wit) (\<lambda>exports.
    bindM (liftR (extract_imports module_name modules wit (length exports))) (\<lambda>imports.
    bindM (readM (extract_memories B wasm_inst)) (\<lambda>memories.
    returnM (ITInstance (hm_extend exports imports) memories (extract_record_types wit)))))"

end
