(* ===== verification/MarineModule.thy ===== *)
theory MarineModule
  imports ItInstance
begin

text \<open>
  Loading a module: \<open>core/src/module/marine_module.rs\<close>, \<open>core/src/config.rs\<close>,
  \<open>core/src/misc/version_checker.rs\<close> and \<open>crates/min-it-version/src/lib.rs\<close>.

  A module's raw imports need the module's own instance, which exists only after they are linked:
  the code passes an \<open>Arc<MaybeUninit<ITInstance>>\<close> and writes it later.  The state is therefore
  the backend's store and the list of these cells; a cell that is read before it is written
  (undefined behaviour in Rust) panics here.  \<open>HashMap\<close>s are iterated in the order of their lists.
\<close>

subsection \<open>The state\<close>

record ('s, 'c) world =
  w_store :: 's
  w_arcs :: "'c option list"

definition arc_new_uninit :: "('s, 'c) world \<Rightarrow> nat \<times> ('s, 'c) world" where
  "arc_new_uninit w = (length (w_arcs w), w\<lparr>w_arcs := w_arcs w @ [None]\<rparr>)"

definition arc_write :: "nat \<Rightarrow> 'c \<Rightarrow> ('s, 'c) world \<Rightarrow> ('s, 'c) world" where
  "arc_write i c w = w\<lparr>w_arcs := (w_arcs w)[i := Some c]\<rparr>"

definition arc_read :: "nat \<Rightarrow> ('s, 'c) world \<Rightarrow> 'c option" where
  "arc_read i w = (if i < length (w_arcs w) then w_arcs w ! i else None)"

subsection \<open>Configuration\<close>

datatype HostAPIVersion = V0 | V1 | V2 | V3

fun host_api_namespace :: "HostAPIVersion \<Rightarrow> string" where
  "host_api_namespace V0 = ''host''"
| "host_api_namespace V1 = ''__marine_host_api_v1''"
| "host_api_namespace V2 = ''__marine_host_api_v2''"
| "host_api_namespace V3 = ''__marine_host_api_v3''"

text \<open>The derived order of the versions is the order of the constructors.\<close>

fun host_api_rank :: "HostAPIVersion \<Rightarrow> nat" where
  "host_api_rank V0 = 0"
| "host_api_rank V1 = 1"
| "host_api_rank V2 = 2"
| "host_api_rank V3 = 3"

lemma host_api_rank_inj: "host_api_rank v = host_api_rank w \<Longrightarrow> v = w"
  by (cases v; cases w) simp_all

instantiation HostAPIVersion :: linorder
begin

definition less_eq_HostAPIVersion :: "HostAPIVersion \<Rightarrow> HostAPIVersion \<Rightarrow> bool" where
  "less_eq_HostAPIVersion v w \<longleftrightarrow> host_api_rank v \<le> host_api_rank w"

definition less_HostAPIVersion :: "HostAPIVersion \<Rightarrow> HostAPIVersion \<Rightarrow> bool" where
  "less_HostAPIVersion v w \<longleftrightarrow> host_api_rank v < host_api_rank w"

instance
  by standard (auto simp: less_eq_HostAPIVersion_def less_HostAPIVersion_def dest: host_api_rank_inj)

end

record ('st, 'h, 'x) MModuleConfig =
  raw_imports :: "(HostAPIVersion, (string, 'st \<Rightarrow> 'h \<times> 'st) hmap) hmap"
  host_imports :: "(HostAPIVersion, (string, ('st, 'x, 'x, 'x) HostImportDescriptor) hmap) hmap"
  wasi_parameters :: WasiParameters

definition MModuleConfig_default :: "('st, 'h, 'x) MModuleConfig" where
  "MModuleConfig_default = \<lparr>raw_imports = [], host_imports = [],
    wasi_parameters = \<lparr>wasi_args = [], wasi_envs = [], wasi_mapped_dirs = []\<rparr>\<rparr>"

definition with_wasi_envs :: "(string, string) hmap \<Rightarrow> ('st, 'h, 'x) MModuleConfig \<Rightarrow> ('st, 'h, 'x) MModuleConfig" where
  "with_wasi_envs envs c = c\<lparr>wasi_parameters := (wasi_parameters c)\<lparr>wasi_envs := envs\<rparr>\<rparr>"

definition with_wasi_mapped_dirs :: "(string, string) hmap \<Rightarrow> ('st, 'h, 'x) MModuleConfig \<Rightarrow>
    ('st, 'h, 'x) MModuleConfig" where
  "with_wasi_mapped_dirs mapped_dirs c =
    c\<lparr>wasi_parameters := (wasi_parameters c)\<lparr>wasi_mapped_dirs := mapped_dirs\<rparr>\<rparr>"

subsection \<open>Versions\<close>

text \<open>What the loader takes from other packages: the name of the version section, UTF-8 decoding,
  the parser of versions and the decoder of the interface section.\<close>

record 'v sdk =
  sdk_section :: string
  sdk_from_utf8 :: "u8 list \<Rightarrow> string + string"
  sdk_from_str :: "string \<Rightarrow> string + 'v"
  sdk_decoder :: "'v decoder"

definition parsed_or_panic :: "string + 'v \<Rightarrow> 'v option" where
  "parsed_or_panic r = (case r of Inr v \<Rightarrow> Some v | Inl _ \<Rightarrow> None)"

definition min_sdk_version :: "'v sdk \<Rightarrow> 'v option" where
  "min_sdk_version S = parsed_or_panic (sdk_from_str S ''0.6.0'')"

definition min_it_version :: "'v sdk \<Rightarrow> 'v option" where
  "min_it_version S = parsed_or_panic (sdk_from_str S ''0.20.0'')"

definition check_sdk_version :: "'v::linorder sdk \<Rightarrow> string \<Rightarrow> (string \<Rightarrow> u8 list list) \<Rightarrow>
    ('st, 'v PrepareError, unit) eff" where
  "check_sdk_version S name sections =
    bindM (liftR (map_err ModuleVersionParseError
      (sdk_extract_from_compiled_module (sdk_section S) (sdk_from_utf8 S) (sdk_from_str S) sections))) (\<lambda>module_version.
    bindM (liftP (min_sdk_version S)) (\<lambda>required_version.
    if module_version < required_version
    then failM (IncompatibleSDKVersions name required_version module_version) else returnM ()))"

definition check_it_version :: "'v::linorder sdk \<Rightarrow> string \<Rightarrow> 'v \<Rightarrow> ('st, 'v PrepareError, unit) eff" where
  "check_it_version S name it_version =
    bindM (liftP (min_it_version S)) (\<lambda>required_version.
    if it_version < required_version
    then failM (IncompatibleITVersions name required_version it_version) else returnM ())"

subsection \<open>Imports\<close>

text \<open>What a host import closure is built from (see \<open>HostImports\<close>).\<close>

record ('st, 'x) host_abi =
  abi_lifter :: "('st, 'x, 'x) lifter"
  abi_lowerer :: "('st, 'x, 'x) lowerer"
  abi_caller :: "('st, 'x) import_ctx"

definition create_host_import_func :: "('st, 'w, 'l, 'i, 'f, 'h, 'm, 'x) backend \<Rightarrow> ('st, 'x) host_abi \<Rightarrow>
    ('st, 'x, 'x, 'x) HostImportDescriptor \<Rightarrow> IRecordTypes \<Rightarrow> 'st \<Rightarrow> 'h \<times> 'st" where
  "create_host_import_func B A descriptor rec_types =
    new_with_caller B (host_import_signature descriptor)
      (\<lambda>inputs st. case call_host_import (abi_lifter A) (abi_lowerer A) (abi_caller A) descriptor
            rec_types inputs st of
          (Returns outputs, st) \<Rightarrow> (Returns (Inr outputs), st)
        | (Panics, st) \<Rightarrow> (Panics, st))"

definition register_all :: "('st, 'w, 'l, 'i, 'f, 'h, 'm, 'x) backend \<Rightarrow> string \<Rightarrow> (string \<times> 'h) list \<Rightarrow> 'l \<Rightarrow>
    ('st, ('x, 'v) MError, 'l) eff" where
  "register_all B namespace funcs linker =
    (\<lambda>st. case imports_register B st namespace funcs linker of
        (Inr _, linker) \<Rightarrow> (Returns (Inr linker), st)
      | (Inl e, _) \<Rightarrow> (Returns (Inl (M_of_import e)), st))"

definition add_wasi_imports :: "('st, 'w, 'l, 'i, 'f, 'h, 'm, 'x) backend \<Rightarrow> WasiParameters \<Rightarrow> 'l \<Rightarrow>
    ('st, ('x, 'v) MError, 'l) eff" where
  "add_wasi_imports B parameters linker = map_errM WASIPrepareError (liftS (wasi_register B parameters linker))"

definition createM :: "('st \<Rightarrow> 'h \<times> 'st) \<Rightarrow> ('st, 'e, 'h) eff" where
  "createM creator = (\<lambda>st. case creator st of (h, st) \<Rightarrow> (Returns (Inr h), st))"

definition add_host_imports :: "('st, 'w, 'l, 'i, 'f, 'h, 'm, 'x) backend \<Rightarrow> ('st, 'x) host_abi \<Rightarrow>
    (HostAPIVersion, (string, 'st \<Rightarrow> 'h \<times> 'st) hmap) hmap \<Rightarrow>
    (HostAPIVersion, (string, ('st, 'x, 'x, 'x) HostImportDescriptor) hmap) hmap \<Rightarrow> MITInterfaces \<Rightarrow> 'l \<Rightarrow>
    ('st, ('x, 'v) MError, 'l) eff" where
  "add_host_imports B A raws hosts mit linker =
    bindM (foldM (\<lambda>linker (version, raws).
        bindM (mapM (\<lambda>(name, creator). bindM (createM creator) (\<lambda>h. returnM (name, h))) raws) (\<lambda>funcs.
        register_all B (host_api_namespace version) funcs linker)) linker raws) (\<lambda>linker.
    foldM (\<lambda>linker (version, hosts).
        let records = collect_hmap (record_types mit) in
        bindM (mapM (\<lambda>(import_name, descriptor).
          bindM (createM (create_host_import_func B A descriptor records)) (\<lambda>h.
          returnM (import_name, h))) hosts) (\<lambda>funcs.
        register_all B (host_api_namespace version) funcs linker)) linker hosts)"

definition create_raw_import :: "(('s, ('f, 'm, 'p) ITInstance) world, 'w, 'l, 'i, 'f, 'h, 'm, 'x) backend \<Rightarrow>
    (('s, ('f, 'm, 'p) ITInstance) world, 'm, 'p, 'x, 'v) it_engine \<Rightarrow> nat \<Rightarrow> 'p \<Rightarrow> WValue list \<Rightarrow>
    (('s, ('f, 'm, 'p) ITInstance) world, 'x anyhow, WValue list) eff" where
  "create_raw_import B E wit_instance interpreter inputs =
    bindM (readM (arc_read wit_instance)) (\<lambda>cell.
    bindM (liftP cell) (\<lambda>inst.
    bindM (map_errM Any_Other (run E interpreter (List.map wval_to_ival inputs)
        (instance_env E (call_export B) inst))) (\<lambda>outputs.
    liftP (those (List.map ival_to_wval outputs)))))"

definition func_from_raw_import :: "('st, 'w, 'l, 'i, 'f, 'h, 'm, 'x) backend \<Rightarrow> IType list \<Rightarrow> IType list \<Rightarrow>
    (WValue list \<Rightarrow> ('st, 'x anyhow, WValue list) eff) \<Rightarrow> ('st, 'e, 'h) eff" where
  "func_from_raw_import B inputs outputs raw_import =
    bindM (liftP (those (List.map itype_to_wtype inputs))) (\<lambda>inputs.
    bindM (liftP (those (List.map itype_to_wtype outputs))) (\<lambda>outputs.
    createM (new_with_caller B (FuncSig_new inputs outputs) raw_import)))"

text \<open>The imports that have an adapter: each implementation whose core type is that of an import,
  with every import of that type.\<close>

definition wit_imports_of :: "MITInterfaces \<Rightarrow> (u32 \<times> string \<times> string) list" where
  "wit_imports_of wit = concat (List.map_filter
    (\<lambda>(adapter_function_type, core_function_type).
      map_option (\<lambda>imports. List.map (\<lambda>import. (adapter_function_type, import)) imports)
        (imports_by_type wit core_function_type)) (implementations wit))"

definition wit_import_func :: "(('s, ('f, 'm, 'p) ITInstance) world, 'w, 'l, 'i, 'f, 'h, 'm, 'x) backend \<Rightarrow>
    (('s, ('f, 'm, 'p) ITInstance) world, 'm, 'p, 'x, 'v) it_engine \<Rightarrow> MITInterfaces \<Rightarrow> nat \<Rightarrow>
    u32 \<times> string \<times> string \<Rightarrow>
    (('s, ('f, 'm, 'p) ITInstance) world, ('x, 'v) MError, string \<times> string \<times> 'h) eff" where
  "wit_import_func B E wit wit_instance = (\<lambda>(adapter_function_type, import_namespace, import_name).
    bindM (liftR (map_err M_of_interfaces (adapter_by_type_r wit adapter_function_type))) (\<lambda>adapter_instructions.
    bindM (liftR (map_err M_of_interfaces (type_by_idx_r wit adapter_function_type))) (\<lambda>wit_type.
    case wit_type of
      Ast_Function arguments output_types \<Rightarrow>
        bindM (liftR (ok_or (IncorrectWIT Wit_BadInstructions) (compile E adapter_instructions))) (\<lambda>interpreter.
        bindM (func_from_raw_import B (List.map fa_ty arguments) output_types
            (create_raw_import B E wit_instance interpreter)) (\<lambda>wit_import.
        returnM (import_namespace, import_name, wit_import)))
    | Ast_Record _ \<Rightarrow> failM (IncorrectWIT (Wit_NotAFunctionAt adapter_function_type)))))"

definition add_wit_imports :: "(('s, ('f, 'm, 'p) ITInstance) world, 'w, 'l, 'i, 'f, 'h, 'm, 'x) backend \<Rightarrow>
    (('s, ('f, 'm, 'p) ITInstance) world, 'm, 'p, 'x, 'v) it_engine \<Rightarrow> MITInterfaces \<Rightarrow> nat \<Rightarrow> 'l \<Rightarrow>
    (('s, ('f, 'm, 'p) ITInstance) world, ('x, 'v) MError, 'l) eff" where
  "add_wit_imports B E wit wit_instance linker =
    bindM (mapM (wit_import_func B E wit wit_instance) (wit_imports_of wit)) (\<lambda>wit_import_funcs.
    foldM (\<lambda>linker (namespace_name, funcs). register_all B namespace_name funcs linker) linker
      (collect_multimap wit_import_funcs))"

subsection \<open>Exports\<close>

definition instantiate_export :: "('st, 'm, 'p, 'x, 'v) it_engine \<Rightarrow> ('f, 'm, 'p) ITInstance \<Rightarrow> MITInterfaces \<Rightarrow>
    IFunctionSignature \<Rightarrow> ('x, 'v) MError + (string \<times> ('f, 'm, 'p) Callable)" where
  "instantiate_export E inst mit sign =
    bindR (map_err M_of_interfaces (adapter_by_type_r mit (fs_adapter_function_type sign))) (\<lambda>adapter_instructions.
    bindR (ok_or (IncorrectWIT Wit_BadInstructions) (compile E adapter_instructions)) (\<lambda>interpreter.
    Inr (fs_name sign, Callable inst \<lparr>imf_interpreter = interpreter, imf_arguments = fs_arguments sign,
      imf_output_types = fs_outputs sign\<rparr>)))"

definition instantiate_exports :: "('st, 'm, 'p, 'x, 'v) it_engine \<Rightarrow> ('f, 'm, 'p) ITInstance \<Rightarrow> MITInterfaces \<Rightarrow>
    ('x, 'v) MError + ((string, ('f, 'm, 'p) Callable) hmap \<times> IRecordTypes)" where
  "instantiate_exports E inst mit =
    bindR (map_err ModuleInterfaceError (it_get_interface mit)) (\<lambda>module_interface.
    bindR (mapR (instantiate_export E inst mit) (function_signatures module_interface)) (\<lambda>funcs.
    Inr (collect_hmap funcs, export_record_types module_interface)))"

subsection \<open>Modules\<close>

definition START_FUNC :: string where "START_FUNC = ''_start''"
definition INITIALIZE_FUNC :: string where "INITIALIZE_FUNC = ''_initialize''"

definition call_if_exported :: "('st, 'w, 'l, 'i, 'f, 'h, 'm, 'x) backend \<Rightarrow> 'i \<Rightarrow> string \<Rightarrow>
    ('st, ('x, 'v) MError, unit) eff" where
  "call_if_exported B inst name =
    bindM (readM (get_function B inst name)) (\<lambda>f.
    case f of
      Inr func \<Rightarrow> bindM (map_errM M_of_runtime (call_export B func [])) (\<lambda>_. returnM ())
    | Inl _ \<Rightarrow> returnM ())"

definition write_cell :: "nat \<Rightarrow> 'c \<Rightarrow> (('s, 'c) world, 'e, unit) eff" where
  "write_cell i c = (\<lambda>w. (Returns (Inr ()), arc_write i c w))"

definition MModule_new :: "(('s, ('f, 'm, 'p) ITInstance) world, 'w, 'l, 'i, 'f, 'h, 'm, 'x) backend \<Rightarrow>
    (('s, ('f, 'm, 'p) ITInstance) world, 'm, 'p, 'x, 'v) it_engine \<Rightarrow>
    (('s, ('f, 'm, 'p) ITInstance) world, 'x) host_abi \<Rightarrow> 'v::linorder sdk \<Rightarrow> string \<Rightarrow> u8 list \<Rightarrow>
    (('s, ('f, 'm, 'p) ITInstance) world, 'h, 'x) MModuleConfig \<Rightarrow> (string, ('i, 'f, 'm, 'p) MModule) hmap \<Rightarrow>
    (('s, ('f, 'm, 'p) ITInstance) world, ('x, 'v) MError, ('i, 'f, 'm, 'p) MModule) eff" where
  "MModule_new B E A S name wasm_bytes config modules =
    bindM (map_errM M_of_creation (liftS (module_new B wasm_bytes))) (\<lambda>wasm_module.
    bindM (map_errM PrepareError (check_sdk_version S name (custom_sections B wasm_module))) (\<lambda>_.
    bindM (liftR (map_err WITParseError
        (extract_it_from_module (sdk_decoder S) (custom_sections B wasm_module)))) (\<lambda>(it_version, it).
    bindM (map_errM PrepareError (check_it_version S name it_version)) (\<lambda>_.
    let mit = MITInterfaces_new it in
    bindM (createM arc_new_uninit) (\<lambda>wit_instance.
    bindM (readM (imports_new B)) (\<lambda>linker.
    bindM (add_wit_imports B E mit wit_instance linker) (\<lambda>linker.
    bindM (add_wasi_imports B (wasi_parameters config) linker) (\<lambda>linker.
    bindM (add_host_imports B A (raw_imports config) (host_imports config) mit linker) (\<lambda>linker.
    bindM (map_errM M_of_instantiation (instantiate B wasm_module linker)) (\<lambda>wasm_inst.
    bindM (ITInstance_new B wasm_inst name mit modules) (\<lambda>inst.
    bindM (write_cell wit_instance inst) (\<lambda>_.
    bindM (liftR (instantiate_exports E inst mit)) (\<lambda>(funcs, rec_types).
    bindM (call_if_exported B wasm_inst INITIALIZE_FUNC) (\<lambda>_.
    bindM (call_if_exported B wasm_inst START_FUNC) (\<lambda>_.
    returnM \<lparr>wasm_instance = wasm_inst, export_funcs = funcs,
      mod_export_record_types = rec_types\<rparr>)))))))))))))))"

definition MModule_call :: "('st, 'w, 'l, 'i, 'f, 'h, 'm, 'x) backend \<Rightarrow> ('st, 'm, 'p, 'x, 'v) it_engine \<Rightarrow>
    ('i, 'f, 'm, 'p) MModule \<Rightarrow> string \<Rightarrow> string \<Rightarrow> IValue list \<Rightarrow> ('st, ('x, 'v) MError, IValue list) eff" where
  "MModule_call B E module module_name function_name args =
    bindM (liftR (ok_or (NoSuchFunction module_name function_name)
      (hm_get function_name (export_funcs module)))) (\<lambda>func.
    callable_call E (call_export B) func args)"

record MFunctionSignature =
  mfs_name :: string
  mfs_arguments :: "FunctionArg list"
  mfs_outputs :: "IType list"

definition get_exports_signatures :: "('i, 'f, 'm, 'p) MModule \<Rightarrow> MFunctionSignature list" where
  "get_exports_signatures module = List.map (\<lambda>(func_name, func).
    \<lparr>mfs_name = func_name, mfs_arguments = imf_arguments (it_module_func func),
     mfs_outputs = imf_output_types (it_module_func func)\<rparr>) (export_funcs module)"

definition export_record_type_by_id :: "('i, 'f, 'm, 'p) MModule \<Rightarrow> u64 \<Rightarrow> IRecordType option" where
  "export_record_type_by_id module record_type = hm_get record_type (mod_export_record_types module)"

text \<open>\<open>expect\<close> panics when the instance has no memory.\<close>

definition MModule_memory_size :: "('st, 'w, 'l, 'i, 'f, 'h, 'm, 'x) backend \<Rightarrow> ('i, 'f, 'm, 'p) MModule \<Rightarrow>
    ('st, 'e, usize) eff" where
  "MModule_memory_size B module =
    bindM (readM (get_nth_memory B (wasm_instance module) STANDARD_MEMORY_INDEX)) (\<lambda>memory.
    bindM (liftP memory) (\<lambda>memory.
    readM (memory_size_of B memory)))"

end
