(* ===== verification/HostFunctions.thy ===== *)
theory HostFunctions
  imports MarineModule
begin

text \<open>
  The functions the host gives to a module: logging
  (\<open>marine/src/host_imports/logger/{logger_filter,log_utf8_string_impl}.rs\<close>), call parameters
  (\<open>call_parameters.rs\<close>) and mounted binaries (\<open>mounted_binaries.rs\<close>).  The crate \<open>log\<close>, the
  conversion of serialisable values to interface values (\<open>to_interface_value\<close>), the running of a
  command and the message of \<open>MountedBinaryResult::from_error\<close> are parameters.  Warnings printed to
  the standard error are not part of the model.
\<close>

subsection \<open>The filter of log levels\<close>

text \<open>\<open>str::split\<close> at one character and \<open>str::trim\<close>, on characters below \<open>U+0100\<close>.\<close>

fun split_on :: "char \<Rightarrow> string \<Rightarrow> string list" where
  "split_on c [] = [[]]"
| "split_on c (x # xs) =
    (case split_on c xs of
       part # parts \<Rightarrow> if x = c then [] # part # parts else (x # part) # parts
     | [] \<Rightarrow> [])"

definition is_whitespace :: "char \<Rightarrow> bool" where
  "is_whitespace c \<longleftrightarrow> (of_char c :: nat) \<in> {9, 10, 11, 12, 13, 32, 133, 160}"

definition trim :: "string \<Rightarrow> string" where
  "trim s = rev (dropWhile is_whitespace (rev (dropWhile is_whitespace s)))"

record 'lf LoggerFilter =
  default_log_level :: "'lf option"
  module_levels :: "(string, 'lf) hmap"

text \<open>One directive: \<open>None\<close> when it is ignored, otherwise the module it names, if any, and a level.\<close>

definition directive :: "(string \<Rightarrow> 'lf option) \<Rightarrow> 'lf \<Rightarrow> string \<Rightarrow> (string option \<times> 'lf) option" where
  "directive parse max_level module_log =
    (if module_log = [] then None
     else case split_on CHR ''='' module_log of
        [part] \<Rightarrow> (case parse part of Some num \<Rightarrow> Some (None, num) | None \<Rightarrow> Some (Some part, max_level))
      | [module_name, level] \<Rightarrow>
         (if trim level = [] then Some (Some module_name, max_level)
          else (case parse (trim level) of Some level \<Rightarrow> Some (Some module_name, level) | None \<Rightarrow> None))
      | _ \<Rightarrow> None)"

definition apply_directive :: "'lf LoggerFilter \<Rightarrow> string option \<times> 'lf \<Rightarrow> 'lf LoggerFilter" where
  "apply_directive filt d =
    (case d of
       (Some module_name, level) \<Rightarrow> filt\<lparr>module_levels := hm_insert module_name level (module_levels filt)\<rparr>
     | (None, level) \<Rightarrow>
        (case default_log_level filt of
           Some _ \<Rightarrow> filt
         | None \<Rightarrow> filt\<lparr>default_log_level := Some level\<rparr>))"

definition from_env_string :: "(string \<Rightarrow> 'lf option) \<Rightarrow> 'lf \<Rightarrow> string \<Rightarrow> 'lf LoggerFilter" where
  "from_env_string parse max_level env =
    foldl (\<lambda>filt module_log.
        case directive parse max_level module_log of None \<Rightarrow> filt | Some d \<Rightarrow> apply_directive filt d)
      \<lparr>default_log_level = None, module_levels = []\<rparr> (split_on CHR '','' env)"

definition module_level :: "'lf LoggerFilter \<Rightarrow> string \<Rightarrow> 'lf option" where
  "module_level filt module_name =
    (case hm_get module_name (module_levels filt) of None \<Rightarrow> default_log_level filt | Some l \<Rightarrow> Some l)"

text \<open>The directives that are not ignored, in order.\<close>

definition directives :: "(string \<Rightarrow> 'lf option) \<Rightarrow> 'lf \<Rightarrow> string \<Rightarrow> (string option \<times> 'lf) list" where
  "directives parse max_level env = List.map_filter (directive parse max_level) (split_on CHR '','' env)"

definition defaults_of :: "(string option \<times> 'lf) list \<Rightarrow> 'lf list" where
  "defaults_of ds = List.map snd (filter (\<lambda>d. fst d = None) ds)"

lemma from_env_string_directives:
  "from_env_string parse max_level env =
    foldl apply_directive \<lparr>default_log_level = None, module_levels = []\<rparr> (directives parse max_level env)"
proof -
  have "foldl (\<lambda>filt m. case g m of None \<Rightarrow> filt | Some d \<Rightarrow> apply_directive filt d) f ms =
      foldl apply_directive f (List.map_filter g ms)"
    for g :: "string \<Rightarrow> (string option \<times> 'a) option" and f ms
    by (induction ms arbitrary: f) (simp_all add: map_filter_simps split: option.split)
  then show ?thesis
    by (simp add: from_env_string_def directives_def)
qed

lemma apply_directives_module:
  "hm_get n (module_levels (foldl apply_directive f ds)) =
    (case map_of (rev ds) (Some n) of
       Some l \<Rightarrow> Some l | None \<Rightarrow> hm_get n (module_levels f))"
  by (induction ds arbitrary: f rule: rev_induct) (auto simp: apply_directive_def split: option.split)

lemma apply_directives_default:
  "default_log_level (foldl apply_directive f ds) =
    (case default_log_level f of Some l \<Rightarrow> Some l
     | None \<Rightarrow> (case defaults_of ds of [] \<Rightarrow> None | l # _ \<Rightarrow> Some l))"
  by (induction ds arbitrary: f)
    (auto simp: apply_directive_def defaults_of_def split: option.splits list.splits)

text \<open>The level of a module is that of the last directive that names it; without one it is the
  first level given without a module; directives that are ignored have no effect.\<close>

theorem logger_filter_precedence:
  "module_level (from_env_string parse max_level env) name =
    (let ds = directives parse max_level env in
     case map_of (rev ds) (Some name) of
       Some level \<Rightarrow> Some level
     | None \<Rightarrow> (case defaults_of ds of [] \<Rightarrow> None | level # _ \<Rightarrow> Some level))"
  by (simp add: module_level_def from_env_string_directives apply_directives_module apply_directives_default
      Let_def split: option.split)

subsection \<open>Logging\<close>

datatype Level = L_Error | L_Warn | L_Info | L_Debug | L_Trace

text \<open>What the closure sees: the installed logger, and the caller's memory with its reads, which
  panic outside of it.\<close>

record ('st, 'mem) log_env =
  log_max_level :: Level
  log_record :: "string \<Rightarrow> Level \<Rightarrow> string \<Rightarrow> 'st \<Rightarrow> 'st"
  log_warn :: "string \<Rightarrow> 'st \<Rightarrow> 'st"
  log_memory :: "'st \<Rightarrow> u32 \<Rightarrow> 'mem option"
  log_read_vec :: "'mem \<Rightarrow> u32 \<Rightarrow> u32 \<Rightarrow> 'st \<Rightarrow> u8 list option"
  log_from_utf8 :: "u8 list \<Rightarrow> string option"

definition level_from_i32 :: "('st, 'mem) log_env \<Rightarrow> u32 \<Rightarrow> Level" where
  "level_from_i32 L level =
    (if level = 1 then L_Error else if level = 2 then L_Warn else if level = 3 then L_Info
     else if level = 4 then L_Debug else if level = 5 then L_Trace else log_max_level L)"

definition read_string :: "('st, 'mem) log_env \<Rightarrow> u32 \<Rightarrow> u32 \<Rightarrow> 'st \<Rightarrow> string option outcome" where
  "read_string L offset sz st =
    (case log_memory L st 0 of
       None \<Rightarrow> Panics
     | Some view \<Rightarrow>
        (case log_read_vec L view offset sz st of
           None \<Rightarrow> Panics
         | Some bytes \<Rightarrow> Returns (log_from_utf8 L bytes)))"

definition log_utf8_string :: "('st, 'mem) log_env \<Rightarrow> string \<Rightarrow> u32 \<Rightarrow> u32 \<Rightarrow> u32 \<Rightarrow> 'st \<Rightarrow>
    unit outcome \<times> 'st" where
  "log_utf8_string L module level msg_offset msg_size st =
    (let level = level_from_i32 L level in
     case read_string L msg_offset msg_size st of
       Panics \<Rightarrow> (Panics, st)
     | Returns (Some msg) \<Rightarrow> (Returns (), log_record L module level msg st)
     | Returns None \<Rightarrow> (Returns (), log_warn L ''logger: incorrect UTF8 string's been supplied to logger'' st))"

definition log_utf8_string_closure :: "('st, 'mem) log_env \<Rightarrow> u32 \<Rightarrow> string \<Rightarrow> u32 \<Rightarrow> u32 \<Rightarrow> u32 \<Rightarrow> u32 \<Rightarrow> 'st \<Rightarrow>
    unit outcome \<times> 'st" where
  "log_utf8_string_closure L logging_mask module level target msg_offset msg_size st =
    (if target = 0 \<or> and target logging_mask \<noteq> 0
     then log_utf8_string L module level msg_offset msg_size st
     else (Returns (), st))"

subsection \<open>Mounted binaries\<close>

record MountedBinaryResult =
  ret_code :: u32
  mb_error :: string
  mb_stdout :: "u8 list"
  mb_stderr :: "u8 list"

text \<open>Running a command: an error message, or the exit code if there is one and both outputs.\<close>

record ('st, 'path) command_env =
  run_command :: "'path \<Rightarrow> string list \<Rightarrow> 'st \<Rightarrow> (string + u32 option \<times> u8 list \<times> u8 list) \<times> 'st"
  from_error :: "u32 \<Rightarrow> string \<Rightarrow> MountedBinaryResult"
  result_to_ivalue :: "MountedBinaryResult \<Rightarrow> IValue option"

definition INTERNAL_ERROR :: string where
  "INTERNAL_ERROR = ''internal error is encountered while passing arguments to a mounted binary closure, probably you use a not suitable version of rust-sdk''"

fun string_args :: "IValue list \<Rightarrow> string list option" where
  "string_args [] = Some []"
| "string_args (IV_String str # vs) = map_option (Cons str) (string_args vs)"
| "string_args (_ # vs) = None"

definition parse_args :: "('st, 'path) command_env \<Rightarrow> IValue list \<Rightarrow> MountedBinaryResult + string list" where
  "parse_args M raw_args =
    (case raw_args of
       [IV_Array array] \<Rightarrow>
        (case string_args array of
           Some args \<Rightarrow> Inr args
         | None \<Rightarrow> Inl (from_error M 100004 INTERNAL_ERROR))
     | [_] \<Rightarrow> Inl (from_error M 100003 INTERNAL_ERROR)
     | _ \<Rightarrow> Inl (from_error M 100002 INTERNAL_ERROR))"

definition TERMINATED_BY_SIGNAL_CODE :: u32 where "TERMINATED_BY_SIGNAL_CODE = 100000"
definition COMMAND_ERROR_CODE :: u32 where "COMMAND_ERROR_CODE = 100001"

definition mounted_binary_import_impl :: "('st, 'path) command_env \<Rightarrow> 'path \<Rightarrow> IValue list \<Rightarrow> 'st \<Rightarrow>
    (MountedBinaryResult + MountedBinaryResult) \<times> 'st" where
  "mounted_binary_import_impl M mounted_binary_path raw_args st =
    (case parse_args M raw_args of
       Inl e \<Rightarrow> (Inl e, st)
     | Inr args \<Rightarrow>
        (case run_command M mounted_binary_path args st of
           (Inr (code, stdout, stderr), st) \<Rightarrow>
             (Inr \<lparr>ret_code = (case code of Some c \<Rightarrow> c | None \<Rightarrow> TERMINATED_BY_SIGNAL_CODE), mb_error = [],
                mb_stdout = stdout, mb_stderr = stderr\<rparr>, st)
         | (Inl e, st) \<Rightarrow>
             (Inr \<lparr>ret_code = COMMAND_ERROR_CODE, mb_error = e, mb_stdout = [], mb_stderr = []\<rparr>, st)))"

definition create_mounted_binary_import :: "('st, 'path) command_env \<Rightarrow> 'path \<Rightarrow>
    ('st, 'li, 'lo, 'utf) HostImportDescriptor" where
  "create_mounted_binary_import M mounted_binary_path =
    \<lparr>host_exported_func = (\<lambda>st raw_args.
       case mounted_binary_import_impl M mounted_binary_path raw_args st of
         (result, st) \<Rightarrow>
           (case result_to_ivalue M (case result of Inl r \<Rightarrow> r | Inr r \<Rightarrow> r) of
              Some raw_result \<Rightarrow> (Returns (Some raw_result), st)
            | None \<Rightarrow> (Panics, st))),
     argument_types = [IT_Array IT_String], output_type = Some (IT_Record 0), error_handler = None\<rparr>"

lemma map_IV_String_inj [simp]: "List.map IV_String xs = List.map IV_String ys \<longleftrightarrow> xs = ys"
  by (rule inj_map_eq_map) (simp add: inj_def)

lemma string_args_map [simp]: "string_args (List.map IV_String args) = Some args"
  by (induction args) simp_all

lemma string_args_Some: "string_args vs = Some args \<longleftrightarrow> vs = List.map IV_String args"
  by (auto, induction vs arbitrary: args rule: string_args.induct) auto

lemma parse_args_Inr: "parse_args M raw = Inr args \<longleftrightarrow> raw = [IV_Array (List.map IV_String args)]"
  by (auto simp: parse_args_def string_args_Some split: list.splits IValue.splits option.splits)

text \<open>A mounted binary is run exactly when its one argument is an array of strings, with exactly
  these strings; on any other arguments nothing is run and the result is one of the three internal
  errors.\<close>

theorem mounted_binary_runs_on_strings_only:
  "mounted_binary_import_impl M path [IV_Array (List.map IV_String args)] st =
    (let (r, st') = run_command M path args st in
     (Inr (case r of
         Inr (code, out, err) \<Rightarrow> \<lparr>ret_code = (case code of Some c \<Rightarrow> c | None \<Rightarrow> 100000), mb_error = [],
           mb_stdout = out, mb_stderr = err\<rparr>
       | Inl e \<Rightarrow> \<lparr>ret_code = 100001, mb_error = e, mb_stdout = [], mb_stderr = []\<rparr>), st')) \<and>
   ((\<exists>args. raw = [IV_Array (List.map IV_String args)]) \<or>
    mounted_binary_import_impl M path raw st =
     (Inl (from_error M
       (if length raw \<noteq> 1 then 100002 else if \<exists>vs. raw = [IV_Array vs] then 100004 else 100003)
       INTERNAL_ERROR), st))"
proof (rule conjI)
  have "parse_args M [IV_Array (List.map IV_String args)] = Inr args"
    by (simp add: parse_args_Inr)
  then show "mounted_binary_import_impl M path [IV_Array (List.map IV_String args)] st =
    (let (r, st') = run_command M path args st in
     (Inr (case r of
         Inr (code, out, err) \<Rightarrow> \<lparr>ret_code = (case code of Some c \<Rightarrow> c | None \<Rightarrow> 100000), mb_error = [],
           mb_stdout = out, mb_stderr = err\<rparr>
       | Inl e \<Rightarrow> \<lparr>ret_code = 100001, mb_error = e, mb_stdout = [], mb_stderr = []\<rparr>), st'))"
    by (simp add: mounted_binary_import_impl_def TERMINATED_BY_SIGNAL_CODE_def COMMAND_ERROR_CODE_def
        split: prod.split sum.split option.split)
next
  show "(\<exists>args. raw = [IV_Array (List.map IV_String args)]) \<or>
    mounted_binary_import_impl M path raw st =
     (Inl (from_error M
       (if length raw \<noteq> 1 then 100002 else if \<exists>vs. raw = [IV_Array vs] then 100004 else 100003)
       INTERNAL_ERROR), st)"
  proof (cases "parse_args M raw")
    case (Inl e)
    then have "e = from_error M
        (if length raw \<noteq> 1 then 100002 else if \<exists>vs. raw = [IV_Array vs] then 100004 else 100003) INTERNAL_ERROR"
      by (auto simp: parse_args_def split: list.splits IValue.splits option.splits)
    then show ?thesis
      using Inl by (simp add: mounted_binary_import_impl_def)
  qed (auto simp: parse_args_Inr)
qed

subsection \<open>Call parameters\<close>

text \<open>The conversions only move values, so all of them are of one type \<open>'a\<close>.  The destructuring
  patterns of the code name every field.\<close>

record 'a SecurityTetraplet =
  tp_peer_pk :: 'a
  tp_service_id :: 'a
  tp_function_name :: 'a
  tp_lens :: 'a

record 'a TetrapletV0 =
  tp0_peer_pk :: 'a
  tp0_service_id :: 'a
  tp0_function_name :: 'a
  tp0_json_path :: 'a

record 'a TetrapletV1 =
  tp1_peer_pk :: 'a
  tp1_service_id :: 'a
  tp1_function_name :: 'a
  tp1_json_path :: 'a

record 'a TetrapletV2 =
  tp2_peer_pk :: 'a
  tp2_service_id :: 'a
  tp2_function_name :: 'a
  tp2_lambda :: 'a

record 'a ParticleParameters =
  pp_id :: 'a
  pp_init_peer_id :: 'a
  pp_signature :: 'a
  pp_timestamp :: 'a
  pp_ttl :: 'a
  pp_script :: 'a
  pp_token :: 'a

record 'a CallParameters =
  cp_particle :: "'a ParticleParameters"
  cp_service_id :: 'a
  cp_service_creator_peer_id :: 'a
  cp_host_id :: 'a
  cp_worker_id :: 'a
  cp_tetraplets :: "'a SecurityTetraplet list list"

record 'a CallParametersV0 =
  cp0_init_peer_id :: 'a
  cp0_service_id :: 'a
  cp0_service_creator_peer_id :: 'a
  cp0_host_id :: 'a
  cp0_particle_id :: 'a
  cp0_tetraplets :: "'a TetrapletV0 list list"

record 'a CallParametersV1 =
  cp1_init_peer_id :: 'a
  cp1_service_id :: 'a
  cp1_service_creator_peer_id :: 'a
  cp1_host_id :: 'a
  cp1_worker_id :: 'a
  cp1_particle_id :: 'a
  cp1_tetraplets :: "'a TetrapletV1 list list"

record 'a CallParametersV2 =
  cp2_particle :: "'a ParticleParameters"
  cp2_service_id :: 'a
  cp2_service_creator_peer_id :: 'a
  cp2_host_id :: 'a
  cp2_worker_id :: 'a
  cp2_tetraplets :: "'a TetrapletV2 list list"

definition to_v0_sdk_tetraplet :: "'a SecurityTetraplet \<Rightarrow> 'a TetrapletV0" where
  "to_v0_sdk_tetraplet t = \<lparr>tp0_peer_pk = tp_peer_pk t, tp0_service_id = tp_service_id t,
    tp0_function_name = tp_function_name t, tp0_json_path = tp_lens t\<rparr>"

definition to_v0_sdk_tetraplets :: "'a SecurityTetraplet list list \<Rightarrow> 'a TetrapletV0 list list" where
  "to_v0_sdk_tetraplets tetraplets = List.map (List.map to_v0_sdk_tetraplet) tetraplets"

definition to_v1_sdk_tetraplet :: "'a SecurityTetraplet \<Rightarrow> 'a TetrapletV1" where
  "to_v1_sdk_tetraplet t = \<lparr>tp1_peer_pk = tp_peer_pk t, tp1_service_id = tp_service_id t,
    tp1_function_name = tp_function_name t, tp1_json_path = tp_lens t\<rparr>"

definition to_v1_sdk_tetraplets :: "'a SecurityTetraplet list list \<Rightarrow> 'a TetrapletV1 list list" where
  "to_v1_sdk_tetraplets tetraplets = List.map (List.map to_v1_sdk_tetraplet) tetraplets"

definition to_v2_sdk_tetraplet :: "'a SecurityTetraplet \<Rightarrow> 'a TetrapletV2" where
  "to_v2_sdk_tetraplet t = \<lparr>tp2_peer_pk = tp_peer_pk t, tp2_service_id = tp_service_id t,
    tp2_function_name = tp_function_name t, tp2_lambda = tp_lens t\<rparr>"

definition to_v2_sdk_tetraplets :: "'a SecurityTetraplet list list \<Rightarrow> 'a TetrapletV2 list list" where
  "to_v2_sdk_tetraplets tetraplets = List.map (List.map to_v2_sdk_tetraplet) tetraplets"

definition call_parameters_v3_to_v0 :: "'a CallParameters \<Rightarrow> 'a CallParametersV0" where
  "call_parameters_v3_to_v0 cp = \<lparr>
    cp0_init_peer_id = pp_init_peer_id (cp_particle cp),
    cp0_service_id = cp_service_id cp,
    cp0_service_creator_peer_id = cp_service_creator_peer_id cp,
    cp0_host_id = cp_host_id cp,
    cp0_particle_id = pp_id (cp_particle cp),
    cp0_tetraplets = to_v0_sdk_tetraplets (cp_tetraplets cp)\<rparr>"

definition call_parameters_v3_to_v1 :: "'a CallParameters \<Rightarrow> 'a CallParametersV1" where
  "call_parameters_v3_to_v1 cp = \<lparr>
    cp1_init_peer_id = pp_init_peer_id (cp_particle cp),
    cp1_service_id = cp_service_id cp,
    cp1_service_creator_peer_id = cp_service_creator_peer_id cp,
    cp1_host_id = cp_host_id cp,
    cp1_worker_id = cp_worker_id cp,
    cp1_particle_id = pp_id (cp_particle cp),
    cp1_tetraplets = to_v1_sdk_tetraplets (cp_tetraplets cp)\<rparr>"

definition call_parameters_v3_to_v2 :: "'a CallParameters \<Rightarrow> 'a CallParametersV2" where
  "call_parameters_v3_to_v2 cp = \<lparr>
    cp2_particle = \<lparr>pp_id = pp_id (cp_particle cp), pp_init_peer_id = pp_init_peer_id (cp_particle cp),
      pp_signature = pp_signature (cp_particle cp), pp_timestamp = pp_timestamp (cp_particle cp),
      pp_ttl = pp_ttl (cp_particle cp), pp_script = pp_script (cp_particle cp),
      pp_token = pp_token (cp_particle cp)\<rparr>,
    cp2_service_id = cp_service_id cp,
    cp2_service_creator_peer_id = cp_service_creator_peer_id cp,
    cp2_host_id = cp_host_id cp,
    cp2_worker_id = cp_worker_id cp,
    cp2_tetraplets = to_v2_sdk_tetraplets (cp_tetraplets cp)\<rparr>"

text \<open>The import reads the parameters through its mutex: a function of the state.\<close>

definition create_call_parameters_import :: "('cp \<Rightarrow> IValue option) \<Rightarrow> ('st \<Rightarrow> 'cp) \<Rightarrow>
    ('st, 'li, 'lo, 'utf) HostImportDescriptor" where
  "create_call_parameters_import to_interface_value call_parameters =
    \<lparr>host_exported_func = (\<lambda>st _.
       case to_interface_value (call_parameters st) of
         Some result \<Rightarrow> (Returns (Some result), st)
       | None \<Rightarrow> (Panics, st)),
     argument_types = [], output_type = Some (IT_Record 0), error_handler = None\<rparr>"

end
