(* ===== verification/ModuleLinking.thy ===== *)
theory ModuleLinking
  imports MarineModule
begin

text \<open>
  What linking a module guarantees: how many instances a call can pass through, which function an
  import is bound to, and that the cell a raw import reads is written when the load succeeds.
\<close>

subsection \<open>Depth of calls\<close>

text \<open>The number of further modules a call of a function can enter.\<close>

primrec fn_depth :: "('f, 'm, 'p) WITFunction \<Rightarrow> nat"
and inner_depth :: "('f, 'm, 'p) WITFunctionInner \<Rightarrow> nat"
and callable_depth :: "('f, 'm, 'p) Callable \<Rightarrow> nat"
and inst_depth :: "('f, 'm, 'p) ITInstance \<Rightarrow> nat"
where
  "fn_depth (WITFunction n as os inner) = inner_depth inner"
| "inner_depth (WI_Export f) = 0"
| "inner_depth (WI_Import c) = Suc (callable_depth c)"
| "callable_depth (Callable inst f) = inst_depth inst"
| "inst_depth (ITInstance fs ms rs) = foldr max (List.map (\<lambda>(i, d). d) (List.map (map_prod id fn_depth) fs)) 0"

lemma foldr_max_le: "foldr max ns (0 :: nat) \<le> n \<longleftrightarrow> (\<forall>m\<in>set ns. m \<le> n)"
  by (induction ns) auto

lemma inst_depth_le:
  "inst_depth (ITInstance fs ms rs) \<le> n \<longleftrightarrow> (\<forall>(i, f)\<in>set fs. fn_depth f \<le> n)"
  by (auto simp: foldr_max_le)

definition callables_below :: "nat \<Rightarrow> ('i, 'f, 'm, 'p) MModule \<Rightarrow> bool" where
  "callables_below n m \<longleftrightarrow> (\<forall>(name, c)\<in>set (export_funcs m). callable_depth c < n)"

lemma set_hm_insert: "set (hm_insert k v m) \<subseteq> insert (k, v) (set m)"
  unfolding hm_insert_def by (induction m) auto

lemma set_extend: "set (hm_extend m kvs) \<subseteq> set m \<union> set kvs"
  unfolding hm_extend_def
proof (induction kvs arbitrary: m)
  case (Cons kv kvs)
  then show ?case
    using set_hm_insert [of "fst kv" "snd kv" m] by (fastforce simp: case_prod_beta)
qed simp

lemma hm_extend_get: "hm_get k (hm_extend m kvs) = (case map_of (rev kvs) k of Some v \<Rightarrow> Some v | None \<Rightarrow> hm_get k m)"
  unfolding hm_extend_def by (induction kvs rule: rev_induct) (auto split: option.split)

lemma from_export_depth:
  "from_export B f name st = (Returns (Inr g), st') \<Longrightarrow> wf_inner g = WI_Export f \<and> fn_depth g = 0"
  by (auto simp: from_export_def eff_simps)

lemma extract_raw_exports_depth:
  assumes "extract_raw_exports B i it st = (Returns (Inr exports), st')" and "(k, f) \<in> set exports"
  shows "fn_depth f = 0"
proof -
  have "list_all2 (\<lambda>_ (k, f). fn_depth f = 0) (enumerate 0 (mit_exports it)) exports"
    using assms(1) unfolding extract_raw_exports_def
    by (rule mapM_all2) (auto simp: eff_simps dest: from_export_depth)
  then show ?thesis
    using assms(2) by (auto simp: list_all2_conv_all_nth in_set_conv_nth)
qed

text \<open>An import is bound to the exported callable of its name in the module of its namespace, and
  gets the arguments and results of the type two places before its own.\<close>

definition linked_to :: "(string, ('i, 'f, 'm, 'p) MModule) hmap \<Rightarrow> MITInterfaces \<Rightarrow> Import \<Rightarrow>
    ('f, 'm, 'p) WITFunction \<Rightarrow> bool" where
  "linked_to mods wit import f \<longleftrightarrow> (\<exists>m c. hm_get (im_namespace import) mods = Some m \<and>
     hm_get (im_name import) (export_funcs m) = Some c \<and> wf_name f = im_name import \<and>
     wf_inner f = WI_Import c \<and>
     type_by_idx wit (im_function_type import - 2) = Some (Ast_Function (wf_arguments f) (wf_outputs f)))"

lemma extract_import_Inr:
  "extract_import module_name mods wit start (idx, import) = Inr kf \<longleftrightarrow>
    fst kf = start + idx \<and> linked_to mods wit import (snd kf)"
proof (cases kf)
  case (Pair k f)
  obtain n as os inner where f: "f = WITFunction n as os inner"
    by (cases f)
  show ?thesis
  proof (cases "hm_get (im_namespace import) mods")
    case (Some m)
    show ?thesis
    proof (cases "type_by_idx wit (im_function_type import - 2)")
      case ty: (Some t)
      show ?thesis
        by (cases t; cases "hm_get (im_name import) (export_funcs m)")
          (auto simp: Pair f Some ty extract_import_def linked_to_def from_import_def get_callable_def
            type_by_idx_r_def)
    qed (simp add: Pair f Some extract_import_def linked_to_def type_by_idx_r_def)
  qed (simp add: extract_import_def linked_to_def)
qed

definition implemented_imports :: "MITInterfaces \<Rightarrow> Import list" where
  "implemented_imports wit =
    filter (\<lambda>import. adapter_types_by_core_type wit (im_function_type import) \<noteq> None) (mit_imports wit)"

lemma extract_imports_Inr:
  "extract_imports module_name mods wit start = Inr imports \<longleftrightarrow>
    length imports = length (implemented_imports wit) \<and>
    (\<forall>k < length imports. fst (imports ! k) = start + k \<and>
      linked_to mods wit (implemented_imports wit ! k) (snd (imports ! k)))"
  unfolding extract_imports_def mapR_Inr_iff implemented_imports_def [symmetric] list_all2_conv_all_nth
  by (auto simp: nth_enumerate_eq extract_import_Inr)

lemma ITInstance_new_ok:
  "(ITInstance_new B i module_name wit mods :: ('st, ('x, 'v) MError, _) eff) st = (Returns (Inr inst), st') \<longleftrightarrow>
    (\<exists>exports imps. (extract_raw_exports B i wit :: ('st, ('x, 'v) MError, _) eff) st = (Returns (Inr exports), st') \<and>
      (extract_imports module_name mods wit (length exports) :: ('x, 'v) MError + _) = Inr imps \<and>
      inst = ITInstance (hm_extend exports imps) (extract_memories B i st') (extract_record_types wit))"
  unfolding ITInstance_new_def bindM_ok liftR_ok readM_ok returnM_ok by blast

lemma ITInstance_new_depth:
  assumes "(ITInstance_new B i module_name wit mods :: ('st, ('x, 'v) MError, _) eff) st = (Returns (Inr inst), st')"
    and "\<forall>(name, m)\<in>set mods. callables_below n m"
  shows "inst_depth inst \<le> n"
proof -
  obtain exports imps where
      exports: "(extract_raw_exports B i wit :: ('st, ('x, 'v) MError, _) eff) st = (Returns (Inr exports), st')"
    and imps: "(extract_imports module_name mods wit (length exports) :: ('x, 'v) MError + _) = Inr imps"
    and inst: "inst = ITInstance (hm_extend exports imps) (extract_memories B i st') (extract_record_types wit)"
    using assms(1) unfolding ITInstance_new_ok by blast
  have "fn_depth f \<le> n" if "(k, f) \<in> set exports" for k f
    using extract_raw_exports_depth [OF exports that] by simp
  moreover have "fn_depth f \<le> n" if f: "(k, f) \<in> set imps" for k f
  proof -
    obtain imp where "linked_to mods wit imp f"
      using f imps by (auto simp: extract_imports_Inr in_set_conv_nth)
    then obtain m c name ns where "hm_get ns mods = Some m" "hm_get name (export_funcs m) = Some c"
        "wf_inner f = WI_Import c"
      by (auto simp: linked_to_def)
    then have "callable_depth c < n" "fn_depth f = Suc (callable_depth c)"
      using assms(2) by (cases f; fastforce simp: callables_below_def dest!: hm_get_in_set)+
    then show ?thesis by simp
  qed
  ultimately show ?thesis
    using set_extend [of exports imps] unfolding inst inst_depth_le by fastforce
qed

subsection \<open>Loading\<close>

lemma bindM_readM: "bindM (readM f) k st = k (f st) st"
  by (simp add: bindM_def readM_def)

lemma liftP_Some: "liftP (Some a) = returnM a"
  by (simp add: liftP_def)

lemma createM_ok [eff_simps]: "createM f st = (Returns (Inr h), st') \<longleftrightarrow> f st = (h, st')"
  by (auto simp: createM_def split: prod.splits)

lemma write_cell_ok [eff_simps]: "write_cell i c w = (Returns (Inr u), w') \<longleftrightarrow> w' = arc_write i c w"
  by (auto simp: write_cell_def)

lemma frame_checks [simp, intro]:
  "frame g (check_sdk_version S name sections)" "frame g (check_it_version S name v)"
  unfolding check_sdk_version_def check_it_version_def by (intro frame_bindM; simp)+

text \<open>The stages of a successful load; \<open>linkM\<close> is the part that links and instantiates.\<close>

definition linkM :: "(('s, ('f, 'm, 'p) ITInstance) world, 'w, 'l, 'i, 'f, 'h, 'm, 'x) backend \<Rightarrow>
    (('s, ('f, 'm, 'p) ITInstance) world, 'm, 'p, 'x, 'v) it_engine \<Rightarrow>
    (('s, ('f, 'm, 'p) ITInstance) world, 'x) host_abi \<Rightarrow>
    (('s, ('f, 'm, 'p) ITInstance) world, 'h, 'x) MModuleConfig \<Rightarrow> MITInterfaces \<Rightarrow> nat \<Rightarrow> 'w \<Rightarrow> 'l \<Rightarrow>
    (('s, ('f, 'm, 'p) ITInstance) world, ('x, 'v) MError, 'i) eff" where
  "linkM B E A config mit cell wasm linker =
    bindM (add_wit_imports B E mit cell linker) (\<lambda>linker.
    bindM (add_wasi_imports B (wasi_parameters config) linker) (\<lambda>linker.
    bindM (add_host_imports B A (raw_imports config) (host_imports config) mit linker) (\<lambda>linker.
    map_errM M_of_instantiation (instantiate B wasm linker))))"

lemma MModule_new_stages:
  assumes "(MModule_new B E A S name bytes config mods :: (_, ('x, 'v::linorder) MError, _) eff) w = (Returns (Inr m), w')"
  obtains wasm w1 v it cell w2 w3 inst w4 where
    "module_new B bytes w = (Inr wasm, w1)"
    and "(check_sdk_version S name (custom_sections B wasm) :: (_, 'v PrepareError, _) eff) w1 = (Returns (Inr ()), w1)"
    and "extract_it_from_module (sdk_decoder S) (custom_sections B wasm) = Inr (v, it)"
    and "(check_it_version S name v :: (_, 'v PrepareError, _) eff) w1 = (Returns (Inr ()), w1)"
    and "arc_new_uninit w1 = (cell, w2)"
    and "(linkM B E A config (MITInterfaces_new it) cell wasm (imports_new B w2) :: (_, ('x, 'v) MError, _) eff) w2 =
      (Returns (Inr (wasm_instance m)), w3)"
    and "(ITInstance_new B (wasm_instance m) name (MITInterfaces_new it) mods :: (_, ('x, 'v) MError, _) eff) w3 =
      (Returns (Inr inst), w4)"
    and "(instantiate_exports E inst (MITInterfaces_new it) :: ('x, 'v) MError + _) =
      Inr (export_funcs m, mod_export_record_types m)"
    and "(bindM (call_if_exported B (wasm_instance m) INITIALIZE_FUNC) (\<lambda>_.
      call_if_exported B (wasm_instance m) START_FUNC) :: (_, ('x, 'v) MError, _) eff) (arc_write cell inst w4) =
      (Returns (Inr ()), w')"
proof -
  have check: "w2 = w1" if "(check_sdk_version S name (custom_sections B wasm) :: (_, 'v PrepareError, _) eff) w1 = (Returns (Inr ()), w2)"
    for wasm w1 w2
    by (rule frameD [OF frame_checks(1) [where g = "\<lambda>w. w"] that])
  have check': "w2 = w1" if "(check_it_version S name v :: (_, 'v PrepareError, _) eff) w1 = (Returns (Inr ()), w2)"
    for v w1 w2
    by (rule frameD [OF frame_checks(2) [where g = "\<lambda>w. w"] that])
  show thesis
    using assms unfolding MModule_new_def Let_def bindM_ok map_errM_ok liftS_ok liftR_ok map_err_Inr readM_ok
      createM_ok write_cell_ok
    apply (clarsimp simp: returnM_ok bindM_ok map_errM_ok readM_ok split: prod.splits)
    apply (frule check, frule check')
    apply clarsimp
    subgoal for x st1 a b xa st1c xb st1d xc st1e xd st1f xe st1g xf st1h st1i aa ba st1j st1k
      by (rule that [of x st1 a b xa st1c st1g xf st1h])
        (auto simp: linkM_def bindM_ok map_errM_ok createM_ok write_cell_ok liftR_ok)
    done
qed

text \<open>The operations of the backend do not touch the cells of the loader.\<close>

definition keeps_cells :: "(('s, 'c) world, 'w, 'l, 'i, 'f, 'h, 'm, 'x) backend \<Rightarrow>
    (('s, 'c) world, 'h, 'x) MModuleConfig \<Rightarrow> bool" where
  "keeps_cells B config \<longleftrightarrow>
    (\<forall>bytes w. w_arcs (snd (module_new B bytes w)) = w_arcs w) \<and>
    (\<forall>sig f w. w_arcs (snd (new_with_caller B sig f w)) = w_arcs w) \<and>
    (\<forall>p l w. w_arcs (snd (wasi_register B p l w)) = w_arcs w) \<and>
    (\<forall>wasm l. frame w_arcs (instantiate B wasm l)) \<and>
    (\<forall>f args. frame w_arcs (call_export B f args)) \<and>
    (\<forall>(v, raws)\<in>set (raw_imports config). \<forall>(name, creator)\<in>set raws. \<forall>w. w_arcs (snd (creator w)) = w_arcs w)"

lemma frame_createM [intro]: "(\<And>st. g (snd (f st)) = g st) \<Longrightarrow> frame g (createM f)"
  by (simp add: frame_def createM_def split: prod.split) (metis snd_conv)

lemma frame_register [intro, simp]: "frame g (register_all B ns fs l)"
  by (auto simp: frame_def register_all_def split: prod.split sum.split)

lemma frame_call_if_exported: "keeps_cells B config \<Longrightarrow> frame w_arcs (call_if_exported B i name)"
  unfolding call_if_exported_def keeps_cells_def
  by (intro frame_bindM frame_basic) (auto intro!: frame_bindM frame_map_errM split: sum.split)

lemma frame_wit_imports:
  assumes "keeps_cells B config"
  shows "frame w_arcs (add_wit_imports B E wit cell l)"
proof -
  have new: "frame w_arcs (createM (new_with_caller B sig f))" for sig f
    using assms by (intro frame_createM) (simp add: keeps_cells_def)
  have "frame w_arcs (wit_import_func B E wit cell x)" for x
    unfolding wit_import_func_def func_from_raw_import_def
    by (auto intro!: frame_bindM new split: prod.split AstType.split)
  then show ?thesis
    unfolding add_wit_imports_def by (auto intro!: frame_bindM frame_mapM frame_foldM)
qed

lemma frame_host_imports:
  assumes "keeps_cells B config"
  shows "frame w_arcs (add_host_imports B A (raw_imports config) hosts mit l)"
proof -
  have host: "frame w_arcs (createM (create_host_import_func B A d r))" for d r
    using assms by (intro frame_createM) (simp add: keeps_cells_def create_host_import_func_def)
  have raw: "frame w_arcs (createM creator)"
    if "(v, raws) \<in> set (raw_imports config)" "(name, creator) \<in> set raws" for v raws name creator
    using assms that by (intro frame_createM) (fastforce simp: keeps_cells_def)
  show ?thesis
    unfolding add_host_imports_def Let_def
    by (auto intro!: frame_bindM frame_mapM frame_foldM host dest: raw split: prod.split)
qed

lemma frame_ITInstance_new: "frame g (ITInstance_new B i name mit mods)"
proof -
  have "frame g (from_export B f n)" for f n
    unfolding from_export_def by (intro frame_bindM; simp)+
  then show ?thesis
    unfolding ITInstance_new_def extract_raw_exports_def
    by (auto intro!: frame_bindM frame_mapM frame_map_errM split: prod.split)
qed

lemma export_instances:
  "instantiate_exports E inst mit = Inr (funcs, recs) \<Longrightarrow> (name, c) \<in> set funcs \<Longrightarrow> it_instance c = inst"
proof -
  assume "instantiate_exports E inst mit = Inr (funcs, recs)" and c: "(name, c) \<in> set funcs"
  then obtain pairs sigs where pairs: "mapR (instantiate_export E inst mit) sigs = Inr pairs"
      and funcs: "funcs = collect_hmap pairs"
    by (auto simp: instantiate_exports_def bindR_Inr)
  have "(name, c) \<in> set pairs"
    using c set_extend [of "[]" pairs] unfolding funcs collect_hmap_def hm_extend_def by auto
  then obtain sig where "instantiate_export E inst mit sig = Inr (name, c)"
    using mapR_Inr_mem [OF pairs] by blast
  then show ?thesis
    by (auto simp: instantiate_export_def bindR_Inr)
qed


lemma try_as_one_section_Inr: "try_as_one_section ds n = Inr d \<longleftrightarrow> ds = [d]"
  by (cases ds rule: list.exhaust; cases "tl ds") (auto simp: try_as_one_section_def)

lemma check_sdk_version_ok:
  "check_sdk_version S name sections w = (Returns (Inr ()), w') \<longleftrightarrow> w' = w \<and>
    (\<exists>bytes v required. sections (sdk_section S) = [bytes] \<and>
      as_semver (sdk_from_utf8 S) (sdk_from_str S) bytes = Inr v \<and>
      sdk_from_str S ''0.6.0'' = Inr required \<and> required \<le> v)"
  by (auto simp: check_sdk_version_def eff_simps sdk_extract_from_compiled_module_def bindR_Inr map_err_Inr
      try_as_one_section_Inr min_sdk_version_def parsed_or_panic_def not_less split: if_splits sum.splits)

lemma check_it_version_ok:
  "check_it_version S name v w = (Returns (Inr ()), w') \<longleftrightarrow> w' = w \<and>
    (\<exists>required. sdk_from_str S ''0.20.0'' = Inr required \<and> required \<le> v)"
  by (auto simp: check_it_version_def eff_simps min_it_version_def parsed_or_panic_def not_less
      split: if_splits sum.splits)

lemma extract_it_from_module_Inr:
  "extract_it_from_module parse sections = Inr it \<longleftrightarrow>
    (\<exists>bytes. sections IT_SECTION_NAME = [bytes] \<and> parse bytes = Inr ([], it))"
proof (cases "sections IT_SECTION_NAME")
  case (Cons d ds)
  then show ?thesis
    by (cases ds) (auto simp: extract_it_from_module_def extract_it_from_bytes_def bindR_Inr split: sum.splits if_splits)
qed (simp add: extract_it_from_module_def)

lemma collect_hmap_get:
  "hm_get k (collect_hmap kvs) = Some v \<Longrightarrow> (k, v) \<in> set kvs"
  using set_extend [of "[]" kvs] by (auto simp: collect_hmap_def hm_extend_def dest!: hm_get_in_set)

lemma collect_hmap_has: "hm_has k (collect_hmap kvs) \<longleftrightarrow> k \<in> fst ` set kvs"
  unfolding collect_hmap_def
proof (induction kvs rule: rev_induct)
  case (snoc kv kvs)
  then show ?case by (cases kv) auto
qed (simp add: hm_has_def)

lemma instantiate_exports_Inr:
  assumes "instantiate_exports E inst mit = Inr (funcs, recs)"
  shows "\<exists>i. it_get_interface mit = Inr i \<and> recs = export_record_types i \<and>
    fst ` set funcs = fs_name ` set (function_signatures i) \<and>
    (\<forall>n c. hm_get n funcs = Some c \<longrightarrow> (\<exists>sig\<in>set (function_signatures i). fs_name sig = n \<and>
      imf_arguments (it_module_func c) = fs_arguments sig \<and> imf_output_types (it_module_func c) = fs_outputs sig))"
proof -
  obtain i pairs where i: "it_get_interface mit = Inr i" "recs = export_record_types i"
      and pairs: "mapR (instantiate_export E inst mit) (function_signatures i) = Inr pairs"
      and funcs: "funcs = collect_hmap pairs"
    using assms by (auto simp: instantiate_exports_def bindR_Inr map_err_Inr)
  have each: "\<exists>sig\<in>set (function_signatures i). fs_name sig = n \<and>
      imf_arguments (it_module_func c) = fs_arguments sig \<and> imf_output_types (it_module_func c) = fs_outputs sig"
    if "(n, c) \<in> set pairs" for n c
    using mapR_Inr_mem [OF pairs that] by (auto simp: instantiate_export_def bindR_Inr)
  have "list_all2 (\<lambda>sig p. fst p = fs_name sig) (function_signatures i) pairs"
    using pairs unfolding mapR_Inr_iff
    by (rule list_all2_mono) (auto simp: instantiate_export_def bindR_Inr)
  then have "List.map fst pairs = List.map fs_name (function_signatures i)"
    by (simp add: list_all2_conv_all_nth list_eq_iff_nth_eq)
  then have "fst ` set pairs = fs_name ` set (function_signatures i)"
    by (metis list.set_map)
  moreover have "fst ` set funcs = fst ` set pairs"
    using collect_hmap_has [of _ pairs] by (auto simp: funcs hm_has_iff)
  ultimately show ?thesis
    using i each funcs collect_hmap_get by metis
qed

text \<open>C17: a module that loads has exactly one version section and exactly one interface section, its
  SDK is at least the minimal one, its interface version at least the minimal one, and it offers
  exactly the functions of its interface, with their argument and result types and the record types of
  the interface.\<close>

theorem loaded_module_is_checked:
  assumes "(MModule_new B E A S name bytes config mods :: (_, ('x, 'v::linorder) MError, _) eff) w = (Returns (Inr m), w')"
  shows "\<exists>wasm sdk_bytes it_bytes sdk_version it_version it min_sdk min_it i.
    fst (module_new B bytes w) = Inr wasm \<and>
    custom_sections B wasm (sdk_section S) = [sdk_bytes] \<and>
    as_semver (sdk_from_utf8 S) (sdk_from_str S) sdk_bytes = Inr sdk_version \<and>
    sdk_from_str S ''0.6.0'' = Inr min_sdk \<and> min_sdk \<le> sdk_version \<and>
    custom_sections B wasm IT_SECTION_NAME = [it_bytes] \<and>
    sdk_decoder S it_bytes = Inr ([], it_version, it) \<and>
    sdk_from_str S ''0.20.0'' = Inr min_it \<and> min_it \<le> it_version \<and>
    it_get_interface (MITInterfaces_new it) = Inr i \<and>
    fst ` set (export_funcs m) = fs_name ` set (function_signatures i) \<and>
    (\<forall>n c. hm_get n (export_funcs m) = Some c \<longrightarrow> (\<exists>sig\<in>set (function_signatures i). fs_name sig = n \<and>
      imf_arguments (it_module_func c) = fs_arguments sig \<and> imf_output_types (it_module_func c) = fs_outputs sig)) \<and>
    mod_export_record_types m = export_record_types i"
  using assms
proof (rule MModule_new_stages)
  fix wasm w1 v it inst
  assume stages: "module_new B bytes w = (Inr wasm, w1)"
    "(check_sdk_version S name (custom_sections B wasm) :: (_, 'v PrepareError, _) eff) w1 = (Returns (Inr ()), w1)"
    "extract_it_from_module (sdk_decoder S) (custom_sections B wasm) = Inr (v, it)"
    "(check_it_version S name v :: (_, 'v PrepareError, _) eff) w1 = (Returns (Inr ()), w1)"
    "(instantiate_exports E inst (MITInterfaces_new it) :: ('x, 'v) MError + _) =
      Inr (export_funcs m, mod_export_record_types m)"
  from instantiate_exports_Inr [OF stages(5)] stages(1-4) show ?thesis
    unfolding check_sdk_version_ok check_it_version_ok extract_it_from_module_Inr by auto
qed

subsection \<open>A small backend\<close>

text \<open>A backend, for any store, whose every module has the section \<open>sample_interfaces\<close>, one function
  \<open>f\<close> and no memory; its interpreter returns nothing, and fails on arguments.  Versions are numbers.\<close>

type_synonym 's sample_world = "('s, (string, unit, Instruction list) ITInstance) world"

definition sample_backend ::
    "('s sample_world, unit, string list, unit, string, unit, unit, unit) backend" where
  "sample_backend = \<lparr>
    module_new = (\<lambda>bytes st. (if bytes = [] then Inl (FailedToCompileWasm (Any_Other ())) else Inr (), st)),
    custom_sections = (\<lambda>w name. if name = ''version'' then [[7]] else if name = IT_SECTION_NAME then [[20]] else []),
    imports_new = (\<lambda>st. []),
    imports_register = (\<lambda>st ns fs l. (Inr (), ns # l)),
    new_with_caller = (\<lambda>sig f st. ((), st)),
    wasi_register = (\<lambda>p l st. (Inr l, st)),
    instantiate = (\<lambda>w l. returnM ()),
    get_function = (\<lambda>i name st. if name = ''f'' then Inr name else Inl (ExportNotFound name)),
    signature = (\<lambda>f st. FuncSig_new [] []),
    call_export = (\<lambda>f args. returnM []),
    exported_memories = (\<lambda>i st. []),
    get_memory = (\<lambda>i name st. Inl (ExportNotFound name)),
    get_nth_memory = (\<lambda>i n st. None),
    memory_size_of = (\<lambda>m st. 0)\<rparr>"

definition sample_engine :: "('s sample_world, unit, Instruction list, unit, nat) it_engine" where
  "sample_engine = \<lparr>compile = (\<lambda>instrs. Some instrs), run = (\<lambda>p args env. if args = [] then returnM [] else failM ()),
    anyhow_of = (\<lambda>e. Any_Other ())\<rparr>"

definition sample_abi :: "('s sample_world, unit) host_abi" where
  "sample_abi = \<lparr>abi_lifter = \<lparr>read_raw_u8_array = (\<lambda>st p n. Inl ()), string_from_utf8 = (\<lambda>bs. Inl ()),
      array_lift_memory = (\<lambda>st r t p n. Inl ()), record_lift_memory = (\<lambda>st r t p. Inl ())\<rparr>,
    abi_lowerer = \<lparr>lowerer_new = (\<lambda>st. (Inl (), st)), str_as_bytes = (\<lambda>s. []),
      write_bytes = (\<lambda>a bs st. (Inl (), st)), array_lower_memory = (\<lambda>a vs st. (Inl (), st)),
      record_lower_memory = (\<lambda>a vs st. (Inl (), st))\<rparr>,
    abi_caller = \<lparr>ic_memory = (\<lambda>st n. True), ic_get_alloc = (\<lambda>st n. Inl (ExportNotFound n)),
      ic_get_setter = (\<lambda>st n. Inl (ExportNotFound n))\<rparr>\<rparr>"

definition sample_sdk :: "nat sdk" where
  "sample_sdk = \<lparr>sdk_section = ''version'', sdk_from_utf8 = (\<lambda>bs. Inr ''7''),
    sdk_from_str = (\<lambda>s. Inr (if s = ''0.6.0'' then 6 else if s = ''0.20.0'' then 20 else 7)),
    sdk_decoder = (\<lambda>bs. Inr ([], 20, sample_interfaces))\<rparr>"

definition sample_start :: "nat sample_world" where
  "sample_start = \<lparr>w_store = 0, w_arcs = []\<rparr>"

definition sample_load :: "(nat sample_world, (unit, nat) MError, (unit, string, unit, Instruction list) MModule) eff" where
  "sample_load = MModule_new sample_backend sample_engine sample_abi sample_sdk ''m'' [0] MModuleConfig_default []"

lemma sample_load_succeeds: "\<exists>m w. sample_load sample_start = (Returns (Inr m), w) \<and>
    List.map fst (export_funcs m) = [''f''] \<and> length (w_arcs w) = 1"
proof -
  have "case sample_load sample_start of (Returns (Inr m), w) \<Rightarrow>
      List.map fst (export_funcs m) = [''f''] \<and> length (w_arcs w) = 1 | _ \<Rightarrow> False"
    by code_simp
  then show ?thesis
    by (auto split: prod.splits outcome.splits sum.splits)
qed

lemma sample_keeps_cells: "keeps_cells sample_backend MModuleConfig_default"
  by (simp add: keeps_cells_def sample_backend_def MModuleConfig_default_def)


theorem loaded_module_is_checked_witness:
  "\<exists>m w. sample_load sample_start = (Returns (Inr m), w) \<and> fst ` set (export_funcs m) = {''f''} \<and>
    (\<exists>i. it_get_interface (MITInterfaces_new sample_interfaces) = Inr i \<and>
      mod_export_record_types m = export_record_types i)"
proof -
  obtain m w where run: "sample_load sample_start = (Returns (Inr m), w)" "List.map fst (export_funcs m) = [''f'']"
    using sample_load_succeeds by auto
  have "fst ` set (export_funcs m) = {''f''}"
    using arg_cong [OF run(2), of set] by simp
  then show ?thesis
    using loaded_module_is_checked [OF run(1) [unfolded sample_load_def]] run(1)
    by (auto simp: sample_sdk_def)
qed

end
