(* ===== verification/MarineCore.thy ===== *)
theory MarineCore
  imports ModuleLinking StoreLimiter
begin

text \<open>
  The set of loaded modules: \<open>core/src/marine_core.rs\<close>, \<open>core/src/memory_statistic.rs\<close>,
  \<open>core/src/config.rs\<close>.  The second part is the contract: the core implements a finite map from names
  to modules, and the depth of calls between modules is bounded by the number of loads.
\<close>

subsection \<open>Configuration and statistics\<close>

text \<open>The operations of a backend's store that the core uses.\<close>

record 's store_ops =
  store_new :: 's
  store_set_limit :: "u64 \<Rightarrow> 's \<Rightarrow> 's"
  store_report :: "'s \<Rightarrow> MemoryAllocationStats option"
  store_clear :: "'s \<Rightarrow> 's"

record 's MarineCoreConfig =
  total_memory_limit :: u64
  wasm_backend :: "'s store_ops"

definition INFINITE_MEMORY_LIMIT :: u64 where
  "INFINITE_MEMORY_LIMIT = - 1"

definition MarineCoreConfig_new :: "'s store_ops \<Rightarrow> u64 option \<Rightarrow> 's MarineCoreConfig" where
  "MarineCoreConfig_new backend limit =
    \<lparr>total_memory_limit = (case limit of None \<Rightarrow> INFINITE_MEMORY_LIMIT | Some l \<Rightarrow> l), wasm_backend = backend\<rparr>"

record ModuleMemoryStat =
  mms_name :: string
  mms_memory_size :: usize

definition ModuleMemoryStat_new :: "string \<Rightarrow> usize \<Rightarrow> ModuleMemoryStat" where
  "ModuleMemoryStat_new module_name memory_size = \<lparr>mms_name = module_name, mms_memory_size = memory_size\<rparr>"

record MemoryStats =
  ms_modules :: "ModuleMemoryStat list"
  ms_allocation_stats :: "MemoryAllocationStats option"

definition MemoryStats_new :: "ModuleMemoryStat list \<Rightarrow> MemoryAllocationStats option \<Rightarrow> MemoryStats" where
  "MemoryStats_new stats allocation = \<lparr>ms_modules = stats, ms_allocation_stats = allocation\<rparr>"

subsection \<open>Operations\<close>

record ('s, 'i, 'f, 'm, 'p) MarineCore =
  modules :: "(string, ('i, 'f, 'm, 'p) MModule) hmap"
  core_backend :: "'s store_ops"
  core_world :: "('s, ('f, 'm, 'p) ITInstance) world"

record MModuleInterface =
  mmi_record_types :: IRecordTypes
  mmi_function_signatures :: "MFunctionSignature list"

definition MarineCore_new :: "'s MarineCoreConfig \<Rightarrow> ('s, 'i, 'f, 'm, 'p) MarineCore" where
  "MarineCore_new config =
    (let store = store_set_limit (wasm_backend config) (total_memory_limit config) (store_new (wasm_backend config))
     in \<lparr>modules = [], core_backend = wasm_backend config, core_world = \<lparr>w_store = store, w_arcs = []\<rparr>\<rparr>)"

text \<open>An operation of a module runs on the world of the core.\<close>

definition in_world :: "(('s, ('f, 'm, 'p) ITInstance) world, 'e, 'a) eff \<Rightarrow>
    (('s, 'i, 'f, 'm, 'p) MarineCore, 'e, 'a) eff" where
  "in_world m = (\<lambda>c. case m (core_world c) of (r, w) \<Rightarrow> (r, c\<lparr>core_world := w\<rparr>))"

definition core_call_async :: "(('s, ('f, 'm, 'p) ITInstance) world, 'w, 'l, 'i, 'f, 'h, 'm, 'x) backend \<Rightarrow>
    (('s, ('f, 'm, 'p) ITInstance) world, 'm, 'p, 'x, 'v) it_engine \<Rightarrow> string \<Rightarrow> string \<Rightarrow> IValue list \<Rightarrow>
    (('s, 'i, 'f, 'm, 'p) MarineCore, ('x, 'v) MError, IValue list) eff" where
  "core_call_async B E module_name func_name arguments =
    bindM (\<lambda>c. (Returns (ok_or (NoSuchModule module_name) (hm_get module_name (modules c))), c)) (\<lambda>module.
    in_world (MModule_call B E module module_name func_name arguments))"

definition core_load_module :: "(('s, ('f, 'm, 'p) ITInstance) world, 'w, 'l, 'i, 'f, 'h, 'm, 'x) backend \<Rightarrow>
    (('s, ('f, 'm, 'p) ITInstance) world, 'm, 'p, 'x, 'v) it_engine \<Rightarrow>
    (('s, ('f, 'm, 'p) ITInstance) world, 'x) host_abi \<Rightarrow> 'v::linorder sdk \<Rightarrow> string \<Rightarrow> u8 list \<Rightarrow>
    (('s, ('f, 'm, 'p) ITInstance) world, 'h, 'x) MModuleConfig \<Rightarrow>
    (('s, 'i, 'f, 'm, 'p) MarineCore, ('x, 'v) MError, unit) eff" where
  "core_load_module B E A S name wasm_bytes config =
    bindM (\<lambda>c. in_world (MModule_new B E A S name wasm_bytes config (modules c)) c) (\<lambda>module c.
      if hm_has name (modules c) then (Returns (Inl (NonUniqueModuleName name)), c)
      else (Returns (Inr ()), c\<lparr>modules := hm_insert name module (modules c)\<rparr>))"

definition core_unload_module :: "string \<Rightarrow>
    (('s, 'i, 'f, 'm, 'p) MarineCore, ('x, 'v) MError, unit) eff" where
  "core_unload_module name =
    (\<lambda>c. if hm_has name (modules c) then (Returns (Inr ()), c\<lparr>modules := hm_remove name (modules c)\<rparr>)
      else (Returns (Inl (NoSuchModule name)), c))"

definition get_module_interface :: "('i, 'f, 'm, 'p) MModule \<Rightarrow> MModuleInterface" where
  "get_module_interface module =
    \<lparr>mmi_record_types = mod_export_record_types module,
     mmi_function_signatures = get_exports_signatures module\<rparr>"

definition core_interface :: "('s, 'i, 'f, 'm, 'p) MarineCore \<Rightarrow> (string \<times> MModuleInterface) list" where
  "core_interface c = List.map (\<lambda>(name, module). (name, get_module_interface module)) (modules c)"

definition core_module_interface :: "string \<Rightarrow> ('s, 'i, 'f, 'm, 'p) MarineCore \<Rightarrow> MModuleInterface option" where
  "core_module_interface module_name c = map_option get_module_interface (hm_get module_name (modules c))"

definition module_record_types :: "string \<Rightarrow> ('s, 'i, 'f, 'm, 'p) MarineCore \<Rightarrow> IRecordTypes option" where
  "module_record_types module_name c = map_option mod_export_record_types (hm_get module_name (modules c))"

definition module_record_type_by_id :: "string \<Rightarrow> u64 \<Rightarrow> ('s, 'i, 'f, 'm, 'p) MarineCore \<Rightarrow> IRecordType option" where
  "module_record_type_by_id module_name record_id c =
    Option.bind (hm_get module_name (modules c)) (\<lambda>module. export_record_type_by_id module record_id)"

definition module_memory_stats :: "(('s, ('f, 'm, 'p) ITInstance) world, 'w, 'l, 'i, 'f, 'h, 'm, 'x) backend \<Rightarrow>
    (('s, 'i, 'f, 'm, 'p) MarineCore, 'e, MemoryStats) eff" where
  "module_memory_stats B =
    (\<lambda>c. bindM (in_world (mapM (\<lambda>(module_name, module). bindM (MModule_memory_size B module)
        (\<lambda>n. returnM (ModuleMemoryStat_new module_name n))) (modules c))) (\<lambda>records.
      readM (\<lambda>c. MemoryStats_new records (store_report (core_backend c) (w_store (core_world c))))) c)"

definition core_clear_allocation_stats :: "('s, 'i, 'f, 'm, 'p) MarineCore \<Rightarrow> ('s, 'i, 'f, 'm, 'p) MarineCore" where
  "core_clear_allocation_stats c =
    c\<lparr>core_world := (core_world c)\<lparr>w_store := store_clear (core_backend c) (w_store (core_world c))\<rparr>\<rparr>"

subsection \<open>The contract: a map of modules\<close>

definition registry :: "('s, 'i, 'f, 'm, 'p) MarineCore \<Rightarrow> string \<Rightarrow> ('i, 'f, 'm, 'p) MModule option" where
  "registry c name = hm_get name (modules c)"

lemma frame_in_world [intro, simp]: "frame modules (in_world m)"
  by (simp add: frame_def in_world_def split: prod.split)

lemma frame_registry: "frame modules m \<Longrightarrow> m c = (r, c') \<Longrightarrow> registry c' = registry c"
  by (drule (1) frameD) (simp add: registry_def fun_eq_iff)

lemma frame_call: "frame modules (core_call_async B E name fn args)"
  unfolding core_call_async_def by (intro frame_bindM frame_in_world frame_pure)

lemma frame_stats: "frame modules (module_memory_stats B)"
  unfolding frame_def module_memory_stats_def
  by (rule allI, rule spec [OF frame_bindM [OF frame_in_world frame_basic(5), unfolded frame_def]])

lemma load_module_cases:
  assumes "core_load_module B E A S name wasm config c = (r, c')"
  obtains (built) m w where "MModule_new B E A S name wasm config (modules c) (core_world c) = (Returns (Inr m), w)"
      and "hm_get name (modules c) = None" and "r = Returns (Inr ())"
      and "c' = c\<lparr>core_world := w, modules := hm_insert name m (modules c)\<rparr>"
    | (taken) m w where "MModule_new B E A S name wasm config (modules c) (core_world c) = (Returns (Inr m), w)"
      and "hm_get name (modules c) \<noteq> None" and "r = Returns (Inl (NonUniqueModuleName name))"
      and "c' = c\<lparr>core_world := w\<rparr>"
    | (failed) w where "\<nexists>m. fst (MModule_new B E A S name wasm config (modules c) (core_world c)) = Returns (Inr m)"
      and "\<nexists>u. r = Returns (Inr u)" and "c' = c\<lparr>core_world := w\<rparr>"
proof -
  obtain o1 w where new: "MModule_new B E A S name wasm config (modules c) (core_world c) = (o1, w)"
    by (cases "MModule_new B E A S name wasm config (modules c) (core_world c)")
  show thesis
  proof (cases "\<exists>m. o1 = Returns (Inr m)")
    case True
    then obtain m where m: "o1 = Returns (Inr m)" by blast
    have run: "core_load_module B E A S name wasm config c =
        (if hm_has name (modules c) then (Returns (Inl (NonUniqueModuleName name)), c\<lparr>core_world := w\<rparr>)
         else (Returns (Inr ()), c\<lparr>core_world := w, modules := hm_insert name m (modules c)\<rparr>))"
      using new m by (simp add: core_load_module_def bindM_def in_world_def)
    show thesis
    proof (cases "hm_get name (modules c)")
      case None
      then show thesis
        using built [of m w] new m assms run by (simp add: hm_has_def)
    next
      case (Some a)
      then show thesis
        using taken [of m w] new m assms run by (simp add: hm_has_def)
    qed
  next
    case False
    then have "(\<nexists>u. r = Returns (Inr u)) \<and> c' = c\<lparr>core_world := w\<rparr>"
      using assms new by (auto simp: core_load_module_def bindM_def in_world_def split: outcome.splits sum.splits)
    then show thesis
      using failed [of w] False new by auto
  qed
qed

text \<open>C2: the core implements a finite map from names to modules.  A load adds exactly the built
  module under a name that was free; on every other outcome (a build error, a taken name, a panic) the
  map is unchanged; an unload removes exactly its name, and fails on an unknown one.  Calls and
  queries never change the map.\<close>

theorem core_refines_module_map:
  "(\<forall>r c'. core_load_module B E A S name wasm config c = (r, c') \<longrightarrow>
     (if r = Returns (Inr ())
      then \<exists>m. fst (MModule_new B E A S name wasm config (modules c) (core_world c)) = Returns (Inr m) \<and>
        registry c name = None \<and> registry c' = (registry c)(name \<mapsto> m)
      else registry c' = registry c)) \<and>
   core_unload_module name c =
     (case registry c name of
        None \<Rightarrow> (Returns (Inl (NoSuchModule name :: ('x, 'v) MError)), c)
      | Some m \<Rightarrow> (Returns (Inr ()), c\<lparr>modules := hm_remove name (modules c)\<rparr>)) \<and>
   registry (c\<lparr>modules := hm_remove name (modules c)\<rparr>) = (registry c)(name := None) \<and>
   (\<forall>fn args r c'. core_call_async B E name fn args c = (r, c') \<longrightarrow> registry c' = registry c) \<and>
   (\<forall>r c'. module_memory_stats B c = (r, c') \<longrightarrow> registry c' = registry c) \<and>
   registry (core_clear_allocation_stats c) = registry c"
proof (intro conjI allI impI)
  fix r c'
  assume "core_load_module B E A S name wasm config c = (r, c')"
  then show "if r = Returns (Inr ())
      then \<exists>m. fst (MModule_new B E A S name wasm config (modules c) (core_world c)) = Returns (Inr m) \<and>
        registry c name = None \<and> registry c' = (registry c)(name \<mapsto> m)
      else registry c' = registry c"
    by (rule load_module_cases) (auto simp: registry_def fun_eq_iff)
next
  show "core_unload_module name c =
     (case registry c name of
        None \<Rightarrow> (Returns (Inl (NoSuchModule name :: ('x, 'v) MError)), c)
      | Some m \<Rightarrow> (Returns (Inr ()), c\<lparr>modules := hm_remove name (modules c)\<rparr>))"
    by (auto simp: core_unload_module_def registry_def hm_has_def split: option.splits)
next
  fix fn args r c'
  assume "core_call_async B E name fn args c = (r, c')"
  then show "registry c' = registry c"
    by (rule frame_registry [OF frame_call])
next
  fix r c'
  assume "module_memory_stats B c = (r, c')"
  then show "registry c' = registry c"
    by (rule frame_registry [OF frame_stats])
qed (auto simp: registry_def fun_eq_iff core_clear_allocation_stats_def)

text \<open>One load in a fresh core, over the small backend.\<close>

definition sample_store_ops :: "nat store_ops" where
  "sample_store_ops = \<lparr>store_new = 0, store_set_limit = (\<lambda>n s. s), store_report = (\<lambda>s. None), store_clear = (\<lambda>s. s)\<rparr>"

definition sample_core :: "(nat, unit, string, unit, Instruction list) MarineCore" where
  "sample_core = MarineCore_new (MarineCoreConfig_new sample_store_ops None)"

lemma sample_core_load:
  obtains m w where "core_load_module sample_backend sample_engine sample_abi sample_sdk ''m'' [0] MModuleConfig_default
      sample_core = (Returns (Inr ()), sample_core\<lparr>core_world := w, modules := hm_insert ''m'' m []\<rparr>)"
    and "fst ` set (export_funcs m) = {''f''}"
proof -
  obtain m w where run: "sample_load sample_start = (Returns (Inr m), w)" "List.map fst (export_funcs m) = [''f'']"
    using sample_load_succeeds by auto
  have start: "core_world sample_core = sample_start" "modules sample_core = []"
    by (simp_all add: sample_core_def MarineCore_new_def MarineCoreConfig_new_def sample_store_ops_def
        sample_start_def Let_def)
  have "fst ` set (export_funcs m) = {''f''}"
    using arg_cong [OF run(2), of set] by simp
  then show thesis
    by (rule that [of m w, rotated])
      (use run(1) start in \<open>simp add: core_load_module_def in_world_def bindM_def sample_load_def hm_has_def\<close>)
qed

theorem core_refines_module_map_witness:
  "\<exists>r c'. core_load_module sample_backend sample_engine sample_abi sample_sdk ''m'' [0] MModuleConfig_default
      sample_core = (r, c') \<and> r = Returns (Inr ()) \<and> registry c' ''m'' \<noteq> None"
proof -
  obtain m w where load: "core_load_module sample_backend sample_engine sample_abi sample_sdk ''m'' [0]
      MModuleConfig_default sample_core = (Returns (Inr ()), sample_core\<lparr>core_world := w, modules := hm_insert ''m'' m []\<rparr>)"
    by (rule sample_core_load)
  have "registry (sample_core\<lparr>core_world := w, modules := hm_insert ''m'' m []\<rparr>) ''m'' \<noteq> None"
    using core_refines_module_map [of sample_backend sample_engine sample_abi sample_sdk "''m''" "[0]"
        MModuleConfig_default sample_core, THEN conjunct1, rule_format, OF load] by auto
  then show ?thesis
    using load by (intro exI conjI) simp_all
qed

subsection \<open>Reachable cores\<close>

text \<open>The states of a core, with the number of loads that succeeded.\<close>

inductive core_reaches :: "(('s, ('f, 'm, 'p) ITInstance) world, 'w, 'l, 'i, 'f, 'h, 'm, 'x) backend \<Rightarrow>
    (('s, ('f, 'm, 'p) ITInstance) world, 'm, 'p, 'x, 'v::linorder) it_engine \<Rightarrow>
    (('s, ('f, 'm, 'p) ITInstance) world, 'x) host_abi \<Rightarrow> 'v sdk \<Rightarrow> 's MarineCoreConfig \<Rightarrow> nat \<Rightarrow>
    ('s, 'i, 'f, 'm, 'p) MarineCore \<Rightarrow> bool"
  for B E A S cfg where
  reaches_new: "core_reaches B E A S cfg 0 (MarineCore_new cfg)"
| reaches_load: "core_reaches B E A S cfg n c \<Longrightarrow>
    core_load_module B E A S name wasm config c = (r, c') \<Longrightarrow>
    core_reaches B E A S cfg (if r = Returns (Inr ()) then Suc n else n) c'"
| reaches_unload: "core_reaches B E A S cfg n c \<Longrightarrow>
    (core_unload_module name :: (_, ('x, 'v) MError, _) eff) c = (r, c') \<Longrightarrow> core_reaches B E A S cfg n c'"
| reaches_call: "core_reaches B E A S cfg n c \<Longrightarrow>
    core_call_async B E name fn args c = (r', c') \<Longrightarrow> core_reaches B E A S cfg n c'"
| reaches_stats: "core_reaches B E A S cfg n c \<Longrightarrow>
    (module_memory_stats B :: (_, ('x, 'v) MError, _) eff) c = (r'', c') \<Longrightarrow> core_reaches B E A S cfg n c'"
| reaches_clear: "core_reaches B E A S cfg n c \<Longrightarrow>
    core_reaches B E A S cfg n (core_clear_allocation_stats c)"

inductive_cases core_reaches_none: "core_reaches B E A S cfg 0 c"

lemma callables_below_mono: "callables_below k m \<Longrightarrow> k \<le> n \<Longrightarrow> callables_below n m"
  by (fastforce simp: callables_below_def)

lemma MModule_new_below:
  assumes "(MModule_new B E A S name bytes config mods :: (_, ('x, 'v::linorder) MError, _) eff) w = (Returns (Inr m), w')"
    and "\<forall>(name, m)\<in>set mods. callables_below n m"
  shows "callables_below (Suc n) m"
  using assms(1)
proof (rule MModule_new_stages)
  fix it w3 inst w4
  assume new: "(ITInstance_new B (wasm_instance m) name (MITInterfaces_new it) mods :: (_, ('x, 'v) MError, _) eff) w3 =
      (Returns (Inr inst), w4)"
    and exports: "(instantiate_exports E inst (MITInterfaces_new it) :: ('x, 'v) MError + _) =
      Inr (export_funcs m, mod_export_record_types m)"
  have "callable_depth c < Suc n" if "(fn, c) \<in> set (export_funcs m)" for fn c
    using ITInstance_new_depth [OF new assms(2)] export_instances [OF exports that] by (cases c) auto
  then show ?thesis
    by (auto simp: callables_below_def)
qed

lemma core_reaches_below:
  "core_reaches B E A S cfg n c \<Longrightarrow> hm_ok (modules c) \<and> (\<forall>(name, m)\<in>set (modules c). callables_below n m)"
proof (induction rule: core_reaches.induct)
  case (reaches_load n c name wasm config r c')
  from reaches_load(2) show ?case
  proof (cases rule: load_module_cases)
    case (built m w)
    have "callables_below (Suc n) m"
      by (rule MModule_new_below [OF built(1)]) (use reaches_load(3) in blast)
    moreover have "\<forall>(name, m)\<in>set (modules c). callables_below (Suc n) m"
      using reaches_load(3) by (auto intro: callables_below_mono)
    ultimately show ?thesis
      using built(3,4) reaches_load(3) set_hm_insert [of name m "modules c"] by fastforce
  qed (use reaches_load(3) in auto)
next
  case (reaches_unload n c name r c')
  have "set (hm_remove name (modules c)) \<subseteq> set (modules c)"
    by (auto simp: hm_remove_def AList.delete_eq)
  then show ?case
    using reaches_unload(2,3) by (fastforce simp: core_unload_module_def split: if_splits)
next
  case (reaches_call n c name fn args r c')
  then show ?case
    using frameD [OF frame_call reaches_call(2)] by simp
next
  case (reaches_stats n c r c')
  then show ?case
    using frameD [OF frame_stats reaches_stats(2)] by simp
qed (simp_all add: MarineCore_new_def core_clear_allocation_stats_def)

text \<open>C5: in every core that the operations reach, module names are unique, and a call of an exported
  function can pass through fewer module instances than there were successful loads: a module only
  links to modules loaded before it, so calls between modules never come back to their caller and
  their depth is bounded.\<close>

theorem module_calls_are_bounded:
  assumes "core_reaches B E A S cfg n c" and "registry c name = Some m" and "(fn, f) \<in> set (export_funcs m)"
  shows "callable_depth f < n \<and> distinct (List.map fst (modules c))"
  using core_reaches_below [OF assms(1)] hm_get_in_set [OF assms(2) [unfolded registry_def]] assms(3)
  by (auto simp: hm_ok_def callables_below_def)

theorem module_calls_are_bounded_witness:
  "\<exists>c m f. core_reaches sample_backend sample_engine sample_abi sample_sdk
      (MarineCoreConfig_new sample_store_ops None) 1 c \<and>
    registry c ''m'' = Some m \<and> (''f'', f) \<in> set (export_funcs m) \<and> callable_depth f < 1"
proof -
  obtain m w where load: "core_load_module sample_backend sample_engine sample_abi sample_sdk ''m'' [0]
      MModuleConfig_default sample_core = (Returns (Inr ()), sample_core\<lparr>core_world := w, modules := hm_insert ''m'' m []\<rparr>)"
    and f: "fst ` set (export_funcs m) = {''f''}"
    by (rule sample_core_load)
  let ?c = "sample_core\<lparr>core_world := w, modules := hm_insert ''m'' m []\<rparr>"
  have reach: "core_reaches sample_backend sample_engine sample_abi sample_sdk
      (MarineCoreConfig_new sample_store_ops None) 1 ?c"
    using core_reaches.reaches_load [OF core_reaches.reaches_new load [unfolded sample_core_def]]
    by (simp add: sample_core_def)
  have "''f'' \<in> fst ` set (export_funcs m)"
    unfolding f by simp
  then obtain g where g: "(''f'', g) \<in> set (export_funcs m)"
    by (rule imageE) (metis prod.collapse)
  have m: "registry ?c ''m'' = Some m"
    by (simp add: registry_def)
  show ?thesis
    by (intro exI conjI, rule reach, rule m, rule g, rule module_calls_are_bounded [OF reach m g, THEN conjunct1])
qed

end
