(* ===== verification/MarineConfig.thy ===== *)
theory MarineConfig
  imports HostFunctions MarineCore JsonSerde
begin

text \<open>
  Configuration of the Marine runtime: \<open>marine/src/config/{marine_config,path_utils,raw_marine_config,
  to_marine_config}.rs\<close>, \<open>marine/src/module_loading/mod.rs\<close> and the errors of \<open>marine/src/errors.rs\<close>.

  Paths are Unix paths as strings (\<open>to_string_lossy\<close> is then the identity).  The file system is a
  record of the calls the code makes; a value of the package \<open>toml\<close> is of the type \<open>'tv\<close>, with its
  conversions as parameters and \<open>'te\<close> for its errors.  Messages are kept as the values they are
  built from.
\<close>

subsection \<open>Errors\<close>

datatype config_message = ModulesDirMissing string | ModuleDuplicated

datatype io_message =
    CannotLoad string string
  | CannotCanonicalize string string

datatype ('x, 'v, 'n, 'te) MarineError =
    InvalidConfig config_message
  | MR_InstantiationError string "string option" "string list"
  | MR_IOError io_message
  | MissingFunctionError string
  | MissingArgumentError string
  | MR_NoSuchModule string
  | JsonArgumentsDeserializationError string string "'n ITJsonSeDeError"
  | JsonOutputSerializationError string string "'n ITJsonSeDeError"
  | ParseConfigError 'te
  | EngineError "('x, 'v) MError"
  | HighProbabilityOOM "('x, 'v) MError" MemoryAllocationStats

subsection \<open>Paths and files\<close>

record fs =
  fs_is_file :: "string \<Rightarrow> bool"
  fs_canonicalize :: "string \<Rightarrow> string + string"
  fs_read :: "string \<Rightarrow> string + u8 list"

definition path_is_absolute :: "string \<Rightarrow> bool" where
  "path_is_absolute p \<longleftrightarrow> p \<noteq> [] \<and> hd p = CHR ''/''"

text \<open>\<open>Path::join\<close>: an absolute path replaces the base.\<close>

definition path_join :: "string \<Rightarrow> string \<Rightarrow> string" where
  "path_join base p =
    (if path_is_absolute p then p
     else if base = [] \<or> last base = CHR ''/'' then base @ p
     else base @ ''/'' @ p)"

definition as_relative_to_base :: "fs \<Rightarrow> string option \<Rightarrow> string \<Rightarrow> ('x, 'v, 'n, 'te) MarineError + string" where
  "as_relative_to_base F base path =
    (if path_is_absolute path then Inr path
     else let path = (case base of None \<Rightarrow> path | Some base \<Rightarrow> path_join base path)
       in map_err (\<lambda>e. MR_IOError (CannotCanonicalize path e)) (fs_canonicalize F path))"

subsection \<open>The configuration of modules\<close>

record ConfigContext =
  base_path :: "string option"

record 'a WithContext =
  wc_context :: ConfigContext
  wc_data :: 'a

definition wrapped :: "ConfigContext \<Rightarrow> 'a \<Rightarrow> 'a WithContext" where
  "wrapped c x = \<lparr>wc_context = c, wc_data = x\<rparr>"

record MarineWASIConfig =
  wc_envs :: "(string, string) hmap"
  wc_mapped_dirs :: "(string, string) hmap"

record ('st, 'x) MarineModuleConfig =
  logger_enabled :: bool
  mmc_host_imports :: "(HostAPIVersion, (string, ('st, 'x, 'x, 'x) HostImportDescriptor) hmap) hmap"
  mmc_wasi :: "MarineWASIConfig option"
  logging_mask :: u32

definition extend_wasi_envs :: "(string, string) hmap \<Rightarrow> ('st, 'x) MarineModuleConfig \<Rightarrow> ('st, 'x) MarineModuleConfig" where
  "extend_wasi_envs new_envs c =
    (case mmc_wasi c of
       Some w \<Rightarrow> c\<lparr>mmc_wasi := Some (w\<lparr>wc_envs := hm_extend (wc_envs w) new_envs\<rparr>)\<rparr>
     | None \<Rightarrow> c\<lparr>mmc_wasi := Some \<lparr>wc_envs = new_envs, wc_mapped_dirs = []\<rparr>\<rparr>)"

definition root_wasi_files_at :: "string \<Rightarrow> ('st, 'x) MarineModuleConfig \<Rightarrow> ('st, 'x) MarineModuleConfig" where
  "root_wasi_files_at root c =
    (case mmc_wasi c of
       Some w \<Rightarrow> c\<lparr>mmc_wasi := Some (w\<lparr>wc_mapped_dirs := List.map (map_prod id (path_join root)) (wc_mapped_dirs w)\<rparr>)\<rparr>
     | None \<Rightarrow> c)"

record ('st, 'x) ModuleDescriptor =
  load_from :: "string option"
  file_name :: string
  import_name :: string
  md_config :: "('st, 'x) MarineModuleConfig"

definition get_path :: "fs \<Rightarrow> string option \<Rightarrow> ('st, 'x) ModuleDescriptor \<Rightarrow> ('x, 'v, 'n, 'te) MarineError + string" where
  "get_path F modules_dir d =
    (case load_from d of
       None \<Rightarrow> (case modules_dir of
           Some dir \<Rightarrow> Inr (path_join dir (file_name d))
         | None \<Rightarrow> Inl (InvalidConfig (ModulesDirMissing (import_name d))))
     | Some path \<Rightarrow> Inr (if fs_is_file F path then path else path_join path (file_name d)))"

record ('st, 'x) MarineConfig =
  modules_dir :: "string option"
  mc_total_memory_limit :: "u64 option"
  modules_config :: "('st, 'x) ModuleDescriptor list"
  default_modules_config :: "('st, 'x) MarineModuleConfig option"

definition MarineConfig_default :: "('st, 'x) MarineConfig" where
  "MarineConfig_default = \<lparr>modules_dir = None, mc_total_memory_limit = None, modules_config = [],
    default_modules_config = None\<rparr>"

subsection \<open>The configuration file\<close>

datatype MemoryLimit = Infinity | MemValue u64

record 'tv TomlWASIConfig =
  tw_envs :: "(string \<times> 'tv) list option"
  tw_mapped_dirs :: "(string \<times> 'tv) list option"

record 'tv TomlMarineModuleConfig =
  tm_logger_enabled :: "bool option"
  tm_logging_mask :: "u32 option"
  tm_wasi :: "'tv TomlWASIConfig option"
  tm_mounted_binaries :: "(string \<times> 'tv) list option"

record 'tv TomlMarineNamedModuleConfig =
  tn_name :: string
  tn_load_from :: "string option"
  tn_file_name :: "string option"
  tn_config :: "'tv TomlMarineModuleConfig"

record 'tv TomlMarineConfig =
  tc_modules_dir :: "string option"
  tc_total_memory_limit :: MemoryLimit
  tc_module :: "'tv TomlMarineNamedModuleConfig list"
  tc_default :: "'tv TomlMarineModuleConfig option"
  tc_base_path :: string

record ('tv, 'te) toml =
  as_string :: "'tv \<Rightarrow> 'te + string"
  from_slice :: "u8 list \<Rightarrow> 'te + 'tv TomlMarineConfig"

text \<open>\<open>Path::parent\<close>, of the absolute path without a trailing slash that \<open>canonicalize\<close> returns.\<close>

definition path_parent :: "string \<Rightarrow> string option" where
  "path_parent p =
    (let r = dropWhile (\<lambda>c. c \<noteq> CHR ''/'') (rev p)
     in if p = ''/'' \<or> r = [] then None else Some (if r = ''/'' then ''/'' else rev (tl r)))"

definition TomlMarineConfig_load :: "fs \<Rightarrow> ('tv, 'te) toml \<Rightarrow> string \<Rightarrow>
    ('x, 'v, 'n, 'te) MarineError + 'tv TomlMarineConfig" where
  "TomlMarineConfig_load F T given =
    bindR (map_err (\<lambda>e. MR_IOError (CannotCanonicalize given e)) (fs_canonicalize F given)) (\<lambda>path.
    bindR (map_err (\<lambda>e. MR_IOError (CannotLoad path e)) (fs_read F path)) (\<lambda>file_content.
    bindR (map_err ParseConfigError (from_slice T file_content)) (\<lambda>config.
    bindR (map_err (\<lambda>e. MR_IOError (CannotCanonicalize path e)) (fs_canonicalize F path)) (\<lambda>p.
    Inr (config\<lparr>tc_base_path := (case path_parent p of Some d \<Rightarrow> d | None \<Rightarrow> ''/'')\<rparr>)))))"

definition toml_pairs :: "('tv, 'te) toml \<Rightarrow> (string \<times> 'tv) list \<Rightarrow> ('x, 'v, 'n, 'te) MarineError + (string, string) hmap" where
  "toml_pairs T table =
    bindR (mapR (\<lambda>(k, v). bindR (map_err ParseConfigError (as_string T v)) (\<lambda>s. Inr (k, s))) table) (\<lambda>ps.
    Inr (collect_hmap ps))"

definition wasi_try_from :: "('tv, 'te) toml \<Rightarrow> 'tv TomlWASIConfig \<Rightarrow> ('x, 'v, 'n, 'te) MarineError + MarineWASIConfig" where
  "wasi_try_from T toml_config =
    bindR (toml_pairs T (case tw_envs toml_config of Some t \<Rightarrow> t | None \<Rightarrow> [])) (\<lambda>envs.
    bindR (toml_pairs T (case tw_mapped_dirs toml_config of Some t \<Rightarrow> t | None \<Rightarrow> [])) (\<lambda>mapped_dirs.
    Inr \<lparr>wc_envs = envs, wc_mapped_dirs = mapped_dirs\<rparr>))"

text \<open>One mounted binary is added under its name to the imports of every version.\<close>

definition mount_binary :: "fs \<Rightarrow> ('st, string) command_env \<Rightarrow> ConfigContext \<Rightarrow>
    (HostAPIVersion, (string, ('st, 'x, 'x, 'x) HostImportDescriptor) hmap) hmap \<Rightarrow> string \<times> string \<Rightarrow>
    ('x, 'v, 'n, 'te) MarineError + (HostAPIVersion, (string, ('st, 'x, 'x, 'x) HostImportDescriptor) hmap) hmap" where
  "mount_binary F M context imports = (\<lambda>(name, host_cmd).
    bindR (as_relative_to_base F (base_path context) host_cmd) (\<lambda>host_cmd.
    Inr (List.map (map_prod id (hm_insert name (create_mounted_binary_import M host_cmd))) imports)))"

definition module_config_try_from :: "fs \<Rightarrow> ('tv, 'te) toml \<Rightarrow> ('st, string) command_env \<Rightarrow>
    'tv TomlMarineModuleConfig WithContext \<Rightarrow> ('x, 'v, 'n, 'te) MarineError + ('st, 'x) MarineModuleConfig" where
  "module_config_try_from F T M c =
    (let context = wc_context c; toml_config = wc_data c in
     bindR (mapR (\<lambda>(import_func_name, host_cmd).
         bindR (map_err ParseConfigError (as_string T host_cmd)) (\<lambda>host_cmd. Inr (import_func_name, host_cmd)))
       (case tm_mounted_binaries toml_config of Some t \<Rightarrow> t | None \<Rightarrow> [])) (\<lambda>mounted_binaries.
     bindR (foldR (mount_binary F M context) [(V0, []), (V1, []), (V2, []), (V3, [])] mounted_binaries) (\<lambda>host_imports.
     bindR (case tm_wasi toml_config of
         Some w \<Rightarrow> bindR (wasi_try_from T w) (\<lambda>w. Inr (Some w)) | None \<Rightarrow> Inr None) (\<lambda>wasi.
     Inr \<lparr>logger_enabled = (case tm_logger_enabled toml_config of Some b \<Rightarrow> b | None \<Rightarrow> True),
       mmc_host_imports = host_imports, mmc_wasi = wasi,
       logging_mask = (case tm_logging_mask toml_config of Some n \<Rightarrow> n | None \<Rightarrow> 0x7FFFFFFF)\<rparr>))))"

definition descriptor_try_from :: "fs \<Rightarrow> ('tv, 'te) toml \<Rightarrow> ('st, string) command_env \<Rightarrow>
    'tv TomlMarineNamedModuleConfig WithContext \<Rightarrow> ('x, 'v, 'n, 'te) MarineError + ('st, 'x) ModuleDescriptor" where
  "descriptor_try_from F T M c =
    (let context = wc_context c; config = wc_data c;
         file_name = (case tn_file_name config of Some f \<Rightarrow> f | None \<Rightarrow> tn_name config @ ''.wasm'') in
     bindR (case tn_load_from config of
         Some path \<Rightarrow> bindR (as_relative_to_base F (base_path context) path) (\<lambda>p. Inr (Some p))
       | None \<Rightarrow> Inr None) (\<lambda>load_from.
     bindR (module_config_try_from F T M (wrapped context (tn_config config))) (\<lambda>config'.
     Inr \<lparr>load_from = load_from, file_name = file_name, import_name = tn_name config, md_config = config'\<rparr>)))"

definition marine_config_try_from :: "fs \<Rightarrow> ('tv, 'te) toml \<Rightarrow> ('st, string) command_env \<Rightarrow>
    'tv TomlMarineConfig \<Rightarrow> ('x, 'v, 'n, 'te) MarineError + ('st, 'x) MarineConfig" where
  "marine_config_try_from F T M toml_config =
    (let context = \<lparr>base_path = Some (tc_base_path toml_config)\<rparr> in
     bindR (case tc_modules_dir toml_config of
         Some dir \<Rightarrow> bindR (as_relative_to_base F (base_path context) dir) (\<lambda>d. Inr (Some d))
       | None \<Rightarrow> Inr None) (\<lambda>modules_dir.
     bindR (case tc_default toml_config of
         Some m \<Rightarrow> bindR (module_config_try_from F T M (wrapped context m)) (\<lambda>m. Inr (Some m))
       | None \<Rightarrow> Inr None) (\<lambda>default_modules_config.
     bindR (mapR (\<lambda>toml_module. descriptor_try_from F T M (wrapped context toml_module))
         (tc_module toml_config)) (\<lambda>modules_config.
     Inr \<lparr>modules_dir = modules_dir,
       mc_total_memory_limit = (case tc_total_memory_limit toml_config of Infinity \<Rightarrow> None | MemValue n \<Rightarrow> Some n),
       modules_config = modules_config, default_modules_config = default_modules_config\<rparr>))))"

subsection \<open>Reading modules\<close>

definition load_modules_from_fs :: "fs \<Rightarrow> (string, string) hmap \<Rightarrow>
    ('x, 'v, 'n, 'te) MarineError + (string, u8 list) hmap" where
  "load_modules_from_fs F names =
    foldR (\<lambda>hash_map (import_name, path).
      bindR (map_err (\<lambda>e. MR_IOError (CannotLoad path e)) (fs_read F path)) (\<lambda>module_bytes.
      if hm_has import_name hash_map then Inl (InvalidConfig ModuleDuplicated)
      else Inr (hm_insert import_name module_bytes hash_map))) [] names"

end
