(* ===== verification/ModuleConfigBuilder.thy ===== *)
theory ModuleConfigBuilder
  imports MarineConfig
begin

text \<open>
  From the configuration of a module to that of the core: \<open>marine/src/config/to_marine_config.rs\<close>.
  The four mutexes of call parameters are functions that read them from the state.
\<close>

subsection \<open>What the builder takes from other packages\<close>

record ('st, 'mem, 'a, 'h, 'lf) marine_host =
  mh_log :: "('st, 'mem) log_env"
  mh_new_typed :: "(u32 \<Rightarrow> u32 \<Rightarrow> u32 \<Rightarrow> u32 \<Rightarrow> 'st \<Rightarrow> unit outcome \<times> 'st) \<Rightarrow> 'st \<Rightarrow> 'h \<times> 'st"
  mh_enc_v0 :: "'a CallParametersV0 \<Rightarrow> IValue option"
  mh_enc_v1 :: "'a CallParametersV1 \<Rightarrow> IValue option"
  mh_enc_v2 :: "'a CallParametersV2 \<Rightarrow> IValue option"
  mh_enc_v3 :: "'a CallParameters \<Rightarrow> IValue option"
  mh_wasm_log_env_name :: string
  mh_parse_level :: "string \<Rightarrow> 'lf option"
  mh_max_level :: 'lf
  mh_level_text :: "'lf \<Rightarrow> string option"

record ('st, 'a) call_handles =
  ch_v0 :: "'st \<Rightarrow> 'a CallParametersV0"
  ch_v1 :: "'st \<Rightarrow> 'a CallParametersV1"
  ch_v2 :: "'st \<Rightarrow> 'a CallParametersV2"
  ch_v3 :: "'st \<Rightarrow> 'a CallParameters"

subsection \<open>The builder\<close>

definition all_versions :: "HostAPIVersion list" where
  "all_versions = [V0, V1, V2, V3]"

text \<open>\<open>entry(version).or_default().insert(name, value)\<close>\<close>

definition entry_insert :: "'k \<Rightarrow> 'n \<Rightarrow> 'v \<Rightarrow> ('k, ('n, 'v) hmap) hmap \<Rightarrow> ('k, ('n, 'v) hmap) hmap" where
  "entry_insert key name v m =
    hm_insert key (hm_insert name v (case hm_get key m of Some e \<Rightarrow> e | None \<Rightarrow> [])) m"

definition log_creator :: "('st, 'mem, 'a, 'h, 'lf) marine_host \<Rightarrow> u32 \<Rightarrow> string \<Rightarrow> 'st \<Rightarrow> 'h \<times> 'st" where
  "log_creator H lmask module_name =
    mh_new_typed H (log_utf8_string_closure (mh_log H) lmask module_name)"

definition populate_logger :: "('st, 'mem, 'a, 'h, 'lf) marine_host \<Rightarrow> bool \<Rightarrow> u32 \<Rightarrow> 'lf LoggerFilter \<Rightarrow> string \<Rightarrow>
    ('st, 'h, 'x) MModuleConfig \<Rightarrow> ('st, 'h, 'x) MModuleConfig" where
  "populate_logger H enabled lmask logger_filter module_name config =
    (if \<not> enabled then config
     else
       let config = (case module_level logger_filter module_name of
           Some level_filter \<Rightarrow>
             (let log_level_str = (case mh_level_text H level_filter of Some s \<Rightarrow> s | None \<Rightarrow> ''off'');
                  p = wasi_parameters config
              in config\<lparr>wasi_parameters := p\<lparr>wasi_envs := hm_insert (mh_wasm_log_env_name H) log_level_str (wasi_envs p)\<rparr>\<rparr>)
         | None \<Rightarrow> config)
       in config\<lparr>raw_imports := foldl (\<lambda>m api_version.
           entry_insert api_version ''log_utf8_string'' (log_creator H lmask module_name) m)
         (raw_imports config) all_versions\<rparr>)"

definition add_call_parameters_import :: "HostAPIVersion \<Rightarrow> ('cp \<Rightarrow> IValue option) \<Rightarrow> ('st \<Rightarrow> 'cp) \<Rightarrow>
    ('st, 'h, 'x) MModuleConfig \<Rightarrow> ('st, 'h, 'x) MModuleConfig" where
  "add_call_parameters_import api_version enc call_parameters config =
    config\<lparr>host_imports := entry_insert api_version ''get_call_parameters''
      (create_call_parameters_import enc call_parameters) (host_imports config)\<rparr>"

definition populate_host_imports :: "('st, 'mem, 'a, 'h, 'lf) marine_host \<Rightarrow>
    (HostAPIVersion, (string, ('st, 'x, 'x, 'x) HostImportDescriptor) hmap) hmap \<Rightarrow> ('st, 'a) call_handles \<Rightarrow>
    ('st, 'h, 'x) MModuleConfig \<Rightarrow> ('st, 'h, 'x) MModuleConfig" where
  "populate_host_imports H imports cp config =
    add_call_parameters_import V3 (mh_enc_v3 H) (ch_v3 cp)
      (add_call_parameters_import V2 (mh_enc_v2 H) (ch_v2 cp)
        (add_call_parameters_import V1 (mh_enc_v1 H) (ch_v1 cp)
          (add_call_parameters_import V0 (mh_enc_v0 H) (ch_v0 cp)
            (config\<lparr>host_imports := imports\<rparr>))))"

definition populate_wasi :: "MarineWASIConfig option \<Rightarrow> ('st, 'h, 'x) MModuleConfig \<Rightarrow>
    ('x, 'v, 'n, 'te) MarineError + ('st, 'h, 'x) MModuleConfig" where
  "populate_wasi wasi config =
    (case wasi of
       None \<Rightarrow> Inr config
     | Some wasi \<Rightarrow>
        (let p = (wasi_parameters config)\<lparr>wasi_envs := wc_envs wasi, wasi_mapped_dirs := wc_mapped_dirs wasi\<rparr>;
             mapped_dirs = collect_hmap (wasi_mapped_dirs p)
         in Inr (config\<lparr>wasi_parameters := p\<lparr>wasi_envs := hm_extend (wasi_envs p) mapped_dirs\<rparr>\<rparr>)))"

definition builder_build :: "('st, 'mem, 'a, 'h, 'lf) marine_host \<Rightarrow> string \<Rightarrow>
    ('st, 'x) MarineModuleConfig option \<Rightarrow> ('st, 'a) call_handles \<Rightarrow> 'lf LoggerFilter \<Rightarrow>
    ('st, 'h, 'x) MModuleConfig \<Rightarrow> ('x, 'v, 'n, 'te) MarineError + ('st, 'h, 'x) MModuleConfig" where
  "builder_build H module_name marine_module_config cp logger_filter config =
    (case marine_module_config of
       None \<Rightarrow> Inr config
     | Some c \<Rightarrow>
        populate_wasi (mmc_wasi c)
          (populate_host_imports H (mmc_host_imports c) cp
            (populate_logger H (logger_enabled c) (logging_mask c) logger_filter module_name config)))"

definition make_marine_config :: "('st, 'mem, 'a, 'h, 'lf) marine_host \<Rightarrow> string \<Rightarrow>
    ('st, 'x) MarineModuleConfig option \<Rightarrow> ('st, 'a) call_handles \<Rightarrow> 'lf LoggerFilter \<Rightarrow>
    ('x, 'v, 'n, 'te) MarineError + ('st, 'h, 'x) MModuleConfig" where
  "make_marine_config H module_name marine_module_config cp logger_filter =
    builder_build H module_name marine_module_config cp logger_filter MModuleConfig_default"

subsection \<open>What a built configuration holds\<close>

lemma entry_insert_get:
  "hm_get k (entry_insert key name v m) =
    (if k = key then Some (hm_insert name v (case hm_get key m of Some e \<Rightarrow> e | None \<Rightarrow> [])) else hm_get k m)"
  by (simp add: entry_insert_def)

text \<open>The import registered for a version and a name.\<close>

definition import_at :: "HostAPIVersion \<Rightarrow> string \<Rightarrow> (HostAPIVersion, (string, 'd) hmap) hmap \<Rightarrow> 'd option" where
  "import_at version name m = Option.bind (hm_get version m) (hm_get name)"

lemma import_at_entry_insert:
  "import_at version name (entry_insert version' name' d m) =
    (if version = version' \<and> name = name' then Some d else import_at version name m)"
  by (auto simp: import_at_def entry_insert_get split: option.split)

lemma make_marine_config_parts:
  assumes "make_marine_config H name (Some c) cp filt = (Inr config :: ('x, 'v, 'n, 'te) MarineError + _)"
  shows "host_imports config = host_imports (populate_host_imports H (mmc_host_imports c) cp
      (populate_logger H (logger_enabled c) (logging_mask c) filt name MModuleConfig_default))"
    and "raw_imports config = raw_imports
      (populate_logger H (logger_enabled c) (logging_mask c) filt name
        (MModuleConfig_default :: ('st, 'h, 'x) MModuleConfig))"
  using assms
  by (auto simp: make_marine_config_def builder_build_def populate_wasi_def Let_def populate_host_imports_def
      add_call_parameters_import_def split: option.splits)

lemma populate_logger_import:
  "import_at version ''log_utf8_string'' (raw_imports (populate_logger H enabled lmask filt name MModuleConfig_default)) =
    (if enabled then Some (log_creator H lmask name) else None)"
  by (cases version)
    (simp_all add: populate_logger_def Let_def all_versions_def import_at_entry_insert MModuleConfig_default_def
      import_at_def [of _ _ "[]"] split: option.split)

lemma populate_host_imports_import:
  "import_at version name (host_imports (populate_host_imports H imports cp config)) =
    (if name = ''get_call_parameters'' then Some (case version of
        V0 \<Rightarrow> create_call_parameters_import (mh_enc_v0 H) (ch_v0 cp)
      | V1 \<Rightarrow> create_call_parameters_import (mh_enc_v1 H) (ch_v1 cp)
      | V2 \<Rightarrow> create_call_parameters_import (mh_enc_v2 H) (ch_v2 cp)
      | V3 \<Rightarrow> create_call_parameters_import (mh_enc_v3 H) (ch_v3 cp))
     else import_at version name imports)"
  by (cases version) (simp_all add: populate_host_imports_def add_call_parameters_import_def import_at_entry_insert)

text \<open>The configuration built for a module gives it, under every version of the host API, the
  call parameters of that version (whatever import of that name was configured), the other configured
  imports unchanged, and the logging function exactly when logging is enabled.\<close>

lemma built_config_imports:
  assumes "make_marine_config H name (Some c) cp filt = (Inr config :: ('x, 'v, 'n, 'te) MarineError + _)"
  shows "import_at version f (host_imports config) =
      (if f = ''get_call_parameters'' then Some (case version of
          V0 \<Rightarrow> create_call_parameters_import (mh_enc_v0 H) (ch_v0 cp)
        | V1 \<Rightarrow> create_call_parameters_import (mh_enc_v1 H) (ch_v1 cp)
        | V2 \<Rightarrow> create_call_parameters_import (mh_enc_v2 H) (ch_v2 cp)
        | V3 \<Rightarrow> create_call_parameters_import (mh_enc_v3 H) (ch_v3 cp))
       else import_at version f (mmc_host_imports c)) \<and>
    import_at version ''log_utf8_string'' (raw_imports config) =
      (if logger_enabled c then Some (log_creator H (logging_mask c) name) else None)"
  by (simp only: make_marine_config_parts [OF assms] populate_host_imports_import populate_logger_import)

text \<open>a module is told its log level through its environment only when it has no WASI
  configuration; with one, the environment of that configuration replaces the variable the builder
  has just set.\<close>

theorem log_level_is_lost_with_wasi:
  assumes "make_marine_config H name (Some c) cp filt = (Inr config :: ('x, 'v, 'n, 'te) MarineError + _)"
  shows "hm_get (mh_wasm_log_env_name H) (wasi_envs (wasi_parameters config)) =
    (case mmc_wasi c of
       None \<Rightarrow> (if logger_enabled c
         then map_option (\<lambda>l. case mh_level_text H l of Some s \<Rightarrow> s | None \<Rightarrow> ''off'') (module_level filt name)
         else None)
     | Some w \<Rightarrow> hm_get (mh_wasm_log_env_name H) (hm_extend (wc_envs w) (collect_hmap (wc_mapped_dirs w))))"
  using assms
  by (auto simp: make_marine_config_def builder_build_def populate_wasi_def Let_def populate_host_imports_def
      add_call_parameters_import_def populate_logger_def MModuleConfig_default_def split: option.splits)

text \<open>A host with the level \<open>info\<close> for every module, and a module with and without WASI.\<close>

definition sample_particle :: "string ParticleParameters" where
  "sample_particle = \<lparr>pp_id = ''p'', pp_init_peer_id = ''peer'', pp_signature = [], pp_timestamp = [], pp_ttl = [],
    pp_script = [], pp_token = []\<rparr>"

definition sample_call_parameters :: "string CallParameters" where
  "sample_call_parameters = \<lparr>cp_particle = sample_particle, cp_service_id = ''s'',
    cp_service_creator_peer_id = ''c'', cp_host_id = ''h'', cp_worker_id = ''w'',
    cp_tetraplets = [[\<lparr>tp_peer_pk = ''pk'', tp_service_id = ''s'', tp_function_name = ''f'', tp_lens = ''$''\<rparr>]]\<rparr>"

definition sample_host :: "('st, unit, string, unit, nat) marine_host" where
  "sample_host = \<lparr>
    mh_log = \<lparr>log_max_level = L_Trace, log_record = (\<lambda>_ _ _ st. st), log_warn = (\<lambda>_ st. st),
      log_memory = (\<lambda>st i. Some ()), log_read_vec = (\<lambda>_ _ _ _. Some []), log_from_utf8 = (\<lambda>_. Some [])\<rparr>,
    mh_new_typed = (\<lambda>f st. ((), st)),
    mh_enc_v0 = (\<lambda>cp. Some (IV_Record [IV_String (cp0_service_id cp)])),
    mh_enc_v1 = (\<lambda>cp. Some (IV_Record [IV_String (cp1_service_id cp)])),
    mh_enc_v2 = (\<lambda>cp. Some (IV_Record [IV_String (cp2_service_id cp)])),
    mh_enc_v3 = (\<lambda>cp. Some (IV_Record [IV_String (cp_service_id cp)])),
    mh_wasm_log_env_name = ''WASM_LOG'', mh_parse_level = (\<lambda>s. if s = ''info'' then Some 3 else None),
    mh_max_level = 5, mh_level_text = (\<lambda>l. if l = 3 then Some ''INFO'' else None)\<rparr>"

definition sample_handles :: "('st, string) call_handles" where
  "sample_handles = \<lparr>
    ch_v0 = (\<lambda>_. call_parameters_v3_to_v0 sample_call_parameters),
    ch_v1 = (\<lambda>_. call_parameters_v3_to_v1 sample_call_parameters),
    ch_v2 = (\<lambda>_. call_parameters_v3_to_v2 sample_call_parameters),
    ch_v3 = (\<lambda>_. sample_call_parameters)\<rparr>"

definition sample_module_config :: "bool \<Rightarrow> ('st, unit) MarineModuleConfig" where
  "sample_module_config wasi = \<lparr>logger_enabled = True, mmc_host_imports = [],
    mmc_wasi = (if wasi then Some \<lparr>wc_envs = [(''A'', ''1'')], wc_mapped_dirs = []\<rparr> else None), logging_mask = 1\<rparr>"

definition sample_filter :: "nat LoggerFilter" where
  "sample_filter = from_env_string (\<lambda>s. if s = ''info'' then Some 3 else None) 5 ''info''"

definition sample_built :: "bool \<Rightarrow> (nat, unit, unit) MModuleConfig" where
  "sample_built wasi = projr (make_marine_config sample_host ''m'' (Some (sample_module_config wasi)) sample_handles
    sample_filter :: (unit, nat, nat, unit) MarineError + _)"

lemma sample_built:
  "(make_marine_config sample_host ''m'' (Some (sample_module_config wasi)) sample_handles sample_filter
    :: (unit, nat, nat, unit) MarineError + _) = Inr (sample_built wasi)"
  by (simp add: sample_built_def make_marine_config_def builder_build_def populate_wasi_def Let_def split: option.split)

theorem log_level_is_lost_with_wasi_witness:
  "hm_get ''WASM_LOG'' (wasi_envs (wasi_parameters (sample_built True))) = None \<and>
   module_level sample_filter ''m'' = Some 3"
proof -
  have level: "module_level sample_filter ''m'' = Some 3"
    by (simp add: sample_filter_def module_level_def from_env_string_def directive_def apply_directive_def)
  show ?thesis
    using log_level_is_lost_with_wasi [OF sample_built, of True] level
    by (simp add: sample_host_def sample_module_config_def hm_extend_def collect_hmap_def)
qed

end
