(* ===== verification/MarineApi.thy ===== *)
theory MarineApi
  imports ModuleConfigBuilder
begin

text \<open>
  The runtime: \<open>marine/src/marine.rs\<close>, with \<open>json_to_marine_err!\<close> of \<open>marine/src/errors.rs\<close>.

  The store of the core holds the store of the backend and the four cells of call parameters, which
  only \<open>update_call_parameters\<close> writes and the imports of the modules read.  The value of the
  environment variable with the log levels, the file system and the JSON conversions of scalars are
  arguments.
\<close>

subsection \<open>State\<close>

record 'a call_cells =
  cell_v0 :: "'a CallParametersV0"
  cell_v1 :: "'a CallParametersV1"
  cell_v2 :: "'a CallParametersV2"
  cell_v3 :: "'a CallParameters"

record ('s, 'a) hosted =
  h_store :: 's
  h_cells :: "'a call_cells"

definition hosted_ops :: "'a call_cells \<Rightarrow> 's store_ops \<Rightarrow> ('s, 'a) hosted store_ops" where
  "hosted_ops cells ops = \<lparr>
    store_new = \<lparr>h_store = store_new ops, h_cells = cells\<rparr>,
    store_set_limit = (\<lambda>n h. h\<lparr>h_store := store_set_limit ops n (h_store h)\<rparr>),
    store_report = (\<lambda>h. store_report ops (h_store h)),
    store_clear = (\<lambda>h. h\<lparr>h_store := store_clear ops (h_store h)\<rparr>)\<rparr>"

type_synonym ('s, 'a, 'f, 'm, 'p) mworld = "(('s, 'a) hosted, ('f, 'm, 'p) ITInstance) world"
type_synonym ('s, 'a, 'i, 'f, 'm, 'p) mcore = "(('s, 'a) hosted, 'i, 'f, 'm, 'p) MarineCore"

definition marine_handles :: "(('s, 'a) hosted, 'c) world \<Rightarrow> 'a call_cells" where
  "marine_handles w = h_cells (w_store w)"

definition cell_handles :: "((('s, 'a) hosted, 'c) world, 'a) call_handles" where
  "cell_handles = \<lparr>
    ch_v0 = (\<lambda>w. cell_v0 (marine_handles w)),
    ch_v1 = (\<lambda>w. cell_v1 (marine_handles w)),
    ch_v2 = (\<lambda>w. cell_v2 (marine_handles w)),
    ch_v3 = (\<lambda>w. cell_v3 (marine_handles w))\<rparr>"

record CachedInterface =
  ci_function_signatures :: "(string, FunctionArg list \<times> IType list) hmap"
  ci_record_types :: IRecordTypes

record ('s, 'a, 'i, 'f, 'm, 'p) Marine =
  mr_core :: "('s, 'a, 'i, 'f, 'm, 'p) mcore"
  interfaces_cache :: "(string, CachedInterface) hmap"

text \<open>An operation of the core, in the runtime.\<close>

definition in_core :: "(('s, 'a, 'i, 'f, 'm, 'p) mcore, 'e, 'b) eff \<Rightarrow> (('s, 'a, 'i, 'f, 'm, 'p) Marine, 'e, 'b) eff" where
  "in_core act = (\<lambda>m. case act (mr_core m) of (r, c) \<Rightarrow> (r, m\<lparr>mr_core := c\<rparr>))"

subsection \<open>Errors\<close>

fun suspected_oom :: "('x, 'v) MError \<Rightarrow> bool" where
  "suspected_oom (ITInstructionError _) = True"
| "suspected_oom (M_HostImportError _) = True"
| "suspected_oom (M_WasmBackendError _) = True"
| "suspected_oom _ = False"

definition convert_error :: "MemoryAllocationStats option \<Rightarrow> ('x, 'v) MError \<Rightarrow> ('x, 'v, 'n, 'te) MarineError" where
  "convert_error stats error =
    (case stats of
       None \<Rightarrow> EngineError error
     | Some st \<Rightarrow>
        (if allocation_rejects st = 0 then EngineError error
         else if suspected_oom error then HighProbabilityOOM error st
         else EngineError error))"

definition check_for_oom :: "(('s, 'a, 'f, 'm, 'p) mworld, 'w, 'l, 'i, 'f, 'h, 'm, 'x) backend \<Rightarrow>
    (('s, 'a, 'i, 'f, 'm, 'p) mcore, ('x, 'v) MError, 'b) eff \<Rightarrow>
    (('s, 'a, 'i, 'f, 'm, 'p) mcore, ('x, 'v, 'n, 'te) MarineError, 'b) eff" where
  "check_for_oom B act = (\<lambda>c. case act c of
      (Returns (Inr r), c) \<Rightarrow> (Returns (Inr r), c)
    | (Returns (Inl error), c) \<Rightarrow>
        bindM (module_memory_stats B) (\<lambda>stats. failM (convert_error (ms_allocation_stats stats) error)) c
    | (Panics, c) \<Rightarrow> (Panics, c))"

fun is_se :: "'n ITJsonSeDeError \<Rightarrow> bool" where
  "is_se (Se_NotCompatible _ _) = True"
| "is_se (Se_NoRecord _) = True"
| "is_se (Se_FieldCount _ _) = True"
| "is_se (Se_Incompatible _ _) = True"
| "is_se _ = False"

fun json_panics :: "'n ITJsonSeDeError \<Rightarrow> bool" where
  "json_panics Panic_MultiValue = True"
| "json_panics Panic_EmptyRecord = True"
| "json_panics _ = False"

definition json_to_marine_err :: "string \<Rightarrow> string \<Rightarrow> 'n ITJsonSeDeError + 'b \<Rightarrow>
    ('st, ('x, 'v, 'n, 'te) MarineError, 'b) eff" where
  "json_to_marine_err module_name function_name r =
    (case r of
       Inr v \<Rightarrow> returnM v
     | Inl e \<Rightarrow>
        (if json_panics e then panicM
         else failM ((if is_se e then JsonOutputSerializationError else JsonArgumentsDeserializationError)
           module_name function_name e)))"

subsection \<open>Creation\<close>

definition load_configured :: "(('s, 'a, 'f, 'm, 'p) mworld, 'w, 'l, 'i, 'f, 'h, 'm, 'x) backend \<Rightarrow>
    (('s, 'a, 'f, 'm, 'p) mworld, 'm, 'p, 'x, 'v) it_engine \<Rightarrow> (('s, 'a, 'f, 'm, 'p) mworld, 'x) host_abi \<Rightarrow>
    'v::linorder sdk \<Rightarrow> (('s, 'a, 'f, 'm, 'p) mworld, 'mem, 'a, 'h, 'lf) marine_host \<Rightarrow> string option \<Rightarrow>
    'lf LoggerFilter \<Rightarrow> (string, u8 list) hmap \<Rightarrow> (('s, 'a, 'f, 'm, 'p) mworld, 'x) ModuleDescriptor \<Rightarrow>
    (('s, 'a, 'i, 'f, 'm, 'p) mcore, ('x, 'v, 'n, 'te) MarineError, (string, u8 list) hmap) eff" where
  "load_configured B E A S H dir logger_filter provided module =
    (case hm_get (import_name module) provided of
       None \<Rightarrow> failM (MR_InstantiationError (import_name module) dir (List.map fst provided))
     | Some module_bytes \<Rightarrow>
        bindM (liftR (make_marine_config H (import_name module) (Some (md_config module)) cell_handles logger_filter))
          (\<lambda>config.
        bindM (check_for_oom B (core_load_module B E A S (import_name module) module_bytes config)) (\<lambda>_.
        returnM (hm_remove (import_name module) provided))))"

definition with_modules :: "(('s, 'a, 'f, 'm, 'p) mworld, 'w, 'l, 'i, 'f, 'h, 'm, 'x) backend \<Rightarrow>
    (('s, 'a, 'f, 'm, 'p) mworld, 'm, 'p, 'x, 'v) it_engine \<Rightarrow> (('s, 'a, 'f, 'm, 'p) mworld, 'x) host_abi \<Rightarrow>
    'v::linorder sdk \<Rightarrow> (('s, 'a, 'f, 'm, 'p) mworld, 'mem, 'a, 'h, 'lf) marine_host \<Rightarrow> 's store_ops \<Rightarrow>
    'a call_cells \<Rightarrow> string \<Rightarrow> (string, u8 list) hmap \<Rightarrow>
    ('x, 'v, 'n, 'te) MarineError + (('s, 'a, 'f, 'm, 'p) mworld, 'x) MarineConfig \<Rightarrow>
    (('x, 'v, 'n, 'te) MarineError + ('s, 'a, 'i, 'f, 'm, 'p) Marine) outcome" where
  "with_modules B E A S H ops cells wasm_log_env provided config =
    (case config of
       Inl e \<Rightarrow> Returns (Inl e)
     | Inr config \<Rightarrow>
        (let core_config = MarineCoreConfig_new (hosted_ops cells ops) (mc_total_memory_limit config);
             logger_filter = from_env_string (mh_parse_level H) (mh_max_level H) wasm_log_env
         in case foldM (load_configured B E A S H (modules_dir config) logger_filter) provided (modules_config config)
                (MarineCore_new core_config) of
              (Returns (Inr _), core) \<Rightarrow> Returns (Inr \<lparr>mr_core = core, interfaces_cache = []\<rparr>)
            | (Returns (Inl e), _) \<Rightarrow> Returns (Inl e)
            | (Panics, _) \<Rightarrow> Panics))"

definition with_module_names :: "fs \<Rightarrow> ((string, u8 list) hmap \<Rightarrow> ('x, 'v, 'n, 'te) MarineError + ('st, 'x) MarineConfig \<Rightarrow>
      (('x, 'v, 'n, 'te) MarineError + 'marine) outcome) \<Rightarrow> (string, string) hmap \<Rightarrow>
    ('x, 'v, 'n, 'te) MarineError + ('st, 'x) MarineConfig \<Rightarrow> (('x, 'v, 'n, 'te) MarineError + 'marine) outcome" where
  "with_module_names F create names config =
    (case bindR config (\<lambda>config. bindR (load_modules_from_fs F names) (\<lambda>provided. Inr (provided, config))) of
       Inl e \<Rightarrow> Returns (Inl e)
     | Inr (provided, config) \<Rightarrow> create provided (Inr config))"

definition with_raw_config :: "fs \<Rightarrow> ((string, u8 list) hmap \<Rightarrow> ('x, 'v, 'n, 'te) MarineError + ('st, 'x) MarineConfig \<Rightarrow>
      (('x, 'v, 'n, 'te) MarineError + 'marine) outcome) \<Rightarrow>
    ('x, 'v, 'n, 'te) MarineError + ('st, 'x) MarineConfig \<Rightarrow> (('x, 'v, 'n, 'te) MarineError + 'marine) outcome" where
  "with_raw_config F create config =
    (case bindR config (\<lambda>config.
        bindR (mapR (\<lambda>m. bindR (get_path F (modules_dir config) m) (\<lambda>path. Inr (import_name m, path)))
          (modules_config config)) (\<lambda>ps. Inr (collect_hmap ps, config))) of
       Inl e \<Rightarrow> Returns (Inl e)
     | Inr (names, config) \<Rightarrow> with_module_names F create names (Inr config))"

subsection \<open>Calls\<close>

definition update_call_parameters :: "'a CallParameters \<Rightarrow> ('s, 'a, 'i, 'f, 'm, 'p) Marine \<Rightarrow>
    ('s, 'a, 'i, 'f, 'm, 'p) Marine" where
  "update_call_parameters call_parameters m =
    (let core = mr_core m; w = core_world core; st = w_store w in
     m\<lparr>mr_core := core\<lparr>core_world := w\<lparr>w_store := st\<lparr>h_cells :=
       \<lparr>cell_v0 = call_parameters_v3_to_v0 call_parameters, cell_v1 = call_parameters_v3_to_v1 call_parameters,
        cell_v2 = call_parameters_v3_to_v2 call_parameters, cell_v3 = call_parameters\<rparr>\<rparr>\<rparr>\<rparr>\<rparr>)"

definition updateM :: "('st \<Rightarrow> 'st) \<Rightarrow> ('st, 'e, unit) eff" where
  "updateM f = (\<lambda>st. (Returns (Inr ()), f st))"

text \<open>The call both entry points make, and the clearing of the statistics after a success.\<close>

definition call_core :: "(('s, 'a, 'f, 'm, 'p) mworld, 'w, 'l, 'i, 'f, 'h, 'm, 'x) backend \<Rightarrow>
    (('s, 'a, 'f, 'm, 'p) mworld, 'm, 'p, 'x, 'v) it_engine \<Rightarrow> string \<Rightarrow> string \<Rightarrow> IValue list \<Rightarrow>
    (('s, 'a, 'i, 'f, 'm, 'p) Marine, ('x, 'v, 'n, 'te) MarineError, IValue list) eff" where
  "call_core B E module_name func_name args =
    bindM (in_core (check_for_oom B (core_call_async B E module_name func_name args))) (\<lambda>result.
    bindM (updateM (\<lambda>m. m\<lparr>mr_core := core_clear_allocation_stats (mr_core m)\<rparr>)) (\<lambda>_.
    returnM result))"

definition call_with_ivalues_async :: "(('s, 'a, 'f, 'm, 'p) mworld, 'w, 'l, 'i, 'f, 'h, 'm, 'x) backend \<Rightarrow>
    (('s, 'a, 'f, 'm, 'p) mworld, 'm, 'p, 'x, 'v) it_engine \<Rightarrow> string \<Rightarrow> string \<Rightarrow> IValue list \<Rightarrow> 'a CallParameters \<Rightarrow>
    (('s, 'a, 'i, 'f, 'm, 'p) Marine, ('x, 'v, 'n, 'te) MarineError, IValue list) eff" where
  "call_with_ivalues_async B E module_name func_name args call_parameters =
    bindM (updateM (update_call_parameters call_parameters)) (\<lambda>_. call_core B E module_name func_name args)"

definition lookup_module_interface :: "string \<Rightarrow> string \<Rightarrow>
    (('s, 'a, 'i, 'f, 'm, 'p) Marine, ('x, 'v, 'n, 'te) MarineError,
     FunctionArg list \<times> IType list \<times> IRecordTypes) eff" where
  "lookup_module_interface module_name func_name = (\<lambda>m.
    case hm_get module_name (interfaces_cache m) of
      Some interface \<Rightarrow>
        (case hm_get func_name (ci_function_signatures interface) of
           Some (arg_types, output_types) \<Rightarrow>
             (Returns (Inr (arg_types, output_types, ci_record_types interface)), m)
         | None \<Rightarrow> (Returns (Inl (MissingFunctionError func_name)), m))
    | None \<Rightarrow>
       (case core_module_interface module_name (mr_core m) of
          None \<Rightarrow> (Returns (Inl (MR_NoSuchModule module_name)), m)
        | Some interface \<Rightarrow>
           (let signatures = collect_hmap (List.map (\<lambda>f. (mfs_name f, mfs_arguments f, mfs_outputs f))
                  (mmi_function_signatures interface))
            in case hm_get func_name signatures of
                 None \<Rightarrow> (Returns (Inl (MissingFunctionError func_name)), m)
               | Some (arg_types, output_types) \<Rightarrow>
                   (Returns (Inr (arg_types, output_types, mmi_record_types interface)),
                    m\<lparr>interfaces_cache := hm_insert func_name
                      \<lparr>ci_function_signatures = signatures,
                       ci_record_types = mmi_record_types interface\<rparr> (interfaces_cache m)\<rparr>))))"

definition call_with_json_async :: "(('s, 'a, 'f, 'm, 'p) mworld, 'w, 'l, 'i, 'f, 'h, 'm, 'x) backend \<Rightarrow>
    (('s, 'a, 'f, 'm, 'p) mworld, 'm, 'p, 'x, 'v) it_engine \<Rightarrow> (IType \<Rightarrow> 'n JValue \<Rightarrow> string + IValue) \<Rightarrow>
    (IValue \<Rightarrow> 'n JValue) \<Rightarrow> string \<Rightarrow> string \<Rightarrow> 'n JValue \<Rightarrow> 'a CallParameters \<Rightarrow>
    (('s, 'a, 'i, 'f, 'm, 'p) Marine, ('x, 'v, 'n, 'te) MarineError, 'n JValue) eff" where
  "call_with_json_async B E from_json to_json module_name func_name json_args call_parameters =
    bindM (lookup_module_interface module_name func_name) (\<lambda>(func_signature, output_types, record_types).
    bindM (json_to_marine_err module_name func_name
      (json_to_ivalues from_json json_args (List.map (\<lambda>arg. (fa_name arg, fa_ty arg)) func_signature) record_types))
      (\<lambda>iargs.
    bindM (updateM (update_call_parameters call_parameters)) (\<lambda>_.
    bindM (call_core B E module_name func_name iargs) (\<lambda>result.
    json_to_marine_err module_name func_name (ivalues_to_json to_json result output_types record_types)))))"

definition marine_get_interface :: "('s, 'a, 'i, 'f, 'm, 'p) Marine \<Rightarrow> (string, MModuleInterface) hmap" where
  "marine_get_interface m = collect_hmap (core_interface (mr_core m))"

definition marine_memory_stats :: "(('s, 'a, 'f, 'm, 'p) mworld, 'w, 'l, 'i, 'f, 'h, 'm, 'x) backend \<Rightarrow>
    (('s, 'a, 'i, 'f, 'm, 'p) Marine, 'e, MemoryStats) eff" where
  "marine_memory_stats B = in_core (module_memory_stats B)"

subsection \<open>The raw module interface\<close>

definition marine_load_module :: "(('s, 'a, 'f, 'm, 'p) mworld, 'w, 'l, 'i, 'f, 'h, 'm, 'x) backend \<Rightarrow>
    (('s, 'a, 'f, 'm, 'p) mworld, 'm, 'p, 'x, 'v) it_engine \<Rightarrow> (('s, 'a, 'f, 'm, 'p) mworld, 'x) host_abi \<Rightarrow>
    'v::linorder sdk \<Rightarrow> (('s, 'a, 'f, 'm, 'p) mworld, 'mem, 'a, 'h, 'lf) marine_host \<Rightarrow> string \<Rightarrow> string \<Rightarrow> u8 list \<Rightarrow>
    ('x, 'v, 'n, 'te) MarineError + (('s, 'a, 'f, 'm, 'p) mworld, 'x) MarineModuleConfig option \<Rightarrow>
    (('s, 'a, 'i, 'f, 'm, 'p) Marine, ('x, 'v, 'n, 'te) MarineError, unit) eff" where
  "marine_load_module B E A S H wasm_log_env name wasm_bytes config =
    bindM (liftR config) (\<lambda>config.
    let logger_filter = from_env_string (mh_parse_level H) (mh_max_level H) wasm_log_env in
    bindM (liftR (make_marine_config H name config cell_handles logger_filter)) (\<lambda>config.
    in_core (check_for_oom B (core_load_module B E A S name wasm_bytes config))))"

definition marine_unload_module :: "string \<Rightarrow>
    (('s, 'a, 'i, 'f, 'm, 'p) Marine, ('x, 'v, 'n, 'te) MarineError, unit) eff" where
  "marine_unload_module module_name = in_core (map_errM EngineError (core_unload_module module_name))"

end
