(* ===== verification/MarineCalls.thy ===== *)
theory MarineCalls
  imports MarineApi
begin

text \<open>
  What the runtime promises: which modules it holds after it was created, which parameters they see
  during a call, and which interface a JSON call is checked against.
\<close>

subsection \<open>Creation\<close>

lemma check_for_oom_ok [eff_simps]:
  "(check_for_oom B act :: (_, ('x, 'v, 'n, 'te) MarineError, _) eff) c = (Returns (Inr r), c') \<longleftrightarrow>
    act c = (Returns (Inr r), c')"
  by (auto simp: check_for_oom_def bindM_ok failM_ok split: prod.splits outcome.splits sum.splits)

lemma load_configured_ok:
  assumes "(load_configured B E A S H dir filt provided d :: (_, ('x, 'v::linorder, 'n, 'te) MarineError, _) eff) c =
      (Returns (Inr provided'), c')"
  shows "hm_has (import_name d) provided \<and> registry c (import_name d) = None \<and>
    (\<exists>mo. registry c' = (registry c)(import_name d \<mapsto> mo)) \<and> provided' = hm_remove (import_name d) provided"
proof -
  obtain bytes config where b: "hm_get (import_name d) provided = Some bytes"
      "core_load_module B E A S (import_name d) bytes config c = (Returns (Inr ()), c')"
      "provided' = hm_remove (import_name d) provided"
    using assms by (auto simp: load_configured_def eff_simps split: option.splits)
  from core_refines_module_map [THEN conjunct1, rule_format, OF b(2)]
  obtain mo where "registry c (import_name d) = None" "registry c' = (registry c)(import_name d \<mapsto> mo)"
    by auto
  then show ?thesis
    using b by (auto simp: hm_has_def)
qed

lemma load_all_configured:
  assumes "foldM (load_configured B E A S H dir filt) provided ds c =
      ((Returns (Inr rest) :: (('x, 'v::linorder, 'n, 'te) MarineError + _) outcome), c')"
  shows "distinct (List.map import_name ds) \<and> (\<forall>d\<in>set ds. hm_has (import_name d) provided) \<and>
    dom (registry c') = dom (registry c) \<union> import_name ` set ds"
  using assms
proof (induction ds arbitrary: provided c)
  case (Cons d ds)
  obtain provided1 c1 where
    step: "(load_configured B E A S H dir filt provided d :: (_, ('x, 'v, 'n, 'te) MarineError, _) eff) c =
      (Returns (Inr provided1), c1)"
    and rest: "foldM (load_configured B E A S H dir filt) provided1 ds c1 =
      ((Returns (Inr rest) :: (('x, 'v, 'n, 'te) MarineError + _) outcome), c')"
    using Cons.prems by (auto simp: eff_simps)
  note one = load_configured_ok [OF step]
  have p1: "provided1 = hm_remove (import_name d) provided"
    using one by blast
  have reg: "dom (registry c1) = insert (import_name d) (dom (registry c))"
    using one by auto
  note tail = Cons.IH [OF rest]
  have "\<forall>e\<in>set ds. import_name e \<noteq> import_name d \<and> hm_has (import_name e) provided"
    using tail p1 by simp
  then show ?case
    using tail one reg by auto
qed (simp add: eff_simps)

lemma registry_new [simp]: "registry (MarineCore_new config) = Map.empty"
  by (simp add: registry_def MarineCore_new_def Let_def fun_eq_iff)

lemma with_modules_ok:
  assumes "(with_modules B E A S H ops cells env provided (Inr config) ::
      (('x, 'v::linorder, 'n, 'te) MarineError + _) outcome) = Returns (Inr m)"
  obtains rest core where "foldM (load_configured B E A S H (modules_dir config)
        (from_env_string (mh_parse_level H) (mh_max_level H) env)) provided (modules_config config)
        (MarineCore_new (MarineCoreConfig_new (hosted_ops cells ops) (mc_total_memory_limit config))) =
      ((Returns (Inr rest) :: (('x, 'v, 'n, 'te) MarineError + _) outcome), core)"
    and "m = \<lparr>mr_core = core, interfaces_cache = []\<rparr>"
  using assms by (auto simp: with_modules_def Let_def split: prod.splits outcome.splits sum.splits)

text \<open>C26: a runtime that could be created holds exactly the modules of its configuration: their names
  are distinct, each was given bytes, and nothing else is loaded; no interface is cached yet.\<close>

theorem marine_holds_configured_modules:
  assumes "(with_modules B E A S H ops cells env provided (Inr config) ::
      (('x, 'v::linorder, 'n, 'te) MarineError + _) outcome) = Returns (Inr m)"
  shows "distinct (List.map import_name (modules_config config)) \<and>
    (\<forall>d\<in>set (modules_config config). hm_has (import_name d) provided) \<and>
    dom (registry (mr_core m)) = import_name ` set (modules_config config) \<and> interfaces_cache m = []"
  using assms by (rule with_modules_ok) (simp add: load_all_configured)

subsection \<open>Call parameters\<close>

text \<open>C28: during a call, a module that asks for the call parameters under any version of the host API
  gets the parameters of that call, converted to the version; this holds in every state in which the
  cells are as the call has set them.\<close>

theorem call_parameters_reach_modules:
  assumes "make_marine_config H name (Some c) cell_handles filt = (Inr config :: ('x, 'v, 'n, 'te) MarineError + _)"
    and "h_cells (w_store w) = h_cells (w_store (core_world (mr_core (update_call_parameters cp m))))"
  shows "\<exists>d. import_at version ''get_call_parameters'' (host_imports config) = Some d \<and>
    host_exported_func d w args =
      (case (case version of
          V0 \<Rightarrow> mh_enc_v0 H (call_parameters_v3_to_v0 cp)
        | V1 \<Rightarrow> mh_enc_v1 H (call_parameters_v3_to_v1 cp)
        | V2 \<Rightarrow> mh_enc_v2 H (call_parameters_v3_to_v2 cp)
        | V3 \<Rightarrow> mh_enc_v3 H cp) of
        Some r \<Rightarrow> (Returns (Some r), w)
      | None \<Rightarrow> (Panics, w))"
proof -
  have cells: "marine_handles w = \<lparr>cell_v0 = call_parameters_v3_to_v0 cp, cell_v1 = call_parameters_v3_to_v1 cp,
      cell_v2 = call_parameters_v3_to_v2 cp, cell_v3 = cp\<rparr>"
    using assms(2) by (simp add: marine_handles_def update_call_parameters_def Let_def)
  show ?thesis
    using built_config_imports [OF assms(1), of version "''get_call_parameters''"] cells
    by (cases version) (auto simp: create_call_parameters_import_def cell_handles_def split: option.split)
qed

subsection \<open>Statistics of modules without memory\<close>

lemma mapM_panics:
  assumes "x \<in> set xs" and "\<And>st. fst (f x st) = Panics" and "\<And>y st e. fst (f y st) \<noteq> Returns (Inl e)"
  shows "fst (mapM f xs st) = Panics"
  using assms(1)
proof (induction xs arbitrary: st)
  case (Cons y ys)
  obtain r st1 where y: "f y st = (r, st1)"
    by (cases "f y st")
  show ?case
  proof (cases r)
    case Panics
    then show ?thesis
      by (simp add: bindM_def y)
  next
    case (Returns v)
    moreover have "y \<noteq> x"
      using assms(2) [of st] y Returns by auto
    ultimately have "fst (mapM f ys st1) = Panics"
      using Cons by simp
    then obtain st2 where rest: "mapM f ys st1 = (Panics, st2)"
      by (cases "mapM f ys st1") simp
    obtain z where "v = Inr z"
      using assms(3) [of y st] y Returns by (cases v) auto
    then show ?thesis
      using Returns rest by (simp add: bindM_def y)
  qed
qed simp

lemma memory_stats_panics:
  assumes "(name, mo) \<in> set (modules c)"
    and "\<And>w. get_nth_memory B (wasm_instance mo) STANDARD_MEMORY_INDEX w = None"
  shows "fst ((module_memory_stats B :: (_, 'e, _) eff) c) = Panics"
proof -
  let ?f = "\<lambda>(module_name, module). bindM (MModule_memory_size B module)
    (\<lambda>n. returnM (ModuleMemoryStat_new module_name n)) :: (_, 'e, _) eff"
  have "fst (mapM ?f (modules c) (core_world c)) = Panics"
    by (rule mapM_panics [OF assms(1)])
      (auto simp: MModule_memory_size_def bindM_def readM_def liftP_def panicM_def returnM_def assms(2)
        split: option.splits)
  then obtain w where "mapM ?f (modules c) (core_world c) = (Panics, w)"
    by (cases "mapM ?f (modules c) (core_world c)") simp
  then show ?thesis
    by (simp add: module_memory_stats_def bindM_def in_world_def)
qed


subsection \<open>The interface of a JSON call\<close>

text \<open>The runtime after calls: the modules stay, the cache grows.\<close>

inductive marine_calls :: "(('s, 'a, 'f, 'm, 'p) mworld, 'w, 'l, 'i, 'f, 'h, 'm, 'x) backend \<Rightarrow>
    (('s, 'a, 'f, 'm, 'p) mworld, 'm, 'p, 'x, 'v) it_engine \<Rightarrow> (IType \<Rightarrow> 'n JValue \<Rightarrow> string + IValue) \<Rightarrow>
    (IValue \<Rightarrow> 'n JValue) \<Rightarrow> ('s, 'a, 'i, 'f, 'm, 'p) Marine \<Rightarrow> ('s, 'a, 'i, 'f, 'm, 'p) Marine \<Rightarrow> bool"
  for B E from_json to_json m0 where
  calls_none: "marine_calls B E from_json to_json m0 m0"
| calls_ivalues: "marine_calls B E from_json to_json m0 m \<Longrightarrow>
    (call_with_ivalues_async B E module_name func_name args cp :: (_, ('x, 'v, 'n, unit) MarineError, _) eff) m = (r, m') \<Longrightarrow>
    marine_calls B E from_json to_json m0 m'"
| calls_json: "marine_calls B E from_json to_json m0 m \<Longrightarrow>
    (call_with_json_async B E from_json to_json module_name func_name json cp ::
      (_, ('x, 'v, 'n, unit) MarineError, _) eff) m = (r', m') \<Longrightarrow>
    marine_calls B E from_json to_json m0 m'"

definition cached_of :: "MModuleInterface \<Rightarrow> CachedInterface" where
  "cached_of i = \<lparr>ci_function_signatures = collect_hmap
      (List.map (\<lambda>f. (mfs_name f, mfs_arguments f, mfs_outputs f)) (mmi_function_signatures i)),
    ci_record_types = mmi_record_types i\<rparr>"

definition exported_by :: "MModuleInterface \<Rightarrow> string set" where
  "exported_by i = mfs_name ` set (mmi_function_signatures i)"

text \<open>Every cached interface is that of a module, under the name of one of its functions.\<close>

definition cache_ok :: "('s, 'a, 'i, 'f, 'm, 'p) Marine \<Rightarrow> bool" where
  "cache_ok m \<longleftrightarrow> (\<forall>key ci. hm_get key (interfaces_cache m) = Some ci \<longrightarrow>
    (\<exists>name i. core_module_interface name (mr_core m) = Some i \<and> ci = cached_of i \<and> key \<in> exported_by i))"

lemma cached_of_get:
  "hm_get f (ci_function_signatures (cached_of i)) = None \<longleftrightarrow> f \<notin> exported_by i"
  by (simp add: cached_of_def hm_get_collect_hmap map_of_eq_None_iff exported_by_def image_image)

lemma frame_in_core [intro]: "frame g act \<Longrightarrow> frame (\<lambda>m. g (mr_core m)) (in_core act)"
  by (auto simp: frame_def in_core_def split: prod.split) (metis snd_conv)

lemma frame_check_for_oom [intro]:
  assumes "frame modules act"
  shows "frame modules (check_for_oom B act)"
  unfolding frame_def
proof
  fix c
  obtain r c1 where act: "act c = (r, c1)"
    by (cases "act c")
  have same: "modules c1 = modules c"
    using frameD [OF assms act] .
  have report: "modules (snd (bindM (module_memory_stats B)
      (\<lambda>stats. failM (convert_error (ms_allocation_stats stats) e)) c1)) = modules c1" for e
    by (rule frame_bindM [OF frame_stats frame_basic(2), unfolded frame_def, THEN spec])
  show "modules (snd (check_for_oom B act c)) = modules c"
    by (cases r) (simp_all add: check_for_oom_def act same report split: sum.split)
qed

lemma frame_updateM: "(\<And>st. g (f st) = g st) \<Longrightarrow> frame g (updateM f)"
  by (simp add: frame_def updateM_def)

lemma update_keeps:
  "modules (mr_core (update_call_parameters cp m)) = modules (mr_core m)"
  "interfaces_cache (update_call_parameters cp m) = interfaces_cache m"
  by (simp_all add: update_call_parameters_def Let_def)

lemma frame_call_core: "frame (\<lambda>m. (modules (mr_core m), interfaces_cache m)) (call_core B E name f args)"
proof -
  have "frame (\<lambda>m. modules (mr_core m)) (in_core (check_for_oom B (core_call_async B E name f args)))"
    by (intro frame_in_core frame_check_for_oom frame_call)
  then have "frame (\<lambda>m. (modules (mr_core m), interfaces_cache m))
      (in_core (check_for_oom B (core_call_async B E name f args)))"
    by (auto simp: frame_def in_core_def split: prod.splits)
  then show ?thesis
    unfolding call_core_def
    by (intro frame_bindM frame_updateM frame_basic) (simp_all add: core_clear_allocation_stats_def)
qed

lemma lookup_unfold:
  "lookup_module_interface name func m =
    (case hm_get name (interfaces_cache m) of
       Some ci \<Rightarrow> (case hm_get func (ci_function_signatures ci) of
           Some (a, out) \<Rightarrow> (Returns (Inr (a, out, ci_record_types ci)), m)
         | None \<Rightarrow> (Returns (Inl (MissingFunctionError func)), m))
     | None \<Rightarrow> (case core_module_interface name (mr_core m) of
         None \<Rightarrow> (Returns (Inl (MR_NoSuchModule name)), m)
       | Some i \<Rightarrow> (case hm_get func (ci_function_signatures (cached_of i)) of
           None \<Rightarrow> (Returns (Inl (MissingFunctionError func)), m)
         | Some (a, out) \<Rightarrow> (Returns (Inr (a, out, ci_record_types (cached_of i))),
             m\<lparr>interfaces_cache := hm_insert func (cached_of i) (interfaces_cache m)\<rparr>))))"
  unfolding lookup_module_interface_def Let_def cached_of_def CachedInterface.simps by (rule refl)

lemma lookup_cases:
  assumes "lookup_module_interface name func m = (r, m')"
  obtains (same) "m' = m"
    | (cached) i where "core_module_interface name (mr_core m) = Some i" and "func \<in> exported_by i"
      and "m' = m\<lparr>interfaces_cache := hm_insert func (cached_of i) (interfaces_cache m)\<rparr>"
proof (cases "hm_get name (interfaces_cache m)")
  case None
  show thesis
  proof (cases "core_module_interface name (mr_core m)")
    case (Some i)
    show thesis
    proof (cases "hm_get func (ci_function_signatures (cached_of i))")
      case sig: (Some s)
      then have "func \<in> exported_by i"
        using cached_of_get [of func i] by simp
      then show thesis
        using cached [OF Some] assms None Some sig by (auto simp: lookup_unfold split: prod.splits)
    qed (use same assms None Some in \<open>auto simp: lookup_unfold\<close>)
  qed (use same assms None in \<open>auto simp: lookup_unfold\<close>)
next
  case (Some ci)
  then have "m' = m"
    using assms by (cases "hm_get func (ci_function_signatures ci)") (simp_all add: lookup_unfold split: prod.splits)
  then show thesis
    by (rule same)
qed

lemma lookup_cache_ok:
  assumes "lookup_module_interface name func m = (r, m')" and "cache_ok m"
  shows "cache_ok m' \<and> mr_core m' = mr_core m"
  using assms(1) by (rule lookup_cases) (use assms(2) in \<open>auto simp: cache_ok_def\<close>)

lemma cache_ok_frame:
  assumes "modules (mr_core m') = modules (mr_core m)" and "interfaces_cache m' = interfaces_cache m" and "cache_ok m"
  shows "cache_ok m'"
  using assms by (simp add: cache_ok_def core_module_interface_def)

text \<open>What a call leaves: the modules, and a cache as described.\<close>

definition settled :: "('s, 'a, 'i, 'f, 'm, 'p) Marine \<Rightarrow> ('s, 'a, 'i, 'f, 'm, 'p) Marine \<Rightarrow> bool" where
  "settled m0 m \<longleftrightarrow> modules (mr_core m) = modules (mr_core m0) \<and> cache_ok m"

lemma settled_updates:
  "settled m0 m \<Longrightarrow> settled m0 (update_call_parameters cp m)"
  using cache_ok_frame [of "update_call_parameters cp m" m] by (simp add: settled_def update_keeps)

lemma settled_call_core:
  assumes "call_core B E name f args m = (r, m')" and "settled m0 m"
  shows "settled m0 m'"
proof -
  have "modules (mr_core m') = modules (mr_core m)" "interfaces_cache m' = interfaces_cache m"
    using frameD [OF frame_call_core assms(1)] by simp_all
  then show ?thesis
    using assms(2) cache_ok_frame [of m' m] by (simp add: settled_def)
qed

lemma settled_lookup:
  "lookup_module_interface name func m = (r, m') \<Longrightarrow> settled m0 m \<Longrightarrow> settled m0 m'"
  using lookup_cache_ok [of name func m r m'] by (auto simp: settled_def)

text \<open>An invariant that every part of a computation keeps, however it ends.\<close>

definition keeps :: "('st \<Rightarrow> bool) \<Rightarrow> ('st, 'e, 'b) eff \<Rightarrow> bool" where
  "keeps P act \<longleftrightarrow> (\<forall>st r st'. P st \<longrightarrow> act st = (r, st') \<longrightarrow> P st')"

lemma keepsD: "keeps P act \<Longrightarrow> P st \<Longrightarrow> act st = (r, st') \<Longrightarrow> P st'"
  unfolding keeps_def by blast

lemma keeps_bindM:
  assumes "keeps P act" and "\<And>x. keeps P (k x)"
  shows "keeps P (bindM act k)"
  unfolding keeps_def
proof (intro allI impI)
  fix st r st'
  assume st: "P st" and run: "bindM act k st = (r, st')"
  obtain r1 st1 where act: "act st = (r1, st1)"
    by (cases "act st")
  have st1: "P st1"
    using keepsD [OF assms(1) st act] .
  show "P st'"
  proof (cases "\<exists>x. r1 = Returns (Inr x)")
    case True
    then obtain x where "k x st1 = (r, st')"
      using run act by (auto simp: bindM_def)
    then show ?thesis
      by (rule keepsD [OF assms(2) st1])
  next
    case False
    then have "st' = st1"
      using run act by (auto simp: bindM_def split: outcome.splits sum.splits)
    then show ?thesis
      using st1 by simp
  qed
qed

lemma keeps_pure: "keeps P (returnM x)" "keeps P (failM e)" "keeps P panicM"
  by (auto simp: keeps_def returnM_def failM_def panicM_def)

lemma keeps_updateM: "(\<And>st. P st \<Longrightarrow> P (f st)) \<Longrightarrow> keeps P (updateM f)"
  by (auto simp: keeps_def updateM_def)

lemma keeps_json_to_marine_err: "keeps P (json_to_marine_err a b r)"
  by (simp add: json_to_marine_err_def keeps_pure split: sum.split)

lemma calls_settled:
  assumes "marine_calls B (E :: (_, _, _, 'x, 'v) it_engine) (from_json :: IType \<Rightarrow> 'n JValue \<Rightarrow> string + IValue) to_json m0 m"
    and "settled m0 m0"
  shows "settled m0 m"
proof -
  have core: "keeps (settled m0) (call_core B E name f args :: (_, ('x, 'v, 'n, unit) MarineError, _) eff)"
    for name f args
    unfolding keeps_def by (auto intro: settled_call_core)
  have look: "keeps (settled m0) (lookup_module_interface name f :: (_, ('x, 'v, 'n, unit) MarineError, _) eff)"
    for name f
    unfolding keeps_def by (auto intro: settled_lookup)
  have ivalues: "keeps (settled m0) (call_with_ivalues_async B E name f args cp ::
      (_, ('x, 'v, 'n, unit) MarineError, _) eff)" for name f args cp
    unfolding call_with_ivalues_async_def by (intro keeps_bindM keeps_updateM settled_updates core)
  have json: "keeps (settled m0) (call_with_json_async B E from_json to_json name f json cp ::
      (_, ('x, 'v, 'n, unit) MarineError, _) eff)" for name f json cp
    unfolding call_with_json_async_def
    by (intro keeps_bindM look, split prod.split, intro allI impI, split prod.split, intro allI impI)
      (intro keeps_bindM keeps_json_to_marine_err keeps_updateM settled_updates core, assumption)
  show ?thesis
    using assms(1)
  proof (induction rule: marine_calls.induct)
    case calls_none
    show ?case
      by (rule assms(2))
  next
    case (calls_ivalues m mn fn args cp r m')
    then show ?case
      using ivalues unfolding keeps_def by blast
  next
    case (calls_json m mn fn js cp r' m')
    then show ?case
      using json unfolding keeps_def by blast
  qed
qed

text \<open>C20: as long as no function has the name of the module that is called, a JSON call is checked
  against the interface of that module, after any calls; the errors are those of a missing module and
  of a missing function.\<close>

theorem lookup_finds_the_module_interface:
  assumes "marine_calls B E from_json to_json m0 m" and "interfaces_cache m0 = []"
    and "\<forall>n i. core_module_interface n (mr_core m0) = Some i \<longrightarrow> name \<notin> exported_by i"
  shows "fst (lookup_module_interface name func m) = Returns
    (case core_module_interface name (mr_core m0) of
       None \<Rightarrow> Inl (MR_NoSuchModule name)
     | Some i \<Rightarrow> (case hm_get func (ci_function_signatures (cached_of i)) of
         None \<Rightarrow> Inl (MissingFunctionError func)
       | Some (args, out) \<Rightarrow> Inr (args, out, mmi_record_types i)))"
proof -
  have "settled m0 m0"
    using assms(2) by (simp add: settled_def cache_ok_def)
  then have m: "modules (mr_core m) = modules (mr_core m0)" "cache_ok m"
    using calls_settled [OF assms(1)] by (simp_all add: settled_def)
  have same: "core_module_interface n (mr_core m) = core_module_interface n (mr_core m0)" for n
    using m(1) by (simp add: core_module_interface_def)
  have "hm_get name (interfaces_cache m) = None"
  proof (rule ccontr)
    assume "hm_get name (interfaces_cache m) \<noteq> None"
    then obtain ci where "hm_get name (interfaces_cache m) = Some ci"
      by blast
    then obtain n i where "core_module_interface n (mr_core m) = Some i" "name \<in> exported_by i"
      using m(2) unfolding cache_ok_def by blast
    then show False
      using assms(3) same by metis
  qed
  then show ?thesis
    by (simp add: lookup_unfold same cached_of_def split: option.split prod.split)
qed

text \<open>C19: the cache is filled under the name of the function but searched by the name of the module.
  After a call of a function that is named like another module, a call to that module is checked
  against the wrong interface: a function it does export is reported as missing.\<close>

theorem lookup_confuses_modules:
  assumes "hm_get a (interfaces_cache m) = None" and "core_module_interface a (mr_core m) = Some ia"
    and "b \<in> exported_by ia" and "core_module_interface b (mr_core m) = Some ib"
    and "g \<in> exported_by ib" and "g \<notin> exported_by ia"
    and "(lookup_module_interface a b m :: (('x, 'v, 'n, 'te) MarineError + _) outcome \<times> _) = (r, m')"
  shows "(\<exists>found. r = Returns (Inr found)) \<and>
    fst (lookup_module_interface b g m') = Returns (Inl (MissingFunctionError g :: ('x, 'v, 'n, 'te) MarineError))"
proof -
  obtain args out where sig: "hm_get b (ci_function_signatures (cached_of ia)) = Some (args, out)"
    using cached_of_get [of b ia] assms(3) by (cases "hm_get b (ci_function_signatures (cached_of ia))") auto
  have run: "r = Returns (Inr (args, out, ci_record_types (cached_of ia)))"
      "m' = m\<lparr>interfaces_cache := hm_insert b (cached_of ia) (interfaces_cache m)\<rparr>"
    using assms(7) by (simp_all add: lookup_unfold assms(1,2) sig)
  have "hm_get g (ci_function_signatures (cached_of ia)) = None"
    using cached_of_get assms(6) by blast
  then show ?thesis
    by (simp add: run lookup_unfold)
qed

subsection \<open>Examples\<close>

definition sample_cells :: "string call_cells" where
  "sample_cells = \<lparr>cell_v0 = call_parameters_v3_to_v0 sample_call_parameters,
    cell_v1 = call_parameters_v3_to_v1 sample_call_parameters,
    cell_v2 = call_parameters_v3_to_v2 sample_call_parameters, cell_v3 = sample_call_parameters\<rparr>"

type_synonym sample_marine = "(nat, string, unit, string, unit, Instruction list) Marine"

definition sample_configuration :: "((nat, string) hosted sample_world, unit) MarineConfig" where
  "sample_configuration = MarineConfig_default\<lparr>modules_config := [\<lparr>load_from = None, file_name = ''m.wasm'',
    import_name = ''m'', md_config = sample_module_config True\<rparr>]\<rparr>"

definition sample_creation :: "((unit, nat, nat, unit) MarineError + sample_marine) outcome" where
  "sample_creation = with_modules sample_backend sample_engine sample_abi sample_sdk sample_host sample_store_ops
    sample_cells ''info'' [(''m'', [0])] (Inr sample_configuration)"

lemma sample_creation_succeeds:
  "\<exists>m. sample_creation = Returns (Inr m) \<and> List.map fst (modules (mr_core m)) = [''m'']"
proof -
  have "case sample_creation of Returns (Inr m) \<Rightarrow> List.map fst (modules (mr_core m)) = [''m''] | _ \<Rightarrow> False"
    by code_simp
  then show ?thesis
    by (auto split: outcome.splits sum.splits)
qed

theorem marine_holds_configured_modules_witness:
  "\<exists>m. sample_creation = Returns (Inr m) \<and> dom (registry (mr_core m)) = {''m''} \<and> interfaces_cache m = []"
proof -
  obtain m where m: "sample_creation = Returns (Inr m)"
    using sample_creation_succeeds by blast
  show ?thesis
    using marine_holds_configured_modules [OF m [unfolded sample_creation_def]]
    by (intro exI [of _ m] conjI m) (simp_all add: sample_configuration_def)
qed

text \<open>The module \<open>a\<close> exports \<open>b\<close>, the module \<open>b\<close> exports \<open>g\<close>.\<close>

definition exporting :: "string \<Rightarrow> (unit, string, unit, Instruction list) MModule" where
  "exporting f = \<lparr>wasm_instance = (), export_funcs = [(f, Callable (ITInstance [] [] [])
      \<lparr>imf_interpreter = [], imf_arguments = [], imf_output_types = []\<rparr>)], mod_export_record_types = []\<rparr>"

definition two_modules :: sample_marine where
  "two_modules = \<lparr>mr_core = \<lparr>modules = [(''a'', exporting ''b''), (''b'', exporting ''g'')],
      core_backend = hosted_ops sample_cells sample_store_ops,
      core_world = \<lparr>w_store = \<lparr>h_store = 0, h_cells = sample_cells\<rparr>, w_arcs = []\<rparr>\<rparr>,
    interfaces_cache = []\<rparr>"

lemma two_modules_interface:
  "core_module_interface ''a'' (mr_core two_modules) = Some (get_module_interface (exporting ''b''))"
  "core_module_interface ''b'' (mr_core two_modules) = Some (get_module_interface (exporting ''g''))"
  "exported_by (get_module_interface (exporting f)) = {f}"
  "core_module_interface n (mr_core two_modules) = Some i \<Longrightarrow> exported_by i \<subseteq> {''b'', ''g''}"
  by (auto simp: core_module_interface_def two_modules_def exported_by_def get_module_interface_def exporting_def
      get_exports_signatures_def hm_get_def split: if_splits)

theorem lookup_confuses_modules_witness:
  "\<exists>r m'. (lookup_module_interface ''a'' ''b'' two_modules
      :: ((unit, nat, nat, unit) MarineError + _) outcome \<times> _) = (r, m') \<and>
    fst (lookup_module_interface ''b'' ''g'' m' :: ((unit, nat, nat, unit) MarineError + _) outcome \<times> _) =
      Returns (Inl (MissingFunctionError ''g''))"
proof -
  obtain r m' where run: "(lookup_module_interface ''a'' ''b'' two_modules
      :: ((unit, nat, nat, unit) MarineError + _) outcome \<times> _) = (r, m')"
    by fastforce
  have "hm_get ''a'' (interfaces_cache two_modules) = None"
    by (simp add: two_modules_def)
  then show ?thesis
    using lookup_confuses_modules [OF _ two_modules_interface(1) _ two_modules_interface(2) _ _ run, of "''g''"] run
    by (simp add: two_modules_interface(3))
qed

theorem lookup_finds_the_module_interface_witness:
  "\<exists>m. fst (lookup_module_interface ''a'' ''b'' (m :: sample_marine)
    :: ((unit, nat, nat, unit) MarineError + _) outcome \<times> _) = Returns (Inr ([], [], []))"
proof -
  define step where "step = (call_with_ivalues_async sample_backend sample_engine ''a'' ''b'' [] sample_call_parameters
    :: (sample_marine, (unit, nat, nat, unit) MarineError, _) eff) two_modules"
  have calls: "marine_calls sample_backend sample_engine (\<lambda>t j. Inl []) (\<lambda>v. JNull :: nat JValue) two_modules (snd step)"
    by (rule marine_calls.calls_ivalues [OF marine_calls.calls_none]) (simp add: step_def prod_eq_iff)
  have names: "\<forall>n i. core_module_interface n (mr_core two_modules) = Some i \<longrightarrow> ''a'' \<notin> exported_by i"
    using two_modules_interface(4) by fastforce
  have "interfaces_cache two_modules = []"
    by (simp add: two_modules_def)
  from lookup_finds_the_module_interface [OF calls this names, of "''b''"] show ?thesis
    by (intro exI [of _ "snd step"]) (simp add: two_modules_interface(1) cached_of_def get_module_interface_def
        get_exports_signatures_def exporting_def collect_hmap_def)
qed

theorem call_parameters_reach_modules_witness:
  "\<exists>d. import_at V1 ''get_call_parameters'' (host_imports (projr (make_marine_config sample_host ''m''
      (Some (sample_module_config True)) cell_handles sample_filter
      :: (unit, nat, nat, unit) MarineError + ((nat, string) hosted sample_world, unit, unit) MModuleConfig))) = Some d \<and>
    fst (host_exported_func d (core_world (mr_core (update_call_parameters sample_call_parameters two_modules))) []) =
      Returns (Some (IV_Record [IV_String ''s'']))"
proof -
  let ?c = "make_marine_config sample_host ''m'' (Some (sample_module_config True)) cell_handles sample_filter
      :: (unit, nat, nat, unit) MarineError + ((nat, string) hosted sample_world, unit, unit) MModuleConfig"
  have "?c = Inr (projr ?c)"
    by (simp add: make_marine_config_def builder_build_def populate_wasi_def Let_def split: option.split)
  from call_parameters_reach_modules [OF this refl, of V1 sample_call_parameters two_modules "[]"]
  obtain d where "import_at V1 ''get_call_parameters'' (host_imports (projr ?c)) = Some d"
    "fst (host_exported_func d (core_world (mr_core (update_call_parameters sample_call_parameters two_modules))) []) =
      Returns (Some (IV_Record [IV_String ''s'']))"
    by (auto simp: sample_host_def call_parameters_v3_to_v1_def sample_call_parameters_def)
  then show ?thesis
    by blast
qed


end
