(* ===== verification/AppServiceModel.thy ===== *)
theory AppServiceModel
  imports MarineCalls ModuleInterface
begin

text \<open>
  Services: \<open>crates/fluence-app-service/src/{service,service_interface,config,raw_toml_config,errors,
  app_service_factory}.rs\<close>.  A service is a runtime and the name of its last module, the facade.  The creation of
  directories acts on a state \<open>'d\<close> of the file system; the creation of the runtime from a
  configuration (\<open>Marine::with_raw_config\<close> for a backend) is an argument of the construction.
\<close>

subsection \<open>Errors and configuration\<close>

datatype service_message = NoModules | CannotParse string

datatype ('x, 'v, 'n, 'te, 'io) AppServiceError =
    A_InvalidConfig 'te
  | A_IOError 'io
  | A_MarineError "('x, 'v, 'n, 'te) MarineError"
  | A_WasmBackendError "'x WasmBackendError"
  | A_CreateDir 'io string
  | A_ConfigParseError service_message

record ('st, 'x) AppServiceConfig =
  service_working_dir :: string
  marine_config :: "('st, 'x) MarineConfig"

record 'tv TomlAppServiceConfig =
  ta_service_working_dir :: "string option"
  ta_marine_config :: "'tv TomlMarineConfig"

definition TomlAppServiceConfig_load :: "(string \<Rightarrow> 'io + u8 list) \<Rightarrow> (u8 list \<Rightarrow> 'te + 'tv TomlAppServiceConfig) \<Rightarrow>
    string \<Rightarrow> ('x, 'v, 'n, 'te, 'io) AppServiceError + 'tv TomlAppServiceConfig" where
  "TomlAppServiceConfig_load read_file from_toml path =
    bindR (map_err A_IOError (read_file path)) (\<lambda>file_content.
    map_err (\<lambda>e. A_ConfigParseError (CannotParse path)) (from_toml file_content))"

definition app_config_try_into :: "fs \<Rightarrow> ('tv, 'te) toml \<Rightarrow> ('st, string) command_env \<Rightarrow> 'io + string \<Rightarrow>
    'tv TomlAppServiceConfig \<Rightarrow> ('x, 'v, 'n, 'te, 'io) AppServiceError + ('st, 'x) AppServiceConfig" where
  "app_config_try_into F T M current_dir t =
    bindR (map_err A_MarineError (marine_config_try_from F T M (ta_marine_config t))) (\<lambda>marine_config.
    bindR (case ta_service_working_dir t of
        Some dir \<Rightarrow> Inr dir
      | None \<Rightarrow> map_err A_IOError current_dir) (\<lambda>service_working_dir.
    Inr \<lparr>service_working_dir = service_working_dir, marine_config = marine_config\<rparr>))"

subsection \<open>Directories and environment\<close>

text \<open>\<open>std::fs::create_dir_all\<close>, and the test for \<open>ErrorKind::AlreadyExists\<close>.\<close>

record ('d, 'io) dir_ops =
  create_dir_all :: "string \<Rightarrow> 'd \<Rightarrow> 'io option \<times> 'd"
  already_exists :: "'io \<Rightarrow> bool"

definition create_dir :: "('d, 'io) dir_ops \<Rightarrow> string \<Rightarrow> ('d, ('x, 'v, 'n, 'te, 'io) AppServiceError, unit) eff" where
  "create_dir D dir = (\<lambda>d. case create_dir_all D dir d of
      (Some e, d) \<Rightarrow> (Returns (if already_exists D e then Inr () else Inl (A_CreateDir e dir)), d)
    | (None, d) \<Rightarrow> (Returns (Inr ()), d))"

definition create_wasi_dirs :: "('d, 'io) dir_ops \<Rightarrow> ('st, 'x) MarineModuleConfig \<Rightarrow>
    ('d, ('x, 'v, 'n, 'te, 'io) AppServiceError, unit) eff" where
  "create_wasi_dirs D config =
    (case mmc_wasi config of
       Some wasi_config \<Rightarrow>
         bindM (mapM (create_dir D) (List.map snd (wc_mapped_dirs wasi_config))) (\<lambda>_. returnM ())
     | None \<Rightarrow> returnM ())"

definition SERVICE_ID_ENV_NAME :: string where
  "SERVICE_ID_ENV_NAME = ''service_id''"

definition prepare_module :: "('d, 'io) dir_ops \<Rightarrow> string \<Rightarrow> (string, string) hmap \<Rightarrow> ('st, 'x) ModuleDescriptor \<Rightarrow>
    ('d, ('x, 'v, 'n, 'te, 'io) AppServiceError, ('st, 'x) ModuleDescriptor) eff" where
  "prepare_module D working_dir envs module =
    (let config = root_wasi_files_at working_dir (extend_wasi_envs envs (md_config module)) in
     bindM (create_wasi_dirs D config) (\<lambda>_. returnM (module\<lparr>md_config := config\<rparr>)))"

definition set_env_and_dirs :: "('d, 'io) dir_ops \<Rightarrow> ('st, 'x) AppServiceConfig \<Rightarrow> string \<Rightarrow> (string, string) hmap \<Rightarrow>
    ('d, ('x, 'v, 'n, 'te, 'io) AppServiceError, ('st, 'x) AppServiceConfig) eff" where
  "set_env_and_dirs D config service_id envs =
    (let envs = hm_insert SERVICE_ID_ENV_NAME service_id envs; mc = marine_config config in
     bindM (mapM (prepare_module D (service_working_dir config) envs) (modules_config mc)) (\<lambda>ms.
     returnM (config\<lparr>marine_config := mc\<lparr>modules_config := ms\<rparr>\<rparr>)))"

subsection \<open>Services\<close>

record ('s, 'a, 'i, 'f, 'm, 'p) AppService =
  as_marine :: "('s, 'a, 'i, 'f, 'm, 'p) Marine"
  facade_module_name :: string

definition create_marine :: "(('st, 'x) MarineConfig \<Rightarrow> (('x, 'v, 'n, 'te) MarineError + 'marine) outcome) \<Rightarrow>
    ('st, 'x) MarineConfig \<Rightarrow> ('d, ('x, 'v, 'n, 'te, 'io) AppServiceError, 'marine) eff" where
  "create_marine build_marine config = (\<lambda>d. (case build_marine config of
      Returns r \<Rightarrow> Returns (map_err A_MarineError r)
    | Panics \<Rightarrow> Panics, d))"

definition AppService_new_with_backend :: "('d, 'io) dir_ops \<Rightarrow>
    (('st, 'x) MarineConfig \<Rightarrow> (('x, 'v, 'n, 'te) MarineError + ('s, 'a, 'i, 'f, 'm, 'p) Marine) outcome) \<Rightarrow>
    ('x, 'v, 'n, 'te, 'io) AppServiceError + ('st, 'x) AppServiceConfig \<Rightarrow> string \<Rightarrow> (string, string) hmap \<Rightarrow>
    ('d, ('x, 'v, 'n, 'te, 'io) AppServiceError, ('s, 'a, 'i, 'f, 'm, 'p) AppService) eff" where
  "AppService_new_with_backend D build_marine config service_id envs =
    bindM (liftR config) (\<lambda>config.
    bindM (liftR (if modules_config (marine_config config) = [] then Inl (A_ConfigParseError NoModules)
      else Inr (import_name (last (modules_config (marine_config config)))))) (\<lambda>facade_module_name.
    bindM (set_env_and_dirs D config service_id envs) (\<lambda>config.
    bindM (create_marine build_marine (marine_config config)) (\<lambda>marine.
    returnM \<lparr>as_marine = marine, facade_module_name = facade_module_name\<rparr>))))"

definition new_with_empty_facade :: "('d, 'io) dir_ops \<Rightarrow>
    (('st, 'x) MarineConfig \<Rightarrow> (('x, 'v, 'n, 'te) MarineError + ('s, 'a, 'i, 'f, 'm, 'p) Marine) outcome) \<Rightarrow>
    ('x, 'v, 'n, 'te, 'io) AppServiceError + ('st, 'x) AppServiceConfig \<Rightarrow> string \<Rightarrow> (string, string) hmap \<Rightarrow>
    ('d, ('x, 'v, 'n, 'te, 'io) AppServiceError, ('s, 'a, 'i, 'f, 'm, 'p) AppService) eff" where
  "new_with_empty_facade D build_marine config service_id envs =
    bindM (liftR config) (\<lambda>config.
    bindM (set_env_and_dirs D config service_id envs) (\<lambda>config.
    bindM (create_marine build_marine (marine_config config)) (\<lambda>marine.
    returnM \<lparr>as_marine = marine, facade_module_name = []\<rparr>)))"

text \<open>An operation of the runtime, in the service.\<close>

definition in_marine :: "(('s, 'a, 'i, 'f, 'm, 'p) Marine, ('x, 'v, 'n, 'te) MarineError, 'b) eff \<Rightarrow>
    (('s, 'a, 'i, 'f, 'm, 'p) AppService, ('x, 'v, 'n, 'te, 'io) AppServiceError, 'b) eff" where
  "in_marine act = map_errM A_MarineError (\<lambda>s. case act (as_marine s) of (r, m) \<Rightarrow> (r, s\<lparr>as_marine := m\<rparr>))"

definition service_call_async :: "(('s, 'a, 'f, 'm, 'p) mworld, 'w, 'l, 'i, 'f, 'h, 'm, 'x) backend \<Rightarrow>
    (('s, 'a, 'f, 'm, 'p) mworld, 'm, 'p, 'x, 'v) it_engine \<Rightarrow> (IType \<Rightarrow> 'n JValue \<Rightarrow> string + IValue) \<Rightarrow>
    (IValue \<Rightarrow> 'n JValue) \<Rightarrow> string \<Rightarrow> 'n JValue \<Rightarrow> 'a CallParameters \<Rightarrow>
    (('s, 'a, 'i, 'f, 'm, 'p) AppService, ('x, 'v, 'n, 'te, 'io) AppServiceError, 'n JValue) eff" where
  "service_call_async B E from_json to_json func_name arguments cp = (\<lambda>s.
    in_marine (call_with_json_async B E from_json to_json (facade_module_name s) func_name arguments cp) s)"

definition service_call_with_ivalues_async :: "(('s, 'a, 'f, 'm, 'p) mworld, 'w, 'l, 'i, 'f, 'h, 'm, 'x) backend \<Rightarrow>
    (('s, 'a, 'f, 'm, 'p) mworld, 'm, 'p, 'x, 'v) it_engine \<Rightarrow> string \<Rightarrow> IValue list \<Rightarrow> 'a CallParameters \<Rightarrow>
    (('s, 'a, 'i, 'f, 'm, 'p) AppService, ('x, 'v, 'n, 'te, 'io) AppServiceError, IValue list) eff" where
  "service_call_with_ivalues_async B E func_name arguments cp = (\<lambda>s.
    in_marine (call_with_ivalues_async B E (facade_module_name s) func_name arguments cp) s)"

definition service_call_module :: "(('s, 'a, 'f, 'm, 'p) mworld, 'w, 'l, 'i, 'f, 'h, 'm, 'x) backend \<Rightarrow>
    (('s, 'a, 'f, 'm, 'p) mworld, 'm, 'p, 'x, 'v) it_engine \<Rightarrow> (IType \<Rightarrow> 'n JValue \<Rightarrow> string + IValue) \<Rightarrow>
    (IValue \<Rightarrow> 'n JValue) \<Rightarrow> string \<Rightarrow> string \<Rightarrow> 'n JValue \<Rightarrow> 'a CallParameters \<Rightarrow>
    (('s, 'a, 'i, 'f, 'm, 'p) AppService, ('x, 'v, 'n, 'te, 'io) AppServiceError, 'n JValue) eff" where
  "service_call_module B E from_json to_json module_name func_name arguments cp =
    in_marine (call_with_json_async B E from_json to_json module_name func_name arguments cp)"

definition service_load_module :: "(('s, 'a, 'f, 'm, 'p) mworld, 'w, 'l, 'i, 'f, 'h, 'm, 'x) backend \<Rightarrow>
    (('s, 'a, 'f, 'm, 'p) mworld, 'm, 'p, 'x, 'v) it_engine \<Rightarrow> (('s, 'a, 'f, 'm, 'p) mworld, 'x) host_abi \<Rightarrow>
    'v::linorder sdk \<Rightarrow> (('s, 'a, 'f, 'm, 'p) mworld, 'mem, 'a, 'h, 'lf) marine_host \<Rightarrow> string \<Rightarrow> string \<Rightarrow> u8 list \<Rightarrow>
    ('x, 'v, 'n, 'te) MarineError + (('s, 'a, 'f, 'm, 'p) mworld, 'x) MarineModuleConfig option \<Rightarrow>
    (('s, 'a, 'i, 'f, 'm, 'p) AppService, ('x, 'v, 'n, 'te, 'io) AppServiceError, unit) eff" where
  "service_load_module B E A S H wasm_log_env name wasm_bytes config =
    in_marine (marine_load_module B E A S H wasm_log_env name wasm_bytes config)"

definition service_unload_module :: "string \<Rightarrow>
    (('s, 'a, 'i, 'f, 'm, 'p) AppService, ('x, 'v, 'n, 'te, 'io) AppServiceError, unit) eff" where
  "service_unload_module module_name = in_marine (marine_unload_module module_name)"

definition service_memory_stats :: "(('s, 'a, 'f, 'm, 'p) mworld, 'w, 'l, 'i, 'f, 'h, 'm, 'x) backend \<Rightarrow>
    (('s, 'a, 'i, 'f, 'm, 'p) AppService, ('x, 'v, 'n, 'te, 'io) AppServiceError, MemoryStats) eff" where
  "service_memory_stats B = in_marine (marine_memory_stats B)"

definition get_full_interface :: "('s, 'a, 'i, 'f, 'm, 'p) AppService \<Rightarrow> (string, MModuleInterface) hmap" where
  "get_full_interface s = marine_get_interface (as_marine s)"

subsection \<open>The interface of a service\<close>

record ServiceFunction =
  sf_name :: string
  sf_arguments :: "(string \<times> string) list"
  sf_output_types :: "string list"

record ServiceRecord =
  sr_name :: string
  sr_id :: u64
  sr_fields :: "(string \<times> string) list"

record ServiceInterface =
  si_function_signatures :: "ServiceFunction list"
  si_record_types :: "ServiceRecord list"

text \<open>\<open>None\<close> is the panic of \<open>itype_text_view\<close> on an unknown record.\<close>

definition service_function :: "IRecordTypes \<Rightarrow> MFunctionSignature \<Rightarrow> ServiceFunction option" where
  "service_function rts sig =
    Option.bind (those (List.map (\<lambda>arg. map_option (Pair (fa_name arg)) (itype_text_view (fa_ty arg) rts))
      (mfs_arguments sig))) (\<lambda>args.
    Option.bind (those (List.map (\<lambda>t. itype_text_view t rts) (mfs_outputs sig))) (\<lambda>output_types.
    Some \<lparr>sf_name = mfs_name sig, sf_arguments = args, sf_output_types = output_types\<rparr>))"

definition service_record :: "IRecordTypes \<Rightarrow> u64 \<times> IRecordType \<Rightarrow> ServiceRecord option" where
  "service_record rts = (\<lambda>(i, r).
    map_option (\<lambda>fields. \<lparr>sr_name = rt_name r, sr_id = i, sr_fields = fields\<rparr>)
      (those (List.map (\<lambda>f. map_option (Pair (rf_name f)) (itype_text_view (rf_ty f) rts)) (rt_fields r))))"

definition into_service_interface :: "MModuleInterface \<Rightarrow> ServiceInterface option" where
  "into_service_interface i =
    (let rts = mmi_record_types i in
     Option.bind (those (List.map (service_function rts) (mmi_function_signatures i))) (\<lambda>sigs.
     Option.bind (those (List.map (service_record rts) rts)) (\<lambda>recs.
     Some \<lparr>si_function_signatures = sigs, si_record_types = recs\<rparr>)))"

text \<open>\<open>None\<close> is a panic, also that of the \<open>unwrap\<close> on the facade.\<close>

definition service_get_interface :: "('s, 'a, 'i, 'f, 'm, 'p) AppService \<Rightarrow> ServiceInterface option" where
  "service_get_interface s =
    Option.bind (hm_get (facade_module_name s) (marine_get_interface (as_marine s))) into_service_interface"

end
