(* ===== verification/JsModuleInfo.thy ===== *)
theory JsModuleInfo
  imports WasmTypes
begin

text \<open>
  What the JavaScript backend reads from the bytes of a module,
  \<open>crates/js-backend/src/module_info.rs\<close>, and the custom sections every backend
  extracts, \<open>crates/wasm-backend-traits/src/impl_utils.rs\<close>.  The parser of the
  \<open>wasmparser\<close> crate is not modelled: the operations take the sequence of its results, and
  \<open>msg\<close> makes an error of a message.
\<close>

subsection \<open>What wasmparser delivers\<close>

datatype PValType = PV_I32 | PV_I64 | PV_F32 | PV_F64 | PV_V128 | PV_Ref

record PFuncType =
  pf_params :: "PValType list"
  pf_results :: "PValType list"

datatype StructuralType = ST_Func PFuncType | ST_Other

datatype TypeRef = TR_Func u32 | TR_Other

datatype ExternalKind = EK_Func | EK_Table | EK_Memory | EK_Global | EK_Tag

record PExport =
  pe_name :: string
  pe_kind :: ExternalKind
  pe_index :: u32

text \<open>A section is read item by item, each of which may be malformed.\<close>

datatype 'x Payload =
    TypeSection "('x + StructuralType) list"
  | ImportSection "('x + TypeRef) list"
  | FunctionSection "('x + u32) list"
  | ExportSection "('x + PExport) list"
  | CustomSection string "u8 list"
  | OtherPayload

subsection \<open>Module information\<close>

datatype ModuleExport = ME_Function FuncSig | ME_Memory | ME_Table | ME_Global

record JsModuleInfo =
  mi_custom_sections :: "(string, u8 list) multimap"
  mi_exports :: "(string, ModuleExport) hmap"

record ModuleInfoParser =
  mp_types :: "FuncSig option list"
  mp_functions :: "u32 list"
  mp_exports :: "PExport list"
  mp_sections :: "(string \<times> u8 list) list"

definition ModuleInfoParser_init :: ModuleInfoParser where
  "ModuleInfoParser_init = \<lparr>mp_types = [], mp_functions = [], mp_exports = [], mp_sections = []\<rparr>"

definition transform_err :: "'x \<Rightarrow> 'x ModuleCreationError" where
  "transform_err e = Creation_Other (Any_Other e)"

fun wtype_from_wasmparser_val :: "PValType \<Rightarrow> WType" where
  "wtype_from_wasmparser_val PV_I32 = T_I32"
| "wtype_from_wasmparser_val PV_I64 = T_I64"
| "wtype_from_wasmparser_val PV_F32 = T_F32"
| "wtype_from_wasmparser_val PV_F64 = T_F64"
| "wtype_from_wasmparser_val PV_V128 = T_V128"
| "wtype_from_wasmparser_val PV_Ref = T_ExternRef"

definition sig_from_wasmparser_ty :: "PFuncType \<Rightarrow> FuncSig" where
  "sig_from_wasmparser_ty ty =
    FuncSig_new (List.map wtype_from_wasmparser_val (pf_params ty))
      (List.map wtype_from_wasmparser_val (pf_results ty))"

fun structural_sig :: "StructuralType \<Rightarrow> FuncSig option" where
  "structural_sig (ST_Func ty) = Some (sig_from_wasmparser_ty ty)"
| "structural_sig ST_Other = None"

fun import_func_index :: "TypeRef \<Rightarrow> u32 option" where
  "import_func_index (TR_Func idx) = Some idx"
| "import_func_index TR_Other = None"

text \<open>One arm of the loop over the payloads each.\<close>

fun parse_payload :: "'x Payload \<Rightarrow> ModuleInfoParser \<Rightarrow> 'x ModuleCreationError + ModuleInfoParser" where
  "parse_payload (TypeSection types) p =
    foldR (\<lambda>p ty. bindR (map_err transform_err ty) (\<lambda>ty.
      Inr (p\<lparr>mp_types := mp_types p @ [structural_sig ty]\<rparr>))) p types"
| "parse_payload (ImportSection is) p =
    foldR (\<lambda>p i. bindR (map_err transform_err i) (\<lambda>i.
      Inr (case i of TR_Func idx \<Rightarrow> p\<lparr>mp_functions := mp_functions p @ [idx]\<rparr> | TR_Other \<Rightarrow> p))) p is"
| "parse_payload (FunctionSection functions) p =
    foldR (\<lambda>p f. bindR (map_err transform_err f) (\<lambda>f.
      Inr (p\<lparr>mp_functions := mp_functions p @ [f]\<rparr>))) p functions"
| "parse_payload (ExportSection exports) p =
    foldR (\<lambda>p e. bindR (map_err transform_err e) (\<lambda>e.
      Inr (p\<lparr>mp_exports := mp_exports p @ [e]\<rparr>))) p exports"
| "parse_payload (CustomSection name contents) p =
    Inr (p\<lparr>mp_sections := mp_sections p @ [(name, contents)]\<rparr>)"
| "parse_payload OtherPayload p = Inr p"

definition parse_module :: "('x + 'x Payload) list \<Rightarrow> ModuleInfoParser \<Rightarrow> 'x ModuleCreationError + ModuleInfoParser" where
  "parse_module payloads p =
    foldR (\<lambda>p payload. bindR (map_err transform_err payload) (\<lambda>payload. parse_payload payload p)) p payloads"

definition ModuleInfoParser_new :: "('x + 'x Payload) list \<Rightarrow> 'x ModuleCreationError + ModuleInfoParser" where
  "ModuleInfoParser_new payloads = parse_module payloads ModuleInfoParser_init"

definition nth_opt :: "'a list \<Rightarrow> u32 \<Rightarrow> 'a option" where
  "nth_opt xs i = (if unat i < length xs then Some (xs ! unat i) else None)"

definition function_sig :: "ModuleInfoParser \<Rightarrow> u32 \<Rightarrow> FuncSig option" where
  "function_sig p index =
    Option.bind (nth_opt (mp_functions p) index) (\<lambda>ty_index.
    Option.bind (nth_opt (mp_types p) ty_index) (\<lambda>sig. sig))"

definition extract_export :: "(string \<Rightarrow> 'x) \<Rightarrow> ModuleInfoParser \<Rightarrow> PExport \<Rightarrow>
  'x ModuleCreationError + (string \<times> ModuleExport)" where
  "extract_export msg p e =
    (case pe_kind e of
      EK_Func \<Rightarrow>
        (case function_sig p (pe_index e) of
          Some sig \<Rightarrow> Inr (pe_name e, ME_Function sig)
        | None \<Rightarrow> Inl (transform_err (msg ''Function export references non-function type, or the module is malformed'')))
    | EK_Table \<Rightarrow> Inr (pe_name e, ME_Table)
    | EK_Memory \<Rightarrow> Inr (pe_name e, ME_Memory)
    | EK_Global \<Rightarrow> Inr (pe_name e, ME_Global)
    | EK_Tag \<Rightarrow> Inl (transform_err (msg ''unknown extern type: Tag'')))"

definition hm_collect :: "('k \<times> 'v) list \<Rightarrow> ('k, 'v) hmap" where
  "hm_collect kvs = foldl (\<lambda>m (k, v). hm_insert k v m) [] kvs"

definition extract_exports :: "(string \<Rightarrow> 'x) \<Rightarrow> ModuleInfoParser \<Rightarrow> 'x ModuleCreationError + (string, ModuleExport) hmap" where
  "extract_exports msg p = bindR (mapR (extract_export msg p) (mp_exports p)) (\<lambda>kvs. Inr (hm_collect kvs))"

definition mm_collect :: "('k \<times> 'v) list \<Rightarrow> ('k, 'v) multimap" where
  "mm_collect kvs = foldl (\<lambda>m (k, v). mm_insert k v m) [] kvs"

definition extract_custom_sections :: "ModuleInfoParser \<Rightarrow> (string, u8 list) multimap" where
  "extract_custom_sections p = mm_collect (mp_sections p)"

definition into_module_info :: "(string \<Rightarrow> 'x) \<Rightarrow> ModuleInfoParser \<Rightarrow> 'x ModuleCreationError + JsModuleInfo" where
  "into_module_info msg p =
    bindR (extract_exports msg p) (\<lambda>exports.
    Inr \<lparr>mi_custom_sections = extract_custom_sections p, mi_exports = exports\<rparr>)"

definition ModuleInfo_from_bytes :: "(string \<Rightarrow> 'x) \<Rightarrow> ('x + 'x Payload) list \<Rightarrow> 'x ModuleCreationError + JsModuleInfo" where
  "ModuleInfo_from_bytes msg payloads = bindR (ModuleInfoParser_new payloads) (into_module_info msg)"

definition multimap_sections :: "(string, u8 list) multimap \<Rightarrow> string \<Rightarrow> u8 list list" where
  "multimap_sections m name = (case mm_get_vec name m of None \<Rightarrow> [] | Some sections \<Rightarrow> sections)"

text \<open>The custom sections of the traits crate; a malformed payload ends the reading.\<close>

fun custom_section_of :: "'x + 'x Payload \<Rightarrow> ('x + (string \<times> u8 list)) option" where
  "custom_section_of (Inl e) = Some (Inl e)"
| "custom_section_of (Inr (CustomSection name contents)) = Some (Inr (name, contents))"
| "custom_section_of (Inr _) = None"

definition traits_custom_sections :: "('x \<Rightarrow> string) \<Rightarrow> ('x + 'x Payload) list \<Rightarrow> string + (string, u8 list) multimap" where
  "traits_custom_sections to_string payloads =
    bindR (map_err to_string (mapR (\<lambda>s. s) (List.map_filter custom_section_of payloads))) (\<lambda>kvs.
    Inr (mm_collect kvs))"

subsection \<open>The index spaces of a module\<close>

text \<open>What a well formed module declares, in the order of its payloads.\<close>

definition rights :: "('e + 'a) list \<Rightarrow> 'a list" where
  "rights xs = List.map_filter (\<lambda>x. case x of Inl _ \<Rightarrow> None | Inr y \<Rightarrow> Some y) xs"

definition all_right :: "('e + 'a) list \<Rightarrow> bool" where
  "all_right xs \<longleftrightarrow> list_all (\<lambda>x. case x of Inl _ \<Rightarrow> False | Inr _ \<Rightarrow> True) xs"

lemma rights_simps [simp]:
  "rights [] = []" "rights (Inl e # xs) = rights xs" "rights (Inr y # xs) = y # rights xs"
  by (simp_all add: rights_def)

lemma all_right_simps [simp]:
  "all_right []" "\<not> all_right (Inl e # xs)" "all_right (Inr y # xs) \<longleftrightarrow> all_right xs"
  by (simp_all add: all_right_def)

fun payload_well_formed :: "'x Payload \<Rightarrow> bool" where
  "payload_well_formed (TypeSection xs) = all_right xs"
| "payload_well_formed (ImportSection xs) = all_right xs"
| "payload_well_formed (FunctionSection xs) = all_right xs"
| "payload_well_formed (ExportSection xs) = all_right xs"
| "payload_well_formed _ = True"

fun payload_types :: "'x Payload \<Rightarrow> StructuralType list" where
  "payload_types (TypeSection xs) = rights xs"
| "payload_types _ = []"

fun payload_functions :: "'x Payload \<Rightarrow> u32 list" where
  "payload_functions (ImportSection xs) = List.map_filter import_func_index (rights xs)"
| "payload_functions (FunctionSection xs) = rights xs"
| "payload_functions _ = []"

fun payload_exports :: "'x Payload \<Rightarrow> PExport list" where
  "payload_exports (ExportSection xs) = rights xs"
| "payload_exports _ = []"

fun payload_sections :: "'x Payload \<Rightarrow> (string \<times> u8 list) list" where
  "payload_sections (CustomSection name contents) = [(name, contents)]"
| "payload_sections _ = []"

definition parser_append :: "ModuleInfoParser \<Rightarrow> 'x Payload list \<Rightarrow> ModuleInfoParser" where
  "parser_append p payloads =
    \<lparr>mp_types = mp_types p @ List.map structural_sig (concat (List.map payload_types payloads)),
     mp_functions = mp_functions p @ concat (List.map payload_functions payloads),
     mp_exports = mp_exports p @ concat (List.map payload_exports payloads),
     mp_sections = mp_sections p @ concat (List.map payload_sections payloads)\<rparr>"

lemma foldR_items:
  "foldR (\<lambda>p i. bindR (map_err h i) (\<lambda>i. Inr (f p i))) p xs = Inr q \<longleftrightarrow>
   all_right xs \<and> q = foldl f p (rights xs)"
proof (induction xs arbitrary: p)
  case (Cons x xs)
  then show ?case
    by (cases x) auto
qed auto

lemma foldl_types: "foldl (\<lambda>p ty. p\<lparr>mp_types := mp_types p @ [g ty]\<rparr>) p xs = p\<lparr>mp_types := mp_types p @ List.map g xs\<rparr>"
  by (induction xs arbitrary: p) simp_all

lemma foldl_functions: "foldl (\<lambda>p f. p\<lparr>mp_functions := mp_functions p @ [f]\<rparr>) p xs = p\<lparr>mp_functions := mp_functions p @ xs\<rparr>"
  by (induction xs arbitrary: p) simp_all

lemma foldl_exports: "foldl (\<lambda>p f. p\<lparr>mp_exports := mp_exports p @ [f]\<rparr>) p xs = p\<lparr>mp_exports := mp_exports p @ xs\<rparr>"
  by (induction xs arbitrary: p) simp_all

lemma foldl_import_functions:
  "foldl (\<lambda>p i. case i of TR_Func idx \<Rightarrow> p\<lparr>mp_functions := mp_functions p @ [idx]\<rparr> | TR_Other \<Rightarrow> p) p xs =
   p\<lparr>mp_functions := mp_functions p @ List.map_filter import_func_index xs\<rparr>"
proof (induction xs arbitrary: p)
  case (Cons x xs)
  then show ?case
    by (cases x) (simp_all add: List.map_filter_simps)
qed (simp add: List.map_filter_simps)

lemma parse_payload_Inr:
  "parse_payload payload p = Inr q \<longleftrightarrow> payload_well_formed payload \<and> q = parser_append p [payload]"
  by (cases payload)
    (auto simp: foldR_items foldl_types foldl_functions foldl_exports foldl_import_functions parser_append_def)

lemma parser_append_Cons: "parser_append p (x # xs) = parser_append (parser_append p [x]) xs"
  by (simp add: parser_append_def)

lemma parser_append_Nil [simp]: "parser_append p [] = p"
  by (simp add: parser_append_def)

text \<open>Parsing succeeds exactly on well formed payloads, and collects them in order.\<close>

lemma parse_module_Inr:
  "parse_module payloads p = Inr q \<longleftrightarrow>
   all_right payloads \<and> (\<forall>payload\<in>set (rights payloads). payload_well_formed payload) \<and>
   q = parser_append p (rights payloads)"
proof (induction payloads arbitrary: p)
  case (Cons x payloads)
  then show ?case
  proof (cases x)
    case (Inr y)
    have "parse_module (x # payloads) p = Inr q \<longleftrightarrow>
        (\<exists>r. parse_payload y p = Inr r \<and> parse_module payloads r = Inr q)"
      using Inr by (simp add: parse_module_def bindR_Inr)
    then show ?thesis
      using Inr Cons.IH parser_append_Cons [of p y "rights payloads"] by (auto simp: parse_payload_Inr)
  qed (simp add: parse_module_def)
qed (auto simp: parse_module_def)

lemma hm_collect_mem:
  assumes "hm_get k (hm_collect kvs) = Some v"
  shows "(k, v) \<in> set kvs"
proof -
  have "hm_get k (foldl (\<lambda>m (k, v). hm_insert k v m) m kvs) = Some v \<Longrightarrow>
      hm_get k m = Some v \<or> (k, v) \<in> set kvs" for m
  proof (induction kvs arbitrary: m)
    case (Cons kv kvs)
    obtain a b where kv: "kv = (a, b)"
      by (cases kv)
    have "hm_get k (hm_insert a b m) = Some v \<or> (k, v) \<in> set kvs"
      by (rule Cons.IH) (use Cons.prems kv in simp)
    then show ?case
      by (auto simp: kv split: if_splits)
  qed simp
  from this [of "[]"] show ?thesis
    using assms by (simp add: hm_collect_def)
qed

lemma extract_export_function:
  "extract_export msg p e = Inr (name, ME_Function sig) \<longleftrightarrow>
   name = pe_name e \<and> pe_kind e = EK_Func \<and> function_sig p (pe_index e) = Some sig"
  by (auto simp: extract_export_def split: ExternalKind.splits option.splits)

text \<open>An exported function has the type that the index space of the functions gives it: imported
  functions first, then the module's own.\<close>

lemma js_export_signature:
  assumes "ModuleInfo_from_bytes msg payloads = Inr info"
    and "hm_get name (mi_exports info) = Some (ME_Function sig)"
  obtains e ty where "e \<in> set (concat (List.map payload_exports (rights payloads)))"
    "pe_name e = name" "pe_kind e = EK_Func"
    "nth_opt (concat (List.map payload_functions (rights payloads))) (pe_index e) = Some ty"
    "Option.bind (nth_opt (concat (List.map payload_types (rights payloads))) ty) structural_sig = Some sig"
proof -
  from assms(1) obtain p kvs where p: "ModuleInfoParser_new payloads = Inr p"
    and kvs: "mapR (extract_export msg p) (mp_exports p) = Inr kvs" and info: "mi_exports info = hm_collect kvs"
    by (auto simp: ModuleInfo_from_bytes_def into_module_info_def extract_exports_def bindR_Inr)
  have pp: "p = parser_append ModuleInfoParser_init (rights payloads)"
    using p by (simp add: ModuleInfoParser_new_def parse_module_Inr)
  have "(name, ME_Function sig) \<in> set kvs"
    using assms(2) hm_collect_mem unfolding info by fast
  then obtain e where "e \<in> set (mp_exports p)" "extract_export msg p e = Inr (name, ME_Function sig)"
    using mapR_Inr_mem [OF kvs] by blast
  moreover from this obtain ty where "nth_opt (mp_functions p) (pe_index e) = Some ty"
    "Option.bind (nth_opt (mp_types p) ty) (\<lambda>s. s) = Some sig"
    by (auto simp: extract_export_function function_sig_def bind_eq_Some_conv)
  ultimately show thesis
    using that unfolding pp
    by (auto simp: parser_append_def ModuleInfoParser_init_def extract_export_function nth_opt_def
        bind_eq_Some_conv split: if_splits)
qed

text \<open>Both readers of custom sections agree on a well formed module.\<close>

lemma extract_custom_sections_rights:
  assumes "all_right payloads"
  shows "mapR (\<lambda>s. s) (List.map_filter custom_section_of payloads) =
    Inr (concat (List.map payload_sections (rights payloads)))"
  using assms
proof (induction payloads)
  case (Cons x payloads)
  show ?case
  proof (cases x)
    case (Inr y)
    then show ?thesis
      using Cons by (cases y) (simp_all add: List.map_filter_simps)
  qed (use Cons in simp)
qed (simp add: List.map_filter_simps)

lemma backends_agree_on_custom_sections:
  assumes "ModuleInfo_from_bytes msg payloads = Inr info"
  shows "traits_custom_sections to_string payloads = Inr (mi_custom_sections info)"
proof -
  from assms obtain p where p: "ModuleInfoParser_new payloads = Inr p"
    and info: "mi_custom_sections info = extract_custom_sections p"
    by (auto simp: ModuleInfo_from_bytes_def into_module_info_def bindR_Inr)
  then have "all_right payloads" "mp_sections p = concat (List.map payload_sections (rights payloads))"
    by (simp_all add: ModuleInfoParser_new_def parse_module_Inr parser_append_def ModuleInfoParser_init_def)
  then show ?thesis
    using info by (simp add: traits_custom_sections_def extract_custom_sections_rights extract_custom_sections_def)
qed

end
