(* ===== verification/Floats.thy ===== *)
theory Floats
  imports Prelude
begin

text \<open>
  Rust's casts between floats and integers, on the bit patterns that stand for the floats: a binary
  format has \<open>p\<close> fraction bits and \<open>w\<close> exponent bits.  A finite float is a
  sign, a magnitude and an exponent, of value \<open>m * 2 powr e\<close>; encoding rounds to
  nearest, ties to even.  The payload of a NaN a cast makes is not specified by Rust; here it is the
  quiet NaN.
\<close>

subsection \<open>Number of bits\<close>

fun bit_length :: "nat \<Rightarrow> nat" where
  "bit_length n = (if n = 0 then 0 else Suc (bit_length (n div 2)))"

declare bit_length.simps [simp del]

lemma bit_length_0 [simp]: "bit_length 0 = 0"
  by (simp add: bit_length.simps)

lemma bit_length_pos: "0 < n \<Longrightarrow> bit_length n = Suc (bit_length (n div 2))"
  by (subst bit_length.simps) simp

lemma bit_length_le_iff: "bit_length n \<le> b \<longleftrightarrow> n < 2 ^ b"
proof (induction n arbitrary: b rule: bit_length.induct)
  case (1 n)
  show ?case
  proof (cases "n = 0")
    case False
    then show ?thesis
      using 1 by (cases b) (auto simp: bit_length_pos less_mult_imp_div_less div_less_iff_less_mult mult.commute)
  qed simp
qed

lemma bit_length_scale: "0 < n \<Longrightarrow> bit_length (n * 2 ^ k) = bit_length n + k"
proof (induction k)
  case (Suc k)
  have "n * 2 ^ Suc k div 2 = n * 2 ^ k"
    by simp
  then show ?case
    using Suc bit_length_pos [of "n * 2 ^ Suc k"] by simp
qed simp

lemma bit_length_lower: "0 < n \<Longrightarrow> 2 ^ (bit_length n - 1) \<le> n"
  using bit_length_le_iff [of n "bit_length n - 1"] bit_length_pos [of n] by simp

subsection \<open>Formats\<close>

datatype fval = FNaN | FInf bool | FFin bool nat int

definition f_bias :: "nat \<Rightarrow> int" where
  "f_bias w = 2 ^ (w - 1) - 1"

text \<open>The exponent of the least significant bit of the subnormal numbers.\<close>

definition f_emin :: "nat \<Rightarrow> nat \<Rightarrow> int" where
  "f_emin p w = 1 - f_bias w - int p"

definition f_decode :: "nat \<Rightarrow> nat \<Rightarrow> nat \<Rightarrow> fval" where
  "f_decode p w n =
    (let s = odd (n div 2 ^ (p + w)); ex = n div 2 ^ p mod 2 ^ w; fr = n mod 2 ^ p in
     if ex = 2 ^ w - 1 then (if fr = 0 then FInf s else FNaN)
     else if ex = 0 then FFin s fr (f_emin p w)
     else FFin s (fr + 2 ^ p) (f_emin p w + int (ex - 1)))"

definition f_round :: "nat \<Rightarrow> nat \<Rightarrow> nat" where
  "f_round m d =
    (let q = m div 2 ^ d; r = m mod 2 ^ d in
     if 2 ^ d < 2 * r \<or> 2 * r = 2 ^ d \<and> odd q then q + 1 else q)"

definition f_target :: "nat \<Rightarrow> nat \<Rightarrow> nat \<Rightarrow> int \<Rightarrow> int" where
  "f_target p w m e = max (f_emin p w) (e + int (bit_length m) - int (p + 1))"

definition f_scale :: "nat \<Rightarrow> int \<Rightarrow> int \<Rightarrow> nat" where
  "f_scale m e t = (if t \<le> e then m * 2 ^ nat (e - t) else f_round m (nat (t - e)))"

definition f_pack :: "nat \<Rightarrow> nat \<Rightarrow> bool \<Rightarrow> nat \<Rightarrow> nat" where
  "f_pack p w s n = (if s then 2 ^ (p + w) else 0) + min n ((2 ^ w - 1) * 2 ^ p)"

fun f_encode :: "nat \<Rightarrow> nat \<Rightarrow> fval \<Rightarrow> nat" where
  "f_encode p w FNaN = (2 ^ w - 1) * 2 ^ p + 2 ^ (p - 1)"
| "f_encode p w (FInf s) = f_pack p w s ((2 ^ w - 1) * 2 ^ p)"
| "f_encode p w (FFin s m e) =
    (let t = if m = 0 then f_emin p w else f_target p w m e in
     f_pack p w s (nat (t - f_emin p w) * 2 ^ p + f_scale m e t))"

definition f_is_nan :: "nat \<Rightarrow> nat \<Rightarrow> nat \<Rightarrow> bool" where
  "f_is_nan p w n \<longleftrightarrow> f_decode p w n = FNaN"

subsection \<open>Encoding what was decoded\<close>

lemma two_le_power: "0 < w \<Longrightarrow> (2 :: nat) \<le> 2 ^ w"
  using power_increasing [of 1 w "2 :: nat"] by simp

lemma exponents_fill: "(2 ^ w - 1) * 2 ^ p + 2 ^ p = (2 :: nat) ^ (p + w)"
proof -
  have "(2 ^ w - 1) * 2 ^ p + 2 ^ p = (2 ^ w - 1 + 1) * (2 :: nat) ^ p"
    by (simp only: distrib_right mult_1)
  also have "\<dots> = 2 ^ (p + w)"
    by (simp add: power_add)
  finally show ?thesis .
qed

lemma odd_div_top: "n < 2 ^ (p + w + 1) \<Longrightarrow> odd (n div 2 ^ (p + w)) \<longleftrightarrow> 2 ^ (p + w) \<le> (n :: nat)"
proof -
  assume "n < 2 ^ (p + w + 1)"
  then have "n div 2 ^ (p + w) < 2"
    by (simp add: less_mult_imp_div_less)
  moreover have "0 < n div 2 ^ (p + w) \<longleftrightarrow> 2 ^ (p + w) \<le> n"
    by (simp add: div_greater_zero_iff)
  ultimately show ?thesis
    by (cases "n div 2 ^ (p + w)") auto
qed

lemma bits_split:
  fixes n :: nat
  assumes "n < 2 ^ (p + w + 1)"
  shows "n = (if odd (n div 2 ^ (p + w)) then 2 ^ (p + w) else 0) + (n div 2 ^ p mod 2 ^ w) * 2 ^ p + n mod 2 ^ p"
proof -
  have top: "n div 2 ^ (p + w) < 2"
    using assms by (simp add: less_mult_imp_div_less)
  have "n div 2 ^ p = (n div 2 ^ (p + w)) * 2 ^ w + n div 2 ^ p mod 2 ^ w"
    by (metis div_mult2_eq div_mult_mod_eq power_add)
  moreover have "n = n div 2 ^ p * 2 ^ p + n mod 2 ^ p"
    by (simp only: div_mult_mod_eq)
  ultimately have "n = ((n div 2 ^ (p + w)) * 2 ^ w + n div 2 ^ p mod 2 ^ w) * 2 ^ p + n mod 2 ^ p"
    by metis
  then have "n = (n div 2 ^ (p + w)) * 2 ^ (p + w) + (n div 2 ^ p mod 2 ^ w) * 2 ^ p + n mod 2 ^ p"
    by (simp add: algebra_simps power_add)
  moreover have "(n div 2 ^ (p + w)) * 2 ^ (p + w) = (if odd (n div 2 ^ (p + w)) then 2 ^ (p + w) else 0)"
    using top by (cases "n div 2 ^ (p + w)") auto
  ultimately show ?thesis
    by (simp only:)
qed

lemma f_scale_same [simp]: "f_scale m e e = m"
  by (simp add: f_scale_def)

lemma f_encode_subnormal:
  assumes "m < 2 ^ p" "0 < w"
  shows "f_encode p w (FFin s m (f_emin p w)) = (if s then 2 ^ (p + w) else 0) + m"
proof -
  have "bit_length m \<le> p"
    using assms by (simp add: bit_length_le_iff)
  then have "f_target p w m (f_emin p w) = f_emin p w"
    by (simp add: f_target_def)
  moreover have "m \<le> (2 ^ w - 1) * 2 ^ p"
  proof -
    have "(1 :: nat) \<le> 2 ^ w - 1"
      using two_le_power [OF assms(2)] by linarith
    then have "2 ^ p \<le> (2 ^ w - 1) * (2 :: nat) ^ p"
      by simp
    then show ?thesis
      using assms by linarith
  qed
  ultimately show ?thesis
    by (simp add: f_pack_def Let_def)
qed

lemma f_encode_normal:
  assumes "fr < 2 ^ p" "0 < ex" "ex < 2 ^ w - 1"
  shows "f_encode p w (FFin s (fr + 2 ^ p) (f_emin p w + int (ex - 1))) =
    (if s then 2 ^ (p + w) else 0) + ex * 2 ^ p + fr"
proof -
  have "bit_length (fr + 2 ^ p) = p + 1"
  proof (rule antisym)
    show "bit_length (fr + 2 ^ p) \<le> p + 1"
      using assms by (simp add: bit_length_le_iff)
    have "\<not> bit_length (fr + 2 ^ p) \<le> p"
      by (simp add: bit_length_le_iff)
    then show "p + 1 \<le> bit_length (fr + 2 ^ p)"
      by simp
  qed
  then have "f_target p w (fr + 2 ^ p) (f_emin p w + int (ex - 1)) = f_emin p w + int (ex - 1)"
    by (simp add: f_target_def)
  moreover have "(ex - 1) * 2 ^ p + (fr + 2 ^ p) = ex * 2 ^ p + fr"
    using assms by (cases ex) auto
  moreover have "ex * 2 ^ p + fr \<le> (2 ^ w - 1) * 2 ^ p"
  proof -
    have "Suc ex * 2 ^ p \<le> (2 ^ w - 1) * 2 ^ p"
      using assms by (intro mult_le_mono1) linarith
    then show ?thesis
      using assms by simp
  qed
  ultimately show ?thesis
    by (simp add: f_pack_def Let_def)
qed

lemma f_encode_decode:
  assumes "n < 2 ^ (p + w + 1)" "0 < w" "f_decode p w n \<noteq> FNaN"
  shows "f_encode p w (f_decode p w n) = n"
proof -
  define s ex fr where "s = odd (n div 2 ^ (p + w))" "ex = n div 2 ^ p mod 2 ^ w" "fr = n mod 2 ^ p"
  have n: "n = (if s then 2 ^ (p + w) else 0) + ex * 2 ^ p + fr"
    using bits_split [OF assms(1)] unfolding s_ex_fr_def .
  have lt: "fr < 2 ^ p" "ex < 2 ^ w"
    by (simp_all add: s_ex_fr_def)
  have dec: "f_decode p w n =
     (if ex = 2 ^ w - 1 then (if fr = 0 then FInf s else FNaN)
     else if ex = 0 then FFin s fr (f_emin p w)
     else FFin s (fr + 2 ^ p) (f_emin p w + int (ex - 1)))"
    by (simp add: f_decode_def Let_def s_ex_fr_def)
  consider "ex = 2 ^ w - 1" | "ex \<noteq> 2 ^ w - 1" "ex = 0" | "0 < ex" "ex < 2 ^ w - 1"
    using lt by linarith
  then show ?thesis
  proof cases
    case 1
    then have "fr = 0"
      using assms dec by (simp split: if_splits)
    then show ?thesis
      using 1 dec n by (simp add: f_pack_def)
  next
    case 2
    then have "f_encode p w (f_decode p w n) = (if s then 2 ^ (p + w) else 0) + fr"
      using dec f_encode_subnormal [OF lt(1) assms(2), of s] by (simp del: f_encode.simps)
    then show ?thesis
      using 2 n by simp
  next
    case 3
    then have "f_encode p w (f_decode p w n) = (if s then 2 ^ (p + w) else 0) + ex * 2 ^ p + fr"
      using dec f_encode_normal [OF lt(1) 3, of s] by (simp del: f_encode.simps)
    then show ?thesis
      using n by simp
  qed
qed

subsection \<open>Scaling\<close>

lemma f_round_scale: "f_round (m * 2 ^ k) (k + d) = f_round m d"
proof -
  have "m * 2 ^ k div 2 ^ (k + d) = m div 2 ^ d"
    by (simp add: power_add mult.commute [of m])
  moreover have "m * 2 ^ k mod 2 ^ (k + d) = 2 ^ k * (m mod 2 ^ d)"
    by (simp add: power_add mult.commute [of m])
  moreover have "2 ^ (k + d) < 2 * (2 ^ k * (m mod 2 ^ d)) \<longleftrightarrow> 2 ^ d < 2 * (m mod 2 ^ d)"
  proof -
    have "2 * (2 ^ k * (m mod 2 ^ d)) = 2 ^ k * (2 * (m mod 2 ^ d))"
      by simp
    then show ?thesis
      by (simp only: power_add) simp
  qed
  moreover have "2 * (2 ^ k * (m mod 2 ^ d)) = 2 ^ (k + d) \<longleftrightarrow> 2 * (m mod 2 ^ d) = 2 ^ d"
  proof -
    have "2 * (2 ^ k * (m mod 2 ^ d)) = 2 ^ k * (2 * (m mod 2 ^ d))"
      by simp
    then show ?thesis
      by (simp only: power_add) simp
  qed
  ultimately show ?thesis
    by (simp add: f_round_def Let_def)
qed

lemma f_round_exact: "f_round (m * 2 ^ d) d = m"
  by (simp add: f_round_def Let_def)

lemma f_round_0 [simp]: "f_round 0 d = 0"
  by (simp add: f_round_def Let_def)

lemma f_scale_scale: "f_scale (m * 2 ^ k) (e - int k) t = f_scale m e t"
proof -
  consider "t \<le> e - int k" | "e - int k < t" "t \<le> e" | "e < t"
    by linarith
  then show ?thesis
  proof cases
    case 1
    then have "k + nat (e - int k - t) = nat (e - t)"
      by simp
    then have "m * 2 ^ k * 2 ^ nat (e - int k - t) = m * 2 ^ nat (e - t)"
      by (metis mult.assoc power_add)
    then show ?thesis
      using 1 by (simp add: f_scale_def)
  next
    case 2
    then have "nat (t - (e - int k)) + nat (e - t) = k"
      by simp
    then have "m * 2 ^ k = (m * 2 ^ nat (e - t)) * 2 ^ nat (t - (e - int k))"
      by (metis add.commute mult.assoc power_add)
    then show ?thesis
      using 2 by (simp only: f_scale_def f_round_exact) simp
  next
    case 3
    then have "nat (t - (e - int k)) = k + nat (t - e)"
      by simp
    then show ?thesis
      using 3 by (simp add: f_scale_def f_round_scale)
  qed
qed

lemma f_encode_scale: "f_encode p w (FFin s (m * 2 ^ k) (e - int k)) = f_encode p w (FFin s m e)"
proof (cases "m = 0")
  case True
  then show ?thesis
    by (simp add: f_scale_def Let_def)
next
  case False
  then have "f_target p w (m * 2 ^ k) (e - int k) = f_target p w m e"
    by (simp add: f_target_def bit_length_scale)
  then show ?thesis
    using False by (simp add: f_scale_scale)
qed

subsection \<open>Decoding what was encoded\<close>

lemma f_decode_fields:
  assumes "fr < 2 ^ p" "0 < ex" "ex < 2 ^ w - 1"
  shows "f_decode p w ((if s then 2 ^ (p + w) else 0) + ex * 2 ^ p + fr) =
    FFin s (fr + 2 ^ p) (f_emin p w + int (ex - 1))"
proof -
  let ?n = "(if s then 2 ^ (p + w) else 0) + ex * 2 ^ p + fr"
  have low: "?n = ((if s then 2 ^ w else 0) + ex) * 2 ^ p + fr"
    by (simp add: algebra_simps power_add)
  have ex: "ex < 2 ^ w"
    using assms by linarith
  have fr: "?n mod 2 ^ p = fr"
    unfolding low using assms by simp
  have q: "?n div 2 ^ p = (if s then 2 ^ w else 0) + ex"
    unfolding low using assms by simp
  have "?n div 2 ^ p mod 2 ^ w = ex"
    unfolding q using ex by simp
  moreover have "odd (?n div 2 ^ (p + w)) = s"
  proof -
    have "?n div 2 ^ (p + w) = ?n div 2 ^ p div 2 ^ w"
      by (metis div_mult2_eq power_add)
    then have "?n div 2 ^ (p + w) = ((if s then 2 ^ w else 0) + ex) div 2 ^ w"
      by (simp only: q)
    then show ?thesis
      using ex by (simp add: div_add_self1)
  qed
  ultimately show ?thesis
    using assms fr by (simp add: f_decode_def Let_def)
qed

text \<open>A number whose bits fit, in the range of the normal numbers, is stored exactly.\<close>

lemma f_decode_encode_exact:
  assumes "0 < m" "bit_length m \<le> p + 1"
    and "f_emin p w \<le> e + int (bit_length m) - int (p + 1)"
    and "e + int (bit_length m) - int (p + 1) + 2 < f_emin p w + 2 ^ w - 1"
  shows "f_decode p w (f_encode p w (FFin s m e)) =
    FFin s (m * 2 ^ (p + 1 - bit_length m)) (e - int (p + 1 - bit_length m))"
proof -
  define k where "k = p + 1 - bit_length m"
  define t where "t = e - int k"
  define ex where "ex = nat (t - f_emin p w) + 1"
  have t: "t = e + int (bit_length m) - int (p + 1)"
    using assms by (simp add: t_def k_def)
  have len: "bit_length (m * 2 ^ k) = p + 1"
    using assms by (simp add: bit_length_scale k_def)
  have hi: "m * 2 ^ k < 2 ^ (p + 1)"
    using bit_length_le_iff [of "m * 2 ^ k" "p + 1"] len by simp
  have lo: "2 ^ p \<le> m * 2 ^ k"
    using bit_length_lower [of "m * 2 ^ k"] len assms by simp
  have ex: "0 < ex" "ex < 2 ^ w - 1"
  proof -
    have "int ex + 1 < 2 ^ w"
      using assms t by (simp add: ex_def)
    then have "int (ex + 1) < int (2 ^ w)"
      by simp
    then show "ex < 2 ^ w - 1"
      by (simp only: of_nat_less_iff)
  qed (simp add: ex_def)
  have fr: "m * 2 ^ k - 2 ^ p < 2 ^ p"
    using hi lo by simp
  have "f_target p w m e = t"
    using assms t by (simp add: f_target_def)
  moreover have "f_scale m e t = m * 2 ^ k"
    by (simp add: f_scale_def t_def)
  moreover have "nat (t - f_emin p w) * 2 ^ p + m * 2 ^ k = ex * 2 ^ p + (m * 2 ^ k - 2 ^ p)"
    using lo by (simp add: ex_def)
  moreover have "ex * 2 ^ p + (m * 2 ^ k - 2 ^ p) \<le> (2 ^ w - 1) * 2 ^ p"
  proof -
    have "Suc ex * 2 ^ p \<le> (2 ^ w - 1) * 2 ^ p"
      using ex by (intro mult_le_mono1) linarith
    then show ?thesis
      using fr by simp
  qed
  ultimately have "f_encode p w (FFin s m e) =
      (if s then 2 ^ (p + w) else 0) + ex * 2 ^ p + (m * 2 ^ k - 2 ^ p)"
    using assms by (simp add: f_pack_def Let_def)
  moreover have "f_emin p w + int (ex - 1) = t"
    using assms t by (simp add: ex_def)
  ultimately show ?thesis
    using f_decode_fields [OF fr ex, of s] lo by (simp add: k_def t_def)
qed

lemma f_decode_encode_zero:
  "0 < w \<Longrightarrow> f_decode p w (f_encode p w (FFin s 0 e)) = FFin s 0 (f_emin p w)"
  using two_le_power [of w] by (simp add: f_decode_def f_pack_def f_scale_def Let_def power_add)

lemma f_encode_bound:
  assumes "0 < p" "0 < w"
  shows "f_encode p w v < 2 ^ (p + w + 1)"
proof -
  note one = exponents_fill [of w p]
  have pack: "f_pack p w s n < 2 ^ (p + w + 1)" for s n
  proof -
    have "min n ((2 ^ w - 1) * 2 ^ p) < 2 ^ (p + w)"
      using one by (smt (verit) less_add_same_cancel1 min.cobounded2 order_le_less_trans zero_less_numeral zero_less_power)
    then show ?thesis
      by (simp add: f_pack_def)
  qed
  have "(2 :: nat) ^ (p - 1) < 2 ^ p"
    using assms by simp
  then have "(2 ^ w - 1) * 2 ^ p + 2 ^ (p - 1) < (2 :: nat) ^ (p + w)"
    using one by linarith
  then have nan: "f_encode p w FNaN < 2 ^ (p + w + 1)"
    by simp
  show ?thesis
    by (cases v) (use nan pack in \<open>simp_all add: Let_def\<close>)
qed

subsection \<open>Casts\<close>

definition f32_decode :: "u32 \<Rightarrow> fval" where
  "f32_decode x = f_decode 23 8 (unat x)"

definition f64_decode :: "u64 \<Rightarrow> fval" where
  "f64_decode x = f_decode 52 11 (unat x)"

definition f32_as_f64 :: "u32 \<Rightarrow> u64" where
  "f32_as_f64 x = word_of_nat (f_encode 52 11 (f32_decode x))"

definition f64_as_f32 :: "u64 \<Rightarrow> u32" where
  "f64_as_f32 x = word_of_nat (f_encode 23 8 (f64_decode x))"

definition i32_as_f64 :: "u32 \<Rightarrow> u64" where
  "i32_as_f64 x = word_of_nat (f_encode 52 11 (FFin (sint x < 0) (nat \<bar>sint x\<bar>) 0))"

definition f_trunc :: "bool \<Rightarrow> nat \<Rightarrow> int \<Rightarrow> int" where
  "f_trunc s m e =
    (let a = int (if 0 \<le> e then m * 2 ^ nat e else m div 2 ^ nat (- e)) in if s then - a else a)"

text \<open>A float is truncated towards zero and saturates at the bounds of the integer type.\<close>

fun fval_as_i32 :: "fval \<Rightarrow> u32" where
  "fval_as_i32 FNaN = 0"
| "fval_as_i32 (FInf s) = word_of_int (if s then - (2 ^ 31) else 2 ^ 31 - 1)"
| "fval_as_i32 (FFin s m e) = word_of_int (max (- (2 ^ 31)) (min (2 ^ 31 - 1) (f_trunc s m e)))"

definition f64_as_i32 :: "u64 \<Rightarrow> u32" where
  "f64_as_i32 x = fval_as_i32 (f64_decode x)"

definition f32_as_i32 :: "u32 \<Rightarrow> u32" where
  "f32_as_i32 x = fval_as_i32 (f32_decode x)"

lemma f64_decode_of_nat: "f64_decode (word_of_nat (f_encode 52 11 v)) = f_decode 52 11 (f_encode 52 11 v)"
  using f_encode_bound [of 52 11 v] by (simp add: f64_decode_def unat_of_nat_u64)

lemma f32_decode_range:
  assumes "f32_decode x = FFin s m e"
  shows "m < 2 ^ 24 \<and> - 149 \<le> e \<and> e \<le> 104"
proof -
  define ex fr where "ex = unat x div 2 ^ 23 mod 2 ^ 8" "fr = unat x mod 2 ^ 23"
  have lt: "fr < 2 ^ 23" "ex < 2 ^ 8"
    by (simp_all add: ex_fr_def)
  have "f32_decode x = (if ex = 255 then (if fr = 0 then FInf (odd (unat x div 2 ^ 31)) else FNaN)
     else if ex = 0 then FFin (odd (unat x div 2 ^ 31)) fr (- 149)
     else FFin (odd (unat x div 2 ^ 31)) (fr + 2 ^ 23) (- 149 + int (ex - 1)))"
    by (simp add: f32_decode_def f_decode_def Let_def ex_fr_def f_emin_def f_bias_def)
  then show ?thesis
    using assms lt by (auto split: if_splits)
qed

lemma f32_encode_decode: "f32_decode x \<noteq> FNaN \<Longrightarrow> f_encode 23 8 (f32_decode x) = unat x"
  using f_encode_decode [of "unat x" 23 8] unat_u32_less [of x] by (simp add: f32_decode_def)

lemma f64_exact:
  assumes "m < 2 ^ 32" "- 149 \<le> e" "e \<le> 104"
  shows "\<exists>k. f_decode 52 11 (f_encode 52 11 (FFin s m e)) =
    (if m = 0 then FFin s 0 (- 1074) else FFin s (m * 2 ^ k) (e - int k))"
proof (cases "m = 0")
  case True
  then show ?thesis
    using f_decode_encode_zero [of 11 52 s e] by (simp add: f_emin_def f_bias_def)
next
  case False
  have "bit_length m \<le> 32"
    using assms(1) by (simp only: bit_length_le_iff)
  then show ?thesis
    using False assms f_decode_encode_exact [of m 52 11 e s]
    by (intro exI [of _ "53 - bit_length m"]) (simp add: f_emin_def f_bias_def)
qed

text \<open>Widening and narrowing gives every float back that is not a NaN.\<close>

lemma f32_f64_f32:
  assumes "f32_decode x \<noteq> FNaN"
  shows "f64_as_f32 (f32_as_f64 x) = x"
proof -
  have "f_encode 23 8 (f64_decode (f32_as_f64 x)) = f_encode 23 8 (f32_decode x)"
  proof (cases "f32_decode x")
    case (FFin s m e)
    then have r: "m < 2 ^ 24" "- 149 \<le> e" "e \<le> 104"
      using f32_decode_range by blast+
    then have "m < 2 ^ 32"
      by simp
    from f64_exact [OF this r(2,3), of s] obtain k where
      dec: "f_decode 52 11 (f_encode 52 11 (FFin s m e)) =
        (if m = 0 then FFin s 0 (- 1074) else FFin s (m * 2 ^ k) (e - int k))"
      by blast
    then have dec: "f64_decode (f32_as_f64 x) =
        (if m = 0 then FFin s 0 (- 1074) else FFin s (m * 2 ^ k) (e - int k))"
      by (simp only: f32_as_f64_def f64_decode_of_nat FFin)
    show ?thesis
    proof (cases "m = 0")
      case True
      then show ?thesis
        using dec FFin by (simp add: f_scale_def Let_def)
    next
      case False
      then show ?thesis
        using dec FFin by (simp only: f_encode_scale if_False)
    qed
  next
    case (FInf s)
    have "f_decode 52 11 (f_encode 52 11 (FInf s)) = FInf s"
      by (simp add: f_pack_def f_decode_def)
    then have "f64_decode (f32_as_f64 x) = FInf s"
      by (simp only: f32_as_f64_def f64_decode_of_nat FInf)
    then show ?thesis
      using FInf by simp
  qed (use assms in simp)
  then show ?thesis
    using f32_encode_decode [OF assms] by (simp add: f64_as_f32_def)
qed

lemma i32_f64_i32: "f64_as_i32 (i32_as_f64 x) = x"
proof -
  have r: "- (2 ^ 31) \<le> sint x" "sint x < 2 ^ 31"
    using sint_ge [of x] sint_lt [of x] by simp_all
  define m s where "m = nat \<bar>sint x\<bar>" "s = (sint x < 0)"
  have "m < 2 ^ 32"
    using r by (simp add: m_s_def)
  from f64_exact [OF this, of 0 s] obtain k where
    "f_decode 52 11 (f_encode 52 11 (FFin s m 0)) =
      (if m = 0 then FFin s 0 (- 1074) else FFin s (m * 2 ^ k) (0 - int k))"
    by auto
  then have dec: "f64_decode (i32_as_f64 x) =
      (if m = 0 then FFin s 0 (- 1074) else FFin s (m * 2 ^ k) (- int k))"
    by (simp only: i32_as_f64_def f64_decode_of_nat m_s_def diff_0)
  have "f_trunc s (m * 2 ^ k) (- int k) = sint x"
    by (auto simp: f_trunc_def m_s_def Let_def)
  moreover have "m = 0 \<Longrightarrow> f_trunc s 0 (- 1074) = sint x"
    by (simp add: f_trunc_def m_s_def)
  ultimately show ?thesis
    using dec r by (auto simp: f64_as_i32_def)
qed

end
