(* ===== verification/JsBackend.thy ===== *)
theory JsBackend
  imports JsModuleInfo Floats Effects
begin

text \<open>
  The JavaScript backend: \<open>crates/js-backend/src/{js_conversions,store,function,imports,instance,
  caller,module}.rs\<close> and \<open>wasi/mod.rs\<close>.  Everything the backend hands out is a handle into the
  store; handles are positions in the vectors of the store and indexing past the end panics.

  The objects of the JavaScript engine are opaque; the operations of \<open>js_sys\<close> and
  \<open>wasm_bindgen\<close> that the code calls are the record \<open>js_api\<close>.  A closure the backend wraps
  for JavaScript is \<open>HostClosure\<close>, with the identity of the Rust closure; \<open>raw\<close> runs it.
\<close>

subsection \<open>Values\<close>

record ('j, 'x) js_values =
  from_i32 :: "u32 \<Rightarrow> 'j"
  from_i64 :: "u64 \<Rightarrow> 'j"
  from_f32 :: "u32 \<Rightarrow> 'j"
  from_f64 :: "u64 \<Rightarrow> 'j"
  as_f64 :: "'j \<Rightarrow> u64 option"
  try_into_i64 :: "'j \<Rightarrow> u64 option"
  array_from_iter :: "'j list \<Rightarrow> 'j"
  array_length :: "'j \<Rightarrow> u32"
  array_get :: "'j \<Rightarrow> u32 \<Rightarrow> 'j"
  error_msg :: "string \<Rightarrow> 'x"

fun js_from_wval :: "('j, 'x) js_values \<Rightarrow> WValue \<Rightarrow> 'j" where
  "js_from_wval J (V_I32 x) = from_i32 J x"
| "js_from_wval J (V_I64 x) = from_i64 J x"
| "js_from_wval J (V_F32 x) = from_f32 J x"
| "js_from_wval J (V_F64 x) = from_f64 J x"

definition js_array_from_wval_array :: "('j, 'x) js_values \<Rightarrow> WValue list \<Rightarrow> 'j" where
  "js_array_from_wval_array J values = array_from_iter J (List.map (js_from_wval J) values)"

fun wval_to_i32 :: "WValue \<Rightarrow> u32" where
  "wval_to_i32 (V_I32 x) = x"
| "wval_to_i32 (V_I64 x) = ucast x"
| "wval_to_i32 (V_F32 x) = f32_as_i32 x"
| "wval_to_i32 (V_F64 x) = f64_as_i32 x"

text \<open>\<open>None\<close> is a panic: a value of another kind, or a type the backend does not support.\<close>

fun wval_from_js :: "('j, 'x) js_values \<Rightarrow> WType \<Rightarrow> 'j \<Rightarrow> WValue option" where
  "wval_from_js J T_I32 v = map_option (\<lambda>d. V_I32 (f64_as_i32 d)) (as_f64 J v)"
| "wval_from_js J T_I64 v = map_option V_I64 (try_into_i64 J v)"
| "wval_from_js J T_F32 v = map_option (\<lambda>d. V_F32 (f64_as_f32 d)) (as_f64 J v)"
| "wval_from_js J T_F64 v = map_option V_F64 (as_f64 J v)"
| "wval_from_js J T_V128 v = None"
| "wval_from_js J T_ExternRef v = None"
| "wval_from_js J T_FuncRef v = None"

text \<open>The index is kept as the \<open>u32\<close> the code casts it to.\<close>

fun wvals_from_js :: "('j, 'x) js_values \<Rightarrow> 'j \<Rightarrow> nat \<Rightarrow> WType list \<Rightarrow> WValue list option" where
  "wvals_from_js J a i [] = Some []"
| "wvals_from_js J a i (ty # tys) =
    Option.bind (wval_from_js J ty (array_get J a (word_of_nat i))) (\<lambda>v.
    map_option (\<lambda>vs. v # vs) (wvals_from_js J a (Suc i) tys))"

definition wval_array_from_js_array :: "('j, 'x) js_values \<Rightarrow> 'j \<Rightarrow> WType list \<Rightarrow> WValue list option" where
  "wval_array_from_js_array J js_values types = wvals_from_js J js_values 0 types"

definition extract_function_results :: "('j, 'x) js_values \<Rightarrow> 'j \<Rightarrow> WType list \<Rightarrow>
  ('x RuntimeError + WValue list) option" where
  "extract_function_results J result result_types =
    (case result_types of
      [] \<Rightarrow> Some (Inr [])
    | [ty] \<Rightarrow> map_option (\<lambda>v. Inr [v]) (wval_from_js J ty result)
    | _ \<Rightarrow>
        (if unat (array_length J result) \<noteq> length result_types
         then Some (Inl (IncorrectResultsNumber (word_of_nat (length result_types)) (ucast (array_length J result))))
         else map_option Inr (wval_array_from_js_array J result result_types)))"

subsection \<open>The store\<close>

datatype JsInstance = JsInstance (store_handle: nat)

datatype HostImportFunction = HostImportFunction (hf_handle: nat)

record WasmExportFunction =
  ef_handle :: nat
  bound_instance :: JsInstance

datatype ('h, 'e) JsFunction = HostClosure FuncSig 'h | WasmFunction 'e

record ('h, 'e) StoredFunction =
  js_function :: "('h, 'e) JsFunction"
  stored_signature :: FuncSig

datatype 'm JsExport = Export_Memory 'm | Export_Function WasmExportFunction | Export_Other

record ('i, 'm) StoredInstance =
  si_inner :: 'i
  si_exports :: "(string, 'm JsExport) hmap"

record ('w, 'i, 'm, 'h, 'e) JsStore =
  wasi_contexts :: "'w list"
  js_instances :: "('i, 'm) StoredInstance list"
  js_functions :: "('h, 'e) StoredFunction list"
  wasm_call_stack :: "JsInstance list"

definition JsStore_new :: "('w, 'i, 'm, 'h, 'e) JsStore" where
  "JsStore_new = \<lparr>wasi_contexts = [], js_instances = [], js_functions = [], wasm_call_stack = []\<rparr>"

definition store_instance :: "('i, 'm) StoredInstance \<Rightarrow> ('w, 'i, 'm, 'h, 'e) JsStore \<Rightarrow> nat \<times> ('w, 'i, 'm, 'h, 'e) JsStore" where
  "store_instance i st = (length (js_instances st), st\<lparr>js_instances := js_instances st @ [i]\<rparr>)"

definition store_wasi_context :: "'w \<Rightarrow> ('w, 'i, 'm, 'h, 'e) JsStore \<Rightarrow> nat \<times> ('w, 'i, 'm, 'h, 'e) JsStore" where
  "store_wasi_context c st = (length (wasi_contexts st), st\<lparr>wasi_contexts := wasi_contexts st @ [c]\<rparr>)"

definition store_function :: "('h, 'e) StoredFunction \<Rightarrow> ('w, 'i, 'm, 'h, 'e) JsStore \<Rightarrow> nat \<times> ('w, 'i, 'm, 'h, 'e) JsStore" where
  "store_function f st = (length (js_functions st), st\<lparr>js_functions := js_functions st @ [f]\<rparr>)"

text \<open>The JavaScript engine does not limit memory and keeps no statistics.\<close>

definition js_set_total_memory_limit :: "u64 \<Rightarrow> ('w, 'i, 'm, 'h, 'e) JsStore \<Rightarrow> ('w, 'i, 'm, 'h, 'e) JsStore" where
  "js_set_total_memory_limit limit st = st"

definition js_report_memory_allocation_stats :: "('w, 'i, 'm, 'h, 'e) JsStore \<Rightarrow> u32 option" where
  "js_report_memory_allocation_stats st = None"

definition js_clear_allocation_stats :: "('w, 'i, 'm, 'h, 'e) JsStore \<Rightarrow> ('w, 'i, 'm, 'h, 'e) JsStore" where
  "js_clear_allocation_stats st = st"

definition nthM :: "('st \<Rightarrow> 'a list) \<Rightarrow> nat \<Rightarrow> ('st, 'er, 'a) eff" where
  "nthM f i = (\<lambda>st. if i < length (f st) then (Returns (Inr (f st ! i)), st) else (Panics, st))"

definition stored :: "nat \<Rightarrow> (('w, 'i, 'm, 'h, 'e) JsStore, 'er, ('h, 'e) StoredFunction) eff" where
  "stored handle = nthM js_functions handle"

definition stored_instance :: "JsInstance \<Rightarrow> (('w, 'i, 'm, 'h, 'e) JsStore, 'er, ('i, 'm) StoredInstance) eff" where
  "stored_instance i = nthM js_instances (store_handle i)"

subsection \<open>Host functions\<close>

type_synonym ('st, 'h, 'x) raw_host_function = "'h \<Rightarrow> JsInstance \<Rightarrow> WValue list \<Rightarrow> ('st, 'x anyhow, WValue list) eff"

text \<open>The instance that called an import: the last of the call stack, and a panic if there is none.\<close>

definition caller_instance :: "(('w, 'i, 'm, 'h, 'e) JsStore, 'er, JsInstance) eff" where
  "caller_instance = (\<lambda>st. case wasm_call_stack st of [] \<Rightarrow> (Panics, st)
    | _ \<Rightarrow> (Returns (Inr (last (wasm_call_stack st))), st))"

definition wrap_raw_host_fn :: "('j, 'x) js_values \<Rightarrow> ('x anyhow \<Rightarrow> 'j) \<Rightarrow>
  (('w, 'i, 'm, 'h, 'e) JsStore, 'h, 'x) raw_host_function \<Rightarrow> FuncSig \<Rightarrow> 'h \<Rightarrow> 'j \<Rightarrow>
  (('w, 'i, 'm, 'h, 'e) JsStore, 'j, 'j) eff" where
  "wrap_raw_host_fn J throw raw sig h args =
    bindM caller_instance (\<lambda>caller.
    bindM (liftP (wval_array_from_js_array J args (sig_params sig))) (\<lambda>args.
    bindM (map_errM throw (raw h caller args)) (\<lambda>result.
    returnM (js_array_from_wval_array J result))))"

definition HostImportFunction_new_with_caller :: "FuncSig \<Rightarrow> 'h \<Rightarrow> ('w, 'i, 'm, 'h, 'e) JsStore \<Rightarrow>
  HostImportFunction \<times> ('w, 'i, 'm, 'h, 'e) JsStore" where
  "HostImportFunction_new_with_caller sig h st =
    (let (handle, st) = store_function \<lparr>js_function = HostClosure sig h, stored_signature = sig\<rparr> st
     in (HostImportFunction handle, st))"

definition HostImportFunction_signature :: "HostImportFunction \<Rightarrow> (('w, 'i, 'm, 'h, 'e) JsStore, 'er, FuncSig) eff" where
  "HostImportFunction_signature f = bindM (stored (hf_handle f)) (\<lambda>s. returnM (stored_signature s))"

text \<open>The constructors for typed closures of \<open>num\<close> 32-bit arguments.\<close>

definition typed_env_fn :: "nat \<Rightarrow> (JsInstance \<Rightarrow> u32 list \<Rightarrow> ('st, 'x anyhow, unit) eff) \<Rightarrow>
  JsInstance \<Rightarrow> WValue list \<Rightarrow> ('st, 'x anyhow, WValue list) eff" where
  "typed_env_fn num func caller args =
    (if length args \<noteq> num then panicM
     else bindM (func caller (List.map wval_to_i32 args)) (\<lambda>_. returnM []))"

definition typed_env_fn_r :: "nat \<Rightarrow> (JsInstance \<Rightarrow> u32 list \<Rightarrow> ('st, 'x anyhow, u32) eff) \<Rightarrow>
  JsInstance \<Rightarrow> WValue list \<Rightarrow> ('st, 'x anyhow, WValue list) eff" where
  "typed_env_fn_r num func caller args =
    (if length args \<noteq> num then panicM
     else bindM (func caller (List.map wval_to_i32 args)) (\<lambda>res. returnM [V_I32 res]))"

definition typed_env_sig :: "nat \<Rightarrow> FuncSig" where
  "typed_env_sig num = FuncSig_new (replicate num T_I32) []"

definition typed_env_sig_r :: "nat \<Rightarrow> FuncSig" where
  "typed_env_sig_r num = FuncSig_new (replicate num T_I32) [T_I32]"

subsection \<open>Export functions\<close>

text \<open>\<open>run_wasm\<close> runs an exported function in the engine; what it throws is a JavaScript value.\<close>

fun js_apply :: "('j, 'x) js_values \<Rightarrow> ('x anyhow \<Rightarrow> 'j) \<Rightarrow>
  (('w, 'i, 'm, 'h, 'e) JsStore, 'h, 'x) raw_host_function \<Rightarrow>
  ('e \<Rightarrow> 'j \<Rightarrow> (('w, 'i, 'm, 'h, 'e) JsStore, 'j, 'j) eff) \<Rightarrow>
  ('h, 'e) JsFunction \<Rightarrow> 'j \<Rightarrow> (('w, 'i, 'm, 'h, 'e) JsStore, 'j, 'j) eff" where
  "js_apply J throw raw run_wasm (HostClosure sig h) args = wrap_raw_host_fn J throw raw sig h args"
| "js_apply J throw raw run_wasm (WasmFunction e) args = run_wasm e args"

definition WasmExportFunction_new_stored :: "JsInstance \<Rightarrow> ('h, 'e) JsFunction \<Rightarrow> FuncSig \<Rightarrow>
  ('w, 'i, 'm, 'h, 'e) JsStore \<Rightarrow> WasmExportFunction \<times> ('w, 'i, 'm, 'h, 'e) JsStore" where
  "WasmExportFunction_new_stored inst func sig st =
    (let (handle, st) = store_function \<lparr>js_function = func, stored_signature = sig\<rparr> st
     in (\<lparr>ef_handle = handle, bound_instance = inst\<rparr>, st))"

definition call_inner :: "('j, 'x) js_values \<Rightarrow>
  (('h, 'e) JsFunction \<Rightarrow> 'j \<Rightarrow> (('w, 'i, 'm, 'h, 'e) JsStore, 'j, 'j) eff) \<Rightarrow>
  WasmExportFunction \<Rightarrow> WValue list \<Rightarrow> (('w, 'i, 'm, 'h, 'e) JsStore, 'x RuntimeError, WValue list) eff" where
  "call_inner J app f args =
    (let params = js_array_from_wval_array J args in
    bindM (stored (ef_handle f)) (\<lambda>stored_func.
    bindM (map_errM (\<lambda>e. RT_Other (Any_Other (error_msg J ''Failed to apply func'')))
      (app (js_function stored_func) params)) (\<lambda>result.
    bindM (liftP (extract_function_results J result (sig_returns (stored_signature stored_func)))) liftR)))"

definition enter_call :: "JsInstance \<Rightarrow> ('w, 'i, 'm, 'h, 'e) JsStore \<Rightarrow> ('w, 'i, 'm, 'h, 'e) JsStore" where
  "enter_call i st = st\<lparr>wasm_call_stack := wasm_call_stack st @ [i]\<rparr>"

definition leave_call :: "('w, 'i, 'm, 'h, 'e) JsStore \<Rightarrow> ('w, 'i, 'm, 'h, 'e) JsStore" where
  "leave_call st = st\<lparr>wasm_call_stack := butlast (wasm_call_stack st)\<rparr>"

text \<open>The stack is restored on success and on error; a panic unwinds past it.\<close>

definition js_call_async :: "('j, 'x) js_values \<Rightarrow>
  (('h, 'e) JsFunction \<Rightarrow> 'j \<Rightarrow> (('w, 'i, 'm, 'h, 'e) JsStore, 'j, 'j) eff) \<Rightarrow>
  WasmExportFunction \<Rightarrow> WValue list \<Rightarrow> (('w, 'i, 'm, 'h, 'e) JsStore, 'x RuntimeError, WValue list) eff" where
  "js_call_async J app f args st =
    (case call_inner J app f args (enter_call (bound_instance f) st) of
      (Returns r, st) \<Rightarrow> (Returns r, leave_call st)
    | (Panics, st) \<Rightarrow> (Panics, st))"

definition WasmExportFunction_signature :: "WasmExportFunction \<Rightarrow> (('w, 'i, 'm, 'h, 'e) JsStore, 'er, FuncSig) eff" where
  "WasmExportFunction_signature f = bindM (stored (ef_handle f)) (\<lambda>s. returnM (stored_signature s))"

end
