(* ===== verification/JsLinking.thy ===== *)
theory JsLinking
  imports JsBackend ItInstance
begin

text \<open>
  Imports, instances, modules and import calls of the JavaScript backend:
  \<open>crates/js-backend/src/{imports,instance,module,caller}.rs\<close> and \<open>wasi/mod.rs\<close>, with the
  common contract of the import objects of both backends (\<open>imports_interface\<close>) and the wasmtime
  import object (\<open>crates/wasmtime-backend/src/imports.rs\<close>), whose linker is a parameter.
\<close>

subsection \<open>JavaScript objects\<close>

text \<open>\<open>None\<close> of \<open>reflect_get\<close>, \<open>set_function\<close> and \<open>set_object\<close> is the exception that the code
  unwraps; \<open>new_instance\<close> runs the start function of the module.\<close>

record ('j, 'o, 'i, 'm, 'w, 'wm, 'h, 'e, 'x) js_api =
  values_api :: "('j, 'x) js_values"
  instance_exports :: "'i \<Rightarrow> 'o"
  reflect_get :: "'o \<Rightarrow> string \<Rightarrow> 'j option"
  into_wasm_function :: "'j \<Rightarrow> 'e"
  into_memory :: "'j \<Rightarrow> 'm"
  new_object :: 'o
  set_function :: "'o \<Rightarrow> string \<Rightarrow> ('h, 'e) JsFunction \<Rightarrow> 'o option"
  set_object :: "'o \<Rightarrow> string \<Rightarrow> 'o \<Rightarrow> 'o option"
  new_module :: "u8 list \<Rightarrow> 'j + 'wm"
  parse_all :: "u8 list \<Rightarrow> ('x + 'x Payload) list"
  new_instance :: "'wm \<Rightarrow> 'o \<Rightarrow> (('w, 'i, 'm, 'h, 'e) JsStore, 'j, 'i) eff"
  create_wasi :: "(string, string) hmap \<Rightarrow> 'x + 'w"
  generate_wasi_imports :: "'wm \<Rightarrow> 'w \<Rightarrow> 'o"
  bind_wasi_memory :: "'i \<Rightarrow> 'w \<Rightarrow> 'w"
  debug_msg :: "string \<Rightarrow> 'j \<Rightarrow> 'x"

definition allocM :: "('st \<Rightarrow> 'a \<times> 'st) \<Rightarrow> ('st, 'er, 'a) eff" where
  "allocM f = (\<lambda>st. case f st of (a, st) \<Rightarrow> (Returns (Inr a), st))"

subsection \<open>Import objects\<close>

record JsImports =
  js_namespaces :: "(string, (string, HostImportFunction) hmap) hmap"
  js_wasi_ctx :: "nat option"

definition JsImports_new :: JsImports where
  "JsImports_new = \<lparr>js_namespaces = [], js_wasi_ctx = None\<rparr>"

definition get_namespace :: "string \<Rightarrow> JsImports \<Rightarrow> (string, HostImportFunction) hmap" where
  "get_namespace m imp = (case hm_get m (js_namespaces imp) of None \<Rightarrow> [] | Some ns \<Rightarrow> ns)"

definition set_namespace :: "string \<Rightarrow> (string, HostImportFunction) hmap \<Rightarrow> JsImports \<Rightarrow> JsImports" where
  "set_namespace m ns imp = imp\<lparr>js_namespaces := hm_insert m ns (js_namespaces imp)\<rparr>"

definition add_to_namespace :: "(string, HostImportFunction) hmap \<Rightarrow> string \<Rightarrow> HostImportFunction \<Rightarrow> string \<Rightarrow>
  ('x ImportError + unit) \<times> (string, HostImportFunction) hmap" where
  "add_to_namespace namespace func_name func m =
    (if hm_has func_name namespace then (Inl (DuplicateImport m func_name), namespace)
     else (Inr (), hm_insert func_name func namespace))"

definition js_insert :: "JsImports \<Rightarrow> string \<Rightarrow> string \<Rightarrow> HostImportFunction \<Rightarrow> ('x ImportError + unit) \<times> JsImports" where
  "js_insert imp m func_name func =
    (let (r, ns) = add_to_namespace (get_namespace m imp) func_name func m in (r, set_namespace m ns imp))"

fun js_register_loop :: "string \<Rightarrow> (string, HostImportFunction) hmap \<Rightarrow> (string \<times> HostImportFunction) list \<Rightarrow>
  ('x ImportError + unit) \<times> (string, HostImportFunction) hmap" where
  "js_register_loop m namespace [] = (Inr (), namespace)"
| "js_register_loop m namespace ((func_name, func) # functions) =
    (case add_to_namespace namespace func_name func m of
      (Inr _, namespace) \<Rightarrow> js_register_loop m namespace functions
    | (Inl e, namespace) \<Rightarrow> (Inl e, namespace))"

definition js_register :: "JsImports \<Rightarrow> string \<Rightarrow> (string \<times> HostImportFunction) list \<Rightarrow>
  ('x ImportError + unit) \<times> JsImports" where
  "js_register imp m functions =
    (let (r, ns) = js_register_loop m (get_namespace m imp) functions in (r, set_namespace m ns imp))"

definition js_lookup :: "JsImports \<Rightarrow> string \<Rightarrow> string \<Rightarrow> HostImportFunction option" where
  "js_lookup imp m n = hm_get n (get_namespace m imp)"

definition js_add_wasi :: "nat \<Rightarrow> JsImports \<Rightarrow> JsImports" where
  "js_add_wasi wasi_context_id imp = imp\<lparr>js_wasi_ctx := Some wasi_context_id\<rparr>"

text \<open>wasmtime's \<open>Linker::define\<close>: the new linker, or \<open>None\<close> for the error the code drops.\<close>

definition wasmtime_insert :: "('l \<Rightarrow> string \<Rightarrow> string \<Rightarrow> 'f \<Rightarrow> 'l option) \<Rightarrow> 'l \<Rightarrow> string \<Rightarrow> string \<Rightarrow> 'f \<Rightarrow>
  ('x ImportError + unit) \<times> 'l" where
  "wasmtime_insert linker_define linker m name func =
    (case linker_define linker m name func of
      None \<Rightarrow> (Inl (DuplicateImport m name), linker)
    | Some linker \<Rightarrow> (Inr (), linker))"

fun wasmtime_register :: "('l \<Rightarrow> string \<Rightarrow> string \<Rightarrow> 'f \<Rightarrow> 'l option) \<Rightarrow> 'l \<Rightarrow> string \<Rightarrow> (string \<times> 'f) list \<Rightarrow>
  ('x ImportError + unit) \<times> 'l" where
  "wasmtime_register linker_define linker m [] = (Inr (), linker)"
| "wasmtime_register linker_define linker m ((name, func) # functions) =
    (case wasmtime_insert linker_define linker m name func of
      (Inr _, linker) \<Rightarrow> wasmtime_register linker_define linker m functions
    | (Inl e, linker) \<Rightarrow> (Inl e, linker))"

subsection \<open>Instances\<close>

definition build_export :: "('j, 'o, 'i, 'm, 'w, 'wm, 'h, 'e, 'x) js_api \<Rightarrow> JsInstance \<Rightarrow> 'o \<Rightarrow>
  string \<times> ModuleExport \<Rightarrow> (('w, 'i, 'm, 'h, 'e) JsStore, 'er, string \<times> 'm JsExport) eff" where
  "build_export A inst js_exports entry =
    bindM (liftP (reflect_get A js_exports (fst entry))) (\<lambda>js_export.
    case snd entry of
      ME_Function sig \<Rightarrow>
        bindM (allocM (WasmExportFunction_new_stored inst (WasmFunction (into_wasm_function A js_export)) sig)) (\<lambda>f.
        returnM (fst entry, Export_Function f))
    | ME_Memory \<Rightarrow> returnM (fst entry, Export_Memory (into_memory A js_export))
    | ME_Table \<Rightarrow> returnM (fst entry, Export_Other)
    | ME_Global \<Rightarrow> returnM (fst entry, Export_Other))"

definition build_export_map :: "('j, 'o, 'i, 'm, 'w, 'wm, 'h, 'e, 'x) js_api \<Rightarrow> JsInstance \<Rightarrow>
  (string, ModuleExport) hmap \<Rightarrow> 'o \<Rightarrow> (('w, 'i, 'm, 'h, 'e) JsStore, 'er, (string, 'm JsExport) hmap) eff" where
  "build_export_map A inst module_exports js_exports =
    bindM (mapM (build_export A inst js_exports) module_exports) (\<lambda>kvs. returnM (hm_collect kvs))"

definition set_exports :: "JsInstance \<Rightarrow> (string, 'm JsExport) hmap \<Rightarrow> (('w, 'i, 'm, 'h, 'e) JsStore, 'er, unit) eff" where
  "set_exports inst exports =
    (\<lambda>st. let k = store_handle inst in
      if k < length (js_instances st)
      then (Returns (Inr ()), st\<lparr>js_instances := (js_instances st)[k := (js_instances st ! k)\<lparr>si_exports := exports\<rparr>]\<rparr>)
      else (Panics, st))"

definition JsInstance_new :: "('j, 'o, 'i, 'm, 'w, 'wm, 'h, 'e, 'x) js_api \<Rightarrow> 'i \<Rightarrow> JsModuleInfo \<Rightarrow>
  (('w, 'i, 'm, 'h, 'e) JsStore, 'er, JsInstance) eff" where
  "JsInstance_new A js_instance info =
    bindM (allocM (store_instance \<lparr>si_inner = js_instance, si_exports = []\<rparr>)) (\<lambda>handle.
    let inst = JsInstance handle in
    bindM (stored_instance inst) (\<lambda>s.
    bindM (build_export_map A inst (mi_exports info) (instance_exports A (si_inner s))) (\<lambda>exports.
    bindM (set_exports inst exports) (\<lambda>_. returnM inst))))"

definition js_export_iter :: "JsInstance \<Rightarrow> (('w, 'i, 'm, 'h, 'e) JsStore, 'er, (string \<times> 'm JsExport) list) eff" where
  "js_export_iter inst = bindM (stored_instance inst) (\<lambda>s. returnM (si_exports s))"

fun export_memory :: "'m JsExport \<Rightarrow> 'm option" where
  "export_memory (Export_Memory m) = Some m"
| "export_memory _ = None"

definition js_get_nth_memory :: "JsInstance \<Rightarrow> u32 \<Rightarrow> (('w, 'i, 'm, 'h, 'e) JsStore, 'er, 'm option) eff" where
  "js_get_nth_memory inst index =
    bindM (stored_instance inst) (\<lambda>s.
    returnM (nth_opt (List.map_filter (export_memory \<circ> snd) (si_exports s)) index))"

definition js_get_memory :: "JsInstance \<Rightarrow> string \<Rightarrow> (('w, 'i, 'm, 'h, 'e) JsStore, 'x ResolveError, 'm) eff" where
  "js_get_memory inst name =
    bindM (stored_instance inst) (\<lambda>s.
    liftR (bindR (ok_or (ExportNotFound name) (hm_get name (si_exports s))) (\<lambda>export.
      case export of
        Export_Memory m \<Rightarrow> Inr m
      | Export_Function _ \<Rightarrow> Inl (ExportTypeMismatch ''memory'' ''function'')
      | Export_Other \<Rightarrow> Inl (ExportTypeMismatch ''memory'' ''other (funcref or externref)''))))"

definition js_get_function :: "JsInstance \<Rightarrow> string \<Rightarrow> (('w, 'i, 'm, 'h, 'e) JsStore, 'x ResolveError, WasmExportFunction) eff" where
  "js_get_function inst name =
    bindM (stored_instance inst) (\<lambda>s.
    liftR (bindR (ok_or (ExportNotFound name) (hm_get name (si_exports s))) (\<lambda>export.
      case export of
        Export_Function f \<Rightarrow> Inr f
      | Export_Memory _ \<Rightarrow> Inl (ExportTypeMismatch ''function'' ''memory'')
      | Export_Other \<Rightarrow> Inl (ExportTypeMismatch ''function'' ''other(funcref or externref)''))))"

subsection \<open>Import calls\<close>

definition js_caller_memory :: "JsInstance \<Rightarrow> u32 \<Rightarrow> (('w, 'i, 'm, 'h, 'e) JsStore, 'er, 'm option) eff" where
  "js_caller_memory caller memory_index = js_get_nth_memory caller memory_index"

definition js_get_func :: "JsInstance \<Rightarrow> string \<Rightarrow> (('w, 'i, 'm, 'h, 'e) JsStore, 'x ResolveError, WasmExportFunction) eff" where
  "js_get_func caller name = js_get_function caller name"

text \<open>The typed functions \<open>get_func\<close> hands out, from the untyped call.\<close>

definition call_wasm_export_func_ret_i32 ::
  "(WasmExportFunction \<Rightarrow> WValue list \<Rightarrow> ('st, 'x RuntimeError, WValue list) eff) \<Rightarrow>
   WasmExportFunction \<Rightarrow> u32 list \<Rightarrow> ('st, 'x RuntimeError, u32) eff" where
  "call_wasm_export_func_ret_i32 call_async func args =
    bindM (call_async func (List.map V_I32 args)) (\<lambda>res.
      if length res = 1 then returnM (wvalue_to_i32 (hd res))
      else failM (IncorrectResultsNumber 1 (word_of_nat (length res))))"

definition call_wasm_export_func_ret_unit ::
  "(WasmExportFunction \<Rightarrow> WValue list \<Rightarrow> ('st, 'x RuntimeError, WValue list) eff) \<Rightarrow>
   WasmExportFunction \<Rightarrow> u32 list \<Rightarrow> ('st, 'x RuntimeError, unit) eff" where
  "call_wasm_export_func_ret_unit call_async func args =
    bindM (call_async func (List.map V_I32 args)) (\<lambda>res.
      if length res = 0 then returnM ()
      else failM (IncorrectResultsNumber 0 (word_of_nat (length res))))"

subsection \<open>Modules\<close>

record 'wm JsModule =
  jm_inner :: 'wm
  jm_info :: JsModuleInfo

definition JsModule_new :: "('j, 'o, 'i, 'm, 'w, 'wm, 'h, 'e, 'x) js_api \<Rightarrow> u8 list \<Rightarrow>
  'x ModuleCreationError + 'wm JsModule" where
  "JsModule_new A wasm =
    bindR (map_err (\<lambda>e. FailedToCompileWasm (Any_Other (debug_msg A ''error compiling module'' e))) (new_module A wasm)) (\<lambda>m.
    bindR (ModuleInfo_from_bytes (error_msg (values_api A)) (parse_all A wasm)) (\<lambda>info.
    Inr \<lparr>jm_inner = m, jm_info = info\<rparr>))"

definition js_module_custom_sections :: "'wm JsModule \<Rightarrow> string \<Rightarrow> u8 list list" where
  "js_module_custom_sections m name = multimap_sections (mi_custom_sections (jm_info m)) name"

definition namespace_object :: "('j, 'o, 'i, 'm, 'w, 'wm, 'h, 'e, 'x) js_api \<Rightarrow> (string, HostImportFunction) hmap \<Rightarrow>
  (('w, 'i, 'm, 'h, 'e) JsStore, 'er, 'o) eff" where
  "namespace_object A namespace =
    foldM (\<lambda>obj (func_name, func).
      bindM (stored (hf_handle func)) (\<lambda>s. liftP (set_function A obj func_name (js_function s)))) (new_object A) namespace"

definition build_import_object :: "('j, 'o, 'i, 'm, 'w, 'wm, 'h, 'e, 'x) js_api \<Rightarrow> JsImports \<Rightarrow> 'wm \<Rightarrow>
  (('w, 'i, 'm, 'h, 'e) JsStore, 'er, 'o) eff" where
  "build_import_object A imp wasm_module =
    bindM (case js_wasi_ctx imp of
        None \<Rightarrow> returnM (new_object A)
      | Some idx \<Rightarrow> bindM (nthM wasi_contexts idx) (\<lambda>w. returnM (generate_wasi_imports A wasm_module w))) (\<lambda>import_object.
    foldM (\<lambda>obj (m, namespace).
      bindM (namespace_object A namespace) (\<lambda>ns_obj. liftP (set_object A obj m ns_obj))) import_object (js_namespaces imp))"

definition bind_to_instance :: "('j, 'o, 'i, 'm, 'w, 'wm, 'h, 'e, 'x) js_api \<Rightarrow> JsImports \<Rightarrow> 'i \<Rightarrow>
  (('w, 'i, 'm, 'h, 'e) JsStore, 'er, unit) eff" where
  "bind_to_instance A imp i =
    (case js_wasi_ctx imp of
      None \<Rightarrow> returnM ()
    | Some handle \<Rightarrow> (\<lambda>st.
        if handle < length (wasi_contexts st)
        then (Returns (Inr ()), st\<lparr>wasi_contexts := (wasi_contexts st)[handle := bind_wasi_memory A i (wasi_contexts st ! handle)]\<rparr>)
        else (Panics, st)))"

definition js_instantiate :: "('j, 'o, 'i, 'm, 'w, 'wm, 'h, 'e, 'x) js_api \<Rightarrow> 'wm JsModule \<Rightarrow> JsImports \<Rightarrow>
  (('w, 'i, 'm, 'h, 'e) JsStore, 'x InstantiationError, JsInstance) eff" where
  "js_instantiate A m imp =
    bindM (build_import_object A imp (jm_inner m)) (\<lambda>imports_object.
    bindM (map_errM (\<lambda>e. Inst_Other (Any_Other (debug_msg A ''failed to instantiate'' e)))
      (new_instance A (jm_inner m) imports_object)) (\<lambda>i.
    bindM (bind_to_instance A imp i) (\<lambda>_. JsInstance_new A i (jm_info m))))"

subsection \<open>WASI\<close>

text \<open>Of the parameters only the environment is used.\<close>

definition WasiContext_new :: "('j, 'o, 'i, 'm, 'w, 'wm, 'h, 'e, 'x) js_api \<Rightarrow> (string, string) hmap \<Rightarrow> 'x WasiError + 'w" where
  "WasiContext_new A envs = map_err (\<lambda>e. EngineWasiError (Any_Other e)) (create_wasi A envs)"

definition js_register_in_linker :: "('j, 'o, 'i, 'm, 'w, 'wm, 'h, 'e, 'x) js_api \<Rightarrow> WasiParameters \<Rightarrow> JsImports \<Rightarrow>
  (('w, 'i, 'm, 'h, 'e) JsStore, 'x WasiError, JsImports) eff" where
  "js_register_in_linker A config imp =
    bindM (liftR (WasiContext_new A (wasi_envs config))) (\<lambda>c.
    bindM (allocM (store_wasi_context c)) (\<lambda>context_index.
    returnM (js_add_wasi context_index imp)))"

end
