(* ===== verification/JsImportProps.thy ===== *)
theory JsImportProps
  imports JsLinking
begin

text \<open>
  The contract of import objects, \<open>crates/wasm-backend-traits/src/imports.rs\<close>, as a locale:
  a name is defined once in a namespace.  It is interpreted on the import object of the JavaScript
  backend, and holds of the wasmtime one for a linker as wasmtime documents it; both then accept the
  same registrations.
\<close>

fun register_with :: "('imp \<Rightarrow> string \<Rightarrow> string \<Rightarrow> 'f \<Rightarrow> ('x ImportError + unit) \<times> 'imp) \<Rightarrow> 'imp \<Rightarrow> string \<Rightarrow>
  (string \<times> 'f) list \<Rightarrow> ('x ImportError + unit) \<times> 'imp" where
  "register_with ins imp m [] = (Inr (), imp)"
| "register_with ins imp m ((n, f) # fs) =
    (case ins imp m n f of (Inr _, imp) \<Rightarrow> register_with ins imp m fs | (Inl e, imp) \<Rightarrow> (Inl e, imp))"

text \<open>The entries before the first name that is already defined, and that name.\<close>

fun accepted :: "(string \<Rightarrow> bool) \<Rightarrow> (string \<times> 'f) list \<Rightarrow> (string \<times> 'f) list" where
  "accepted defd [] = []"
| "accepted defd ((n, f) # fs) = (if defd n then [] else (n, f) # accepted (\<lambda>x. x = n \<or> defd x) fs)"

fun first_duplicate :: "(string \<Rightarrow> bool) \<Rightarrow> string list \<Rightarrow> string option" where
  "first_duplicate defd [] = None"
| "first_duplicate defd (n # ns) = (if defd n then Some n else first_duplicate (\<lambda>x. x = n \<or> defd x) ns)"

lemma first_duplicate_None:
  "first_duplicate defd ns = None \<longleftrightarrow> distinct ns \<and> (\<forall>n\<in>set ns. \<not> defd n)"
  by (induction ns arbitrary: defd) auto

lemma accepted_fresh: "n \<in> fst ` set (accepted defd fs) \<Longrightarrow> \<not> defd n"
  by (induction defd fs rule: accepted.induct) (auto split: if_splits)

lemma accepted_names: "List.map fst fs = List.map fst gs \<Longrightarrow> List.map fst (accepted defd fs) = List.map fst (accepted defd gs)"
proof (induction defd fs arbitrary: gs rule: accepted.induct)
  case (2 defd n f fs)
  then show ?case
    by (cases gs) auto
qed simp

subsection \<open>The contract\<close>

locale imports_interface =
  fixes ins :: "'imp \<Rightarrow> string \<Rightarrow> string \<Rightarrow> 'f \<Rightarrow> ('x ImportError + unit) \<times> 'imp"
    and find_import :: "'imp \<Rightarrow> string \<Rightarrow> string \<Rightarrow> 'f option"
  assumes ins_new: "find_import imp m n = None \<Longrightarrow> fst (ins imp m n f) = Inr ()"
    and find_new: "find_import imp m n = None \<Longrightarrow>
      find_import (snd (ins imp m n f)) m' n' = (if m' = m \<and> n' = n then Some f else find_import imp m' n')"
    and ins_defined: "find_import imp m n \<noteq> None \<Longrightarrow> fst (ins imp m n f) = Inl (DuplicateImport m n)"
    and find_defined: "find_import imp m n \<noteq> None \<Longrightarrow> find_import (snd (ins imp m n f)) m' n' = find_import imp m' n'"
begin

lemma register_result:
  "fst (register_with ins imp m fs) =
    (case first_duplicate (\<lambda>n. find_import imp m n \<noteq> None) (List.map fst fs) of
      None \<Rightarrow> Inr () | Some n \<Rightarrow> Inl (DuplicateImport m n))"
proof (induction fs arbitrary: imp)
  case (Cons nf fs)
  obtain n f where nf: "nf = (n, f)"
    by (cases nf)
  show ?case
  proof (cases "find_import imp m n = None")
    case True
    then obtain imp' where ins: "ins imp m n f = (Inr (), imp')"
      using ins_new by (metis prod.collapse)
    have "(\<lambda>x. find_import imp' m x \<noteq> None) = (\<lambda>x. x = n \<or> find_import imp m x \<noteq> None)"
      using find_new [OF True, of f] ins by auto
    then show ?thesis
      using Cons [of imp'] True ins nf by simp
  next
    case False
    then obtain imp' where "ins imp m n f = (Inl (DuplicateImport m n), imp')"
      using ins_defined by (metis prod.collapse)
    then show ?thesis
      using False nf by simp
  qed
qed simp

lemma register_lookup:
  "find_import (snd (register_with ins imp m fs)) m' n' =
    (case find_import imp m' n' of
      Some f \<Rightarrow> Some f
    | None \<Rightarrow> (if m' = m then map_of (accepted (\<lambda>n. find_import imp m n \<noteq> None) fs) n' else None))"
proof (induction fs arbitrary: imp)
  case (Cons nf fs)
  obtain n f where nf: "nf = (n, f)"
    by (cases nf)
  show ?case
  proof (cases "find_import imp m n = None")
    case True
    then obtain imp' where ins: "ins imp m n f = (Inr (), imp')"
      using ins_new by (metis prod.collapse)
    have find': "find_import imp' m'' x = (if m'' = m \<and> x = n then Some f else find_import imp m'' x)" for m'' x
      using find_new [OF True, of f] ins by auto
    then have "(\<lambda>x. find_import imp' m x \<noteq> None) = (\<lambda>x. x = n \<or> find_import imp m x \<noteq> None)"
      by auto
    then show ?thesis
      using Cons [of imp'] True ins nf find' by (auto split: option.splits)
  next
    case False
    then obtain imp' where ins: "ins imp m n f = (Inl (DuplicateImport m n), imp')"
      using ins_defined by (metis prod.collapse)
    then have "find_import imp' m' n' = find_import imp m' n'"
      using find_defined [OF False, of f] by (metis snd_conv)
    then show ?thesis
      using False nf ins by (auto split: option.splits)
  qed
qed (auto split: option.splits)

end

subsection \<open>The JavaScript import object\<close>

lemma get_set_namespace [simp]:
  "get_namespace m' (set_namespace m ns imp) = (if m' = m then ns else get_namespace m' imp)"
  by (simp add: get_namespace_def set_namespace_def)

lemma hm_has_get: "hm_has k m \<longleftrightarrow> hm_get k m \<noteq> None"
  by (simp add: hm_has_def hm_get_def)

interpretation js_imports: imports_interface js_insert js_lookup
  by unfold_locales
    (auto simp: js_insert_def js_lookup_def add_to_namespace_def hm_has_get Let_def split: if_splits)

text \<open>The loop over one namespace registers like the insertions one after the other.\<close>

lemma js_register_loop_insert:
  assumes "js_register_loop m ns fs = (r, ns')" "get_namespace m imp = ns"
    "register_with js_insert imp m fs = (r2, imp2)"
  shows "r2 = r \<and> js_lookup imp2 m' n' = (if m' = m then hm_get n' ns' else js_lookup imp m' n')"
  using assms
proof (induction fs arbitrary: ns imp)
  case Nil
  then show ?case
    by (auto simp: js_lookup_def)
next
  case (Cons nf fs)
  obtain n f where nf: "nf = (n, f)"
    by (cases nf)
  show ?case
  proof (cases "hm_has n ns")
    case True
    then show ?thesis
      using Cons.prems nf by (auto simp: add_to_namespace_def js_insert_def js_lookup_def)
  next
    case False
    define imp' where "imp' = set_namespace m (hm_insert n f ns) imp"
    have "js_insert imp m n f = (Inr () :: 'a ImportError + unit, imp')"
      using False Cons.prems by (simp add: js_insert_def add_to_namespace_def imp'_def)
    then have "register_with js_insert imp' m fs = (r2, imp2)"
      using Cons.prems nf by simp
    moreover have "js_register_loop m (hm_insert n f ns) fs = (r, ns')"
      using Cons.prems False nf by (simp add: add_to_namespace_def)
    moreover have "get_namespace m imp' = hm_insert n f ns"
      by (simp add: imp'_def)
    ultimately have "r2 = r \<and> js_lookup imp2 m' n' = (if m' = m then hm_get n' ns' else js_lookup imp' m' n')"
      using Cons.IH by blast
    then show ?thesis
      by (simp add: js_lookup_def imp'_def)
  qed
qed

lemma js_register_insert:
  assumes "js_register imp m fs = (r, imp1)" "register_with js_insert imp m fs = (r2, imp2)"
  shows "r2 = r \<and> js_lookup imp1 m' n' = js_lookup imp2 m' n'"
proof (cases "js_register_loop m (get_namespace m imp) fs :: ('a ImportError + unit) \<times> _")
  case (Pair r1 ns)
  from js_register_loop_insert [OF this refl assms(2), of m' n'] show ?thesis
    using Pair assms(1) by (auto simp: js_register_def js_lookup_def)
qed

subsection \<open>The wasmtime linker\<close>

text \<open>What wasmtime documents of \<open>Linker::define\<close> without shadowing, where \<open>look\<close> reads a definition.\<close>

definition linker_ok :: "('l \<Rightarrow> string \<Rightarrow> string \<Rightarrow> 'f \<Rightarrow> 'l option) \<Rightarrow> ('l \<Rightarrow> string \<Rightarrow> string \<Rightarrow> 'f option) \<Rightarrow> bool" where
  "linker_ok linker_define look \<longleftrightarrow>
    (\<forall>l m n f. case linker_define l m n f of
        None \<Rightarrow> look l m n \<noteq> None
      | Some l' \<Rightarrow> look l m n = None \<and>
          (\<forall>m' n'. look l' m' n' = (if m' = m \<and> n' = n then Some f else look l m' n')))"

lemma wasmtime_imports_interface:
  assumes "linker_ok linker_define look"
  shows "imports_interface (wasmtime_insert linker_define :: _ \<Rightarrow> _ \<Rightarrow> _ \<Rightarrow> _ \<Rightarrow> ('x ImportError + unit) \<times> _) look"
proof
  fix imp m n f m' n'
  have law: "case linker_define imp m n f of
        None \<Rightarrow> look imp m n \<noteq> None
      | Some l' \<Rightarrow> look imp m n = None \<and>
          (\<forall>m' n'. look l' m' n' = (if m' = m \<and> n' = n then Some f else look imp m' n'))"
    using assms unfolding linker_ok_def by blast
  show "look imp m n = None \<Longrightarrow> fst (wasmtime_insert linker_define imp m n f :: ('x ImportError + unit) \<times> _) = Inr ()"
    and "look imp m n = None \<Longrightarrow>
      look (snd (wasmtime_insert linker_define imp m n f :: ('x ImportError + unit) \<times> _)) m' n' =
        (if m' = m \<and> n' = n then Some f else look imp m' n')"
    and "look imp m n \<noteq> None \<Longrightarrow>
      fst (wasmtime_insert linker_define imp m n f :: ('x ImportError + unit) \<times> _) = Inl (DuplicateImport m n)"
    and "look imp m n \<noteq> None \<Longrightarrow>
      look (snd (wasmtime_insert linker_define imp m n f :: ('x ImportError + unit) \<times> _)) m' n' = look imp m' n'"
    using law by (auto simp: wasmtime_insert_def split: option.splits)
qed

lemma wasmtime_register_with:
  "wasmtime_register linker_define linker m fs = register_with (wasmtime_insert linker_define) linker m fs"
  by (induction fs arbitrary: linker) (auto split: prod.splits sum.splits)

text \<open>C18: Both backends answer a registration alike: given that the two import objects define the same names
  of the namespace, both succeed, or both stop at the same duplicate, and they define the same
  names again.\<close>

theorem backends_register_alike:
  assumes linker: "linker_ok linker_define look"
    and same: "\<And>n. look linker m n = None \<longleftrightarrow> js_lookup imp m n = None"
    and names: "List.map fst fs = List.map fst gs"
    and wasmtime: "wasmtime_register linker_define linker m fs = (r :: 'e ImportError + unit, linker')"
    and js: "js_register imp m gs = (r', imp')"
  shows "r = r' \<and> (look linker' m n = None \<longleftrightarrow> js_lookup imp' m n = None)"
proof -
  obtain r2 imp2 where reg: "register_with js_insert imp m gs = (r2 :: 'e ImportError + unit, imp2)"
    by fastforce
  note js_same = js_register_insert [OF js reg, of m n]
  note wi = wasmtime_imports_interface [OF linker, where 'x = 'e]
  have seen: "(\<lambda>n. look linker m n \<noteq> None) = (\<lambda>n. js_lookup imp m n \<noteq> None)"
    using same by simp
  have keys: "map_of (accepted d fs) n = None \<longleftrightarrow> map_of (accepted d gs) n = None" for d
    using accepted_names [OF names, of d] by (simp add: map_of_eq_None_iff) (metis list.set_map)
  have "r = (case first_duplicate (\<lambda>n. look linker m n \<noteq> None) (List.map fst fs) of
      None \<Rightarrow> Inr () | Some n \<Rightarrow> Inl (DuplicateImport m n))"
    using imports_interface.register_result [OF wi, of linker m fs] wasmtime
    by (simp add: wasmtime_register_with)
  moreover have "r2 = (case first_duplicate (\<lambda>n. js_lookup imp m n \<noteq> None) (List.map fst gs) of
      None \<Rightarrow> Inr () | Some n \<Rightarrow> Inl (DuplicateImport m n))"
    using js_imports.register_result [of imp m gs, where 'a = 'e] reg by simp
  ultimately have "r = r'"
    using js_same names seen by simp
  moreover have "look linker' m n = None \<longleftrightarrow>
      look linker m n = None \<and> map_of (accepted (\<lambda>n. look linker m n \<noteq> None) fs) n = None"
    using imports_interface.register_lookup [OF wi, of linker m fs m n] wasmtime
    by (auto simp: wasmtime_register_with split: option.splits)
  moreover have "js_lookup imp2 m n = None \<longleftrightarrow>
      js_lookup imp m n = None \<and> map_of (accepted (\<lambda>n. js_lookup imp m n \<noteq> None) gs) n = None"
    using js_imports.register_lookup [of imp m gs m n, where 'a = 'e] reg
    by (auto split: option.splits)
  ultimately show ?thesis
    using js_same seen keys same by simp
qed

definition sample_define :: "((string \<times> string) \<times> nat) list \<Rightarrow> string \<Rightarrow> string \<Rightarrow> nat \<Rightarrow>
  ((string \<times> string) \<times> nat) list option" where
  "sample_define l m n f = (if map_of l (m, n) = None then Some (((m, n), f) # l) else None)"

lemma sample_linker_ok: "linker_ok sample_define (\<lambda>l m n. map_of l (m, n))"
  by (auto simp: linker_ok_def sample_define_def)

theorem backends_register_alike_witness:
  "\<exists>linker' imp'. wasmtime_register sample_define [] ''m'' [(''f'', 1), (''f'', 2)] =
      (Inl (DuplicateImport ''m'' ''f'' :: nat ImportError), linker') \<and>
    js_register JsImports_new ''m'' [(''f'', HostImportFunction 0), (''f'', HostImportFunction 1)] =
      (Inl (DuplicateImport ''m'' ''f'' :: nat ImportError), imp') \<and>
    (map_of linker' (''m'', ''f'') = None \<longleftrightarrow> js_lookup imp' ''m'' ''f'' = None)"
proof -
  obtain r' imp' where js: "js_register JsImports_new ''m'' [(''f'', HostImportFunction 0), (''f'', HostImportFunction 1)] =
      (r' :: nat ImportError + unit, imp')"
    by fastforce
  have w: "wasmtime_register sample_define [] ''m'' [(''f'', 1), (''f'', 2)] =
      (Inl (DuplicateImport ''m'' ''f'' :: nat ImportError), [((''m'', ''f''), 1)])"
    by (simp add: wasmtime_insert_def sample_define_def)
  show ?thesis
    using backends_register_alike [OF sample_linker_ok _ _ w js, of "''f''"] w js
    by (auto simp: js_lookup_def get_namespace_def JsImports_new_def)
qed

end
