(* ===== verification/WasmtimeBackend.thy ===== *)
theory WasmtimeBackend
  imports WasmtimeFunction StoreLimiter JsImportProps
begin

text \<open>
  The rest of the wasmtime backend: instances, import calls, modules, WASI and the configuration of the
  engine, \<open>crates/wasmtime-backend/src/{instance,caller,module,wasi,lib}.rs\<close>.  wasmtime
  itself is the record \<open>wasmtime_api\<close>; a WASI context is opaque and the store of Marine keeps
  one for each module.
\<close>

subsection \<open>wasmtime\<close>

datatype ('m, 'f) Extern = Extern_Memory 'm | Extern_Func 'f | Extern_Other

record ('st, 'i, 'm, 'f, 'w, 'l, 'x) wasmtime_api =
  wt_exports :: "'i \<Rightarrow> 'st \<Rightarrow> (string \<times> ('m, 'f) Extern) list"
  wt_get_export :: "'i \<Rightarrow> string \<Rightarrow> 'st \<Rightarrow> ('m, 'f) Extern option"
  wt_typed :: "'f \<Rightarrow> FuncSig \<Rightarrow> 'st \<Rightarrow> 'x anyhow + unit"
  wt_module_new :: "u8 list \<Rightarrow> 'x anyhow + 'w"
  wt_parse_all :: "u8 list \<Rightarrow> ('x + 'x Payload) list"
  wt_error_text :: "'x \<Rightarrow> string"
  wt_instantiate :: "'w \<Rightarrow> 'l \<Rightarrow> ('st, 'x anyhow, 'i) eff"

subsection \<open>Instances\<close>

datatype ('m, 'f) WtExport = Wt_Memory 'm | Wt_Function 'f | Wt_Other

fun export_of_extern :: "('m, 'f) Extern \<Rightarrow> ('m, 'f) WtExport" where
  "export_of_extern (Extern_Memory m) = Wt_Memory m"
| "export_of_extern (Extern_Func f) = Wt_Function f"
| "export_of_extern Extern_Other = Wt_Other"

fun into_memory_extern :: "('m, 'f) Extern \<Rightarrow> 'm option" where
  "into_memory_extern (Extern_Memory m) = Some m"
| "into_memory_extern _ = None"

fun into_func_extern :: "('m, 'f) Extern \<Rightarrow> 'f option" where
  "into_func_extern (Extern_Func f) = Some f"
| "into_func_extern _ = None"

definition wasmtime_export_iter :: "('st, 'i, 'm, 'f, 'w, 'l, 'x) wasmtime_api \<Rightarrow> 'i \<Rightarrow> 'st \<Rightarrow>
  (string \<times> ('m, 'f) WtExport) list" where
  "wasmtime_export_iter W i st = List.map (\<lambda>(name, e). (name, export_of_extern e)) (wt_exports W i st)"

definition wasmtime_get_nth_memory :: "('st, 'i, 'm, 'f, 'w, 'l, 'x) wasmtime_api \<Rightarrow> 'i \<Rightarrow> u32 \<Rightarrow> 'st \<Rightarrow> 'm option" where
  "wasmtime_get_nth_memory W i memory_index st =
    nth_opt (List.map_filter (into_memory_extern \<circ> snd) (wt_exports W i st)) memory_index"

definition wasmtime_get_memory :: "('st, 'i, 'm, 'f, 'w, 'l, 'x) wasmtime_api \<Rightarrow> 'i \<Rightarrow> string \<Rightarrow> 'st \<Rightarrow>
  'x ResolveError + 'm" where
  "wasmtime_get_memory W i memory_name st =
    bindR (ok_or (ExportNotFound memory_name) (wt_get_export W i memory_name st)) (\<lambda>e.
    ok_or (ExportTypeMismatch ''memory'' ''other'') (into_memory_extern e))"

definition wasmtime_get_function :: "('st, 'i, 'm, 'f, 'w, 'l, 'x) wasmtime_api \<Rightarrow> 'i \<Rightarrow> string \<Rightarrow> 'st \<Rightarrow>
  'x ResolveError + 'f" where
  "wasmtime_get_function W i name st =
    bindR (ok_or (ExportNotFound name) (wt_get_export W i name st)) (\<lambda>e.
    ok_or (ExportTypeMismatch ''function'' ''other'') (into_func_extern e))"

subsection \<open>Import calls\<close>

text \<open>The index of the memory is not used: the caller's export called \<open>memory\<close> is taken.\<close>

definition wasmtime_caller_memory :: "('st, 'i, 'm, 'f, 'w, 'l, 'x) wasmtime_api \<Rightarrow> 'i \<Rightarrow> u32 \<Rightarrow> 'st \<Rightarrow> 'm option" where
  "wasmtime_caller_memory W caller memory_index st =
    Option.bind (wt_get_export W caller ''memory'' st) into_memory_extern"

definition wasmtime_get_func :: "('st, 'i, 'm, 'f, 'w, 'l, 'x) wasmtime_api \<Rightarrow> 'i \<Rightarrow> FuncSig \<Rightarrow> string \<Rightarrow> 'st \<Rightarrow>
  'x ResolveError + 'f" where
  "wasmtime_get_func W caller sig name st =
    bindR (ok_or (ExportNotFound name) (wt_get_export W caller name st)) (\<lambda>export.
    case export of
      Extern_Func f \<Rightarrow> bindR (map_err Resolve_Other (wt_typed W f sig st)) (\<lambda>_. Inr f)
    | Extern_Memory _ \<Rightarrow> Inl (ExportTypeMismatch ''function'' ''memory'')
    | Extern_Other \<Rightarrow> Inl (ExportTypeMismatch ''function'' ''neither memory nor function''))"

text \<open>A typed call keeps a trap and wraps everything else, errors of the host included.\<close>

fun typed_call_error :: "'x anyhow \<Rightarrow> 'x RuntimeError" where
  "typed_call_error (Any_Trap x) = Trap (Any_Trap x)"
| "typed_call_error e = RT_Other e"

definition call_typed_func :: "('f \<Rightarrow> 'arg \<Rightarrow> ('st, 'x anyhow, 'ret) eff) \<Rightarrow> 'arg \<Rightarrow> 'f \<Rightarrow> ('st, 'x RuntimeError, 'ret) eff" where
  "call_typed_func call_async args f = map_errM typed_call_error (call_async f args)"

text \<open>A host closure that is given the instance that calls it.\<close>

definition wasmtime_host_fn_with_caller :: "('c \<Rightarrow> WValue list \<Rightarrow> ('st, 'x anyhow, WValue list) eff) \<Rightarrow>
  'c \<Rightarrow> 'r Val list \<Rightarrow> 'r Val list \<Rightarrow> ('st, 'x anyhow, 'r Val list) eff" where
  "wasmtime_host_fn_with_caller func caller args results_out =
    bindM (liftR (map_err Any_Runtime (process_func_args args))) (\<lambda>args.
    bindM (func caller args) (\<lambda>results.
    liftR (map_err Any_Runtime (process_func_results results results_out))))"

subsection \<open>Modules\<close>

record 'w WasmtimeModule =
  wm_sections :: "(string, u8 list) multimap"
  wm_inner :: 'w

definition WasmtimeModule_new :: "('st, 'i, 'm, 'f, 'w, 'l, 'x) wasmtime_api \<Rightarrow> u8 list \<Rightarrow>
  'x ModuleCreationError + 'w WasmtimeModule" where
  "WasmtimeModule_new W wasm =
    bindR (map_err FailedToCompileWasm (wt_module_new W wasm)) (\<lambda>m.
    bindR (map_err FailedToExtractCustomSections (traits_custom_sections (wt_error_text W) (wt_parse_all W wasm))) (\<lambda>sections.
    Inr \<lparr>wm_sections = sections, wm_inner = m\<rparr>))"

definition wasmtime_module_custom_sections :: "'w WasmtimeModule \<Rightarrow> string \<Rightarrow> u8 list list" where
  "wasmtime_module_custom_sections m name = multimap_sections (wm_sections m) name"

definition wasmtime_instantiate :: "('st, 'i, 'm, 'f, 'w, 'l, 'x) wasmtime_api \<Rightarrow> 'w WasmtimeModule \<Rightarrow> 'l \<Rightarrow>
  ('st, 'x InstantiationError, 'i) eff" where
  "wasmtime_instantiate W m linker = map_errM inspect_instantiation_error (wt_instantiate W (wm_inner m) linker)"

subsection \<open>WASI\<close>

record ('b, 'd, 'ctx, 'l, 'x) wasmtime_wasi_api =
  builder_new :: 'b
  builder_args :: "'b \<Rightarrow> string list \<Rightarrow> 'x + 'b"
  builder_envs :: "'b \<Rightarrow> (string \<times> string) list \<Rightarrow> 'x + 'b"
  open_ambient_dir :: "string \<Rightarrow> 'x + 'd"
  builder_preopened_dir :: "'b \<Rightarrow> 'd \<Rightarrow> string \<Rightarrow> 'x + 'b"
  inherit_stdout :: "'b \<Rightarrow> 'b"
  inherit_stderr :: "'b \<Rightarrow> 'b"
  builder_build :: "'b \<Rightarrow> 'ctx"
  wasi_add_to_linker :: "'l \<Rightarrow> nat \<Rightarrow> 'x + 'l"

record 'ctx WasiStoreState = StoreState +
  ss_wasi :: "'ctx list"

definition populate_args :: "('b, 'd, 'ctx, 'l, 'x) wasmtime_wasi_api \<Rightarrow> 'b \<Rightarrow> string list \<Rightarrow> 'x WasiError + 'b" where
  "populate_args W builder args = map_err (\<lambda>_. TooLargeArgsArray) (builder_args W builder args)"

definition populate_envs :: "('b, 'd, 'ctx, 'l, 'x) wasmtime_wasi_api \<Rightarrow> 'b \<Rightarrow> (string, string) hmap \<Rightarrow> 'x WasiError + 'b" where
  "populate_envs W builder envs = map_err (\<lambda>_. TooLargeEnvsArray) (builder_envs W builder envs)"

definition populate_mapped_dirs :: "('b, 'd, 'ctx, 'l, 'x) wasmtime_wasi_api \<Rightarrow> 'b \<Rightarrow> (string, string) hmap \<Rightarrow> 'x WasiError + 'b" where
  "populate_mapped_dirs W builder mapped_dirs =
    foldR (\<lambda>builder (guest_name, host_path).
      bindR (map_err Wasi_IOError (open_ambient_dir W host_path)) (\<lambda>host_dir.
      map_err (\<lambda>e. EngineWasiError (Any_Other e)) (builder_preopened_dir W builder host_dir guest_name))) builder mapped_dirs"

definition populate_stdio :: "('b, 'd, 'ctx, 'l, 'x) wasmtime_wasi_api \<Rightarrow> 'b \<Rightarrow> 'b" where
  "populate_stdio W builder = inherit_stderr W (inherit_stdout W builder)"

definition add_wasi_to_linker :: "('b, 'd, 'ctx, 'l, 'x) wasmtime_wasi_api \<Rightarrow> 'l \<Rightarrow> 'ctx \<Rightarrow> 'ctx WasiStoreState \<Rightarrow>
  ('x WasiError + 'l) \<times> 'ctx WasiStoreState" where
  "add_wasi_to_linker W linker wasi_ctx st =
    (let id = length (ss_wasi st) in
     case wasi_add_to_linker W linker id of
       Inl e \<Rightarrow> (Inl (EngineWasiError (Any_Other e)), st)
     | Inr linker \<Rightarrow> (Inr linker, st\<lparr>ss_wasi := ss_wasi st @ [wasi_ctx]\<rparr>))"

definition wasi_context_of :: "('b, 'd, 'ctx, 'l, 'x) wasmtime_wasi_api \<Rightarrow> WasiParameters \<Rightarrow> 'x WasiError + 'ctx" where
  "wasi_context_of W parameters =
    bindR (populate_args W (builder_new W) (wasi_args parameters)) (\<lambda>builder.
    bindR (populate_envs W builder (wasi_envs parameters)) (\<lambda>builder.
    bindR (populate_mapped_dirs W builder (wasi_mapped_dirs parameters)) (\<lambda>builder.
    Inr (builder_build W (populate_stdio W builder)))))"

definition wasmtime_register_in_linker :: "('b, 'd, 'ctx, 'l, 'x) wasmtime_wasi_api \<Rightarrow> WasiParameters \<Rightarrow> 'l \<Rightarrow>
  'ctx WasiStoreState \<Rightarrow> ('x WasiError + 'l) \<times> 'ctx WasiStoreState" where
  "wasmtime_register_in_linker W parameters linker st =
    (case wasi_context_of W parameters of
      Inl e \<Rightarrow> (Inl e, st)
    | Inr wasi_ctx \<Rightarrow> add_wasi_to_linker W linker wasi_ctx st)"

text \<open>Neither backend gives the state of WASI: there are no environment variables to read.\<close>

definition wasi_state_envs :: "u8 list list" where
  "wasi_state_envs = []"

subsection \<open>Configuration of the engine\<close>

definition DEFAULT_WASM_STACK_SIZE :: usize where
  "DEFAULT_WASM_STACK_SIZE = 2 * (1024 * 1024)"

text \<open>The options of wasmtime the backend sets; \<open>wc_other\<close> are the ones it leaves alone.\<close>

record 'o WasmtimeConfig =
  wc_async_support :: bool
  wc_debug_info :: bool
  wc_max_wasm_stack :: usize
  wc_async_stack_size :: usize
  wc_epoch_interruption :: bool
  wc_backtrace :: bool
  wc_backtrace_details :: bool
  wc_other :: 'o

definition WasmtimeConfig_default :: "'o WasmtimeConfig \<Rightarrow> 'o WasmtimeConfig" where
  "WasmtimeConfig_default config = config\<lparr>wc_async_support := True, wc_debug_info := True,
    wc_max_wasm_stack := DEFAULT_WASM_STACK_SIZE, wc_epoch_interruption := True, wc_backtrace_details := True\<rparr>"

definition WasmtimeConfig_from_raw :: "'o WasmtimeConfig \<Rightarrow> 'o WasmtimeConfig" where
  "WasmtimeConfig_from_raw config = config\<lparr>wc_async_support := True\<rparr>"

definition config_debug_info :: "bool \<Rightarrow> 'o WasmtimeConfig \<Rightarrow> 'o WasmtimeConfig" where
  "config_debug_info enable c = c\<lparr>wc_debug_info := enable\<rparr>"

definition config_epoch_interruption :: "bool \<Rightarrow> 'o WasmtimeConfig \<Rightarrow> 'o WasmtimeConfig" where
  "config_epoch_interruption enable c = c\<lparr>wc_epoch_interruption := enable\<rparr>"

definition config_max_wasm_stack :: "usize \<Rightarrow> 'o WasmtimeConfig \<Rightarrow> 'o WasmtimeConfig" where
  "config_max_wasm_stack bytes c = c\<lparr>wc_max_wasm_stack := bytes\<rparr>"

definition config_async_wasm_stack :: "usize \<Rightarrow> 'o WasmtimeConfig \<Rightarrow> 'o WasmtimeConfig" where
  "config_async_wasm_stack bytes c = c\<lparr>wc_async_stack_size := bytes\<rparr>"

definition config_wasm_backtrace :: "bool \<Rightarrow> 'o WasmtimeConfig \<Rightarrow> 'o WasmtimeConfig" where
  "config_wasm_backtrace enable c = c\<lparr>wc_backtrace := enable, wc_backtrace_details := True\<rparr>"

definition WasmtimeWasmBackend_new :: "('o WasmtimeConfig \<Rightarrow> 'x anyhow + 'en) \<Rightarrow> 'o WasmtimeConfig \<Rightarrow>
  'x WasmBackendError + 'en" where
  "WasmtimeWasmBackend_new engine_new config = map_err WB_InitializationError (engine_new config)"

definition WasmtimeWasmBackend_new_async :: "('o WasmtimeConfig \<Rightarrow> 'x anyhow + 'en) \<Rightarrow> 'o WasmtimeConfig \<Rightarrow>
  'x WasmBackendError + 'en" where
  "WasmtimeWasmBackend_new_async engine_new fresh = WasmtimeWasmBackend_new engine_new (WasmtimeConfig_default fresh)"

subsection \<open>Properties\<close>

text \<open>Every configuration the setters can make of an accepted one still supports async calls.\<close>

lemma configs_are_async:
  "wc_async_support (WasmtimeConfig_default c)" "wc_async_support (WasmtimeConfig_from_raw c)"
  "wc_async_support c \<Longrightarrow> wc_async_support (config_debug_info b c) \<and> wc_async_support (config_epoch_interruption b c) \<and>
    wc_async_support (config_max_wasm_stack n c) \<and> wc_async_support (config_async_wasm_stack n c) \<and>
    wc_async_support (config_wasm_backtrace b c)"
  by (simp_all add: WasmtimeConfig_default_def WasmtimeConfig_from_raw_def config_debug_info_def
      config_epoch_interruption_def config_max_wasm_stack_def config_async_wasm_stack_def config_wasm_backtrace_def)

text \<open>A module's WASI functions are linked to the index its own context gets, and no other context moves.\<close>

lemma wasi_context_of_module:
  assumes "wasmtime_register_in_linker W parameters linker st = (Inr linker', st')"
  shows "\<exists>ctx. wasi_context_of W parameters = Inr ctx \<and>
    wasi_add_to_linker W linker (length (ss_wasi st)) = Inr linker' \<and>
    ss_wasi st' ! length (ss_wasi st) = ctx \<and> (\<forall>i<length (ss_wasi st). ss_wasi st' ! i = ss_wasi st ! i)"
  using assms
  by (auto simp: wasmtime_register_in_linker_def add_wasi_to_linker_def nth_append Let_def split: sum.splits)

lemma failed_wasi_registration_keeps_state:
  "wasmtime_register_in_linker W parameters linker st = (Inl e, st') \<Longrightarrow> st' = st"
  by (auto simp: wasmtime_register_in_linker_def add_wasi_to_linker_def Let_def split: sum.splits)

text \<open>What the JavaScript backend does with the same parameters: arguments and directories are ignored.\<close>

lemma js_wasi_ignores_args_and_dirs:
  "js_register_in_linker A (config\<lparr>wasi_args := args, wasi_mapped_dirs := dirs\<rparr>) imp = js_register_in_linker A config imp"
  by (simp add: js_register_in_linker_def)

text \<open>Both backends hold the same custom sections for a module both accept.\<close>

lemma backends_agree_on_module_sections:
  assumes "JsModule_new A wasm = Inr jm" "WasmtimeModule_new W wasm = Inr wm" "parse_all A wasm = wt_parse_all W wasm"
  shows "js_module_custom_sections jm name = wasmtime_module_custom_sections wm name"
proof -
  from assms(1) obtain info where "ModuleInfo_from_bytes (error_msg (values_api A)) (parse_all A wasm) = Inr info"
    and "jm_info jm = info"
    by (auto simp: JsModule_new_def bindR_Inr)
  moreover from assms(2,3) have "traits_custom_sections (wt_error_text W) (parse_all A wasm) = Inr (wm_sections wm)"
    by (auto simp: WasmtimeModule_new_def bindR_Inr map_err_Inr)
  ultimately show ?thesis
    using backends_agree_on_custom_sections [of "error_msg (values_api A)" "parse_all A wasm" info "wt_error_text W"]
    by (simp add: js_module_custom_sections_def wasmtime_module_custom_sections_def)
qed

text \<open>A user error of a called function keeps its class in an untyped call and loses it in a typed one.\<close>

lemma typed_call_loses_user_error:
  "typed_call_error (Any_User u) = RT_Other (Any_User u)" "inspect_call_error (Any_User u) = RT_UserError u"
  by simp_all

text \<open>Whatever memory an import asks for, wasmtime hands it the caller's export \<open>memory\<close>.\<close>

lemma wasmtime_memory_index_ignored:
  "wasmtime_caller_memory W caller i st = wasmtime_caller_memory W caller j st"
  by (simp add: wasmtime_caller_memory_def)

text \<open>A host closure that does not use its caller behaves like one that is not given it.\<close>

lemma host_fn_with_caller_pure:
  "wasmtime_host_fn_with_caller (\<lambda>_ args. liftR (func args)) caller args out = liftR (wasmtime_host_fn func args out)"
  by (auto simp: wasmtime_host_fn_with_caller_def wasmtime_host_fn_def bindM_def liftR_def fun_eq_iff
      split: sum.splits)

end
