(* ===== verification/ServiceFactory.thy ===== *)
theory ServiceFactory
  imports AppServiceModel WasmtimeBackend
begin

text \<open>
  Factories of services, \<open>crates/fluence-app-service/src/app_service_factory.rs\<close>, and the constructor
  \<open>AppService::new\<close>: the engine is made once for a factory and for every service of \<open>new\<close>.  An engine is an
  element \<open>'en\<close>; what creates a runtime for an engine is the parameter \<open>build_marine\<close>, and the epoch of an
  engine is moved by \<open>engine_increment_epoch\<close>, an operation of wasmtime.
\<close>

record 'en AppServiceFactory =
  fac_backend :: 'en

datatype 'en EpochTicker = EpochTicker (ticker_backend: 'en)

definition AppServiceFactory_new :: "('o WasmtimeConfig \<Rightarrow> 'x anyhow + 'en) \<Rightarrow> 'o WasmtimeConfig \<Rightarrow>
    ('x, 'v, 'n, 'te, 'io) AppServiceError + 'en AppServiceFactory \<times> 'en EpochTicker" where
  "AppServiceFactory_new engine_new config =
    bindR (map_err A_WasmBackendError (WasmtimeWasmBackend_new engine_new config)) (\<lambda>backend.
    Inr (\<lparr>fac_backend = backend\<rparr>, EpochTicker backend))"

definition new_app_service :: "('d, 'io) dir_ops \<Rightarrow>
    ('en \<Rightarrow> ('st, 'x) MarineConfig \<Rightarrow> (('x, 'v, 'n, 'te) MarineError + ('s, 'a, 'i, 'f, 'm, 'p) Marine) outcome) \<Rightarrow>
    'en AppServiceFactory \<Rightarrow> ('st, 'x) AppServiceConfig \<Rightarrow> string \<Rightarrow> (string, string) hmap \<Rightarrow>
    ('d, ('x, 'v, 'n, 'te, 'io) AppServiceError, ('s, 'a, 'i, 'f, 'm, 'p) AppService) eff" where
  "new_app_service D build_marine factory config service_id envs =
    AppService_new_with_backend D (build_marine (fac_backend factory)) (Inr config) service_id envs"

definition AppService_new :: "('d, 'io) dir_ops \<Rightarrow> ('o WasmtimeConfig \<Rightarrow> 'x anyhow + 'en) \<Rightarrow> 'o WasmtimeConfig \<Rightarrow>
    ('en \<Rightarrow> ('st, 'x) MarineConfig \<Rightarrow> (('x, 'v, 'n, 'te) MarineError + ('s, 'a, 'i, 'f, 'm, 'p) Marine) outcome) \<Rightarrow>
    ('x, 'v, 'n, 'te, 'io) AppServiceError + ('st, 'x) AppServiceConfig \<Rightarrow> string \<Rightarrow> (string, string) hmap \<Rightarrow>
    ('d, ('x, 'v, 'n, 'te, 'io) AppServiceError, ('s, 'a, 'i, 'f, 'm, 'p) AppService) eff" where
  "AppService_new D engine_new fresh build_marine config service_id envs =
    bindM (liftR (map_err (\<lambda>e. A_MarineError (EngineError (M_WasmBackendError e))) (WasmtimeWasmBackend_new_async engine_new fresh)))
      (\<lambda>backend. AppService_new_with_backend D (build_marine backend) config service_id envs)"

definition ticker_increment_epoch :: "('en \<Rightarrow> 'w \<Rightarrow> 'w) \<Rightarrow> 'en EpochTicker \<Rightarrow> 'w \<Rightarrow> 'w" where
  "ticker_increment_epoch engine_increment_epoch t = engine_increment_epoch (ticker_backend t)"

subsection \<open>Properties\<close>

text \<open>The ticker of a factory moves the epoch of the engine that all its services run on.\<close>

lemma ticker_of_factory:
  "(AppServiceFactory_new engine_new config :: ('x, 'v, 'n, 'te, 'io) AppServiceError + _) = Inr (factory, t) \<Longrightarrow>
    ticker_increment_epoch tick t = tick (fac_backend factory)"
  by (auto simp: AppServiceFactory_new_def ticker_increment_epoch_def bindR_Inr)

text \<open>An engine that cannot be made is an error of the backend in a factory and an error of the runtime in \<open>new\<close>.\<close>

lemma engine_errors_differ:
  assumes "engine_new config = Inl e" and "engine_new (WasmtimeConfig_default fresh) = Inl e"
  shows "(AppServiceFactory_new engine_new config :: ('x, 'v, 'n, 'te, 'io) AppServiceError + _) = Inl (A_WasmBackendError (WB_InitializationError e)) \<and>
    (AppService_new D engine_new fresh build_marine cfg service_id envs :: (_, ('x, 'v, 'n, 'te, 'io) AppServiceError, _) eff) d =
      (Returns (Inl (A_MarineError (EngineError (M_WasmBackendError (WB_InitializationError e))))), d)"
  using assms by (simp add: AppServiceFactory_new_def AppService_new_def WasmtimeWasmBackend_new_def WasmtimeWasmBackend_new_async_def
      bindM_def liftR_def)

text \<open>With the same engine both constructors make the same service.\<close>

lemma constructors_agree:
  assumes "(AppServiceFactory_new engine_new (WasmtimeConfig_default fresh) :: ('x, 'v, 'n, 'te, 'io) AppServiceError + _) = Inr (factory, t)"
  shows "(AppService_new D engine_new fresh build_marine (Inr cfg) service_id envs :: (_, ('x, 'v, 'n, 'te, 'io) AppServiceError, _) eff) =
    new_app_service D build_marine factory cfg service_id envs"
proof -
  obtain en where en: "engine_new (WasmtimeConfig_default fresh) = Inr en" "factory = \<lparr>fac_backend = en\<rparr>"
    using assms by (auto simp: AppServiceFactory_new_def WasmtimeWasmBackend_new_def bindR_Inr map_err_Inr)
  then show ?thesis
    by (simp add: AppService_new_def new_app_service_def WasmtimeWasmBackend_new_async_def WasmtimeWasmBackend_new_def
        bindM_def liftR_def fun_eq_iff)
qed

end
