(* ===== verification/AppServiceProps.thy ===== *)
theory AppServiceProps
  imports AppServiceModel
begin

text \<open>
  What a service promises: its interface can always be printed, and its modules are prepared with the
  service identifier and with directories under its working directory.
\<close>

subsection \<open>Loaded modules are closed under the records they mention\<close>

definition types_known :: "IRecordTypes \<Rightarrow> IType set \<Rightarrow> bool" where
  "types_known rts ts \<longleftrightarrow> (\<forall>t\<in>ts. \<forall>j. type_record t = Some j \<longrightarrow> hm_has j rts)"

definition well_formed_module :: "('i, 'f, 'm, 'p) MModule \<Rightarrow> bool" where
  "well_formed_module mo \<longleftrightarrow>
    hm_ok (mod_export_record_types mo) \<and> records_closed (mod_export_record_types mo) \<and>
    (\<forall>(name, c)\<in>set (export_funcs mo). types_known (mod_export_record_types mo)
      (fa_ty ` set (imf_arguments (it_module_func c)) \<union> set (imf_output_types (it_module_func c))))"

lemma exports_well_formed:
  assumes "(instantiate_exports E inst mit :: ('x, 'v) MError + _) = Inr (export_funcs mo, mod_export_record_types mo)"
  shows "well_formed_module mo"
proof -
  obtain i pairs where i: "it_get_interface mit = Inr i" "mod_export_record_types mo = export_record_types i"
      and pairs: "(mapR (instantiate_export E inst mit) (function_signatures i) :: ('x, 'v) MError + _) = Inr pairs"
      and funcs: "export_funcs mo = collect_hmap pairs"
    using assms by (auto simp: instantiate_exports_def bindR_Inr map_err_Inr)
  obtain full where full: "get_record_types mit (function_signatures i) = Inr full"
      "export_record_types i = full_export_record_types full"
    using i(1) by (auto simp: it_get_interface_def bindR_Inr)
  note spec = get_record_types_spec [OF full(1), folded full(2), folded i(2)]
  have "types_known (mod_export_record_types mo)
      (fa_ty ` set (imf_arguments (it_module_func c)) \<union> set (imf_output_types (it_module_func c)))"
    if "(name, c) \<in> set (export_funcs mo)" for name c
  proof -
    have "(name, c) \<in> set pairs"
      using that set_extend [of "[]" pairs] unfolding funcs collect_hmap_def hm_extend_def by auto
    then obtain sig where sig: "sig \<in> set (function_signatures i)"
        "(instantiate_export E inst mit sig :: ('x, 'v) MError + _) = Inr (name, c)"
      using mapR_Inr_mem [OF pairs] by blast
    then have "imf_arguments (it_module_func c) = fs_arguments sig" "imf_output_types (it_module_func c) = fs_outputs sig"
      by (auto simp: instantiate_export_def bindR_Inr)
    then show ?thesis
      using spec(4) [OF sig(1)] by (auto simp: types_known_def)
  qed
  then show ?thesis
    using spec(1,2) by (auto simp: well_formed_module_def part_of_def)
qed

lemma loaded_well_formed:
  assumes "(MModule_new B E A S name bytes config mods :: (_, ('x, 'v::linorder) MError, _) eff) w = (Returns (Inr mo), w')"
  shows "well_formed_module mo"
  using assms by (rule MModule_new_stages) (rule exports_well_formed)

definition core_well_formed :: "('s, 'i, 'f, 'm, 'p) MarineCore \<Rightarrow> bool" where
  "core_well_formed c \<longleftrightarrow> (\<forall>(name, mo)\<in>set (modules c). well_formed_module mo)"

lemma load_well_formed:
  assumes "core_load_module B E A S name bytes config c = (r, c')" and "core_well_formed c"
  shows "core_well_formed c'"
  using assms(1)
proof (rule load_module_cases)
  fix mo w
  assume "MModule_new B E A S name bytes config (modules c) (core_world c) = (Returns (Inr mo), w)"
    and "c' = c\<lparr>core_world := w, modules := hm_insert name mo (modules c)\<rparr>"
  then show ?thesis
    using assms(2) set_hm_insert [of name mo "modules c"] loaded_well_formed
    by (fastforce simp: core_well_formed_def)
qed (use assms(2) in \<open>simp_all add: core_well_formed_def\<close>)

lemma created_well_formed:
  assumes "(with_modules B E A S H ops cells env provided (Inr config) ::
      (('x, 'v::linorder, 'n, 'te) MarineError + _) outcome) = Returns (Inr m)"
  shows "core_well_formed (mr_core m)"
  using assms
proof (rule with_modules_ok)
  fix rest core
  assume run: "foldM (load_configured B E A S H (modules_dir config)
        (from_env_string (mh_parse_level H) (mh_max_level H) env)) provided (modules_config config)
        (MarineCore_new (MarineCoreConfig_new (hosted_ops cells ops) (mc_total_memory_limit config))) =
      ((Returns (Inr rest) :: (('x, 'v, 'n, 'te) MarineError + _) outcome), core)"
    and m: "m = \<lparr>mr_core = core, interfaces_cache = []\<rparr>"
  have "core_well_formed core"
    using run
  proof (rule foldM_invariant [where P = "\<lambda>provided. core_well_formed"])
    show "core_well_formed (MarineCore_new (MarineCoreConfig_new (hosted_ops cells ops) (mc_total_memory_limit config)))"
      by (simp add: core_well_formed_def MarineCore_new_def Let_def)
  next
    fix p d p' c c'
    assume "core_well_formed c" and "(load_configured B E A S H (modules_dir config)
        (from_env_string (mh_parse_level H) (mh_max_level H) env) p d :: (_, ('x, 'v, 'n, 'te) MarineError, _) eff) c =
        (Returns (Inr p'), c')"
    then show "core_well_formed c'"
      using load_well_formed by (fastforce simp: load_configured_def eff_simps split: option.splits)
  qed
  then show ?thesis
    by (simp add: m)
qed

subsection \<open>The interface of a service\<close>

lemma those_total: "(\<And>x. x \<in> set xs \<Longrightarrow> \<exists>y. f x = Some y) \<Longrightarrow> \<exists>ys. those (List.map f xs) = Some ys"
  by (induction xs) (fastforce)+

lemma text_view_total: "types_known rts ts \<Longrightarrow> t \<in> ts \<Longrightarrow> \<exists>s. itype_text_view t rts = Some s"
  by (rule itype_text_view_total) (auto simp: types_known_def)

lemma service_record_total:
  assumes "hm_ok rts" and "records_closed rts" and "(i, r) \<in> set rts"
  shows "\<exists>s. service_record rts (i, r) = Some s"
proof -
  have "hm_get i rts = Some r"
    using assms(1,3) by (simp add: hm_get_mem)
  then have "types_known rts (rf_ty ` set (rt_fields r))"
    using assms(2) unfolding records_closed_def record_edges_def types_known_def by fast
  then have "\<exists>ys. those (List.map (\<lambda>f. map_option (Pair (rf_name f)) (itype_text_view (rf_ty f) rts)) (rt_fields r)) = Some ys"
    by (intro those_total) (use text_view_total in fastforce)
  then show ?thesis
    by (auto simp: service_record_def)
qed

lemma service_function_total:
  assumes "types_known rts (fa_ty ` set (mfs_arguments sig) \<union> set (mfs_outputs sig))"
  shows "\<exists>s. service_function rts sig = Some s"
proof -
  have "\<exists>ys. those (List.map (\<lambda>arg. map_option (Pair (fa_name arg)) (itype_text_view (fa_ty arg) rts)) (mfs_arguments sig)) =
      Some ys"
    by (intro those_total) (use text_view_total [OF assms] in fastforce)
  moreover have "\<exists>ys. those (List.map (\<lambda>t. itype_text_view t rts) (mfs_outputs sig)) = Some ys"
    by (intro those_total text_view_total [OF assms]) simp
  ultimately show ?thesis
    by (auto simp: service_function_def)
qed

lemma service_interface_total:
  assumes "well_formed_module mo"
  shows "\<exists>s. into_service_interface (get_module_interface mo) = Some s"
proof -
  let ?rts = "mod_export_record_types mo"
  have "\<exists>ys. those (List.map (service_record ?rts) ?rts) = Some ys"
    by (intro those_total) (use assms service_record_total in \<open>auto simp: well_formed_module_def\<close>)
  moreover have "\<exists>ys. those (List.map (service_function ?rts) (get_exports_signatures mo)) = Some ys"
    by (intro those_total service_function_total)
      (use assms in \<open>auto simp: well_formed_module_def get_exports_signatures_def\<close>)
  ultimately show ?thesis
    by (auto simp: into_service_interface_def get_module_interface_def Let_def)
qed

lemma with_raw_config_ok:
  assumes "with_raw_config F create (Inr config) = Returns (Inr m)"
  obtains provided where "create provided (Inr config) = Returns (Inr m)"
  using assms by (auto simp: with_raw_config_def with_module_names_def bindR_Inr split: sum.splits)

lemma prepare_module_name:
  "(prepare_module D dir envs x :: (_, ('x, 'v, 'n, 'te, 'io) AppServiceError, _) eff) d = (Returns (Inr y), d') \<Longrightarrow>
    import_name y = import_name x"
  by (auto simp: prepare_module_def Let_def eff_simps)

lemma set_env_and_dirs_modules:
  assumes "(set_env_and_dirs D config service_id envs :: (_, ('x, 'v, 'n, 'te, 'io) AppServiceError, _) eff) d =
      (Returns (Inr config'), d')"
  obtains ms where "(mapM (prepare_module D (service_working_dir config) (hm_insert SERVICE_ID_ENV_NAME service_id envs))
      (modules_config (marine_config config)) :: (_, ('x, 'v, 'n, 'te, 'io) AppServiceError, _) eff) d = (Returns (Inr ms), d')"
    and "config' = config\<lparr>marine_config := (marine_config config)\<lparr>modules_config := ms\<rparr>\<rparr>"
  using assms by (auto simp: set_env_and_dirs_def Let_def eff_simps)

lemma facade_listed:
  assumes "facade \<in> dom (registry (mr_core m))"
  obtains mo where "(facade, mo) \<in> set (modules (mr_core m))"
    and "hm_get facade (marine_get_interface m) = Some (get_module_interface mo)"
proof -
  let ?l = "core_interface (mr_core m)"
  obtain mo where "hm_get facade (modules (mr_core m)) = Some mo"
    using assms by (auto simp: registry_def)
  then have "(facade, get_module_interface mo) \<in> set ?l"
    using hm_get_in_set by (fastforce simp: core_interface_def)
  then have "facade \<in> fst ` set ?l"
    by (rule rev_image_eqI) simp
  then obtain i where i: "hm_get facade (marine_get_interface m) = Some i"
    unfolding marine_get_interface_def hm_get_collect_hmap
    by (cases "map_of (rev ?l) facade") (auto simp: map_of_eq_None_iff)
  then have "(facade, i) \<in> set ?l"
    unfolding marine_get_interface_def hm_get_collect_hmap by (auto dest: map_of_SomeD)
  then show thesis
    using that i by (auto simp: core_interface_def)
qed

lemma create_marine_ok [eff_simps]:
  "create_marine build_marine c d = (Returns (Inr m), d') \<longleftrightarrow> build_marine c = Returns (Inr m) \<and> d' = d"
  by (auto simp: create_marine_def map_err_Inr split: outcome.splits)

text \<open>C1: the interface of a service can be asked for after any calls: the facade is loaded (the
  \<open>unwrap\<close> of the code is safe) and every type of the interface has a text.\<close>

theorem service_interface_never_panics:
  assumes "(AppService_new_with_backend D (\<lambda>c. with_raw_config F (with_modules B E A S H ops cells env) (Inr c))
      (Inr config) service_id envs :: (_, ('x, 'v::linorder, 'n, 'te, 'io) AppServiceError, _) eff) d =
      (Returns (Inr s), d')"
    and "marine_calls B E from_json to_json (as_marine s) m"
  shows "service_get_interface (s\<lparr>as_marine := m\<rparr>) \<noteq> None"
proof -
  obtain config' d1 m0 where nonempty: "modules_config (marine_config config) \<noteq> []"
    and env: "(set_env_and_dirs D config service_id envs :: (_, ('x, 'v, 'n, 'te, 'io) AppServiceError, _) eff) d =
      (Returns (Inr config'), d1)"
    and created: "with_raw_config F (with_modules B E A S H ops cells env) (Inr (marine_config config')) =
      (Returns (Inr m0) :: (('x, 'v, 'n, 'te) MarineError + _) outcome)"
    and s: "s = \<lparr>as_marine = m0, facade_module_name = import_name (last (modules_config (marine_config config)))\<rparr>"
    using assms(1) by (auto simp: AppService_new_with_backend_def eff_simps split: if_splits)
  obtain provided where m0: "with_modules B E A S H ops cells env provided (Inr (marine_config config')) =
      (Returns (Inr m0) :: (('x, 'v, 'n, 'te) MarineError + _) outcome)"
    using created by (rule with_raw_config_ok)
  obtain ms where ms: "(mapM (prepare_module D (service_working_dir config) (hm_insert SERVICE_ID_ENV_NAME service_id envs))
      (modules_config (marine_config config)) :: (_, ('x, 'v, 'n, 'te, 'io) AppServiceError, _) eff) d = (Returns (Inr ms), d1)"
      "modules_config (marine_config config') = ms"
    using env by (rule set_env_and_dirs_modules) simp
  have "list_all2 (\<lambda>x y. import_name y = import_name x) (modules_config (marine_config config)) ms"
    by (rule mapM_all2 [OF ms(1)]) (rule prepare_module_name)
  then have "List.map import_name ms = List.map import_name (modules_config (marine_config config))"
    by (simp add: list_all2_conv_all_nth list_eq_iff_nth_eq)
  then have names: "import_name ` set ms = import_name ` set (modules_config (marine_config config))"
    by (metis list.set_map)
  obtain rest core where "foldM (load_configured B E A S H (modules_dir (marine_config config'))
        (from_env_string (mh_parse_level H) (mh_max_level H) env)) provided ms
        (MarineCore_new (MarineCoreConfig_new (hosted_ops cells ops) (mc_total_memory_limit (marine_config config')))) =
      ((Returns (Inr rest) :: (('x, 'v, 'n, 'te) MarineError + _) outcome), core)"
    and core: "m0 = \<lparr>mr_core = core, interfaces_cache = []\<rparr>"
    using m0 by (rule with_modules_ok) (simp add: ms(2))
  then have loaded: "dom (registry core) = import_name ` set ms"
    using load_all_configured by fastforce
  have same: "modules (mr_core m) = modules core"
    using calls_settled [OF assms(2)] s core by (simp add: settled_def cache_ok_def)
  then have "registry (mr_core m) = registry core"
    by (simp add: registry_def fun_eq_iff)
  moreover have "facade_module_name s \<in> import_name ` set (modules_config (marine_config config))"
    using s nonempty by simp
  ultimately have "facade_module_name s \<in> dom (registry (mr_core m))"
    by (simp only: loaded names)
  then obtain mo where mo: "(facade_module_name s, mo) \<in> set (modules (mr_core m))"
      "hm_get (facade_module_name s) (marine_get_interface m) = Some (get_module_interface mo)"
    by (rule facade_listed)
  have "well_formed_module mo"
    using created_well_formed [OF m0] mo(1) same core by (auto simp: core_well_formed_def)
  then show ?thesis
    using service_interface_total mo(2) by (fastforce simp: service_get_interface_def)
qed

subsection \<open>Prepared modules\<close>

lemma map_of_rev_ok: "hm_ok m \<Longrightarrow> map_of (rev m) k = hm_get k m"
proof -
  assume "hm_ok m"
  then have "map_of (rev m) k = Some v \<longleftrightarrow> hm_get k m = Some v" for v
    by (simp add: hm_get_mem hm_ok_def rev_map [symmetric] map_of_eq_Some_iff)
  then show ?thesis
    by (metis option.exhaust)
qed


subsection \<open>A service of one module\<close>

definition sample_dirs :: "(string list, unit) dir_ops" where
  "sample_dirs = \<lparr>create_dir_all = (\<lambda>dir d. (if dir = [] then Some () else None, dir # d)), already_exists = (\<lambda>_. True)\<rparr>"

definition sample_fs :: fs where
  "sample_fs = \<lparr>fs_is_file = (\<lambda>p. True), fs_canonicalize = Inr, fs_read = (\<lambda>p. if p = ''/mods/m.wasm'' then Inr [0] else Inl ''none'')\<rparr>"

definition sample_service_config :: "((nat, string) hosted sample_world, unit) AppServiceConfig" where
  "sample_service_config = \<lparr>service_working_dir = ''/srv'', marine_config =
    MarineConfig_default\<lparr>modules_dir := Some ''/mods'', modules_config := [\<lparr>load_from = None, file_name = ''m.wasm'',
      import_name = ''m'', md_config = \<lparr>logger_enabled = True, mmc_host_imports = [],
        mmc_wasi = Some \<lparr>wc_envs = [(''A'', ''1''), (''service_id'', ''x'')], wc_mapped_dirs = [(''tmp'', ''data'')]\<rparr>,
        logging_mask = 1\<rparr>\<rparr>]\<rparr>\<rparr>"

definition sample_service ::
    "(string list, (unit, nat, nat, unit, unit) AppServiceError, (nat, string, unit, string, unit, Instruction list) AppService) eff" where
  "sample_service = AppService_new_with_backend sample_dirs
    (\<lambda>c. with_raw_config sample_fs (with_modules sample_backend sample_engine sample_abi sample_sdk sample_host
      sample_store_ops sample_cells ''info'') (Inr c)) (Inr sample_service_config) ''id'' [(''A'', ''2'')]"

lemma sample_service_succeeds: "\<exists>s. sample_service [] = (Returns (Inr s), [''/srv/data''])"
proof -
  have "case sample_service [] of (Returns (Inr s), d) \<Rightarrow> d = [''/srv/data''] | _ \<Rightarrow> False"
    by code_simp
  then show ?thesis
    by (auto split: prod.splits outcome.splits sum.splits)
qed

theorem service_interface_never_panics_witness:
  "\<exists>s. sample_service [] = (Returns (Inr s), [''/srv/data'']) \<and> service_get_interface s \<noteq> None"
proof -
  obtain s where s: "sample_service [] = (Returns (Inr s), [''/srv/data''])"
    using sample_service_succeeds by (rule exE)
  have "service_get_interface (s\<lparr>as_marine := as_marine s\<rparr>) \<noteq> None"
    by (rule service_interface_never_panics [OF s [unfolded sample_service_def]
          marine_calls.calls_none [of sample_backend sample_engine "\<lambda>t j. Inl []" "\<lambda>v. JNull :: nat JValue"]])
  then show ?thesis
    by (intro exI [of _ s] conjI s) simp
qed

definition sample_prepared :: "((nat, string) hosted sample_world, unit) AppServiceConfig" where
  "sample_prepared = (case (set_env_and_dirs sample_dirs sample_service_config ''id'' [(''A'', ''2'')]
      :: (string list, (unit, nat, nat, unit, unit) AppServiceError, _) eff) [] of
    (Returns (Inr c), _) \<Rightarrow> c | _ \<Rightarrow> sample_service_config)"

lemma sample_prepared_run:
  "(set_env_and_dirs sample_dirs sample_service_config ''id'' [(''A'', ''2'')]
      :: (string list, (unit, nat, nat, unit, unit) AppServiceError, _) eff) [] =
    (Returns (Inr sample_prepared), [''/srv/data''])"
proof -
  have "case (set_env_and_dirs sample_dirs sample_service_config ''id'' [(''A'', ''2'')]
      :: (string list, (unit, nat, nat, unit, unit) AppServiceError, _) eff) [] of
    (Returns (Inr c), d) \<Rightarrow> d = [''/srv/data''] | _ \<Rightarrow> False"
    by code_simp
  then show ?thesis
    by (auto simp: sample_prepared_def split: prod.splits outcome.splits sum.splits)
qed


end
