(* ===== verification/JsMachine.thy ===== *)
theory JsMachine
  imports JsLinking
begin

text \<open>
  Properties of the JavaScript backend over time: which instance an import sees as its caller, that
  handles stay valid, and that values cross the boundary to JavaScript unchanged.
\<close>

subsection \<open>Values across the boundary\<close>

text \<open>What JavaScript and \<open>wasm_bindgen\<close> document: 32-bit integers and floats become numbers,
  which are 64-bit floats, and 64-bit integers become big integers; an array keeps its elements.
  A number may lose the payload of a NaN.\<close>

definition js_values_ok :: "('j, 'x) js_values \<Rightarrow> bool" where
  "js_values_ok J \<longleftrightarrow>
    (\<forall>x. as_f64 J (from_i32 J x) = Some (i32_as_f64 x)) \<and>
    (\<forall>x. try_into_i64 J (from_i64 J x) = Some x) \<and>
    (\<forall>x. f32_decode x \<noteq> FNaN \<longrightarrow> as_f64 J (from_f32 J x) = Some (f32_as_f64 x)) \<and>
    (\<forall>x. f64_decode x \<noteq> FNaN \<longrightarrow> as_f64 J (from_f64 J x) = Some x) \<and>
    (\<forall>vs i. i < length vs \<longrightarrow> length vs < 2 ^ 32 \<longrightarrow> array_get J (array_from_iter J vs) (word_of_nat i) = vs ! i)"

fun no_nan :: "WValue \<Rightarrow> bool" where
  "no_nan (V_F32 x) = (f32_decode x \<noteq> FNaN)"
| "no_nan (V_F64 x) = (f64_decode x \<noteq> FNaN)"
| "no_nan _ = True"

lemma wval_js_roundtrip:
  assumes "js_values_ok J" "no_nan v"
  shows "wval_from_js J (wvalue_type v) (js_from_wval J v) = Some v"
  using assms by (cases v) (auto simp: js_values_ok_def i32_f64_i32 f32_f64_f32)

lemma wvals_js_roundtrip:
  assumes J: "js_values_ok J" and vs: "list_all no_nan vs" and len: "length (us @ vs) < 2 ^ 32"
  shows "wvals_from_js J (array_from_iter J (List.map (js_from_wval J) (us @ vs))) (length us)
    (List.map wvalue_type vs) = Some vs"
  using vs len
proof (induction vs arbitrary: us)
  case (Cons v vs)
  let ?a = "array_from_iter J (List.map (js_from_wval J) (us @ v # vs))"
  have "array_get J ?a (word_of_nat (length us)) = List.map (js_from_wval J) (us @ v # vs) ! length us"
    using J Cons.prems unfolding js_values_ok_def by (metis add_gr_0 length_Cons length_append length_map less_add_same_cancel1 zero_less_Suc)
  then have "array_get J ?a (word_of_nat (length us)) = js_from_wval J v"
    by (simp add: nth_append)
  moreover have "wvals_from_js J ?a (length (us @ [v])) (List.map wvalue_type vs) = Some vs"
    using Cons.IH [of "us @ [v]"] Cons.prems by simp
  ultimately show ?case
    using Cons.prems wval_js_roundtrip [OF J] by simp
qed simp

text \<open>C16: Values other than NaNs go to JavaScript and back unchanged: reading an array written from values,
  at their types, gives the values.\<close>

theorem js_values_cross:
  assumes "js_values_ok J" "list_all no_nan vs" "length vs < 2 ^ 32"
  shows "wval_array_from_js_array J (js_array_from_wval_array J vs) (List.map wvalue_type vs) = Some vs"
  using wvals_js_roundtrip [OF assms(1,2), of "[]"] assms(3)
  by (simp add: wval_array_from_js_array_def js_array_from_wval_array_def)

datatype sample_js = SampleNumber u64 | SampleBigInt u64 | SampleArray "sample_js list"

definition sample_values :: "(sample_js, unit) js_values" where
  "sample_values = \<lparr>from_i32 = (\<lambda>x. SampleNumber (i32_as_f64 x)), from_i64 = SampleBigInt,
    from_f32 = (\<lambda>x. SampleNumber (f32_as_f64 x)), from_f64 = SampleNumber,
    as_f64 = (\<lambda>v. case v of SampleNumber d \<Rightarrow> Some d | _ \<Rightarrow> None),
    try_into_i64 = (\<lambda>v. case v of SampleBigInt i \<Rightarrow> Some i | _ \<Rightarrow> None),
    array_from_iter = SampleArray,
    array_length = (\<lambda>v. case v of SampleArray vs \<Rightarrow> word_of_nat (length vs) | _ \<Rightarrow> 0),
    array_get = (\<lambda>v i. case v of SampleArray vs \<Rightarrow> vs ! unat i | _ \<Rightarrow> v),
    error_msg = (\<lambda>_. ())\<rparr>"

lemma sample_values_ok: "js_values_ok sample_values"
  by (auto simp: js_values_ok_def sample_values_def unat_of_nat_u32)

theorem js_values_cross_witness:
  "wval_array_from_js_array sample_values
    (js_array_from_wval_array sample_values [V_I32 (- 1), V_F32 0x3FC00000, V_I64 (- 1)]) [T_I32, T_F32, T_I64] =
   Some [V_I32 (- 1), V_F32 0x3FC00000, V_I64 (- 1)]"
proof -
  have "f32_decode 0x3FC00000 = FFin False 12582912 (- 23)"
    by (simp add: f32_decode_def f_decode_def f_emin_def f_bias_def)
  then show ?thesis
    using js_values_cross [OF sample_values_ok, of "[V_I32 (- 1), V_F32 0x3FC00000, V_I64 (- 1)]"] by simp
qed

lemma hm_insert_set: "set (hm_insert k v m) \<subseteq> insert (k, v) (set m)"
  unfolding hm_insert_def by (induction m) auto

lemma hm_collect_set: "set (hm_collect kvs) \<subseteq> set kvs"
proof -
  have "set (foldl (\<lambda>m (k, v). hm_insert k v m) m kvs) \<subseteq> set m \<union> set kvs" for m
  proof (induction kvs arbitrary: m)
    case (Cons kv kvs)
    obtain a b where kv: "kv = (a, b)"
      by (cases kv)
    have "set (foldl (\<lambda>m (k, v). hm_insert k v m) (hm_insert a b m) kvs) \<subseteq> set (hm_insert a b m) \<union> set kvs"
      by (rule Cons.IH)
    then show ?case
      using hm_insert_set [of a b m] by (auto simp: kv)
  qed simp
  from this [of "[]"] show ?thesis
    by (simp add: hm_collect_def)
qed

subsection \<open>Calls\<close>

text \<open>The frames of nested calls, innermost first: an instance running, or the host inside an import it
  was called for by the instance that it takes for its caller.\<close>

datatype frame = InWasm JsInstance | InHost JsInstance

fun host_runs :: "frame list \<Rightarrow> bool" where
  "host_runs (InWasm _ # _) = False"
| "host_runs _ = True"

text \<open>The host creates functions, WASI contexts and instances, and calls exported functions it looked up
  in an instance; a running instance calls imports.\<close>

inductive js_reachable :: "('j, 'o, 'i, 'm, 'w, 'wm, 'h, 'e, 'x) js_api \<Rightarrow> ('w, 'i, 'm, 'h, 'e) JsStore \<Rightarrow>
  frame list \<Rightarrow> bool" for A where
  Start: "js_reachable A JsStore_new []"
| NewFunction: "js_reachable A st fr \<Longrightarrow> host_runs fr \<Longrightarrow>
    js_reachable A (snd (HostImportFunction_new_with_caller sig h st)) fr"
| NewWasi: "js_reachable A st fr \<Longrightarrow> host_runs fr \<Longrightarrow>
    js_register_in_linker A config imp st = (Returns r, st') \<Longrightarrow> js_reachable A st' fr"
| NewInstance: "js_reachable A st fr \<Longrightarrow> host_runs fr \<Longrightarrow>
    bindM (bind_to_instance A imp i) (\<lambda>_. JsInstance_new A i info) st = (Returns (Inr inst :: 'x InstantiationError + _), st') \<Longrightarrow>
    js_reachable A st' fr"
| CallExport: "js_reachable A st fr \<Longrightarrow> host_runs fr \<Longrightarrow>
    js_get_function inst name st = (Returns (Inr f :: 'x ResolveError + _), st') \<Longrightarrow>
    js_reachable A (enter_call (bound_instance f) st') (InWasm inst # fr)"
| CallImport: "js_reachable A st (InWasm inst # fr) \<Longrightarrow>
    caller_instance st = (Returns (Inr c :: 'x RuntimeError + _), st') \<Longrightarrow>
    js_reachable A st' (InHost c # InWasm inst # fr)"
| ImportReturns: "js_reachable A st (InHost c # fr) \<Longrightarrow> js_reachable A st fr"
| ExportReturns: "js_reachable A st (InWasm inst # fr) \<Longrightarrow> js_reachable A (leave_call st) fr"

fun running :: "frame list \<Rightarrow> JsInstance list" where
  "running [] = []"
| "running (InWasm i # fr) = running fr @ [i]"
| "running (InHost _ # fr) = running fr"

text \<open>Every exported function is bound to the instance that exports it, and its handle is valid.\<close>

definition exports_bound :: "('w, 'i, 'm, 'h, 'e) JsStore \<Rightarrow> bool" where
  "exports_bound st \<longleftrightarrow>
    (\<forall>k<length (js_instances st). \<forall>(n, ex)\<in>set (si_exports (js_instances st ! k)). \<forall>f. ex = Export_Function f \<longrightarrow>
      bound_instance f = JsInstance k \<and> ef_handle f < length (js_functions st))"

definition js_inv :: "('w, 'i, 'm, 'h, 'e) JsStore \<Rightarrow> frame list \<Rightarrow> bool" where
  "js_inv st fr \<longleftrightarrow> wasm_call_stack st = running fr \<and> exports_bound st"

text \<open>Creating the exports of an instance only adds functions to the store.\<close>

definition adds_functions :: "('w, 'i, 'm, 'h, 'e) JsStore \<Rightarrow> ('w, 'i, 'm, 'h, 'e) JsStore \<Rightarrow> bool" where
  "adds_functions st st' \<longleftrightarrow> js_instances st' = js_instances st \<and> wasm_call_stack st' = wasm_call_stack st \<and>
    length (js_functions st) \<le> length (js_functions st')"

lemma build_export_adds:
  assumes "build_export A inst o_exports entry st = (Returns (Inr (n, ex)), st')"
  shows "adds_functions st st' \<and> (\<forall>f. ex = Export_Function f \<longrightarrow> bound_instance f = inst \<and> ef_handle f < length (js_functions st'))"
  using assms
  by (auto simp: build_export_def bindM_def liftP_def returnM_def panicM_def allocM_def adds_functions_def
      WasmExportFunction_new_stored_def store_function_def
      split: option.splits ModuleExport.splits prod.splits)

lemma build_exports_add:
  assumes "mapM (build_export A inst o_exports) entries st = (Returns (Inr kvs :: 'er + _), st')"
  shows "adds_functions st st' \<and>
    (\<forall>(n, ex)\<in>set kvs. \<forall>f. ex = Export_Function f \<longrightarrow> bound_instance f = inst \<and> ef_handle f < length (js_functions st'))"
  using assms
proof (induction entries arbitrary: st kvs)
  case Nil
  then show ?case
    by (simp add: returnM_def adds_functions_def)
next
  case (Cons entry entries)
  from Cons.prems obtain n ex st1 kvs' where 1: "build_export A inst o_exports entry st = (Returns (Inr (n, ex) :: 'er + _), st1)"
    and 2: "mapM (build_export A inst o_exports) entries st1 = (Returns (Inr kvs' :: 'er + _), st')" and kvs: "kvs = (n, ex) # kvs'"
    by (auto simp: bindM_def returnM_def split: prod.splits outcome.splits sum.splits)
  show ?case
    using build_export_adds [OF 1] Cons.IH [OF 2] kvs
    by (auto simp: adds_functions_def)
qed

lemma JsInstance_new_exports:
  assumes "JsInstance_new A i info st = (Returns (Inr inst :: 'er + _), st')" "exports_bound st"
  shows "exports_bound st' \<and> wasm_call_stack st' = wasm_call_stack st"
proof -
  define k where "k = length (js_instances st)"
  define st1 where "st1 = st\<lparr>js_instances := js_instances st @ [\<lparr>si_inner = i, si_exports = []\<rparr>]\<rparr>"
  obtain kvs st2 where build: "mapM (build_export A (JsInstance k) (instance_exports A i)) (mi_exports info) st1 =
      (Returns (Inr kvs :: 'er + _), st2)"
    and st': "st' = st2\<lparr>js_instances := (js_instances st2)[k := (js_instances st2 ! k)\<lparr>si_exports := hm_collect kvs\<rparr>]\<rparr>"
    using assms(1)
    by (auto simp: JsInstance_new_def bindM_def allocM_def store_instance_def stored_instance_def nthM_def
        build_export_map_def set_exports_def returnM_def Let_def k_def st1_def
        split: prod.splits outcome.splits sum.splits if_splits)
  note adds = build_exports_add [OF build]
  have "bound_instance f = JsInstance k' \<and> ef_handle f < length (js_functions st')"
    if "k' < length (js_instances st')" "(n, Export_Function f) \<in> set (si_exports (js_instances st' ! k'))" for k' n f
  proof (cases "k' = k")
    case True
    then have "(n, Export_Function f) \<in> set (hm_collect kvs)"
      using that st' by auto
    then have "(n, Export_Function f) \<in> set kvs"
      using hm_collect_set by fast
    then show ?thesis
      using adds st' True by auto
  next
    case False
    then have "k' < k" "js_instances st' ! k' = js_instances st ! k'"
      using that adds st' by (auto simp: adds_functions_def st1_def k_def nth_append)
    then show ?thesis
      using that adds st' assms(2) unfolding exports_bound_def
      by (fastforce simp: adds_functions_def st1_def k_def)
  qed
  then show ?thesis
    using adds st' by (auto simp: exports_bound_def adds_functions_def st1_def)
qed

lemma exports_bound_cong:
  "js_instances st' = js_instances st \<Longrightarrow> length (js_functions st) \<le> length (js_functions st') \<Longrightarrow>
   exports_bound st \<Longrightarrow> exports_bound st'"
  by (fastforce simp: exports_bound_def)

lemma bind_to_instance_same:
  assumes "bind_to_instance A imp i st = (r, st')"
  shows "js_instances st' = js_instances st \<and> js_functions st' = js_functions st \<and>
    wasm_call_stack st' = wasm_call_stack st"
  using assms by (auto simp: bind_to_instance_def returnM_def split: option.splits if_splits)

lemma js_get_function_bound:
  assumes "exports_bound st" "js_get_function inst name st = (Returns (Inr f :: 'x ResolveError + _), st')"
  shows "st' = st \<and> bound_instance f = inst \<and> ef_handle f < length (js_functions st)"
proof -
  obtain ex where k: "store_handle inst < length (js_instances st)" and st': "st' = st"
    and ex: "hm_get name (si_exports (js_instances st ! store_handle inst)) = Some ex"
    and f: "(case ex of Export_Function f \<Rightarrow> Inr f
      | Export_Memory _ \<Rightarrow> Inl (ExportTypeMismatch ''function'' ''memory'')
      | Export_Other \<Rightarrow> Inl (ExportTypeMismatch ''function'' ''other(funcref or externref)'')) = (Inr f :: 'x ResolveError + _)"
    using assms(2)
    by (auto simp: js_get_function_def stored_instance_def nthM_def bindM_def liftR_def bindR_Inr ok_or_Inr
        split: if_splits)
  then have get: "hm_get name (si_exports (js_instances st ! store_handle inst)) = Some (Export_Function f)"
    by (cases ex) simp_all
  from get have "(name, Export_Function f) \<in> set (si_exports (js_instances st ! store_handle inst))"
    by (rule hm_get_in_set)
  then show ?thesis
    using assms(1) k st' unfolding exports_bound_def by (cases inst) fastforce
qed

lemma js_inv_instance:
  assumes "bindM (bind_to_instance A imp i) (\<lambda>_. JsInstance_new A i info) st = (Returns (Inr inst :: 'er + _), st')" "js_inv st fr"
  shows "js_inv st' fr"
proof -
  from assms(1) obtain st1 where b: "bind_to_instance A imp i st = (Returns (Inr () :: 'er + _), st1)"
    and n: "JsInstance_new A i info st1 = (Returns (Inr inst :: 'er + _), st')"
    by (auto simp: bindM_def split: prod.splits outcome.splits sum.splits)
  note same = bind_to_instance_same [OF b]
  have "exports_bound st1"
    using exports_bound_cong [of st1 st] same assms(2) by (simp add: js_inv_def)
  then show ?thesis
    using JsInstance_new_exports [OF n] same assms(2) by (simp add: js_inv_def)
qed

lemma js_reachable_inv: "js_reachable A st fr \<Longrightarrow> js_inv st fr"
proof (induction rule: js_reachable.induct)
  case Start
  then show ?case
    by (simp add: js_inv_def JsStore_new_def exports_bound_def)
next
  case (NewFunction st fr sig h)
  then show ?case
    using exports_bound_cong [of "snd (HostImportFunction_new_with_caller sig h st)" st]
    by (simp add: js_inv_def HostImportFunction_new_with_caller_def store_function_def Let_def)
next
  case (NewWasi st fr config imp r st')
  then have "js_instances st' = js_instances st \<and> js_functions st' = js_functions st \<and> wasm_call_stack st' = wasm_call_stack st"
    by (auto simp: js_register_in_linker_def bindM_def liftR_def allocM_def store_wasi_context_def returnM_def
        split: prod.splits outcome.splits sum.splits)
  then show ?case
    using exports_bound_cong [of st' st] NewWasi by (simp add: js_inv_def)
next
  case (NewInstance st fr imp i info inst st')
  then show ?case
    using js_inv_instance [of A imp i info st inst st' fr] by simp
next
  case (CallExport st fr inst name f st')
  then have "st' = st" "bound_instance f = inst"
    using js_get_function_bound [of st] by (auto simp: js_inv_def)
  then show ?case
    using CallExport exports_bound_cong [of "enter_call inst st" st] by (simp add: js_inv_def enter_call_def)
next
  case (CallImport st inst fr c st')
  then have "st' = st"
    by (auto simp: caller_instance_def split: list.splits)
  then show ?case
    using CallImport by (simp add: js_inv_def)
next
  case (ImportReturns st c fr)
  then show ?case
    by (simp add: js_inv_def)
next
  case (ExportReturns st inst fr)
  then show ?case
    using exports_bound_cong [of "leave_call st" st] by (simp add: js_inv_def leave_call_def)
qed

lemma caller_instance_last:
  "wasm_call_stack st = is @ [i] \<Longrightarrow> caller_instance st = (Returns (Inr i), st)"
  by (cases "is") (simp_all add: caller_instance_def)


text \<open>Two instances that export a function, the second called from an import of the first.\<close>

definition sample_api :: "(sample_js, unit, nat, unit, unit, unit, unit, unit, unit) js_api" where
  "sample_api = \<lparr>values_api = sample_values, instance_exports = (\<lambda>_. ()), reflect_get = (\<lambda>_ _. Some (SampleNumber 0)),
    into_wasm_function = (\<lambda>_. ()), into_memory = (\<lambda>_. ()), new_object = (), set_function = (\<lambda>_ _ _. Some ()),
    set_object = (\<lambda>_ _ _. Some ()), new_module = (\<lambda>_. Inr ()), parse_all = (\<lambda>_. []),
    new_instance = (\<lambda>_ _. returnM 0), create_wasi = (\<lambda>_. Inr ()), generate_wasi_imports = (\<lambda>_ _. ()),
    bind_wasi_memory = (\<lambda>_ w. w), debug_msg = (\<lambda>_ _. ())\<rparr>"

definition sample_info :: JsModuleInfo where
  "sample_info = \<lparr>mi_custom_sections = [], mi_exports = [(''f'', ME_Function (FuncSig_new [] []))]\<rparr>"

definition sample_fn :: "(unit, unit) StoredFunction" where
  "sample_fn = \<lparr>js_function = WasmFunction (), stored_signature = FuncSig_new [] []\<rparr>"

definition sample_inst :: "nat \<Rightarrow> (nat, unit) StoredInstance" where
  "sample_inst k = \<lparr>si_inner = k, si_exports = [(''f'', Export_Function \<lparr>ef_handle = k, bound_instance = JsInstance k\<rparr>)]\<rparr>"

definition sample_js_store :: "nat \<Rightarrow> JsInstance list \<Rightarrow> (unit, nat, unit, unit, unit) JsStore" where
  "sample_js_store n stack = \<lparr>wasi_contexts = [], js_instances = List.map sample_inst [0..<n],
    js_functions = replicate n sample_fn, wasm_call_stack = stack\<rparr>"

lemma sample_new_instance:
  "bindM (bind_to_instance sample_api JsImports_new n) (\<lambda>_. JsInstance_new sample_api n sample_info) (sample_js_store n []) =
   (Returns (Inr (JsInstance n) :: unit InstantiationError + _), sample_js_store (Suc n) [])"
  by (simp add: bind_to_instance_def JsImports_new_def JsInstance_new_def allocM_def store_instance_def bindM_def
      returnM_def stored_instance_def nthM_def build_export_map_def build_export_def liftP_def sample_api_def
      sample_info_def WasmExportFunction_new_stored_def store_function_def set_exports_def hm_collect_def
      hm_insert_def sample_js_store_def nth_append Let_def)
    (simp add: sample_inst_def sample_fn_def replicate_append_same)

lemma sample_call_export:
  "k < n \<Longrightarrow> js_get_function (JsInstance k) ''f'' (sample_js_store n stack) =
    (Returns (Inr \<lparr>ef_handle = k, bound_instance = JsInstance k\<rparr> :: unit ResolveError + _), sample_js_store n stack)"
  by (simp add: js_get_function_def stored_instance_def nthM_def bindM_def liftR_def sample_js_store_def sample_inst_def)

lemma sample_enter: "enter_call i (sample_js_store n stack) = sample_js_store n (stack @ [i])"
  by (simp add: enter_call_def sample_js_store_def)

lemma sample_nested_calls:
  "js_reachable sample_api (sample_js_store 2 [JsInstance 0, JsInstance 1])
    [InWasm (JsInstance 1), InHost (JsInstance 0), InWasm (JsInstance 0)]"
proof -
  have "js_reachable sample_api (sample_js_store 0 []) []"
    using Start [of sample_api] by (simp add: sample_js_store_def JsStore_new_def)
  from NewInstance [OF this _ sample_new_instance] have "js_reachable sample_api (sample_js_store (Suc 0) []) []"
    by simp
  from NewInstance [OF this _ sample_new_instance] have "js_reachable sample_api (sample_js_store 2 []) []"
    by (simp add: numeral_2_eq_2)
  from CallExport [OF this _ sample_call_export [of 0]]
  have one: "js_reachable sample_api (sample_js_store 2 [JsInstance 0]) [InWasm (JsInstance 0)]"
    by (simp add: sample_enter)
  have "caller_instance (sample_js_store 2 [JsInstance 0]) =
      (Returns (Inr (JsInstance 0) :: unit RuntimeError + _), sample_js_store 2 [JsInstance 0])"
    by (simp add: caller_instance_def sample_js_store_def)
  from CallExport [OF CallImport [OF one this] _ sample_call_export [of 1]] show ?thesis
    by (simp add: sample_enter)
qed


subsection \<open>The call stack is restored\<close>

lemma call_async_restores_stack:
  assumes app: "\<And>g a st r st'. app g a st = (Returns r, st') \<Longrightarrow> wasm_call_stack st' = wasm_call_stack st"
    and call: "js_call_async J app f args st = (Returns r, st')"
  shows "wasm_call_stack st' = wasm_call_stack st"
proof -
  have "wasm_call_stack st2 = wasm_call_stack st1" if "call_inner J app f args st1 = (Returns r, st2)" for st1 st2 r
    using that app
    by (auto simp: call_inner_def stored_def nthM_def bindM_def map_errM_def liftP_def liftR_def returnM_def
        panicM_def Let_def split: if_splits prod.splits outcome.splits sum.splits option.splits)
  then show ?thesis
    using call by (auto simp: js_call_async_def enter_call_def leave_call_def split: prod.splits outcome.splits)
qed

text \<open>Outside of any call, as in the start function of a module that is being instantiated by the host, an
  import panics.\<close>

lemma import_outside_of_calls_panics:
  "wasm_call_stack st = [] \<Longrightarrow> wrap_raw_host_fn J throw raw sig h args st = (Panics, st)"
  by (simp add: wrap_raw_host_fn_def caller_instance_def bindM_def)

end
