(* ===== verification/JsAsync.thy ===== *)
theory JsAsync
  imports JsBackend
begin

text \<open>
  Asynchronous host functions of the JavaScript backend: the executor that polls a future until it is
  ready, \<open>crates/js-backend/src/single_shot_async_executor.rs\<close>, and the wrapper of asynchronous
  closures, \<open>wrap_raw_host_fn_async\<close> of \<open>function.rs\<close>.  A future is a state \<open>fut\<close> with the
  operation \<open>poll\<close>: the value if it is ready, and the future and the store after the poll.  The
  executor may poll for ever, which is the value \<open>None\<close>.
\<close>

type_synonym ('fut, 'st, 'r) poll = "'fut \<Rightarrow> 'st \<Rightarrow> 'r option \<times> 'fut \<times> 'st"

partial_function (option) execute_future_blocking ::
  "('fut, 'st, 'r) poll \<Rightarrow> 'fut \<Rightarrow> 'st \<Rightarrow> ('r \<times> 'st) option" where
  "execute_future_blocking poll fut st =
    (case poll fut st of
      (Some r, _, st) \<Rightarrow> Some (r, st)
    | (None, fut, st) \<Rightarrow> execute_future_blocking poll fut st)"

text \<open>The result of at most \<open>n\<close> polls.\<close>

fun polled :: "nat \<Rightarrow> ('fut, 'st, 'r) poll \<Rightarrow> 'fut \<Rightarrow> 'st \<Rightarrow> ('r \<times> 'st) option" where
  "polled 0 poll fut st = None"
| "polled (Suc n) poll fut st =
    (case poll fut st of (Some r, _, st) \<Rightarrow> Some (r, st) | (None, fut, st) \<Rightarrow> polled n poll fut st)"

definition wrap_raw_host_fn_async :: "('j, 'x) js_values \<Rightarrow> ('x anyhow \<Rightarrow> 'j) \<Rightarrow>
  ('h \<Rightarrow> JsInstance \<Rightarrow> WValue list \<Rightarrow> 'fut) \<Rightarrow>
  ('fut, ('w, 'i, 'm, 'h, 'e) JsStore, 'x anyhow + WValue list) poll \<Rightarrow> FuncSig \<Rightarrow> 'h \<Rightarrow> 'j \<Rightarrow>
  ('w, 'i, 'm, 'h, 'e) JsStore \<Rightarrow> (('j + 'j) outcome \<times> ('w, 'i, 'm, 'h, 'e) JsStore) option" where
  "wrap_raw_host_fn_async J throw raw poll sig h args st =
    (case wasm_call_stack st of
      [] \<Rightarrow> Some (Panics, st)
    | _ \<Rightarrow>
      (case wval_array_from_js_array J args (sig_params sig) of
        None \<Rightarrow> Some (Panics, st)
      | Some args \<Rightarrow>
        map_option (\<lambda>(result, st). (Returns (bindR (map_err throw result) (\<lambda>vs. Inr (js_array_from_wval_array J vs))), st))
          (execute_future_blocking poll (raw h (last (wasm_call_stack st)) args) st)))"

subsection \<open>Properties\<close>

lemma polled_executes: "polled n poll fut st = Some res \<Longrightarrow> execute_future_blocking poll fut st = Some res"
proof (induction n arbitrary: fut st)
  case (Suc n)
  then show ?case
    by (subst execute_future_blocking.simps) (auto split: prod.splits option.splits)
qed simp

lemma executes_polled:
  fixes poll :: "('fut, 'st, 'r) poll"
  assumes "execute_future_blocking poll fut st = Some res"
  shows "\<exists>n. polled n poll fut st = Some res"
proof (rule execute_future_blocking.raw_induct
    [where P = "\<lambda>poll fut st res. \<exists>n. polled n poll fut st = Some res", OF _ assms])
  fix run and poll :: "('fut, 'st, 'r) poll" and fut st res
  assume IH: "\<And>poll fut st res. run poll fut st = Some res \<Longrightarrow> \<exists>n. polled n poll fut st = Some res"
    and run: "(case poll fut st of (None, fut, st) \<Rightarrow> run poll fut st | (Some r, _, st) \<Rightarrow> Some (r, st)) = Some res"
  show "\<exists>n. polled n poll fut st = Some res"
  proof (cases "poll fut st")
    case (fields r fut' st')
    show ?thesis
    proof (cases r)
      case None
      then have "run poll fut' st' = Some res"
        using run fields by simp
      then obtain n where "polled n poll fut' st' = Some res"
        using IH by blast
      then show ?thesis
        using fields None by (intro exI [of _ "Suc n"]) simp
    next
      case (Some v)
      then show ?thesis
        using run fields by (intro exI [of _ "Suc 0"]) simp
    qed
  qed
qed

text \<open>C15: The executor of asynchronous host functions returns exactly when the future becomes ready after
  finitely many polls, with the value and the store of the first poll that finds it ready; on a future
  that is never ready it never returns.\<close>

theorem executor_returns_iff_ready:
  "execute_future_blocking poll fut st = Some (r, st') \<longleftrightarrow> (\<exists>n. polled n poll fut st = Some (r, st'))"
  using polled_executes executes_polled by metis

text \<open>A closure whose future is ready at once is wrapped like a synchronous one.\<close>

lemma async_host_fn_ready:
  assumes "\<And>fut st. poll fut st = (case fut st of (Returns r, st') \<Rightarrow> (Some r, fut, st') | (Panics, st') \<Rightarrow> (None, fut, st'))"
    and "\<And>h c args st. fst (raw h c args st) \<noteq> Panics"
  shows "wrap_raw_host_fn_async J throw raw poll sig h args st = Some (wrap_raw_host_fn J throw raw sig h args st)"
proof (cases "wasm_call_stack st")
  case Nil
  then show ?thesis
    by (simp add: wrap_raw_host_fn_async_def wrap_raw_host_fn_def caller_instance_def bindM_def)
next
  case (Cons i "is")
  show ?thesis
  proof (cases "wval_array_from_js_array J args (sig_params sig)")
    case None
    then show ?thesis
      using Cons by (simp add: wrap_raw_host_fn_async_def wrap_raw_host_fn_def caller_instance_def bindM_def liftP_def panicM_def)
  next
    case (Some vs)
    obtain r st' where run: "raw h (last (wasm_call_stack st)) vs st = (Returns r, st')"
      using assms(2) by (metis outcome.exhaust prod.collapse)
    then have "execute_future_blocking poll (raw h (last (wasm_call_stack st)) vs) st = Some (r, st')"
      by (subst execute_future_blocking.simps) (simp add: assms(1))
    then show ?thesis
      using Cons Some run
      by (cases r) (simp_all add: wrap_raw_host_fn_async_def wrap_raw_host_fn_def caller_instance_def bindM_def
          liftP_def returnM_def map_errM_def)
  qed
qed

end
