(* ===== verification/HostFunctionKinds.thy ===== *)
theory HostFunctionKinds
  imports WasmtimeBackend JsAsync
begin

text \<open>
  The kinds of host functions of \<open>crates/wasm-backend-traits/src/function.rs\<close>: closures of 32-bit integers with
  or without the caller and with or without a result (\<open>IntoFunc\<close>), made into host functions by the constructors of
  a backend (\<open>FuncConstructor\<close>); and the asynchronous closures of both backends.  A host function is what it
  declares, its signature, and what it does with a caller and values.  The macros repeat one implementation for
  0 to 16 parameters, which is the parameter \<open>num\<close>.
\<close>

subsection \<open>Constructors\<close>

type_synonym ('c, 'st, 'x, 'a) typed_closure = "'c \<Rightarrow> u32 list \<Rightarrow> ('st, 'x anyhow, 'a) eff"

record ('c, 'st, 'x, 'h) FuncConstructor =
  new_typed_with_env :: "nat \<Rightarrow> ('c, 'st, 'x, unit) typed_closure \<Rightarrow> 'h"
  new_typed_with_env_r :: "nat \<Rightarrow> ('c, 'st, 'x, u32) typed_closure \<Rightarrow> 'h"

definition new_typed :: "('c, 'st, 'x, 'h) FuncConstructor \<Rightarrow> nat \<Rightarrow> (u32 list \<Rightarrow> ('st, 'x anyhow, unit) eff) \<Rightarrow> 'h" where
  "new_typed C num func = new_typed_with_env C num (\<lambda>_ args. func args)"

definition new_typed_r :: "('c, 'st, 'x, 'h) FuncConstructor \<Rightarrow> nat \<Rightarrow> (u32 list \<Rightarrow> ('st, 'x anyhow, u32) eff) \<Rightarrow> 'h" where
  "new_typed_r C num func = new_typed_with_env_r C num (\<lambda>_ args. func args)"

datatype ('c, 'st, 'x) typed_func =
    Fn_WithoutEnv "u32 list \<Rightarrow> ('st, 'x anyhow, unit) eff"
  | Fn_WithEnv "('c, 'st, 'x, unit) typed_closure"
  | Fn_WithoutEnv_r "u32 list \<Rightarrow> ('st, 'x anyhow, u32) eff"
  | Fn_WithEnv_r "('c, 'st, 'x, u32) typed_closure"

fun into_func :: "('c, 'st, 'x, 'h) FuncConstructor \<Rightarrow> nat \<Rightarrow> ('c, 'st, 'x) typed_func \<Rightarrow> 'h" where
  "into_func C num (Fn_WithoutEnv func) = new_typed C num func"
| "into_func C num (Fn_WithEnv func) = new_typed_with_env C num func"
| "into_func C num (Fn_WithoutEnv_r func) = new_typed_r C num func"
| "into_func C num (Fn_WithEnv_r func) = new_typed_with_env_r C num func"

text \<open>What a typed closure means: its values for the module, and its signature.\<close>

fun run_typed :: "('c, 'st, 'x) typed_func \<Rightarrow> 'c \<Rightarrow> u32 list \<Rightarrow> ('st, 'x anyhow, WValue list) eff" where
  "run_typed (Fn_WithoutEnv func) c args = bindM (func args) (\<lambda>_. returnM [])"
| "run_typed (Fn_WithEnv func) c args = bindM (func c args) (\<lambda>_. returnM [])"
| "run_typed (Fn_WithoutEnv_r func) c args = bindM (func args) (\<lambda>res. returnM [V_I32 res])"
| "run_typed (Fn_WithEnv_r func) c args = bindM (func c args) (\<lambda>res. returnM [V_I32 res])"

fun typed_sig :: "nat \<Rightarrow> ('c, 'st, 'x) typed_func \<Rightarrow> FuncSig" where
  "typed_sig num (Fn_WithoutEnv_r _) = typed_env_sig_r num"
| "typed_sig num (Fn_WithEnv_r _) = typed_env_sig_r num"
| "typed_sig num _ = typed_env_sig num"

subsection \<open>The constructors of the two backends\<close>

text \<open>In the JavaScript backend: a dynamic closure with its signature.\<close>

definition js_constructor :: "(JsInstance, 'st, 'x, FuncSig \<times> (JsInstance \<Rightarrow> WValue list \<Rightarrow> ('st, 'x anyhow, WValue list) eff)) FuncConstructor" where
  "js_constructor = \<lparr>new_typed_with_env = (\<lambda>num func. (typed_env_sig num, typed_env_fn num func)),
    new_typed_with_env_r = (\<lambda>num func. (typed_env_sig_r num, typed_env_fn_r num func))\<rparr>"

text \<open>In wasmtime: \<open>Func::wrap\<close>, the parameters \<open>wrap\<close> and \<open>wrap_r\<close>, on the closure with the caller's context.\<close>

definition wasmtime_constructor :: "(nat \<Rightarrow> ('c, 'st, 'x, unit) typed_closure \<Rightarrow> 'h) \<Rightarrow>
  (nat \<Rightarrow> ('c, 'st, 'x, u32) typed_closure \<Rightarrow> 'h) \<Rightarrow> ('c, 'st, 'x, 'h) FuncConstructor" where
  "wasmtime_constructor wrap wrap_r = \<lparr>new_typed_with_env = (\<lambda>num func. wrap num (\<lambda>caller args. func caller args)),
    new_typed_with_env_r = (\<lambda>num func. wrap_r num (\<lambda>caller args. func caller args))\<rparr>"

subsection \<open>The contract of constructors\<close>

locale func_constructor =
  fixes C :: "('c, 'st, 'x, 'h) FuncConstructor"
    and host_sig :: "'h \<Rightarrow> FuncSig"
    and host_call :: "'h \<Rightarrow> 'c \<Rightarrow> WValue list \<Rightarrow> ('st, 'x anyhow, WValue list) eff"
  assumes sig_env: "host_sig (new_typed_with_env C num f) = typed_env_sig num"
    and sig_env_r: "host_sig (new_typed_with_env_r C num g) = typed_env_sig_r num"
    and call_env: "length args = num \<Longrightarrow>
      host_call (new_typed_with_env C num f) c (List.map V_I32 args) = bindM (f c args) (\<lambda>_. returnM [])"
    and call_env_r: "length args = num \<Longrightarrow>
      host_call (new_typed_with_env_r C num g) c (List.map V_I32 args) = bindM (g c args) (\<lambda>res. returnM [V_I32 res])"
begin

lemma into_func_sig: "host_sig (into_func C num t) = typed_sig num t"
  by (cases t) (simp_all add: new_typed_def new_typed_r_def sig_env sig_env_r)

lemma into_func_call:
  "length args = num \<Longrightarrow> host_call (into_func C num t) c (List.map V_I32 args) = run_typed t c args"
  by (cases t) (simp_all add: new_typed_def new_typed_r_def call_env call_env_r)

end

lemma wval_to_i32_values [simp]: "wval_to_i32 \<circ> V_I32 = (\<lambda>x. x)"
  by (simp add: fun_eq_iff)

interpretation js_typed: func_constructor js_constructor fst snd
  by unfold_locales (simp_all add: js_constructor_def typed_env_fn_def typed_env_fn_r_def)

lemma typed_sig_params: "sig_params (typed_sig num t) = replicate num T_I32"
  by (cases t) (simp_all add: typed_env_sig_def typed_env_sig_r_def FuncSig_new_def)

lemma typed_env_fn_arity: "length args \<noteq> num \<Longrightarrow> snd (into_func js_constructor num t) c args = panicM"
  by (cases t) (auto simp: js_constructor_def new_typed_def new_typed_r_def typed_env_fn_def typed_env_fn_r_def fun_eq_iff)

text \<open>A typed closure means the same in both backends: with \<open>Func::wrap\<close> giving a closure of \<open>num\<close>
  integers the signature of \<open>num\<close> integers and calling it with them, the host functions of the two backends
  have the same signature, and given values of it they do what the closure does and return its integer.\<close>

theorem typed_functions_agree:
  fixes wrap :: "nat \<Rightarrow> (JsInstance, 'st, 'x, unit) typed_closure \<Rightarrow> 'h"
  assumes "\<And>num f. host_sig (wrap num f) = typed_env_sig num" and "\<And>num g. host_sig (wrap_r num g) = typed_env_sig_r num"
    and "\<And>num f c args. length args = num \<Longrightarrow> host_call (wrap num f) c (List.map V_I32 args) = bindM (f c args) (\<lambda>_. returnM [])"
    and "\<And>num g c args. length args = num \<Longrightarrow>
      host_call (wrap_r num g) c (List.map V_I32 args) = bindM (g c args) (\<lambda>res. returnM [V_I32 res])"
    and "length args = num"
  shows "host_sig (into_func (wasmtime_constructor wrap wrap_r) num t) = fst (into_func js_constructor num t) \<and>
    host_call (into_func (wasmtime_constructor wrap wrap_r) num t) c (List.map V_I32 args) = run_typed t c args \<and>
    snd (into_func js_constructor num t) c (List.map V_I32 args) = run_typed t c args"
proof -
  have wt: "func_constructor (wasmtime_constructor wrap wrap_r) host_sig host_call"
    by unfold_locales (simp_all add: wasmtime_constructor_def assms)
  show ?thesis
    using assms(5)
    by (simp add: func_constructor.into_func_sig [OF wt] js_typed.into_func_sig func_constructor.into_func_call [OF wt]
        js_typed.into_func_call)
qed

theorem typed_functions_agree_witness:
  "snd (into_func (wasmtime_constructor (\<lambda>num f. (typed_env_sig num, typed_env_fn num f)) (\<lambda>num g. (typed_env_sig_r num, typed_env_fn_r num g)))
      2 (Fn_WithEnv_r (\<lambda>_ args. returnM (sum_list args)))) (JsInstance 0) (List.map V_I32 [3, 4]) ()
    = (Returns (Inr [V_I32 7] :: unit anyhow + WValue list), ())"
proof -
  let ?t = "Fn_WithEnv_r (\<lambda>_ args. returnM (sum_list args)) :: (JsInstance, unit, unit) typed_func"
  have "snd (into_func (wasmtime_constructor (\<lambda>num f. (typed_env_sig num, typed_env_fn num f)) (\<lambda>num g. (typed_env_sig_r num, typed_env_fn_r num g)))
      2 ?t) (JsInstance 0) (List.map V_I32 [3, 4]) = run_typed ?t (JsInstance 0) [3, 4]"
    by (rule typed_functions_agree [of fst _ _ snd, THEN conjunct2, THEN conjunct1])
      (simp_all add: typed_env_fn_def typed_env_fn_r_def)
  then show ?thesis
    by (simp add: returnM_def bindM_def)
qed

subsection \<open>Asynchronous closures\<close>

text \<open>The future wasmtime is given: it converts the arguments when it is first polled, then awaits the future
  of the closure and writes its results.  A future that is ready is not polled again.\<close>

datatype 'fut host_future = Not_started | Awaiting 'fut

definition poll_awaiting :: "('fut, 'st, 'x anyhow + WValue list) poll \<Rightarrow> 'r Val list \<Rightarrow> 'fut \<Rightarrow> 'st \<Rightarrow>
  ('x anyhow + 'r Val list) option \<times> 'fut host_future \<times> 'st" where
  "poll_awaiting poll results_out fut st =
    (case poll fut st of
      (Some results, fut, st) \<Rightarrow>
        (Some (bindR results (\<lambda>results. map_err Any_Runtime (process_func_results results results_out))), Awaiting fut, st)
    | (None, fut, st) \<Rightarrow> (None, Awaiting fut, st))"

fun wasmtime_host_fn_async :: "('fut, 'st, 'x anyhow + WValue list) poll \<Rightarrow> ('c \<Rightarrow> WValue list \<Rightarrow> 'fut) \<Rightarrow> 'c \<Rightarrow>
  'r Val list \<Rightarrow> 'r Val list \<Rightarrow> ('fut host_future, 'st, 'x anyhow + 'r Val list) poll" where
  "wasmtime_host_fn_async poll func caller args results_out Not_started st =
    (case map_err Any_Runtime (process_func_args args) of
      Inl e \<Rightarrow> (Some (Inl e), Not_started, st)
    | Inr args \<Rightarrow> poll_awaiting poll results_out (func caller args) st)"
| "wasmtime_host_fn_async poll func caller args results_out (Awaiting fut) st = poll_awaiting poll results_out fut st"

definition without_caller :: "('a \<Rightarrow> 'b) \<Rightarrow> 'c \<Rightarrow> 'a \<Rightarrow> 'b" where
  "without_caller func = (\<lambda>_ args. func args)"

definition wasmtime_signature :: "FuncType \<Rightarrow> FuncSig" where
  "wasmtime_signature ty = fn_ty_to_sig ty"

lemma polled_awaiting:
  "polled n (wasmtime_host_fn_async poll func caller args results_out) (Awaiting fut) st =
    map_option (\<lambda>(r, st). (bindR r (\<lambda>results. map_err Any_Runtime (process_func_results results results_out)), st))
      (polled n poll fut st)"
  by (induction n arbitrary: fut st) (auto simp: poll_awaiting_def split: prod.splits option.splits)

lemma polled_started:
  fixes poll :: "('fut, 'st, 'x anyhow + WValue list) poll"
  assumes "process_func_args args = (Inr vs :: 'x RuntimeError + WValue list)"
  shows "polled n (wasmtime_host_fn_async poll func caller args results_out) Not_started st =
    polled n (wasmtime_host_fn_async poll func caller args results_out) (Awaiting (func caller vs)) st"
  using assms by (cases n) simp_all

lemma executes_iff_polled:
  "execute_future_blocking poll fut st = Some res \<longleftrightarrow> (\<exists>n. polled n poll fut st = Some res)"
  by (rule iffI) (erule executes_polled, erule exE, erule polled_executes)

lemma executes_map:
  assumes "\<And>n. polled n poll fut st = map_option h (polled n poll' fut' st)"
  shows "execute_future_blocking poll fut st = map_option h (execute_future_blocking poll' fut' st)"
proof (cases "execute_future_blocking poll' fut' st")
  case None
  then have "\<nexists>res. execute_future_blocking poll fut st = Some res"
    unfolding executes_iff_polled assms using executes_iff_polled [of poll' fut' st] by auto
  then have "execute_future_blocking poll fut st = None"
    by (meson option.exhaust)
  then show ?thesis
    using None by simp
next
  case (Some res)
  then obtain n where "polled n poll' fut' st = Some res"
    by (auto simp: executes_iff_polled)
  then have "execute_future_blocking poll fut st = Some (h res)"
    using executes_iff_polled [of poll fut st] assms [of n] by auto
  then show ?thesis
    using Some by simp
qed

text \<open>C38: polled to its end, the future of an asynchronous host function in wasmtime ends exactly when the future of
  its closure does, with the results of the closure written like those of a synchronous host function: arguments that
  are not numbers and results of another number than declared are the same errors.\<close>

theorem async_functions_like_synchronous:
  fixes poll :: "('fut, 'st, 'x anyhow + WValue list) poll"
  shows "execute_future_blocking (wasmtime_host_fn_async poll func caller args results_out) Not_started st =
    (case process_func_args args of
      Inl (e :: 'x RuntimeError) \<Rightarrow> Some (Inl (Any_Runtime e), st)
    | Inr vs \<Rightarrow> map_option (\<lambda>(r, st). (wasmtime_host_fn (\<lambda>_. r) args results_out, st))
        (execute_future_blocking poll (func caller vs) st))"
proof (cases "process_func_args args :: 'x RuntimeError + WValue list")
  case (Inl e)
  then have "wasmtime_host_fn_async poll func caller args results_out Not_started st = (Some (Inl (Any_Runtime e)), Not_started, st)"
    by simp
  then show ?thesis
    using Inl by (subst execute_future_blocking.simps) simp
next
  case (Inr vs)
  then have "execute_future_blocking (wasmtime_host_fn_async poll func caller args results_out) Not_started st =
    map_option (\<lambda>(r, st). (bindR r (\<lambda>results. map_err Any_Runtime (process_func_results results results_out)), st))
      (execute_future_blocking poll (func caller vs) st)"
    by (intro executes_map) (simp add: polled_started polled_awaiting)
  then show ?thesis
    using Inr by (simp add: wasmtime_host_fn_def)
qed

end
