(* ===== verification/MarineJs.thy ===== *)
theory MarineJs
  imports AppServiceProps
begin

text \<open>
  The entry points for JavaScript, \<open>marine-js/src/{api,global_state,logger}.rs\<close>: one global runtime
  behind a mutex, registration of modules, calls, and the logger that sends the records of modules to
  a JavaScript function.  Conversions of JavaScript values, JSON texts and the console are parameters.
\<close>

subsection \<open>Configuration\<close>

record ApiWasiConfig =
  aw_envs :: "(string, string) hmap"
  aw_mapped_dirs :: "(string, string) hmap option"

record ApiModuleConfig =
  am_logger_enabled :: bool
  am_wasi :: "ApiWasiConfig option"
  am_logging_mask :: u32

record ApiModuleDescriptor =
  ad_import_name :: string
  ad_config :: "ApiModuleConfig option"

record ApiServiceConfig =
  ac_modules_config :: "ApiModuleDescriptor list"
  ac_default_modules_config :: "ApiModuleConfig option"

definition api_wasi_into :: "ApiWasiConfig \<Rightarrow> MarineWASIConfig" where
  "api_wasi_into c =
    \<lparr>wc_envs = aw_envs c, wc_mapped_dirs = (case aw_mapped_dirs c of None \<Rightarrow> [] | Some dirs \<Rightarrow> collect_hmap dirs)\<rparr>"

definition api_module_into :: "ApiModuleConfig \<Rightarrow> ('st, 'x) MarineModuleConfig" where
  "api_module_into c =
    \<lparr>logger_enabled = am_logger_enabled c, mmc_host_imports = [], mmc_wasi = map_option api_wasi_into (am_wasi c),
     logging_mask = am_logging_mask c\<rparr>"

definition MarineModuleConfig_default :: "('st, 'x) MarineModuleConfig" where
  "MarineModuleConfig_default = \<lparr>logger_enabled = False, mmc_host_imports = [], mmc_wasi = None, logging_mask = 0\<rparr>"

definition api_descriptor_into :: "ApiModuleDescriptor \<Rightarrow> ('st, 'x) ModuleDescriptor" where
  "api_descriptor_into d =
    \<lparr>load_from = None, file_name = ad_import_name d, import_name = ad_import_name d,
     md_config = (case ad_config d of None \<Rightarrow> MarineModuleConfig_default | Some c \<Rightarrow> api_module_into c)\<rparr>"

definition api_config_into :: "ApiServiceConfig \<Rightarrow> ('st, 'x) MarineConfig" where
  "api_config_into c =
    \<lparr>modules_dir = None, mc_total_memory_limit = None,
     modules_config = List.map api_descriptor_into (ac_modules_config c),
     default_modules_config = map_option api_module_into (ac_default_modules_config c)\<rparr>"

subsection \<open>The logger\<close>

record 'fn ServiceLogger =
  sl_log_fn :: 'fn
  sl_module_names :: "string set"

text \<open>Levels are compared by rank; a filter of rank 0 lets nothing through.\<close>

fun level_rank :: "Level \<Rightarrow> nat" where
  "level_rank L_Error = 1"
| "level_rank L_Warn = 2"
| "level_rank L_Info = 3"
| "level_rank L_Debug = 4"
| "level_rank L_Trace = 5"

fun level_text :: "Level \<Rightarrow> string" where
  "level_text L_Error = ''error''"
| "level_text L_Warn = ''warn''"
| "level_text L_Info = ''info''"
| "level_text L_Debug = ''debug''"
| "level_text L_Trace = ''trace''"

record 'fn MarineLogger =
  ml_service_logger :: "'fn ServiceLogger option"
  ml_self_max_level :: nat

definition MarineLogger_new :: "nat \<Rightarrow> 'fn MarineLogger" where
  "MarineLogger_new self_max_level = \<lparr>ml_service_logger = None, ml_self_max_level = self_max_level\<rparr>"

definition enable_service_logging :: "'fn \<Rightarrow> string set \<Rightarrow> 'fn MarineLogger \<Rightarrow> 'fn MarineLogger" where
  "enable_service_logging log_fn module_names l =
    l\<lparr>ml_service_logger := Some \<lparr>sl_log_fn = log_fn, sl_module_names = module_names\<rparr>\<rparr>"

definition should_handle :: "'fn ServiceLogger \<Rightarrow> string \<Rightarrow> bool" where
  "should_handle l target \<longleftrightarrow> target \<in> sl_module_names l"

definition is_service_log :: "'fn MarineLogger \<Rightarrow> string \<Rightarrow> bool" where
  "is_service_log l target = (case ml_service_logger l of None \<Rightarrow> False | Some sl \<Rightarrow> should_handle sl target)"

definition log_enabled :: "'fn MarineLogger \<Rightarrow> string \<Rightarrow> Level \<Rightarrow> bool" where
  "log_enabled l target level \<longleftrightarrow> is_service_log l target \<or> level_rank level \<le> ml_self_max_level l"

record ModuleLogMessage =
  lm_level :: string
  lm_message :: string
  lm_service :: string

text \<open>Where a record goes: to a function of the page, to the console, or both when the function throws;
  \<open>send\<close> is the conversion of the message and the application of the function.\<close>

datatype ('fn, 'de) log_event = To_function 'fn ModuleLogMessage | To_console string Level string | Log_failed 'de

definition ServiceLogger_log :: "('fn \<Rightarrow> ModuleLogMessage \<Rightarrow> 'de + unit) \<Rightarrow> 'fn ServiceLogger \<Rightarrow> string \<Rightarrow> Level \<Rightarrow> string \<Rightarrow>
  ('de + unit) \<times> ('fn, 'de) log_event list" where
  "ServiceLogger_log send sl target level message =
    (let msg = \<lparr>lm_level = level_text level, lm_message = message, lm_service = target\<rparr>
     in (send (sl_log_fn sl) msg, [To_function (sl_log_fn sl) msg]))"

definition log_service_message :: "('fn \<Rightarrow> ModuleLogMessage \<Rightarrow> 'de + unit) \<Rightarrow> 'fn MarineLogger \<Rightarrow> string \<Rightarrow> Level \<Rightarrow> string \<Rightarrow>
  ('fn, 'de) log_event list" where
  "log_service_message send l target level message =
    (case map_option (\<lambda>sl. ServiceLogger_log send sl target level message) (ml_service_logger l) of
      None \<Rightarrow> []
    | Some (Inl e, events) \<Rightarrow> events @ [Log_failed e]
    | Some (Inr _, events) \<Rightarrow> events)"

definition log_message :: "('fn \<Rightarrow> ModuleLogMessage \<Rightarrow> 'de + unit) \<Rightarrow> 'fn MarineLogger \<Rightarrow> string \<Rightarrow> Level \<Rightarrow> string \<Rightarrow>
  ('fn, 'de) log_event list" where
  "log_message send l target level message =
    (if is_service_log l target then log_service_message send l target level message
     else if level_rank level \<le> ml_self_max_level l then [To_console target level message]
     else [])"

subsection \<open>The global runtime\<close>

datatype ('x, 'v, 'n, 'te, 'de) JsError =
    Js_LockFailed string
  | Js_Conversion 'de
  | Js_NonStringKey
  | Js_NoString
  | Js_NotInitialized
  | Js_Marine "('x, 'v, 'n, 'te) MarineError"

record ('j, 'o, 'n, 'a, 'de) page_api =
  config_from_value :: "'j \<Rightarrow> 'de + ApiServiceConfig"
  parameters_from_value :: "'j \<Rightarrow> 'de + 'a CallParameters"
  object_keys :: "'o \<Rightarrow> 'j list"
  object_get :: "'o \<Rightarrow> 'j \<Rightarrow> 'de + 'j"
  is_js_string :: "'j \<Rightarrow> bool"
  as_js_string :: "'j \<Rightarrow> string option"
  into_bytes :: "'j \<Rightarrow> 'de + u8 list"
  json_from_str :: "string \<Rightarrow> 'de + 'n JValue"
  json_to_string :: "'n JValue \<Rightarrow> 'de + string"

text \<open>A panic aborts on this target and the guard stays: the mutex is held from then on.  Locking a mutex that
  this thread holds does not return; only a poisoned one gives an error.\<close>

datatype lock_state = Free | Held | Poisoned

record ('fn, 'marine) page =
  pg_marine :: "'marine option"
  pg_lock :: lock_state
  pg_logger :: "'fn MarineLogger"

definition locked :: "string \<Rightarrow> (('fn, 'marine) page, ('x, 'v, 'n, 'te, 'de) JsError, 'b) eff \<Rightarrow>
  (('fn, 'marine) page, ('x, 'v, 'n, 'te, 'de) JsError, 'b) eff" where
  "locked place act = (\<lambda>pg.
    case pg_lock pg of
      Poisoned \<Rightarrow> (Returns (Inl (Js_LockFailed place)), pg)
    | Held \<Rightarrow> (Panics, pg)
    | Free \<Rightarrow> (case act (pg\<lparr>pg_lock := Held\<rparr>) of
        (Returns r, pg) \<Rightarrow> (Returns r, pg\<lparr>pg_lock := Free\<rparr>)
      | (Panics, pg) \<Rightarrow> (Panics, pg)))"

definition extract_module :: "('j, 'o, 'n, 'a, 'de) page_api \<Rightarrow> 'o \<Rightarrow> (string, u8 list) hmap \<Rightarrow> 'j \<Rightarrow>
  ('x, 'v, 'n, 'te, 'de) JsError + (string, u8 list) hmap" where
  "extract_module P mods modules_map key =
    (if \<not> is_js_string P key then Inl Js_NonStringKey
     else
      bindR (map_err Js_Conversion (object_get P mods key)) (\<lambda>property.
      bindR (map_err Js_Conversion (into_bytes P property)) (\<lambda>module_bytes.
      bindR (ok_or Js_NoString (as_js_string P key)) (\<lambda>module_name.
      Inr (hm_insert module_name module_bytes modules_map)))))"

definition extract_modules :: "('j, 'o, 'n, 'a, 'de) page_api \<Rightarrow> 'o \<Rightarrow>
  ('x, 'v, 'n, 'te, 'de) JsError + (string, u8 list) hmap" where
  "extract_modules P mods = foldR (extract_module P mods) [] (object_keys P mods)"

text \<open>\<open>create\<close> is \<open>Marine::with_modules\<close>.\<close>

definition register_module :: "('j, 'o, 'n, 'a, 'de) page_api \<Rightarrow>
  ((string, u8 list) hmap \<Rightarrow> ('st, 'x) MarineConfig \<Rightarrow> (('x, 'v, 'n, 'te) MarineError + 'marine) outcome) \<Rightarrow>
  'j \<Rightarrow> 'o \<Rightarrow> 'fn \<Rightarrow> (('fn, 'marine) page, ('x, 'v, 'n, 'te, 'de) JsError, unit) eff" where
  "register_module P create config mods log_fn =
    locked ''register_module''
    (bindM (liftR (map_err Js_Conversion (config_from_value P config))) (\<lambda>config.
     bindM (liftR (extract_modules P mods)) (\<lambda>mods.
     bindM (\<lambda>pg. (Returns (Inr ()), pg\<lparr>pg_logger := enable_service_logging log_fn (fst ` set mods) (pg_logger pg)\<rparr>)) (\<lambda>_.
     bindM (\<lambda>pg. (case create mods (api_config_into config) of
        Returns r \<Rightarrow> Returns (map_err Js_Marine r) | Panics \<Rightarrow> Panics, pg)) (\<lambda>new_marine.
     (\<lambda>pg. (Returns (Inr ()), pg\<lparr>pg_marine := Some new_marine\<rparr>)))))))"

text \<open>\<open>call\<close> is \<open>call_with_json_async\<close>, on the runtime.\<close>

definition call_module :: "('j, 'o, 'n, 'a, 'de) page_api \<Rightarrow>
  (string \<Rightarrow> string \<Rightarrow> 'n JValue \<Rightarrow> 'a CallParameters \<Rightarrow> ('marine, ('x, 'v, 'n, 'te) MarineError, 'n JValue) eff) \<Rightarrow>
  string \<Rightarrow> string \<Rightarrow> string \<Rightarrow> 'j \<Rightarrow> (('fn, 'marine) page, ('x, 'v, 'n, 'te, 'de) JsError, string) eff" where
  "call_module P call module_name function_name args call_parameters =
    bindM (liftR (map_err Js_Conversion (parameters_from_value P call_parameters))) (\<lambda>call_parameters.
    locked ''call_module''
    (bindM (liftR (map_err Js_Conversion (json_from_str P args))) (\<lambda>args.
     bindM (\<lambda>pg. case pg_marine pg of
         None \<Rightarrow> (Returns (Inl Js_NotInitialized), pg)
       | Some marine \<Rightarrow>
          (case call module_name function_name args call_parameters marine of
            (Returns r, marine) \<Rightarrow> (Returns (map_err Js_Marine r), pg\<lparr>pg_marine := Some marine\<rparr>)
          | (Panics, marine) \<Rightarrow> (Panics, pg\<lparr>pg_marine := Some marine\<rparr>))) (\<lambda>result.
     liftR (map_err Js_Conversion (json_to_string P result))))))"

subsection \<open>Properties\<close>

text \<open>A registration that fails keeps the runtime that is registered; once the modules are read, their
  logs go to the new function all the same.\<close>

lemma failed_registration:
  assumes "(register_module P create config mods log_fn :: (_, ('x, 'v, 'n, 'te, 'de) JsError, _) eff) pg =
    (Returns (Inl e), pg')"
  shows "pg_marine pg' = pg_marine pg \<and> pg_lock pg' = pg_lock pg \<and>
    (pg_logger pg' = pg_logger pg \<or>
     (\<exists>c ms me. config_from_value P config = Inr c \<and>
        (extract_modules P mods :: ('x, 'v, 'n, 'te, 'de) JsError + _) = Inr ms \<and> e = Js_Marine me \<and>
        pg_logger pg' = enable_service_logging log_fn (fst ` set ms) (pg_logger pg)))"
  using assms
  by (auto simp: register_module_def locked_def bindM_def liftR_def map_err_Inr map_err_Inl
      split: if_splits prod.splits outcome.splits sum.splits lock_state.splits)

lemma failed_creation_moves_the_logs:
  assumes "pg_lock pg = Free" "config_from_value P config = Inr c" "extract_modules P mods = (Inr ms :: ('x, 'v, 'n, 'te, 'de) JsError + _)"
    and "create ms (api_config_into c) = Returns (Inl me)" "(target, bytes) \<in> set ms"
  shows "\<exists>pg'. register_module P create config mods log_fn pg = (Returns (Inl (Js_Marine me :: ('x, 'v, 'n, 'te, 'de) JsError)), pg') \<and>
    pg_marine pg' = pg_marine pg \<and>
    To_function log_fn \<lparr>lm_level = level_text level, lm_message = message, lm_service = target\<rparr>
      \<in> set (log_message send (pg_logger pg') target level message)"
proof -
  have "target \<in> fst ` set ms"
    using assms(5) by force
  then show ?thesis
    using assms by (simp add: register_module_def locked_def bindM_def liftR_def log_message_def ServiceLogger_log_def
        Let_def log_service_message_def is_service_log_def should_handle_def enable_service_logging_def split: sum.splits)
qed

text \<open>Messages of modules that are not registered obey the level of the page; those of registered modules
  are never filtered.\<close>

lemma log_message_none:
  "log_message send l target level message = [] \<longleftrightarrow> \<not> log_enabled l target level"
  by (auto simp: log_message_def log_enabled_def is_service_log_def log_service_message_def ServiceLogger_log_def Let_def
      split: option.splits sum.splits)

text \<open>Keys are unique in the map of modules, so each module is provided once.\<close>

lemma extract_modules_ok: "extract_modules P mods = Inr ms \<Longrightarrow> hm_ok ms"
  unfolding extract_modules_def
  by (rule foldR_invariant [where P = hm_ok]) (auto simp: extract_module_def bindR_Inr split: if_splits)

lemma call_before_registration:
  assumes "pg_marine pg = None" "pg_lock pg = Free"
    "parameters_from_value P params = Inr cp" "json_from_str P args = Inr a"
  shows "call_module P call module_name function_name args params pg = (Returns (Inl Js_NotInitialized), pg)"
  using assms by (simp add: call_module_def locked_def bindM_def liftR_def)

text \<open>After a panic in a call no operation returns any more, and the lock error is never reported.\<close>

lemma call_keeps_lock:
  assumes "call_module P call module_name function_name args params pg = (r, pg')" "pg_lock pg = Free"
  shows "pg_lock pg' = (if r = Panics then Held else Free)"
  using assms by (auto simp: call_module_def locked_def bindM_def liftR_def
        split: if_splits prod.splits outcome.splits sum.splits option.splits)

lemma register_keeps_lock:
  assumes "register_module P create config mods log_fn pg = (r, pg')" "pg_lock pg = Free"
  shows "pg_lock pg' = (if r = Panics then Held else Free)"
  using assms by (auto simp: register_module_def locked_def bindM_def liftR_def
        split: if_splits prod.splits outcome.splits sum.splits)

lemma panic_blocks:
  assumes "call_module P call module_name function_name args params pg = (Panics, pg')" "pg_lock pg = Free"
  shows "register_module P create config mods log_fn pg' = (Panics, pg')"
  using call_keeps_lock [OF assms] by (simp add: register_module_def locked_def)

lemma api_config_names:
  "List.map import_name (modules_config (api_config_into c)) = List.map ad_import_name (ac_modules_config c)"
  by (simp add: api_config_into_def api_descriptor_into_def comp_def)

lemma api_config_names_set:
  "import_name ` set (modules_config (api_config_into c)) = ad_import_name ` set (ac_modules_config c)"
  using api_config_names [of c] by (metis list.set_map)

text \<open>The page holds exactly the configured modules after a registration.\<close>

lemma registered_modules:
  assumes "(register_module P (\<lambda>ms c. with_modules B E A S H ops cells env ms (Inr c)) config mods log_fn ::
      (_, ('x, 'v::linorder, 'n, 'te, 'de) JsError, _) eff) pg = (Returns (Inr ()), pg')"
  shows "\<exists>c m. config_from_value P config = Inr c \<and> pg_marine pg' = Some m \<and>
    dom (registry (mr_core m)) = ad_import_name ` set (ac_modules_config c) \<and>
    distinct (List.map ad_import_name (ac_modules_config c))"
proof -
  obtain c ms m where c: "config_from_value P config = Inr c" and m: "pg_marine pg' = Some m"
    and created: "(with_modules B E A S H ops cells env ms (Inr (api_config_into c)) ::
      (('x, 'v, 'n, 'te) MarineError + _) outcome) = Returns (Inr m)"
    using assms
    by (auto simp: register_module_def locked_def bindM_def liftR_def map_err_Inr
        split: if_splits prod.splits outcome.splits sum.splits lock_state.splits)
  show ?thesis
    using created
  proof (rule with_modules_ok)
    fix rest core
    assume load: "foldM (load_configured B E A S H (modules_dir (api_config_into c))
        (from_env_string (mh_parse_level H) (mh_max_level H) env)) ms (modules_config (api_config_into c))
        (MarineCore_new (MarineCoreConfig_new (hosted_ops cells ops) (mc_total_memory_limit (api_config_into c)))) =
        ((Returns (Inr rest) :: (('x, 'v, 'n, 'te) MarineError + _) outcome), core)"
      and "m = \<lparr>mr_core = core, interfaces_cache = []\<rparr>"
    then show ?thesis
      using load_all_configured [OF load, unfolded api_config_names] c m by (simp add: api_config_names_set)
  qed
qed

end
