(* ===== verification/Texts.thy ===== *)
theory Texts
  imports Prelude
begin

text \<open>
  Texts and paths of the standard library that the tools share: lines, joined words, prefixes, the parent, the
  name and the stem of a path.
\<close>

subsection \<open>Texts\<close>

definition nl :: string where
  "nl = [CHR 0x0A]"

fun join :: "string \<Rightarrow> string list \<Rightarrow> string" where
  "join sep [] = []"
| "join sep [s] = s"
| "join sep (s # ss) = s @ sep @ join sep ss"

text \<open>\<open>str::lines\<close>: an end of line ends a line, a carriage return before it is dropped.\<close>

definition strip_cr :: "string \<Rightarrow> string" where
  "strip_cr s = (if s \<noteq> [] \<and> last s = CHR 0x0D then butlast s else s)"

fun lines_from :: "string \<Rightarrow> string \<Rightarrow> string list" where
  "lines_from cur [] = (if cur = [] then [] else [cur])"
| "lines_from cur (c # cs) = (if c = CHR 0x0A then strip_cr cur # lines_from [] cs else lines_from (cur @ [c]) cs)"

definition lines :: "string \<Rightarrow> string list" where
  "lines s = lines_from [] s"

text \<open>\<open>str::trim_start_matches\<close> with a text: every repetition of it is removed.\<close>

function trim_start_matches :: "string \<Rightarrow> string \<Rightarrow> string" where
  "trim_start_matches p s = (if p \<noteq> [] \<and> take (length p) s = p then trim_start_matches p (drop (length p) s) else s)"
  by auto
termination
proof (relation "measure (\<lambda>(p, s). length s)", simp)
  fix p s :: string
  assume "p \<noteq> [] \<and> take (length p) s = p"
  then have "length p \<le> length s" and "0 < length p"
    by (auto dest: arg_cong [where f = length])
  then show "((p, drop (length p) s), p, s) \<in> measure (\<lambda>(p, s). length s)"
    by (cases p; cases s) auto
qed

declare trim_start_matches.simps [simp del]

lemma trim_start_matches_other: "\<not> prefix p s \<Longrightarrow> trim_start_matches p s = s"
  by (subst trim_start_matches.simps) (metis append_take_drop_id prefixI)

lemma trim_start_matches_append:
  "p \<noteq> [] \<Longrightarrow> trim_start_matches p (p @ s) = trim_start_matches p s"
  by (subst trim_start_matches.simps) simp

subsection \<open>Paths\<close>

text \<open>A path from its end, without trailing separators and dots, which do not count as components.\<close>

fun trim_rev :: "string \<Rightarrow> string" where
  "trim_rev (c # d # s) =
    (if c = CHR ''/'' \<or> c = CHR ''.'' \<and> d = CHR ''/'' then trim_rev (d # s) else c # d # s)"
| "trim_rev s = s"

text \<open>\<open>Path::parent\<close>, \<open>Path::file_name\<close>, \<open>Path::file_stem\<close>.\<close>

definition parent_of :: "string \<Rightarrow> string option" where
  "parent_of p =
    (let r = trim_rev (rev p) in
     if r = [] \<or> r = ''/'' then None
     else let dir = dropWhile (\<lambda>c. c \<noteq> CHR ''/'') r in Some (rev (trim_rev dir)))"

definition file_name_of :: "string \<Rightarrow> string option" where
  "file_name_of p =
    (let n = rev (takeWhile (\<lambda>c. c \<noteq> CHR ''/'') (trim_rev (rev p))) in
     if n \<in> {[], ''.'', ''..''} then None else Some n)"

definition file_stem :: "string \<Rightarrow> string option" where
  "file_stem p =
    map_option (\<lambda>n. case dropWhile (\<lambda>c. c \<noteq> CHR ''.'') (rev n) of
        [] \<Rightarrow> n
      | _ # before \<Rightarrow> if before = [] then n else rev before) (file_name_of p)"

lemma path_examples:
  "parent_of ''conf/Config.toml'' = Some ''conf''" "parent_of ''Config.toml'' = Some []" "parent_of ''/'' = None"
  "parent_of ''a//b/./'' = Some ''a''" "file_stem ''target/my_module.wasm'' = Some ''my_module''"
  "file_stem ''.hidden'' = Some ''.hidden''" "file_stem ''a/..'' = None"
  by (simp_all add: parent_of_def file_stem_def file_name_of_def Let_def)

end
