(* ===== verification/InterfaceText.thy ===== *)
theory InterfaceText
  imports AppServiceProps Texts
begin

text \<open>
  Printing of the interface and of the memory statistics: \<open>marine/src/marine_interface.rs\<close> and the
  \<open>Display\<close> of \<open>core/src/memory_statistic.rs\<close>.  \<open>None\<close> is a panic: a type that mentions an unknown
  record, or a function with several results, which the code leaves unimplemented.
\<close>

subsection \<open>Records\<close>

definition field_text :: "IRecordTypes \<Rightarrow> RecordFieldType \<Rightarrow> string option" where
  "field_text rts f = map_option (\<lambda>t. ''  '' @ rf_name f @ '': '' @ t @ nl) (itype_text_view (rf_ty f) rts)"

definition record_text :: "IRecordTypes \<Rightarrow> IRecordType \<Rightarrow> string option" where
  "record_text rts r =
    map_option (\<lambda>fields. ''data '' @ rt_name r @ '':'' @ nl @ concat fields)
      (those (List.map (field_text rts) (rt_fields r)))"

text \<open>The records printed so far are compared as they stand, with the indices that their fields mention.\<close>

fun print_module_records :: "IRecordTypes \<Rightarrow> (u64 \<times> IRecordType) list \<Rightarrow> IRecordType list \<Rightarrow>
  (string \<times> IRecordType list) option" where
  "print_module_records rts [] printed = Some ([], printed)"
| "print_module_records rts ((i, r) # rest) printed =
    (if r \<in> set printed then print_module_records rts rest printed
     else Option.bind (record_text rts r) (\<lambda>t.
       map_option (\<lambda>(s, p). (t @ s, p)) (print_module_records rts rest (printed @ [r]))))"

fun print_modules_records :: "MModuleInterface list \<Rightarrow> IRecordType list \<Rightarrow> (string \<times> IRecordType list) option" where
  "print_modules_records [] printed = Some ([], printed)"
| "print_modules_records (m # ms) printed =
    Option.bind (print_module_records (mmi_record_types m) (mmi_record_types m) printed) (\<lambda>(t, p).
    map_option (\<lambda>(s, q). (t @ s, q)) (print_modules_records ms p))"

definition print_record_types :: "MModuleInterface list \<Rightarrow> string option" where
  "print_record_types ms =
    map_option (\<lambda>(t, printed). ''exported data types (combined from all modules):'' @ nl @ t @
      (if printed = [] then ''<no exported data types>'' @ nl else []) @ nl) (print_modules_records ms [])"

subsection \<open>Functions\<close>

definition print_function :: "IRecordTypes \<Rightarrow> MFunctionSignature \<Rightarrow> string option" where
  "print_function rts sig =
    Option.bind (those (List.map (\<lambda>arg. map_option (\<lambda>t. fa_name arg @ '': '' @ t) (itype_text_view (fa_ty arg) rts))
      (mfs_arguments sig))) (\<lambda>args.
    let start = ''  func '' @ mfs_name sig @ ''('' @ join '', '' args in
    case mfs_outputs sig of
      [] \<Rightarrow> Some (start @ '')'' @ nl)
    | [t] \<Rightarrow> map_option (\<lambda>t. start @ '') -> '' @ t @ nl) (itype_text_view t rts)
    | _ \<Rightarrow> None)"

definition print_module_functions :: "string \<times> MModuleInterface \<Rightarrow> string option" where
  "print_module_functions m =
    map_option (\<lambda>fs. fst m @ '':'' @ nl @ (if mmi_function_signatures (snd m) = [] then ''<no exported functions>'' @ nl else []) @ concat fs)
      (those (List.map (print_function (mmi_record_types (snd m))) (mmi_function_signatures (snd m))))"

definition print_functions_sign :: "(string \<times> MModuleInterface) list \<Rightarrow> string option" where
  "print_functions_sign ms =
    map_option (\<lambda>ts. ''exported functions:'' @ nl @ concat ts) (those (List.map print_module_functions (sort_key fst ms)))"

definition interface_to_string :: "(string, MModuleInterface) hmap \<Rightarrow> string option" where
  "interface_to_string i =
    Option.bind (print_record_types (List.map snd i)) (\<lambda>records.
    map_option (\<lambda>functions. records @ functions) (print_functions_sign i))"

subsection \<open>Memory statistics\<close>

fun show_nat :: "nat \<Rightarrow> string" where
  "show_nat n = (if n < 10 then [char_of (48 + n)] else show_nat (n div 10) @ [char_of (48 + n mod 10)])"

declare show_nat.simps [simp del]

text \<open>\<open>byte_size\<close> is the text of the \<open>bytesize\<close> crate.\<close>

definition memory_stats_to_string :: "(u64 \<Rightarrow> string) \<Rightarrow> MemoryStats \<Rightarrow> string" where
  "memory_stats_to_string byte_size stats =
    concat (List.map (\<lambda>m. mms_name m @ '' - '' @ byte_size (mms_memory_size m) @ nl) (ms_modules stats)) @
    (case ms_allocation_stats stats of
      None \<Rightarrow> ''Allocation rejects - value is not recorded by current wasm backend'' @ nl
    | Some s \<Rightarrow> ''Allocation rejects - '' @ show_nat (unat (allocation_rejects s)) @ nl)"

subsection \<open>When printing succeeds\<close>

lemma those_map_None: "those (List.map f xs) = None \<longleftrightarrow> (\<exists>x\<in>set xs. f x = None)"
  by (induction xs) (auto split: option.splits)

lemma record_text_total:
  assumes "hm_ok rts" "records_closed rts" "(i, r) \<in> set rts"
  shows "record_text rts r \<noteq> None"
proof -
  have "hm_get i rts = Some r"
    using assms(1,3) by (simp add: hm_get_mem)
  then have "types_known rts (rf_ty ` set (rt_fields r))"
    using assms(2) unfolding records_closed_def record_edges_def types_known_def by fast
  then have "\<forall>f\<in>set (rt_fields r). field_text rts f \<noteq> None"
    using text_view_total by (fastforce simp: field_text_def)
  then show ?thesis
    by (auto simp: record_text_def those_map_None)
qed

lemma print_module_records_total:
  assumes "\<And>i r. (i, r) \<in> set rs \<Longrightarrow> record_text rts r \<noteq> None"
  shows "print_module_records rts rs printed \<noteq> None"
  using assms
proof (induction rs arbitrary: printed)
  case (Cons ir rs)
  obtain i r where ir: "ir = (i, r)"
    by (cases ir)
  obtain t where "record_text rts r = Some t"
    using Cons.prems [of i r] ir by auto
  then show ?case
    using Cons ir by fastforce
qed simp

definition well_formed_interface :: "MModuleInterface \<Rightarrow> bool" where
  "well_formed_interface m \<longleftrightarrow>
    hm_ok (mmi_record_types m) \<and> records_closed (mmi_record_types m) \<and>
    (\<forall>sig\<in>set (mmi_function_signatures m). types_known (mmi_record_types m) (fa_ty ` set (mfs_arguments sig) \<union> set (mfs_outputs sig)))"

lemma print_modules_records_total:
  assumes "\<forall>m\<in>set ms. well_formed_interface m"
  shows "print_modules_records ms printed \<noteq> None"
  using assms
proof (induction ms arbitrary: printed)
  case (Cons m ms)
  have "print_module_records (mmi_record_types m) (mmi_record_types m) printed \<noteq> None"
    using Cons.prems by (intro print_module_records_total record_text_total) (auto simp: well_formed_interface_def)
  then obtain t p where "print_module_records (mmi_record_types m) (mmi_record_types m) printed = Some (t, p)"
    by auto
  then show ?case
    using Cons by auto
qed simp

lemma print_function_total:
  assumes "types_known rts (fa_ty ` set (mfs_arguments sig) \<union> set (mfs_outputs sig))"
  shows "print_function rts sig = None \<longleftrightarrow> 1 < length (mfs_outputs sig)"
proof -
  have "\<exists>args. those (List.map (\<lambda>arg. map_option (\<lambda>t. fa_name arg @ '': '' @ t) (itype_text_view (fa_ty arg) rts))
      (mfs_arguments sig)) = Some args"
    using assms text_view_total by (intro those_total) fastforce
  moreover have "\<exists>s. itype_text_view t rts = Some s" if "t \<in> set (mfs_outputs sig)" for t
    using assms text_view_total that by blast
  ultimately show ?thesis
    by (cases "mfs_outputs sig") (auto simp: print_function_def Let_def split: list.splits)
qed

lemma interface_to_string_total:
  assumes "\<forall>(n, m)\<in>set i. well_formed_interface m"
  shows "interface_to_string i = None \<longleftrightarrow>
    (\<exists>(n, m)\<in>set i. \<exists>sig\<in>set (mmi_function_signatures m). 1 < length (mfs_outputs sig))"
proof -
  have "print_modules_records (List.map snd i) [] \<noteq> None"
    using assms by (intro print_modules_records_total) fastforce
  then have "print_record_types (List.map snd i) \<noteq> None"
    by (simp add: print_record_types_def)
  then have "interface_to_string i = None \<longleftrightarrow> print_functions_sign i = None"
    by (auto simp: interface_to_string_def)
  also have "\<dots> \<longleftrightarrow> (\<exists>m\<in>set i. print_module_functions m = None)"
    by (auto simp: print_functions_sign_def those_map_None)
  also have "\<dots> \<longleftrightarrow> (\<exists>(n, m)\<in>set i. \<exists>sig\<in>set (mmi_function_signatures m). 1 < length (mfs_outputs sig))"
  proof (rule bex_cong [OF refl], clarify)
    fix n m
    assume "(n, m) \<in> set i"
    then have "\<forall>sig\<in>set (mmi_function_signatures m).
        (print_function (mmi_record_types m) sig = None \<longleftrightarrow> 1 < length (mfs_outputs sig))"
      using assms print_function_total by (fastforce simp: well_formed_interface_def)
    then show "print_module_functions (n, m) = None \<longleftrightarrow>
        (\<exists>sig\<in>set (mmi_function_signatures m). 1 < length (mfs_outputs sig))"
      by (auto simp: print_module_functions_def those_map_None)
  qed
  finally show ?thesis .
qed

subsection \<open>The interface of loaded modules\<close>

lemma well_formed_module_interface: "well_formed_module mo \<Longrightarrow> well_formed_interface (get_module_interface mo)"
  by (auto simp: well_formed_module_def well_formed_interface_def get_module_interface_def get_exports_signatures_def)

lemma marine_interface_modules: "set (marine_get_interface m) \<subseteq> set (core_interface (mr_core m))"
  using set_extend [of "[]" "core_interface (mr_core m)"]
  by (auto simp: marine_get_interface_def collect_hmap_def hm_extend_def)

lemma marine_interface_prints:
  assumes "core_well_formed (mr_core m)"
  shows "interface_to_string (marine_get_interface m) = None \<longleftrightarrow>
    (\<exists>(n, i)\<in>set (marine_get_interface m). \<exists>sig\<in>set (mmi_function_signatures i). 1 < length (mfs_outputs sig))"
proof (rule interface_to_string_total, clarify)
  fix n i
  assume "(n, i) \<in> set (marine_get_interface m)"
  then obtain mo where "(n, mo) \<in> set (modules (mr_core m))" "i = get_module_interface mo"
    using marine_interface_modules [of m] by (auto simp: core_interface_def)
  then show "well_formed_interface i"
    using assms well_formed_module_interface by (auto simp: core_well_formed_def)
qed

text \<open>Records of two modules that mention different records under the same index are taken for one: the
  second is not printed, and its fields are lost.\<close>

definition pair_of :: "string \<Rightarrow> IRecordTypes" where
  "pair_of inner =
    [(0, \<lparr>rt_name = inner, rt_fields = [\<lparr>rf_name = ''v'', rf_ty = IT_U8\<rparr>]\<rparr>),
     (1, \<lparr>rt_name = ''Pair'', rt_fields = [\<lparr>rf_name = ''x'', rf_ty = IT_Record 0\<rparr>]\<rparr>)]"

lemma printed_records_collide:
  "print_modules_records [\<lparr>mmi_record_types = pair_of ''A'', mmi_function_signatures = []\<rparr>,
      \<lparr>mmi_record_types = pair_of ''B'', mmi_function_signatures = []\<rparr>] [] =
    Some (''data A:'' @ nl @ ''  v: u8'' @ nl @ ''data Pair:'' @ nl @ ''  x: A'' @ nl @
      ''data B:'' @ nl @ ''  v: u8'' @ nl,
      [snd (pair_of ''A'' ! 0), snd (pair_of ''A'' ! 1), snd (pair_of ''B'' ! 0)])
   \<and> record_text (pair_of ''B'') (snd (pair_of ''B'' ! 1)) =
    Some (''data Pair:'' @ nl @ ''  x: B'' @ nl)"
  by (intro conjI; code_simp)

end
