(* ===== verification/ReplSession.thy ===== *)
theory ReplSession
  imports InterfaceText WasmtimeBackend
begin

text \<open>
  The REPL: \<open>tools/repl/src/{main,repl,editor,logger}.rs\<close> and \<open>repl/print_state.rs\<close>.  A session is a service, its
  working directory and the state of the file system; a command is a list of words and gives what is
  printed, as values that keep what is formatted (elapsed times are left out).  Texts are UTF-8.
\<close>

subsection \<open>Words of a line\<close>

text \<open>\<open>split_whitespace\<close>: \<open>ws_length\<close> is the number of bytes of the white space a text begins with, or 0.\<close>

definition ws_two :: "nat list list" where
  "ws_two = [[0xC2, 0x85], [0xC2, 0xA0]]"

definition ws_three :: "nat list list" where
  "ws_three = [[0xE1, 0x9A, 0x80], [0xE2, 0x80, 0xA8], [0xE2, 0x80, 0xA9], [0xE2, 0x80, 0xAF], [0xE2, 0x81, 0x9F],
    [0xE3, 0x80, 0x80]] @ List.map (\<lambda>b. [0xE2, 0x80, b]) [0x80..<0x8B]"

definition ws_length :: "string \<Rightarrow> nat" where
  "ws_length s =
    (let codes = List.map of_char s :: nat list in
     if codes \<noteq> [] \<and> hd codes \<in> {9, 10, 11, 12, 13, 32} then 1
     else if take 2 codes \<in> set ws_two then 2
     else if take 3 codes \<in> set ws_three then 3
     else 0)"

function words :: "string \<Rightarrow> string \<Rightarrow> string list" where
  "words cur [] = (if cur = [] then [] else [cur])"
| "words cur (c # cs) =
    (if ws_length (c # cs) = 0 then words (cur @ [c]) cs
     else (if cur = [] then [] else [cur]) @ words [] (drop (ws_length (c # cs) - 1) cs))"
  by pat_completeness auto
termination
  by (relation "measure (\<lambda>(cur, s). length s)") auto

definition split_whitespace :: "string \<Rightarrow> string list" where
  "split_whitespace line = words [] line"

subsection \<open>Arguments of a call\<close>

record 'a PartialParticleParameters =
  ppp_id :: 'a
  ppp_init_peer_id :: 'a
  ppp_timestamp :: 'a
  ppp_ttl :: 'a
  ppp_script :: 'a
  ppp_signature :: 'a
  ppp_token :: 'a

record 'a PartialCallParameters =
  pcp_particle :: "'a PartialParticleParameters"
  pcp_service_id :: 'a
  pcp_service_creator_peer_id :: 'a
  pcp_host_id :: 'a
  pcp_worker_id :: 'a
  pcp_tetraplets :: "'a SecurityTetraplet list list"

definition from_partial :: "'a PartialCallParameters \<Rightarrow> 'a CallParameters" where
  "from_partial p =
    \<lparr>cp_particle =
      \<lparr>pp_id = ppp_id (pcp_particle p),
       pp_init_peer_id = ppp_init_peer_id (pcp_particle p),
       pp_signature = ppp_signature (pcp_particle p),
       pp_timestamp = ppp_timestamp (pcp_particle p),
       pp_ttl = ppp_ttl (pcp_particle p),
       pp_script = ppp_script (pcp_particle p),
       pp_token = ppp_token (pcp_particle p)\<rparr>,
     cp_service_id = pcp_service_id p,
     cp_service_creator_peer_id = pcp_service_creator_peer_id p,
     cp_host_id = pcp_host_id p,
     cp_worker_id = pcp_worker_id p,
     cp_tetraplets = pcp_tetraplets p\<rparr>"

text \<open>The deserializer of \<open>serde_json\<close> on a text: a value and the rest of the text, and whether only white
  space is left.\<close>

record ('n, 'a, 'je) json_reader =
  read_value :: "string \<Rightarrow> 'je + 'n JValue \<times> string"
  read_parameters :: "string \<Rightarrow> 'je + 'a PartialCallParameters \<times> string"
  at_end :: "string \<Rightarrow> bool"
  default_parameters :: "'a CallParameters"

record ('n, 'a) CallModuleArguments =
  cma_module_name :: string
  cma_func_name :: string
  cma_show_result_arg :: bool
  cma_args :: "'n JValue"
  cma_call_parameters :: "'a CallParameters"

datatype 'je call_message =
    Module_name_missing
  | Function_name_missing
  | Invalid_args 'je
  | Invalid_call_parameters 'je
  | Trailing_characters

definition next_argument_or_result :: "'e \<Rightarrow> string list \<Rightarrow> 'e + string \<times> string list" where
  "next_argument_or_result message args = (case args of [] \<Rightarrow> Inl message | a # rest \<Rightarrow> Inr (a, rest))"

definition parse_call_module_arguments :: "('n, 'a, 'je) json_reader \<Rightarrow> string list \<Rightarrow>
  'je call_message + ('n, 'a) CallModuleArguments" where
  "parse_call_module_arguments R args =
    bindR (next_argument_or_result Module_name_missing args) (\<lambda>(module_name, args).
    bindR (next_argument_or_result Function_name_missing args) (\<lambda>(func_name, args).
    let (show_result_arg, args) = (case args of
        option # rest \<Rightarrow> if option = ''-nr'' then (False, rest) else (True, args)
      | [] \<Rightarrow> (True, args));
      module_arg = join '' '' args in
    bindR (map_err Invalid_args (read_value R module_arg)) (\<lambda>(args, de).
    bindR (if at_end R de then Inr (default_parameters R, de)
      else bindR (map_err Invalid_call_parameters (read_parameters R de)) (\<lambda>(p, de). Inr (from_partial p, de))) (\<lambda>(call_parameters, de).
    if \<not> at_end R de then Inl Trailing_characters
    else Inr \<lparr>cma_module_name = module_name, cma_func_name = func_name, cma_show_result_arg = show_result_arg,
      cma_args = args, cma_call_parameters = call_parameters\<rparr>))))"

subsection \<open>The service behind a session\<close>

definition core_module_wasi_state :: "string \<Rightarrow> ('s, 'i, 'f, 'm, 'p) MarineCore \<Rightarrow> u8 list list option" where
  "core_module_wasi_state module_name c = map_option (\<lambda>_. wasi_state_envs) (hm_get module_name (modules c))"

definition marine_module_wasi_state :: "string \<Rightarrow> ('s, 'a, 'i, 'f, 'm, 'p) Marine \<Rightarrow> ('x, 'v, 'n, 'te) MarineError + u8 list list" where
  "marine_module_wasi_state module_name m = ok_or (MR_NoSuchModule module_name) (core_module_wasi_state module_name (mr_core m))"

definition get_wasi_state :: "string \<Rightarrow> ('s, 'a, 'i, 'f, 'm, 'p) AppService \<Rightarrow>
  ('x, 'v, 'n, 'te, 'io) AppServiceError + u8 list list" where
  "get_wasi_state module_name s = map_err A_MarineError (marine_module_wasi_state module_name (as_marine s))"

text \<open>The operations of a service that a session uses.  \<open>so_interrupted\<close>: what is left of the service when the
  timeout drops the call.\<close>

record ('svc, 'e, 'n, 'a) service_ops =
  so_load :: "string \<Rightarrow> u8 list \<Rightarrow> ('svc, 'e, unit) eff"
  so_unload :: "string \<Rightarrow> ('svc, 'e, unit) eff"
  so_call :: "string \<Rightarrow> string \<Rightarrow> 'n JValue \<Rightarrow> 'a CallParameters \<Rightarrow> ('svc, 'e, 'n JValue) eff"
  so_interrupted :: "string \<Rightarrow> string \<Rightarrow> 'n JValue \<Rightarrow> 'a CallParameters \<Rightarrow> 'svc \<Rightarrow> 'svc option"
  so_wasi_state :: "string \<Rightarrow> 'svc \<Rightarrow> 'e + u8 list list"
  so_interface :: "'svc \<Rightarrow> string option"
  so_stats :: "('svc, 'e, MemoryStats) eff"

text \<open>The configuration of modules the REPL loads.\<close>

definition repl_module_config :: "('st, 'x) MarineModuleConfig" where
  "repl_module_config = \<lparr>logger_enabled = True, mmc_host_imports = [], mmc_wasi = None, logging_mask = 0\<rparr>"

text \<open>A dropped call may have changed the store and the cache of interfaces: \<open>interrupt\<close> says to what.\<close>

definition interrupted_service :: "(string \<Rightarrow> string \<Rightarrow> 'n JValue \<Rightarrow> 'a CallParameters \<Rightarrow> ('s, 'a, 'i, 'f, 'm, 'p) AppService \<Rightarrow>
    ((('s, 'a) hosted, ('f, 'm, 'p) ITInstance) world \<times> (string, CachedInterface) hmap) option) \<Rightarrow>
  string \<Rightarrow> string \<Rightarrow> 'n JValue \<Rightarrow> 'a CallParameters \<Rightarrow> ('s, 'a, 'i, 'f, 'm, 'p) AppService \<Rightarrow>
  ('s, 'a, 'i, 'f, 'm, 'p) AppService option" where
  "interrupted_service interrupt name func args cp s =
    map_option (\<lambda>(w, cache). s\<lparr>as_marine := (as_marine s)\<lparr>mr_core := (mr_core (as_marine s))\<lparr>core_world := w\<rparr>,
      interfaces_cache := cache\<rparr>\<rparr>) (interrupt name func args cp s)"

definition app_service_ops :: "(('s, 'a, 'f, 'm, 'p) mworld, 'w, 'l, 'i, 'f, 'h, 'm, 'x) backend \<Rightarrow>
    (('s, 'a, 'f, 'm, 'p) mworld, 'm, 'p, 'x, 'v) it_engine \<Rightarrow> (('s, 'a, 'f, 'm, 'p) mworld, 'x) host_abi \<Rightarrow>
    'v::linorder sdk \<Rightarrow> (('s, 'a, 'f, 'm, 'p) mworld, 'mem, 'a, 'h, 'lf) marine_host \<Rightarrow> string \<Rightarrow>
    (IType \<Rightarrow> 'n JValue \<Rightarrow> string + IValue) \<Rightarrow> (IValue \<Rightarrow> 'n JValue) \<Rightarrow>
    (string \<Rightarrow> string \<Rightarrow> 'n JValue \<Rightarrow> 'a CallParameters \<Rightarrow> ('s, 'a, 'i, 'f, 'm, 'p) AppService \<Rightarrow>
      ((('s, 'a) hosted, ('f, 'm, 'p) ITInstance) world \<times> (string, CachedInterface) hmap) option) \<Rightarrow>
    (('s, 'a, 'i, 'f, 'm, 'p) AppService, ('x, 'v, 'n, 'te, 'io) AppServiceError, 'n, 'a) service_ops" where
  "app_service_ops B E A S H env from_json to_json interrupt =
    \<lparr>so_load = (\<lambda>name bytes. service_load_module B E A S H env name bytes (Inr (Some repl_module_config))),
     so_unload = service_unload_module,
     so_call = service_call_module B E from_json to_json,
     so_interrupted = interrupted_service interrupt,
     so_wasi_state = get_wasi_state,
     so_interface = (\<lambda>s. interface_to_string (get_full_interface s)),
     so_stats = service_memory_stats B\<rparr>"

subsection \<open>Sessions\<close>

text \<open>\<open>rp_process\<close>: the file system and the source of random identifiers.\<close>

record ('svc, 'd) REPL =
  rp_app_service :: 'svc
  rp_service_working_dir :: "string option"
  rp_process :: 'd

datatype 'e creation_error = Cannot_load_config string 'e | Creation_error 'e

datatype ('e, 'n, 'je) repl_output =
    Argument_missing string
  | Service_created string
  | Creation_failed "'e creation_error"
  | Wasm_unreadable string
  | Module_loaded
  | Loading_failed 'e
  | Module_unloaded
  | Unloading_failed 'e
  | Bad_call "'je call_message"
  | Call_result "'n JValue"
  | Call_succeeded
  | Call_failed 'e
  | Call_interrupted
  | No_environment string
  | Environment_variables
  | Environment_string string
  | Environment_bytes "u8 list"
  | Fs_state_unsupported
  | Wasi_state_failed 'e
  | Loaded_interface string
  | Loaded_heap_sizes string
  | Help

record ('tv, 'cfg, 'd, 'e, 'svc) service_factory =
  fac_load :: "string \<Rightarrow> 'e + 'tv TomlAppServiceConfig"
  fac_try_into :: "'tv TomlAppServiceConfig \<Rightarrow> 'e + 'cfg"
  fac_new :: "'cfg \<Rightarrow> string \<Rightarrow> (string, string) hmap \<Rightarrow> ('d, 'e, 'svc) eff"
  fac_uuid :: "'d \<Rightarrow> string \<times> 'd"

definition TomlAppServiceConfig_default :: "'tv TomlAppServiceConfig" where
  "TomlAppServiceConfig_default =
    \<lparr>ta_service_working_dir = None,
     ta_marine_config = \<lparr>tc_modules_dir = None, tc_total_memory_limit = Infinity, tc_module = [], tc_default = None,
       tc_base_path = []\<rparr>\<rparr>"

text \<open>\<open>AppServiceFactory::new_app_service_empty_facade\<close> with the configuration and the directories of the process.\<close>

definition app_service_factory :: "(string \<Rightarrow> 'io + u8 list) \<Rightarrow> (u8 list \<Rightarrow> 'te + 'tv TomlAppServiceConfig) \<Rightarrow>
    fs \<Rightarrow> ('tv, 'te) toml \<Rightarrow> ('st, string) command_env \<Rightarrow> 'io + string \<Rightarrow> ('d, 'io) dir_ops \<Rightarrow>
    (('st, 'x) MarineConfig \<Rightarrow> (('x, 'v, 'n, 'te) MarineError + ('s, 'a, 'i, 'f, 'm, 'p) Marine) outcome) \<Rightarrow>
    ('d \<Rightarrow> string \<times> 'd) \<Rightarrow>
    ('tv, ('st, 'x) AppServiceConfig, 'd, ('x, 'v, 'n, 'te, 'io) AppServiceError, ('s, 'a, 'i, 'f, 'm, 'p) AppService)
      service_factory" where
  "app_service_factory read_file from_toml F T M current_dir D build_marine uuid =
    \<lparr>fac_load = TomlAppServiceConfig_load read_file from_toml,
     fac_try_into = app_config_try_into F T M current_dir,
     fac_new = (\<lambda>config. new_with_empty_facade D build_marine (Inr config)),
     fac_uuid = uuid\<rparr>"

definition create_app_service :: "('tv, 'cfg, 'd, 'e, 'svc) service_factory \<Rightarrow> string option \<Rightarrow> string option \<Rightarrow> bool \<Rightarrow>
  ('d, 'e creation_error, 'svc \<times> ('e, 'n, 'je) repl_output list) eff" where
  "create_app_service fac config_file_path working_dir quiet = (\<lambda>d.
    let (service_id, d) = fac_uuid fac d;
        working_dir = (case working_dir of None \<Rightarrow> ''.'' | Some w \<Rightarrow> w) in
    bindM (liftR (case config_file_path of
        None \<Rightarrow> Inr TomlAppServiceConfig_default
      | Some path \<Rightarrow> map_err (Cannot_load_config path) (fac_load fac path))) (\<lambda>config.
    let base_path = (case Option.bind config_file_path parent_of of None \<Rightarrow> [] | Some p \<Rightarrow> p);
        config = config\<lparr>ta_service_working_dir := Some working_dir,
          ta_marine_config := (ta_marine_config config)\<lparr>tc_base_path := base_path\<rparr>\<rparr> in
    bindM (liftR (map_err Creation_error (fac_try_into fac config))) (\<lambda>config.
    bindM (map_errM Creation_error (fac_new fac config service_id [])) (\<lambda>app_service.
    returnM (app_service, if quiet then [] else [Service_created service_id])))) d)"

text \<open>\<open>factory\<close>: the result of creating the engine.\<close>

definition REPL_new :: "'e + ('tv, 'cfg, 'd, 'e, 'svc) service_factory \<Rightarrow> string option \<Rightarrow> string option \<Rightarrow> bool \<Rightarrow> 'd \<Rightarrow>
  ('e creation_error + ('svc, 'd) REPL \<times> ('e, 'n, 'je) repl_output list) outcome \<times> 'd" where
  "REPL_new factory config_file_path working_dir quiet =
    bindM (liftR (map_err Creation_error factory)) (\<lambda>fac.
    bindM (create_app_service fac config_file_path working_dir quiet) (\<lambda>(app_service, out) d.
      (Returns (Inr (\<lparr>rp_app_service = app_service, rp_service_working_dir = working_dir, rp_process = d\<rparr>, out)), d)))"

end
