(* ===== verification/Repl.thy ===== *)
theory Repl
  imports ReplSession
begin

text \<open>
  The commands and the loop of the REPL: \<open>tools/repl/src/{main,repl,editor,logger}.rs\<close>.
\<close>

subsection \<open>Commands\<close>

type_synonym ('svc, 'd, 'e, 'n, 'je) command =
  "('svc, 'd) REPL \<Rightarrow> ('e, 'n, 'je) repl_output list outcome \<times> ('svc, 'd) REPL"

definition next_argument :: "string \<Rightarrow> string list \<Rightarrow> (string \<Rightarrow> string list \<Rightarrow> ('svc, 'd, 'e, 'n, 'je) command) \<Rightarrow>
  ('svc, 'd, 'e, 'n, 'je) command" where
  "next_argument message args k =
    (case args of [] \<Rightarrow> (\<lambda>st. (Returns [Argument_missing message], st)) | a # rest \<Rightarrow> k a rest)"

text \<open>An operation of the service, with what is printed after success and after an error.\<close>

definition on_service :: "('svc, 'e, 'b) eff \<Rightarrow> ('b \<Rightarrow> ('e, 'n, 'je) repl_output) \<Rightarrow> ('e \<Rightarrow> ('e, 'n, 'je) repl_output) \<Rightarrow>
  ('svc, 'd, 'e, 'n, 'je) command" where
  "on_service act ok err = (\<lambda>st.
    case act (rp_app_service st) of
      (Returns (Inr x), s) \<Rightarrow> (Returns [ok x], st\<lparr>rp_app_service := s\<rparr>)
    | (Returns (Inl e), s) \<Rightarrow> (Returns [err e], st\<lparr>rp_app_service := s\<rparr>)
    | (Panics, s) \<Rightarrow> (Panics, st\<lparr>rp_app_service := s\<rparr>))"

definition new_service :: "('tv, 'cfg, 'd, 'e, 'svc) service_factory \<Rightarrow> string list \<Rightarrow> ('svc, 'd, 'e, 'n, 'je) command" where
  "new_service fac args = (\<lambda>st.
    case create_app_service fac (case args of [] \<Rightarrow> None | a # _ \<Rightarrow> Some a) (rp_service_working_dir st) False (rp_process st) of
      (Returns (Inr (service, out)), d) \<Rightarrow> (Returns out, st\<lparr>rp_app_service := service, rp_process := d\<rparr>)
    | (Returns (Inl e), d) \<Rightarrow> (Returns [Creation_failed e], st\<lparr>rp_process := d\<rparr>)
    | (Panics, d) \<Rightarrow> (Panics, st\<lparr>rp_process := d\<rparr>))"

definition repl_load_module :: "('svc, 'e, 'n, 'a) service_ops \<Rightarrow> (string \<Rightarrow> 'd \<Rightarrow> string + u8 list) \<Rightarrow> string list \<Rightarrow>
  ('svc, 'd, 'e, 'n, 'je) command" where
  "repl_load_module V read_file args =
    next_argument ''Module name should be specified'' args (\<lambda>module_name args.
    next_argument ''Module path should be specified'' args (\<lambda>module_path args st.
      case read_file module_path (rp_process st) of
        Inl e \<Rightarrow> (Returns [Wasm_unreadable e], st)
      | Inr wasm_bytes \<Rightarrow> on_service (so_load V module_name wasm_bytes) (\<lambda>_. Module_loaded) Loading_failed st))"

definition repl_unload_module :: "('svc, 'e, 'n, 'a) service_ops \<Rightarrow> string list \<Rightarrow> ('svc, 'd, 'e, 'n, 'je) command" where
  "repl_unload_module V args =
    next_argument ''Module name should be specified'' args (\<lambda>module_name args.
      on_service (so_unload V module_name) (\<lambda>_. Module_unloaded) Unloading_failed)"

definition repl_call_module :: "('svc, 'e, 'n, 'a) service_ops \<Rightarrow> ('n, 'a, 'je) json_reader \<Rightarrow> string list \<Rightarrow>
  ('svc, 'd, 'e, 'n, 'je) command" where
  "repl_call_module V R args = (\<lambda>st.
    case parse_call_module_arguments R args of
      Inl message \<Rightarrow> (Returns [Bad_call message], st)
    | Inr c \<Rightarrow>
        (case so_interrupted V (cma_module_name c) (cma_func_name c) (cma_args c) (cma_call_parameters c) (rp_app_service st) of
          Some s \<Rightarrow> (Returns [Call_interrupted], st\<lparr>rp_app_service := s\<rparr>)
        | None \<Rightarrow> on_service (so_call V (cma_module_name c) (cma_func_name c) (cma_args c) (cma_call_parameters c))
            (\<lambda>result. if cma_show_result_arg c then Call_result result else Call_succeeded) Call_failed st))"

text \<open>\<open>utf8\<close> is \<open>String::from_utf8\<close>.\<close>

definition print_envs :: "(u8 list \<Rightarrow> string option) \<Rightarrow> string \<Rightarrow> u8 list list \<Rightarrow> ('e, 'n, 'je) repl_output list" where
  "print_envs utf8 module_name envs =
    (if envs = [] then [No_environment module_name]
     else Environment_variables # List.map (\<lambda>env. case utf8 env of
        Some s \<Rightarrow> Environment_string s | None \<Rightarrow> Environment_bytes env) envs)"

definition print_fs_state :: "u8 list list \<Rightarrow> ('e, 'n, 'je) repl_output list" where
  "print_fs_state wasi_state = [Fs_state_unsupported]"

definition show_envs :: "('svc, 'e, 'n, 'a) service_ops \<Rightarrow> (u8 list \<Rightarrow> string option) \<Rightarrow> string list \<Rightarrow>
  ('svc, 'd, 'e, 'n, 'je) command" where
  "show_envs V utf8 args =
    next_argument ''Module name should be specified'' args (\<lambda>module_name args st.
      case so_wasi_state V module_name (rp_app_service st) of
        Inr wasi_state \<Rightarrow> (Returns (print_envs utf8 module_name wasi_state), st)
      | Inl e \<Rightarrow> (Returns [Wasi_state_failed e], st))"

definition show_fs :: "('svc, 'e, 'n, 'a) service_ops \<Rightarrow> string list \<Rightarrow> ('svc, 'd, 'e, 'n, 'je) command" where
  "show_fs V args =
    next_argument ''Module name should be specified'' args (\<lambda>module_name args st.
      case so_wasi_state V module_name (rp_app_service st) of
        Inr wasi_state \<Rightarrow> (Returns (print_fs_state wasi_state), st)
      | Inl e \<Rightarrow> (Returns [Wasi_state_failed e], st))"

definition show_interface :: "('svc, 'e, 'n, 'a) service_ops \<Rightarrow> ('svc, 'd, 'e, 'n, 'je) command" where
  "show_interface V = (\<lambda>st. case so_interface V (rp_app_service st) of
      Some interface \<Rightarrow> (Returns [Loaded_interface interface], st)
    | None \<Rightarrow> (Panics, st))"

definition show_memory_stats :: "('svc, 'e, 'n, 'a) service_ops \<Rightarrow> (u64 \<Rightarrow> string) \<Rightarrow> ('svc, 'd, 'e, 'n, 'je) command" where
  "show_memory_stats V byte_size =
    on_service (so_stats V) (\<lambda>statistic. Loaded_heap_sizes (memory_stats_to_string byte_size statistic)) Call_failed"

text \<open>What a session needs besides the service: the factory, files, texts.\<close>

record ('tv, 'cfg, 'd, 'e, 'svc, 'n, 'a, 'je) repl_context =
  rc_factory :: "('tv, 'cfg, 'd, 'e, 'svc) service_factory"
  rc_ops :: "('svc, 'e, 'n, 'a) service_ops"
  rc_reader :: "('n, 'a, 'je) json_reader"
  rc_read_file :: "string \<Rightarrow> 'd \<Rightarrow> string + u8 list"
  rc_utf8 :: "u8 list \<Rightarrow> string option"
  rc_byte_size :: "u64 \<Rightarrow> string"

definition continuing :: "('svc, 'd, 'e, 'n, 'je) command \<Rightarrow> ('svc, 'd) REPL \<Rightarrow>
  (bool \<times> ('e, 'n, 'je) repl_output list) outcome \<times> ('svc, 'd) REPL" where
  "continuing command st = (case command st of
      (Returns out, st) \<Rightarrow> (Returns (True, out), st)
    | (Panics, st) \<Rightarrow> (Panics, st))"

definition execute :: "('tv, 'cfg, 'd, 'e, 'svc, 'n, 'a, 'je) repl_context \<Rightarrow> string list \<Rightarrow> ('svc, 'd) REPL \<Rightarrow>
  (bool \<times> ('e, 'n, 'je) repl_output list) outcome \<times> ('svc, 'd) REPL" where
  "execute C args =
    (case args of
      [] \<Rightarrow> continuing (\<lambda>st. (Returns [Help], st))
    | command # args \<Rightarrow>
        if command \<in> {''n'', ''new''} then continuing (new_service (rc_factory C) args)
        else if command \<in> {''l'', ''load''} then continuing (repl_load_module (rc_ops C) (rc_read_file C) args)
        else if command \<in> {''u'', ''unload''} then continuing (repl_unload_module (rc_ops C) args)
        else if command \<in> {''c'', ''call''} then continuing (repl_call_module (rc_ops C) (rc_reader C) args)
        else if command \<in> {''e'', ''envs''} then continuing (show_envs (rc_ops C) (rc_utf8 C) args)
        else if command \<in> {''f'', ''fs''} then continuing (show_fs (rc_ops C) args)
        else if command \<in> {''i'', ''interface''} then continuing (show_interface (rc_ops C))
        else if command \<in> {''s'', ''stats''} then continuing (show_memory_stats (rc_ops C) (rc_byte_size C))
        else if command \<in> {''q'', ''quit''} then (\<lambda>st. (Returns (False, []), st))
        else continuing (\<lambda>st. (Returns [Help], st)))"

subsection \<open>The loop\<close>

datatype readline = Line string | Interrupted | Eof | Readline_error

datatype 'o loop_event = Prompt u32 | Printed 'o | Ctrl_c | Ctrl_d | Line_error

datatype loop_end = Waiting | Finished | Crashed

text \<open>The loop on the lines that are typed; \<open>Waiting\<close>: no more of them yet.\<close>

fun repl_loop :: "('tv, 'cfg, 'd, 'e, 'svc, 'n, 'a, 'je) repl_context \<Rightarrow> u32 \<Rightarrow> readline list \<Rightarrow> ('svc, 'd) REPL \<Rightarrow>
  ('e, 'n, 'je) repl_output loop_event list \<times> loop_end \<times> ('svc, 'd) REPL" where
  "repl_loop C n [] st = ([Prompt n], Waiting, st)"
| "repl_loop C n (Line line # ls) st =
    (case execute C (split_whitespace line) st of
      (Returns (True, out), st) \<Rightarrow>
        (case repl_loop C (n + 1) ls st of (events, e, st) \<Rightarrow> (Prompt n # List.map Printed out @ events, e, st))
    | (Returns (False, out), st) \<Rightarrow> (Prompt n # List.map Printed out, Finished, st)
    | (Panics, st) \<Rightarrow> ([Prompt n], Crashed, st))"
| "repl_loop C n (Interrupted # ls) st = ([Prompt n, Ctrl_c], Finished, st)"
| "repl_loop C n (Eof # ls) st = ([Prompt n, Ctrl_d], Finished, st)"
| "repl_loop C n (Readline_error # ls) st = ([Prompt n, Line_error], Finished, st)"

subsection \<open>Hints\<close>

definition commands_hints :: "string list" where
  "commands_hints = [''load'', ''unload'', ''call'', ''envs'', ''fs'', ''interface'', ''heap'', ''help'']"

text \<open>The hints are a set: \<open>hints\<close> lists them in the order of the iteration.\<close>

definition hint :: "(string \<Rightarrow> nat \<Rightarrow> string option) \<Rightarrow> string list \<Rightarrow> string \<Rightarrow> nat \<Rightarrow> string option" where
  "hint history_hint hints line pos =
    (if pos < length line then None
     else case history_hint line pos of
       Some h \<Rightarrow> Some h
     | None \<Rightarrow> (case filter (\<lambda>h. 0 < pos \<and> take pos line = take (length (take pos line)) h) hints of
         [] \<Rightarrow> None
       | h # _ \<Rightarrow> Some (drop pos h)))"

subsection \<open>The log of the REPL\<close>

definition init_logger :: "bool \<Rightarrow> string option \<Rightarrow> string option option" where
  "init_logger rust_log_is_set wasm_log_env =
    (case (rust_log_is_set, wasm_log_env) of
      (True, _) \<Rightarrow> Some None
    | (False, Some e) \<Rightarrow> if take 3 e \<noteq> ''off'' then Some (Some ''trace'') else None
    | _ \<Rightarrow> None)"

definition IT_MODULE_PATH :: string where
  "IT_MODULE_PATH = ''wasmer_interface_types_fl''"

definition log_line :: "string option \<Rightarrow> string \<Rightarrow> string" where
  "log_line module_path args =
    (case module_path of
      None \<Rightarrow> ''[host] '' @ args @ nl
    | Some m \<Rightarrow> if take (length IT_MODULE_PATH) m = IT_MODULE_PATH then ''[host] '' @ args @ nl
        else ''['' @ m @ ''] '' @ args @ nl)"

subsection \<open>Lines are words joined by single spaces\<close>

lemma ws_length_prefix:
  assumes "ws_length (s @ rest) = 0" and "s \<noteq> []"
  shows "ws_length s = 0" and "ws_length (s @ CHR '' '' # r) = 0"
proof -
  consider (one) c where "s = [c]" | (two) c d where "s = [c, d]" | (more) c d e t where "s = c # d # e # t"
    using assms(2) by (metis neq_Nil_conv)
  then have "ws_length s = 0 \<and> ws_length (s @ CHR '' '' # r) = 0"
    using assms(1) by cases (auto simp: ws_length_def Let_def ws_two_def ws_three_def upt_rec split: if_splits)
  then show "ws_length s = 0" and "ws_length (s @ CHR '' '' # r) = 0"
    by simp_all
qed

text \<open>A word: no white space begins inside of it, whatever follows after a space.\<close>

definition a_word :: "string \<Rightarrow> bool" where
  "a_word w \<longleftrightarrow> w \<noteq> [] \<and> (\<forall>i<length w. ws_length (drop i w) = 0 \<and> (\<forall>r. ws_length (drop i w @ CHR '' '' # r) = 0))"

lemma words_are_words:
  assumes "\<forall>i<length cur. ws_length (drop i cur @ s) = 0" and "w \<in> set (words cur s)"
  shows "a_word w"
  using assms
proof (induction cur s rule: words.induct)
  case (1 cur)
  then show ?case
    using ws_length_prefix [where rest = "[]"] by (auto simp: a_word_def split: if_splits)
next
  case (2 cur c cs)
  show ?case
  proof (cases "ws_length (c # cs) = 0")
    case True
    have "\<forall>i<length (cur @ [c]). ws_length (drop i (cur @ [c]) @ cs) = 0"
    proof (intro allI impI)
      fix i assume "i < length (cur @ [c])"
      then show "ws_length (drop i (cur @ [c]) @ cs) = 0"
        using 2(3) True by (cases "i = length cur") auto
    qed
    then show ?thesis
      using "2.IH"(1) True "2.prems"(2) by simp
  next
    case False
    have "a_word cur" if "cur \<noteq> []"
      using that "2.prems"(1) ws_length_prefix [where rest = "c # cs"] by (simp add: a_word_def)
    then show ?thesis
      using "2.IH"(2) False "2.prems"(2) by (auto split: if_splits)
  qed
qed

lemma words_append:
  assumes "\<forall>i<length w. ws_length (drop i w @ rest) = 0"
  shows "words cur (w @ rest) = words (cur @ w) rest"
  using assms
proof (induction w arbitrary: cur)
  case (Cons c w)
  have "ws_length (c # w @ rest) = 0"
    using Cons.prems by (auto dest: spec [of _ 0])
  moreover have "\<forall>i<length w. ws_length (drop i w @ rest) = 0"
    using Cons.prems by (auto dest: spec [of _ "Suc _"])
  ultimately show ?case
    using Cons.IH [of "cur @ [c]"] by simp
qed simp

lemma ws_length_space [simp]: "ws_length (CHR '' '' # s) = 1"
  by (simp add: ws_length_def Let_def)

lemma words_join:
  assumes "\<forall>w\<in>set ws. a_word w"
  shows "words [] (join '' '' ws) = ws"
  using assms
proof (induction ws)
  case (Cons w ws)
  then have w: "a_word w" and ws: "words [] (join '' '' ws) = ws"
    by simp_all
  show ?case
  proof (cases ws)
    case Nil
    then show ?thesis
      using w words_append [of w "[]" "[]"] by (simp add: a_word_def)
  next
    case (Cons v vs)
    then show ?thesis
      using w ws words_append [of w "CHR '' '' # join '' '' ws" "[]"] by (simp add: a_word_def)
  qed
qed simp

lemma split_join_split: "split_whitespace (join '' '' (split_whitespace line)) = split_whitespace line"
  unfolding split_whitespace_def by (rule words_join) (use words_are_words [of "[]" line] in simp)

end
