(* ===== verification/ReplProps.thy ===== *)
theory ReplProps
  imports Repl
begin

text \<open>
  What a session of the REPL promises: commands that fail keep it going, what holds for every created
  service and is kept by its operations holds at every prompt, and only modules with functions of several
  results make the command \<open>interface\<close> crash.
\<close>

subsection \<open>Commands that only read\<close>

lemma continuing_cases:
  assumes "continuing f st = (r, st')"
  obtains q where "f st = (q, st')"
  using assms by (auto simp: continuing_def split: prod.splits outcome.splits)

lemma if_cases:
  assumes "(if b then f else g) st = x"
  obtains "f st = x" | "g st = x"
  using assms by (cases b) auto

lemma reading_commands:
  "show_envs V utf8 args st = (q, st') \<Longrightarrow> st' = st"
  "show_fs V args st = (q, st') \<Longrightarrow> st' = st"
  "show_interface V st = (q, st') \<Longrightarrow> st' = st"
  by (auto simp: show_envs_def show_fs_def show_interface_def next_argument_def
      split: list.splits sum.splits option.splits)

subsection \<open>The contract of a service in a session\<close>

locale session_contract =
  fixes V :: "('svc, 'e, 'n, 'a) service_ops"
    and fac :: "('tv, 'cfg, 'd, 'e, 'svc) service_factory"
    and good :: "'svc \<Rightarrow> bool"
  assumes load: "keeps good (so_load V name bytes)"
    and unload: "keeps good (so_unload V name)"
    and call: "keeps good (so_call V name func args cp)"
    and stats: "keeps good (so_stats V)"
    and interrupted: "so_interrupted V name func args cp s = Some s' \<Longrightarrow> good s \<Longrightarrow> good s'"
    and new: "fac_new fac config service_id envs d = (Returns (Inr s), d') \<Longrightarrow> good s"
begin

definition good_session :: "('svc, 'd) REPL \<Rightarrow> bool" where
  "good_session st \<longleftrightarrow> good (rp_app_service st)"

lemma on_service_good:
  assumes "keeps good act" and "good_session st" and "on_service act ok err st = (r, st')"
  shows "good_session st'"
  using assms keepsD [OF assms(1)]
  by (fastforce simp: on_service_def good_session_def split: prod.splits outcome.splits sum.splits)

lemma created_good:
  "create_app_service fac path dir quiet d = (Returns (Inr (s, out)), d') \<Longrightarrow> good s"
  by (auto simp: create_app_service_def eff_simps split: prod.splits dest: new)

lemma execute_good:
  assumes "good_session st" and "execute C args st = (r, st')" and "rc_ops C = V" and "rc_factory C = fac"
  shows "good_session st'"
proof -
  have n: "good_session st'" if "new_service fac xs st = (q, st')" for xs q
    using that assms(1) created_good
    by (fastforce simp: new_service_def good_session_def split: prod.splits outcome.splits sum.splits)
  have l: "good_session st'" if "repl_load_module V rd xs st = (q, st')" for rd xs q
    using that assms(1)
    by (auto simp: repl_load_module_def next_argument_def split: list.splits sum.splits dest: on_service_good [OF load])
  have u: "good_session st'" if "repl_unload_module V xs st = (q, st')" for xs q
    using that assms(1)
    by (auto simp: repl_unload_module_def next_argument_def split: list.splits dest: on_service_good [OF unload])
  have c: "good_session st'" if "repl_call_module V R xs st = (q, st')" for R xs q
    using that assms(1) interrupted
    by (auto simp: repl_call_module_def split: sum.splits option.splits dest: on_service_good [OF call])
      (auto simp: good_session_def)
  have s: "good_session st'" if "show_memory_stats V bs st = (q, st')" for bs q
    using that assms(1) by (auto simp: show_memory_stats_def dest: on_service_good [OF stats])
  show ?thesis
  proof (cases args)
    case Nil
    then show ?thesis
      using assms(1,2) by (auto simp: execute_def continuing_def)
  next
    case (Cons command rest)
    show ?thesis
      using assms(2) unfolding Cons execute_def assms(3,4) list.case
      by (elim if_cases continuing_cases) (use assms(1) in \<open>auto dest: n l u c s reading_commands\<close>)
  qed
qed

lemma loop_good:
  assumes "good_session st" and "repl_loop C n ls st = (events, e, st')" and "rc_ops C = V" and "rc_factory C = fac"
  shows "good_session st'"
  using assms
proof (induction ls arbitrary: n st events e)
  case (Cons l ls)
  show ?case
  proof (cases l)
    case (Line line)
    obtain r st1 where run: "execute C (split_whitespace line) st = (r, st1)"
      by (cases "execute C (split_whitespace line) st")
    have "good_session st1"
      by (rule execute_good [OF Cons.prems(1) run assms(3,4)])
    then show ?thesis
      using Cons.IH Cons.prems(2) Line run assms(3,4)
      by (auto split: outcome.splits prod.splits bool.splits)
  qed (use Cons.prems in auto)
qed auto

lemma new_session_good:
  assumes "REPL_new (Inr fac) path dir quiet d = (Returns (Inr (st, out)), d')"
  shows "good_session st"
  using assms created_good
  by (auto simp: REPL_new_def good_session_def eff_simps map_err_Inr split: prod.splits)

end

subsection \<open>Services keep well-formed modules\<close>

definition well_formed_service :: "('s, 'a, 'i, 'f, 'm, 'p) AppService \<Rightarrow> bool" where
  "well_formed_service s \<longleftrightarrow> core_well_formed (mr_core (as_marine s))"

lemma keeps_map_errM: "keeps P act \<Longrightarrow> keeps P (map_errM h act)"
  unfolding keeps_def map_errM_def by (fastforce split: prod.splits outcome.splits)

lemma keeps_in_core: "keeps P act \<Longrightarrow> keeps (\<lambda>m. P (mr_core m)) (in_core act)"
  by (auto simp: keeps_def in_core_def split: prod.splits)

lemma keeps_in_marine: "keeps P act \<Longrightarrow> keeps (\<lambda>s. P (as_marine s)) (in_marine act)"
  unfolding in_marine_def by (rule keeps_map_errM) (auto simp: keeps_def split: prod.splits)

lemma keeps_frame:
  assumes "frame modules act"
  shows "keeps core_well_formed act"
  unfolding keeps_def
proof (intro allI impI)
  fix c r c'
  assume "core_well_formed c" and "act c = (r, c')"
  then show "core_well_formed c'"
    using frameD [OF assms, of c r c'] by (simp add: core_well_formed_def)
qed

lemma keeps_check_for_oom:
  assumes "keeps core_well_formed act"
  shows "keeps core_well_formed (check_for_oom B act)"
  unfolding keeps_def
proof (intro allI impI)
  fix c r c'
  assume c: "core_well_formed c" and run: "check_for_oom B act c = (r, c')"
  obtain r1 c1 where act: "act c = (r1, c1)"
    by (cases "act c")
  have c1: "core_well_formed c1"
    using keepsD [OF assms c act] .
  have report: "keeps core_well_formed (bindM (module_memory_stats B) (\<lambda>stats. failM (k stats)))" for k
    by (intro keeps_frame frame_bindM frame_stats frame_basic)
  show "core_well_formed c'"
    using run c1 keepsD [OF report c1] by (auto simp: check_for_oom_def act split: outcome.splits sum.splits)
qed

lemma keeps_load: "keeps core_well_formed (core_load_module B E A S name bytes config)"
  unfolding keeps_def using load_well_formed by blast

lemma keeps_unload: "keeps core_well_formed (core_unload_module name)"
  by (auto simp: AList.delete_eq keeps_def core_unload_module_def core_well_formed_def hm_remove_def split: if_splits)

lemma keeps_liftR: "keeps P (liftR r)"
  by (simp add: keeps_def liftR_def)

lemma keeps_lookup: "keeps (\<lambda>m. core_well_formed (mr_core m)) (lookup_module_interface name func)"
  unfolding keeps_def
proof (intro allI impI)
  fix m r m'
  assume "core_well_formed (mr_core m)" and "lookup_module_interface name func m = (r, m')"
  then show "core_well_formed (mr_core m')"
    by (elim lookup_cases) auto
qed

lemma service_operations_keep:
  "keeps well_formed_service (service_load_module B E A S H env name bytes config)"
  "keeps well_formed_service (service_unload_module name)"
  "keeps well_formed_service (service_memory_stats B)"
  unfolding well_formed_service_def service_load_module_def service_unload_module_def service_memory_stats_def
    marine_load_module_def marine_unload_module_def marine_memory_stats_def Let_def
  by (intro keeps_in_marine [where P = "\<lambda>m. core_well_formed (mr_core m)"] keeps_bindM keeps_liftR keeps_in_core keeps_map_errM
      keeps_check_for_oom keeps_load keeps_unload keeps_frame frame_stats)+

lemma service_call_keeps:
  "keeps well_formed_service (service_call_module B E from_json to_json name func args cp)"
proof -
  have core: "keeps (\<lambda>m. core_well_formed (mr_core m)) (call_core B E name f args)" for name f args
    unfolding keeps_def
  proof (intro allI impI)
    fix m r m'
    assume "core_well_formed (mr_core m)" and "call_core B E name f args m = (r, m')"
    then show "core_well_formed (mr_core m')"
      using frameD [OF frame_call_core, of B E name f args m r m'] by (simp add: core_well_formed_def)
  qed
  have update: "core_well_formed (mr_core m) \<Longrightarrow> core_well_formed (mr_core (update_call_parameters cp m))" for cp m
    by (simp add: core_well_formed_def update_keeps)
  have "keeps (\<lambda>m. core_well_formed (mr_core m)) (call_with_json_async B E from_json to_json name func args cp)"
    unfolding call_with_json_async_def
    by (intro keeps_bindM keeps_lookup, split prod.split, intro allI impI, split prod.split, intro allI impI)
      (intro keeps_bindM keeps_json_to_marine_err keeps_updateM update core, assumption)
  then show ?thesis
    unfolding service_call_module_def well_formed_service_def by (rule keeps_in_marine)
qed

lemma interrupted_keeps:
  "interrupted_service interrupt name func args cp s = Some s' \<Longrightarrow> well_formed_service s \<Longrightarrow> well_formed_service s'"
  by (auto simp: interrupted_service_def well_formed_service_def core_well_formed_def)

text \<open>The factory of the REPL: the runtime is created from the configuration, on the given backend.\<close>

abbreviation repl_factory where
  "repl_factory B E A S H ops cells env read_file from_toml F T M current_dir D uuid \<equiv>
    app_service_factory read_file from_toml F T M current_dir D
      (\<lambda>c. with_raw_config F (with_modules B E A S H ops cells env) (Inr c)) uuid"

lemma new_service_well_formed:
  assumes "fac_new (repl_factory B E A S H ops cells env read_file from_toml F T M current_dir D uuid) config service_id envs d =
    (Returns (Inr s) :: (('x, 'v::linorder, 'n, 'te, 'io) AppServiceError + _) outcome, d')"
  shows "well_formed_service s"
proof -
  obtain mc m where created: "with_raw_config F (with_modules B E A S H ops cells env) (Inr mc) =
      (Returns (Inr m) :: (('x, 'v, 'n, 'te) MarineError + _) outcome)"
    and s: "s = \<lparr>as_marine = m, facade_module_name = []\<rparr>"
    using assms by (auto simp: app_service_factory_def new_with_empty_facade_def eff_simps)
  obtain provided where "with_modules B E A S H ops cells env provided (Inr mc) =
      (Returns (Inr m) :: (('x, 'v, 'n, 'te) MarineError + _) outcome)"
    using created by (rule with_raw_config_ok)
  then show ?thesis
    using created_well_formed s by (auto simp: well_formed_service_def)
qed

interpretation repl: session_contract "app_service_ops B E A S H env from_json to_json interrupt"
    "repl_factory B E A S H ops cells env read_file from_toml F T M current_dir D uuid" well_formed_service
  for B :: "(('s, 'a, 'f, 'm, 'p) mworld, 'w, 'l, 'i, 'f, 'h, 'm, 'x) backend" and E A S H env
    and from_json :: "IType \<Rightarrow> 'n JValue \<Rightarrow> string + IValue" and to_json interrupt ops cells read_file from_toml F T M current_dir D uuid
  by unfold_locales
    (simp_all add: app_service_ops_def service_operations_keep service_call_keeps, erule (1) interrupted_keeps,
      erule new_service_well_formed)

subsection \<open>Sessions\<close>

lemma full_interface_prints:
  "well_formed_service s \<Longrightarrow> interface_to_string (get_full_interface s) = None \<longleftrightarrow>
    (\<exists>(name, i)\<in>set (get_full_interface s). \<exists>sig\<in>set (mmi_function_signatures i). 1 < length (mfs_outputs sig))"
  unfolding well_formed_service_def get_full_interface_def by (rule marine_interface_prints)

lemma execute_interface:
  "execute C (''interface'' # args) st = continuing (show_interface (rc_ops C)) st"
  by (simp add: execute_def)

text \<open>C9: at every prompt of a session, after any commands with any errors, loads, unloads, calls and
  timeouts, the command \<open>interface\<close> crashes exactly when a loaded module exports a function with more than
  one result: every type of every loaded module has a text.\<close>

theorem interface_command_crashes:
  assumes "fac = repl_factory B E A S H ops cells env read_file from_toml F T M current_dir D uuid"
    and "(REPL_new (Inr fac) path dir quiet d :: (('x, 'v::linorder, 'n, 'te, 'io) AppServiceError creation_error +
        (_ \<times> (_, 'n, 'je) repl_output list)) outcome \<times> _) = (Returns (Inr (st, out)), d')"
    and "repl_loop C n ls st = (events, e, st')"
    and "rc_ops C = app_service_ops B E A S H env from_json to_json interrupt" and "rc_factory C = fac"
  shows "fst (execute C (''interface'' # args) st') = Panics \<longleftrightarrow>
    (\<exists>(name, i)\<in>set (get_full_interface (rp_app_service st')).
       \<exists>sig\<in>set (mmi_function_signatures i). 1 < length (mfs_outputs sig))"
proof -
  have "well_formed_service (rp_app_service st)"
    by (rule repl.new_session_good [OF assms(2) [unfolded assms(1)], unfolded repl.good_session_def])
  then have "well_formed_service (rp_app_service st')"
    using repl.loop_good [OF _ assms(3,4) assms(5) [unfolded assms(1)]] unfolding repl.good_session_def by blast
  moreover have "fst (execute C (''interface'' # args) st') = Panics \<longleftrightarrow>
      interface_to_string (get_full_interface (rp_app_service st')) = None"
    by (simp add: execute_interface continuing_def show_interface_def assms(4) app_service_ops_def split: option.split)
  ultimately show ?thesis
    using full_interface_prints by simp
qed

text \<open>A session sees of a line only its words: runs of white space count as one space, also inside the
  strings of the JSON arguments of a call.\<close>

theorem lines_are_read_by_words:
  "repl_loop C n (Line line # ls) st = repl_loop C n (Line (join '' '' (split_whitespace line)) # ls) st"
  by (simp add: split_join_split)

lemma json_strings_collapse:
  \<open>execute C (split_whitespace ''call m f ["a   b"]'') st = execute C (split_whitespace ''call m f ["a b"]'') st\<close>
proof -
  have \<open>split_whitespace ''call m f ["a   b"]'' = split_whitespace ''call m f ["a b"]''\<close>
    by code_simp
  then show ?thesis
    by simp
qed

lemma only_quit_stops:
  "(\<exists>out. fst (execute C args st) = Returns (False, out)) \<longleftrightarrow> (\<exists>rest. args = ''q'' # rest \<or> args = ''quit'' # rest)"
  by (cases args) (auto simp: execute_def continuing_def split: prod.splits outcome.splits)

text \<open>The environment of a module is never shown: the backend has none to tell.\<close>

lemma environment_never_shown:
  assumes "rc_ops C = app_service_ops B E A S H env from_json to_json interrupt"
  shows "execute C (''envs'' # name # args) st = (Returns (True,
    if hm_has name (modules (mr_core (as_marine (rp_app_service st)))) then [No_environment name]
    else [Wasi_state_failed (A_MarineError (MR_NoSuchModule name))]), st)"
  by (cases "hm_get name (modules (mr_core (as_marine (rp_app_service st))))")
    (simp_all add: assms execute_def continuing_def show_envs_def next_argument_def app_service_ops_def get_wasi_state_def
      marine_module_wasi_state_def core_module_wasi_state_def print_envs_def wasi_state_envs_def hm_has_def)

text \<open>A hint completes what is typed to one of the listed commands, of which \<open>heap\<close> is not one.\<close>

lemma hint_completes:
  assumes "hint history_hint hints line (length line) = Some h" and "history_hint line (length line) = None"
  shows "line @ h \<in> set hints"
proof -
  obtain c cs where c: "filter (\<lambda>h. 0 < length line \<and> take (length line) line = take (length (take (length line) line)) h) hints = c # cs"
      and h: "h = drop (length line) c"
    using assms by (auto simp: hint_def split: list.splits)
  then have "c \<in> set hints" and "line = take (length line) c"
    by (auto simp: filter_eq_Cons_iff)
  then show ?thesis
    using h by (metis append_take_drop_id)
qed

lemma hinted_heap: "execute C [''heap''] st = (Returns (True, [Help]), st)" "''heap'' \<in> set commands_hints"
  by (simp_all add: execute_def continuing_def commands_hints_def)

subsection \<open>A session\<close>

text \<open>A session without a configuration: a module is loaded from a file and its interface is printed.\<close>

definition sample_toml :: "(string, unit) toml" where
  "sample_toml = \<lparr>as_string = Inr, from_slice = (\<lambda>_. Inl ())\<rparr>"

definition sample_command :: "((nat, string) hosted sample_world, string) command_env" where
  "sample_command = \<lparr>run_command = (\<lambda>path args st. (Inl ''none'', st)),
    from_error = (\<lambda>code msg. \<lparr>ret_code = code, mb_error = msg, mb_stdout = [], mb_stderr = []\<rparr>), result_to_ivalue = (\<lambda>_. None)\<rparr>"

definition sample_factory where
  "sample_factory = repl_factory sample_backend sample_engine sample_abi sample_sdk sample_host sample_store_ops sample_cells ''info''
    (\<lambda>_. Inl ()) (\<lambda>_. Inl () :: unit + string TomlAppServiceConfig) sample_fs sample_toml sample_command (Inr ''/'') sample_dirs
    (\<lambda>d. (''uuid'', d))"

definition sample_ops where
  "sample_ops = app_service_ops sample_backend sample_engine sample_abi sample_sdk sample_host ''info''
    (\<lambda>t j. Inl []) (\<lambda>v. JNull :: nat JValue) (\<lambda>_ _ _ _ _. None)"

definition sample_context where
  "sample_context = \<lparr>rc_factory = sample_factory, rc_ops = sample_ops,
    rc_reader = \<lparr>read_value = (\<lambda>s. Inl ()), read_parameters = (\<lambda>s. Inl ()), at_end = (\<lambda>s. s = []), default_parameters = sample_call_parameters\<rparr>,
    rc_read_file = (\<lambda>p d. fs_read sample_fs p), rc_utf8 = (\<lambda>_. None), rc_byte_size = (\<lambda>_. [])\<rparr>"

definition sample_lines :: "readline list" where
  "sample_lines = [Line ''load m  /mods/m.wasm'', Line ''i'']"

abbreviation "single_results s \<equiv>
  list_all (\<lambda>(name, i). list_all (\<lambda>sig. length (mfs_outputs sig) \<le> 1) (mmi_function_signatures i)) (get_full_interface s)"

definition sample_session_check :: bool where
  "sample_session_check = (case REPL_new (Inr sample_factory) None (Some ''/srv'') False [] of
    (Returns (Inr (st, out :: ((unit, nat, nat, unit, unit) AppServiceError, nat, unit) repl_output list)), d) \<Rightarrow>
      (case repl_loop sample_context 1 sample_lines st of (events, e, st') \<Rightarrow>
        Printed Module_loaded \<in> set events \<and> e = Waiting \<and> single_results (rp_app_service st'))
  | _ \<Rightarrow> False)"

lemma sample_session_runs:
  obtains st out d events st' where "REPL_new (Inr sample_factory) None (Some ''/srv'') False [] =
      (Returns (Inr (st, out :: ((unit, nat, nat, unit, unit) AppServiceError, nat, unit) repl_output list)), d)"
    and "repl_loop sample_context 1 sample_lines st = (events, Waiting, st')"
    and "Printed Module_loaded \<in> set events" and "single_results (rp_app_service st')"
proof -
  have "sample_session_check"
    by code_simp
  then show thesis
    using that by (auto simp: sample_session_check_def split: prod.splits outcome.splits sum.splits)
qed

theorem interface_command_crashes_witness:
  "\<exists>st events st'. repl_loop sample_context 1 sample_lines st = (events, Waiting, st') \<and>
    Printed Module_loaded \<in> set events \<and> fst (execute sample_context [''interface''] st') \<noteq> Panics"
proof (rule sample_session_runs)
  fix st out d events st'
  assume run: "REPL_new (Inr sample_factory) None (Some ''/srv'') False [] =
      (Returns (Inr (st, out :: ((unit, nat, nat, unit, unit) AppServiceError, nat, unit) repl_output list)), d)"
      "repl_loop sample_context 1 sample_lines st = (events, Waiting, st')"
    and loaded: "Printed Module_loaded \<in> set events" and single: "single_results (rp_app_service st')"
  have "fst (execute sample_context [''interface''] st') = Panics \<longleftrightarrow>
    (\<exists>(name, i)\<in>set (get_full_interface (rp_app_service st')).
       \<exists>sig\<in>set (mmi_function_signatures i). 1 < length (mfs_outputs sig))"
    by (rule interface_command_crashes [OF sample_factory_def run, where args = "[]"])
      (simp_all add: sample_context_def sample_ops_def)
  then show ?thesis
    using run(2) loaded single by (fastforce simp: list_all_iff)
qed

end
