(* ===== verification/ItResolver.thy ===== *)
theory ItResolver
  imports MitInterfaces ItInterface
begin

text \<open>
  The state of the interface generator: \<open>crates/it-generator/src/instructions_generator.rs\<close>,
  \<open>instructions_generator/utils.rs\<close>, \<open>default_export_api_config.rs\<close> and \<open>errors.rs\<close>.  The types of
  \<open>marine_macro_impl\<close> are read off the exhaustive matches; the passing style of a parsed type is
  never inspected and left out.  \<open>IRecordType::default()\<close> is the parameter \<open>dflt\<close>.  A panic is
  the error constructor whose name starts with \<open>Panic\<close>.
\<close>

datatype ParsedType =
    P_Boolean | P_I8 | P_I16 | P_I32 | P_I64 | P_U8 | P_U16 | P_U32 | P_U64 | P_F32 | P_F64
  | P_Utf8Str | P_Utf8String
  | P_Vector ParsedType
  | P_Record string

datatype RustType =
    R_I8 | R_I16 | R_I32 | R_I64 | R_U8 | R_U16 | R_U32 | R_U64 | R_F32 | R_F64

record FnArgument =
  an_name :: string
  an_ty :: ParsedType

record FnSignature =
  fg_name :: string
  fg_arguments :: "FnArgument list"
  fg_output_types :: "ParsedType list"

datatype ITGeneratorError =
    DeserializationError string
  | CR_NoRecordName string
  | CR_NoRecordId u64
  | CR_NoFields string
  | CR_TooManyLevels
  | CR_Unresolved usize
  | IOError string
  | Panic_NotARecord

record ITResolver =
  rs_types :: "(string, nat) hmap"
  rs_interfaces :: Interfaces
  rs_unresolved_types_count :: usize

definition Interfaces_default :: Interfaces where
  "Interfaces_default = \<lparr>if_types = [], if_imports = [], if_adapters = [], if_exports = [],
    if_implementations = []\<rparr>"

definition ITResolver_default :: ITResolver where
  "ITResolver_default = \<lparr>rs_types = [], rs_interfaces = Interfaces_default,
    rs_unresolved_types_count = 0\<rparr>"

abbreviation types_of :: "ITResolver \<Rightarrow> AstType list" where
  "types_of r \<equiv> if_types (rs_interfaces r)"

definition push_type :: "AstType \<Rightarrow> ITResolver \<Rightarrow> ITResolver" where
  "push_type t r = r\<lparr>rs_interfaces := (rs_interfaces r)\<lparr>if_types := types_of r @ [t]\<rparr>\<rparr>"

subsection \<open>Record types\<close>

definition get_record_type_id :: "string \<Rightarrow> ITResolver \<Rightarrow> ITGeneratorError + nat" where
  "get_record_type_id record_name r = ok_or (CR_NoRecordName record_name) (hm_get record_name (rs_types r))"

definition get_record_type_id_unchecked :: "IRecordType \<Rightarrow> string \<Rightarrow> ITResolver \<Rightarrow> nat \<times> ITResolver" where
  "get_record_type_id_unchecked dflt record_name r =
    (case hm_get record_name (rs_types r) of
       Some type_index \<Rightarrow> (type_index, r)
     | None \<Rightarrow>
        (let new_type_id = length (types_of r);
             r = r\<lparr>rs_types := hm_insert record_name new_type_id (rs_types r)\<rparr>;
             r = push_type (Ast_Record dflt) r
         in (new_type_id, r\<lparr>rs_unresolved_types_count := rs_unresolved_types_count r + 1\<rparr>)))"

definition get_record_type :: "u64 \<Rightarrow> ITResolver \<Rightarrow> ITGeneratorError + IRecordType" where
  "get_record_type record_type_id r =
    (if record_type_id \<ge> word_of_nat (length (types_of r)) then Inl (CR_NoRecordId record_type_id)
     else (case types_of r ! unat record_type_id of
       Ast_Function _ _ \<Rightarrow> Inl Panic_NotARecord
     | Ast_Record record_type \<Rightarrow> Inr record_type))"

definition insert_record_type :: "IRecordType \<Rightarrow> ITResolver \<Rightarrow> ITResolver" where
  "insert_record_type rec_type r =
    (case hm_get (rt_name rec_type) (rs_types r) of
       Some pos \<Rightarrow>
         r\<lparr>rs_interfaces := (rs_interfaces r)\<lparr>if_types := (types_of r)[pos := Ast_Record rec_type]\<rparr>,
           rs_unresolved_types_count := rs_unresolved_types_count r - 1\<rparr>
     | None \<Rightarrow>
         push_type (Ast_Record rec_type)
           (r\<lparr>rs_types := hm_insert (rt_name rec_type) (length (types_of r)) (rs_types r)\<rparr>))"

definition add_record_type :: "string \<Rightarrow> RecordFieldType list \<Rightarrow> ITResolver \<Rightarrow> ITResolver" where
  "add_record_type name fs r = insert_record_type \<lparr>rt_name = name, rt_fields = fs\<rparr> r"

subsection \<open>Adapters, implementations, exports and imports\<close>

definition add_adapter :: "u32 \<Rightarrow> Instruction list \<Rightarrow> ITResolver \<Rightarrow> ITResolver" where
  "add_adapter function_type instructions r =
    r\<lparr>rs_interfaces := (rs_interfaces r)\<lparr>if_adapters := if_adapters (rs_interfaces r) @
        [\<lparr>ad_function_type = function_type, ad_instructions = instructions\<rparr>]\<rparr>\<rparr>"

definition add_implementation :: "u32 \<Rightarrow> u32 \<Rightarrow> ITResolver \<Rightarrow> ITResolver" where
  "add_implementation core_function_type adapter_function_type r =
    r\<lparr>rs_interfaces := (rs_interfaces r)\<lparr>if_implementations := if_implementations (rs_interfaces r) @
        [\<lparr>ip_core_function_type = core_function_type,
          ip_adapter_function_type = adapter_function_type\<rparr>]\<rparr>\<rparr>"

definition add_export :: "string \<Rightarrow> u32 \<Rightarrow> ITResolver \<Rightarrow> ITResolver" where
  "add_export name function_type r =
    r\<lparr>rs_interfaces := (rs_interfaces r)\<lparr>if_exports := if_exports (rs_interfaces r) @
        [\<lparr>ex_name = name, ex_function_type = function_type\<rparr>]\<rparr>\<rparr>"

definition add_import :: "string \<Rightarrow> string \<Rightarrow> u32 \<Rightarrow> ITResolver \<Rightarrow> ITResolver" where
  "add_import namespace name function_type r =
    r\<lparr>rs_interfaces := (rs_interfaces r)\<lparr>if_imports := if_imports (rs_interfaces r) @
        [\<lparr>im_namespace = namespace, im_name = name, im_function_type = function_type\<rparr>]\<rparr>\<rparr>"

definition add_fn_type :: "FunctionArg list \<Rightarrow> IType list \<Rightarrow> ITResolver \<Rightarrow> ITResolver" where
  "add_fn_type arguments output_types r = push_type (Ast_Function arguments output_types) r"

subsection \<open>Parsed types to interface types\<close>

definition array_or_bytes :: "IType \<Rightarrow> IType" where
  "array_or_bytes t = (if t = IT_U8 then IT_ByteArray else IT_Array t)"

fun ptype_to_itype_checked :: "ParsedType \<Rightarrow> ITResolver \<Rightarrow> ITGeneratorError + IType" where
  "ptype_to_itype_checked P_I8 r = Inr IT_S8"
| "ptype_to_itype_checked P_I16 r = Inr IT_S16"
| "ptype_to_itype_checked P_I32 r = Inr IT_S32"
| "ptype_to_itype_checked P_I64 r = Inr IT_S64"
| "ptype_to_itype_checked P_U8 r = Inr IT_U8"
| "ptype_to_itype_checked P_U16 r = Inr IT_U16"
| "ptype_to_itype_checked P_U32 r = Inr IT_U32"
| "ptype_to_itype_checked P_U64 r = Inr IT_U64"
| "ptype_to_itype_checked P_F32 r = Inr IT_F32"
| "ptype_to_itype_checked P_F64 r = Inr IT_F64"
| "ptype_to_itype_checked P_Boolean r = Inr IT_Boolean"
| "ptype_to_itype_checked P_Utf8Str r = Inr IT_String"
| "ptype_to_itype_checked P_Utf8String r = Inr IT_String"
| "ptype_to_itype_checked (P_Vector ty) r =
    bindR (ptype_to_itype_checked ty r) (\<lambda>t. Inr (array_or_bytes t))"
| "ptype_to_itype_checked (P_Record record_name) r =
    bindR (get_record_type_id record_name r) (\<lambda>i. Inr (IT_Record (word_of_nat i)))"

fun ptype_to_itype_unchecked :: "IRecordType \<Rightarrow> ParsedType \<Rightarrow> ITResolver \<Rightarrow> IType \<times> ITResolver" where
  "ptype_to_itype_unchecked dflt P_I8 r = (IT_S8, r)"
| "ptype_to_itype_unchecked dflt P_I16 r = (IT_S16, r)"
| "ptype_to_itype_unchecked dflt P_I32 r = (IT_S32, r)"
| "ptype_to_itype_unchecked dflt P_I64 r = (IT_S64, r)"
| "ptype_to_itype_unchecked dflt P_U8 r = (IT_U8, r)"
| "ptype_to_itype_unchecked dflt P_U16 r = (IT_U16, r)"
| "ptype_to_itype_unchecked dflt P_U32 r = (IT_U32, r)"
| "ptype_to_itype_unchecked dflt P_U64 r = (IT_U64, r)"
| "ptype_to_itype_unchecked dflt P_F32 r = (IT_F32, r)"
| "ptype_to_itype_unchecked dflt P_F64 r = (IT_F64, r)"
| "ptype_to_itype_unchecked dflt P_Boolean r = (IT_Boolean, r)"
| "ptype_to_itype_unchecked dflt P_Utf8Str r = (IT_String, r)"
| "ptype_to_itype_unchecked dflt P_Utf8String r = (IT_String, r)"
| "ptype_to_itype_unchecked dflt (P_Vector ty) r =
    (let (t, r) = ptype_to_itype_unchecked dflt ty r in (array_or_bytes t, r))"
| "ptype_to_itype_unchecked dflt (P_Record record_name) r =
    (let (i, r) = get_record_type_id_unchecked dflt record_name r in (IT_Record (word_of_nat i), r))"

fun wtype_to_itype :: "RustType \<Rightarrow> IType" where
  "wtype_to_itype R_I8 = IT_S8"
| "wtype_to_itype R_I16 = IT_S16"
| "wtype_to_itype R_I32 = IT_S32"
| "wtype_to_itype R_I64 = IT_S64"
| "wtype_to_itype R_U8 = IT_U8"
| "wtype_to_itype R_U16 = IT_U16"
| "wtype_to_itype R_U32 = IT_U32"
| "wtype_to_itype R_U64 = IT_U64"
| "wtype_to_itype R_F32 = IT_F32"
| "wtype_to_itype R_F64 = IT_F64"

definition generate_it_args :: "FnSignature \<Rightarrow> ITResolver \<Rightarrow> ITGeneratorError + FunctionArg list" where
  "generate_it_args signature r =
    mapR (\<lambda>arg. bindR (ptype_to_itype_checked (an_ty arg) r)
      (\<lambda>t. Inr \<lparr>fa_name = an_name arg, fa_ty = t\<rparr>)) (fg_arguments signature)"

definition generate_it_output_type :: "FnSignature \<Rightarrow> ITResolver \<Rightarrow> ITGeneratorError + IType list" where
  "generate_it_output_type signature r =
    mapR (\<lambda>ty. ptype_to_itype_checked ty r) (fg_output_types signature)"

subsection \<open>The default exports\<close>

record ApiExportFuncDescriptor =
  ap_name :: string
  ap_id :: u32
  ap_arguments :: "FunctionArg list"
  ap_output_types :: "IType list"

definition update_interfaces :: "ApiExportFuncDescriptor \<Rightarrow> Interfaces \<Rightarrow> Interfaces" where
  "update_interfaces d i =
    i\<lparr>if_types := if_types i @ [Ast_Function (ap_arguments d) (ap_output_types d)],
      if_exports := if_exports i @ [\<lparr>ex_name = ap_name d, ex_function_type = ap_id d\<rparr>]\<rparr>"

definition ALLOCATE_FUNC :: ApiExportFuncDescriptor where
  "ALLOCATE_FUNC = \<lparr>ap_name = ''allocate'', ap_id = 0,
    ap_arguments = [\<lparr>fa_name = ''size'', fa_ty = IT_I32\<rparr>], ap_output_types = [IT_I32]\<rparr>"

definition RELEASE_OBJECTS :: ApiExportFuncDescriptor where
  "RELEASE_OBJECTS = \<lparr>ap_name = ''release_objects'', ap_id = 1, ap_arguments = [], ap_output_types = []\<rparr>"

definition GET_RESULT_SIZE_FUNC :: ApiExportFuncDescriptor where
  "GET_RESULT_SIZE_FUNC = \<lparr>ap_name = ''get_result_size'', ap_id = 2, ap_arguments = [],
    ap_output_types = [IT_I32]\<rparr>"

definition GET_RESULT_PTR_FUNC :: ApiExportFuncDescriptor where
  "GET_RESULT_PTR_FUNC = \<lparr>ap_name = ''get_result_ptr'', ap_id = 3, ap_arguments = [],
    ap_output_types = [IT_I32]\<rparr>"

definition SET_RESULT_SIZE_FUNC :: ApiExportFuncDescriptor where
  "SET_RESULT_SIZE_FUNC = \<lparr>ap_name = ''set_result_size'', ap_id = 4,
    ap_arguments = [\<lparr>fa_name = ''result_size'', fa_ty = IT_I32\<rparr>], ap_output_types = []\<rparr>"

definition SET_RESULT_PTR_FUNC :: ApiExportFuncDescriptor where
  "SET_RESULT_PTR_FUNC = \<lparr>ap_name = ''set_result_ptr'', ap_id = 5,
    ap_arguments = [\<lparr>fa_name = ''result_ptr'', fa_ty = IT_I32\<rparr>], ap_output_types = []\<rparr>"

definition generate_default_export_api :: "Interfaces \<Rightarrow> Interfaces" where
  "generate_default_export_api i =
    foldl (\<lambda>i d. update_interfaces d i) i
      [ALLOCATE_FUNC, RELEASE_OBJECTS, GET_RESULT_SIZE_FUNC, GET_RESULT_PTR_FUNC,
       SET_RESULT_SIZE_FUNC, SET_RESULT_PTR_FUNC]"

lemmas api_defs = ALLOCATE_FUNC_def RELEASE_OBJECTS_def GET_RESULT_SIZE_FUNC_def
  GET_RESULT_PTR_FUNC_def SET_RESULT_SIZE_FUNC_def SET_RESULT_PTR_FUNC_def

subsection \<open>Well-formed resolvers\<close>

definition is_record_ast :: "AstType \<Rightarrow> bool" where
  "is_record_ast t = (case t of Ast_Record _ \<Rightarrow> True | Ast_Function _ _ \<Rightarrow> False)"

text \<open>A type mentions a record of the section only; an index is that of a function type.\<close>

definition type_ok :: "AstType list \<Rightarrow> IType \<Rightarrow> bool" where
  "type_ok ts t \<longleftrightarrow> (\<forall>j. type_record t = Some j \<longrightarrow> unat j < length ts \<and> is_record_ast (ts ! unat j))"

definition fn_at :: "AstType list \<Rightarrow> u32 \<Rightarrow> bool" where
  "fn_at ts i \<longleftrightarrow> unat i < length ts \<and> \<not> is_record_ast (ts ! unat i)"

fun ast_ok :: "AstType list \<Rightarrow> AstType \<Rightarrow> bool" where
  "ast_ok ts (Ast_Function as os) =
    ((\<forall>a\<in>set as. type_ok ts (fa_ty a)) \<and> (\<forall>t\<in>set os. type_ok ts t))"
| "ast_ok ts (Ast_Record r) = (\<forall>f\<in>set (rt_fields r). type_ok ts (rf_ty f))"

definition interfaces_ok :: "Interfaces \<Rightarrow> bool" where
  "interfaces_ok i \<longleftrightarrow>
    length (if_types i) \<le> 2 ^ 32 \<and>
    (\<forall>t\<in>set (if_types i). ast_ok (if_types i) t) \<and>
    (\<forall>a\<in>set (if_adapters i). fn_at (if_types i) (ad_function_type a)) \<and>
    (\<forall>p\<in>set (if_implementations i).
       fn_at (if_types i) (ip_core_function_type p) \<and> fn_at (if_types i) (ip_adapter_function_type p)) \<and>
    (\<forall>e\<in>set (if_exports i). fn_at (if_types i) (ex_function_type e)) \<and>
    (\<forall>x\<in>set (if_imports i). fn_at (if_types i) (im_function_type x))"

definition resolver_ok :: "ITResolver \<Rightarrow> bool" where
  "resolver_ok r \<longleftrightarrow> interfaces_ok (rs_interfaces r) \<and>
    (\<forall>name pos. hm_get name (rs_types r) = Some pos \<longrightarrow>
       pos < length (types_of r) \<and> is_record_ast (types_of r ! pos))"

text \<open>The types only grow, and a position never changes between record and function.\<close>

definition grows :: "AstType list \<Rightarrow> AstType list \<Rightarrow> bool" where
  "grows ts ts' \<longleftrightarrow> length ts \<le> length ts' \<and>
    (\<forall>i < length ts. is_record_ast (ts' ! i) = is_record_ast (ts ! i))"

lemma grows_refl [simp]: "grows ts ts"
  by (simp add: grows_def)

lemma grows_trans [trans]: "grows a b \<Longrightarrow> grows b c \<Longrightarrow> grows a c"
  by (auto simp: grows_def)

lemma grows_append [simp]: "grows ts (ts @ us)"
  by (simp add: grows_def nth_append)

lemma is_record_update:
  "is_record_ast (ts ! p) = is_record_ast t \<Longrightarrow> p < length ts \<Longrightarrow>
   is_record_ast (ts[p := t] ! i) = is_record_ast (ts ! i)"
  by (cases "i = p") auto

lemma grows_update:
  "is_record_ast (ts ! p) = is_record_ast t \<Longrightarrow> p < length ts \<Longrightarrow> grows ts (ts[p := t])"
  by (simp add: grows_def is_record_update)

lemma is_record_ast_Record [simp]: "is_record_ast (Ast_Record r)" "\<not> is_record_ast (Ast_Function as os)"
  by (simp_all add: is_record_ast_def)

lemma type_ok_grows: "grows ts ts' \<Longrightarrow> type_ok ts t \<Longrightarrow> type_ok ts' t"
  by (auto simp: grows_def type_ok_def)

lemma fn_at_grows: "grows ts ts' \<Longrightarrow> fn_at ts i \<Longrightarrow> fn_at ts' i"
  by (auto simp: grows_def fn_at_def)

lemma ast_ok_grows: "grows ts ts' \<Longrightarrow> ast_ok ts t \<Longrightarrow> ast_ok ts' t"
  by (cases t) (auto intro: type_ok_grows)

lemmas resolver_simps = resolver_ok_def interfaces_ok_def push_type_def add_adapter_def
  add_implementation_def add_export_def add_import_def

lemma types_of_simps [simp]:
  "types_of (push_type t r) = types_of r @ [t]"
  "types_of (add_adapter a is r) = types_of r"
  "types_of (add_implementation c d r) = types_of r"
  "types_of (add_export n f r) = types_of r"
  "types_of (add_import ns n f r) = types_of r"
  "types_of (add_fn_type as os r) = types_of r @ [Ast_Function as os]"
  "rs_types (push_type t r) = rs_types r"
  by (simp_all add: push_type_def add_adapter_def add_implementation_def add_export_def
      add_import_def add_fn_type_def)

text \<open>Replacing the types of a well-formed section by well-formed grown ones keeps the rest.\<close>

lemma interfaces_ok_grow:
  assumes "interfaces_ok i" and "grows (if_types i) ts" and "length ts \<le> 2 ^ 32"
    and "\<And>t. t \<in> set ts \<Longrightarrow> ast_ok ts t"
  shows "interfaces_ok (i\<lparr>if_types := ts\<rparr>)"
  using assms by (auto simp: interfaces_ok_def intro: fn_at_grows)

lemma push_type_ok:
  assumes "resolver_ok r" and "length (types_of r) < 2 ^ 32" and "ast_ok (types_of r @ [t]) t"
  shows "resolver_ok (push_type t r)"
proof -
  have "ast_ok (types_of r @ [t]) u" if "u \<in> set (types_of r @ [t])" for u
    using that assms(1,3) ast_ok_grows [OF grows_append] by (auto simp: resolver_ok_def interfaces_ok_def)
  then have "interfaces_ok (rs_interfaces (push_type t r))"
    using assms(1,2) interfaces_ok_grow [of "rs_interfaces r" "types_of r @ [t]"]
    by (simp add: resolver_ok_def push_type_def)
  then show ?thesis
    using assms(1) by (auto simp: resolver_ok_def push_type_def nth_append intro: less_SucI)
qed

lemma add_fn_type_ok:
  assumes "resolver_ok r" and "length (types_of r) < 2 ^ 32"
    and "\<forall>a\<in>set as. type_ok (types_of r) (fa_ty a)" and "\<forall>t\<in>set os. type_ok (types_of r) t"
  shows "resolver_ok (add_fn_type as os r)"
  using assms unfolding add_fn_type_def
  by (intro push_type_ok) (auto intro: type_ok_grows [OF grows_append])

lemma add_entries_ok:
  "resolver_ok r \<Longrightarrow> fn_at (types_of r) f \<Longrightarrow> resolver_ok (add_adapter f is r)"
  "resolver_ok r \<Longrightarrow> fn_at (types_of r) f \<Longrightarrow> fn_at (types_of r) g \<Longrightarrow>
    resolver_ok (add_implementation f g r)"
  "resolver_ok r \<Longrightarrow> fn_at (types_of r) f \<Longrightarrow> resolver_ok (add_export n f r)"
  "resolver_ok r \<Longrightarrow> fn_at (types_of r) f \<Longrightarrow> resolver_ok (add_import ns n f r)"
  by (auto simp: resolver_simps)

lemma type_ok_array_or_bytes: "type_ok ts t \<Longrightarrow> type_ok ts (array_or_bytes t)"
  by (auto simp: type_ok_def array_or_bytes_def)

lemma type_ok_record_id:
  assumes "resolver_ok r" and "hm_get name (rs_types r) = Some pos"
  shows "type_ok (types_of r) (IT_Record (word_of_nat pos))"
proof -
  have "pos < length (types_of r)" "length (types_of r) \<le> 2 ^ 32" "is_record_ast (types_of r ! pos)"
    using assms by (auto simp: resolver_ok_def interfaces_ok_def)
  then show ?thesis
    by (simp add: type_ok_def unat_of_nat_u64)
qed

lemma ptype_checked_ok:
  "resolver_ok r \<Longrightarrow> ptype_to_itype_checked p r = Inr t \<Longrightarrow> type_ok (types_of r) t"
proof (induction p arbitrary: t)
  case (P_Vector p)
  then show ?case
    by (auto simp: bindR_Inr type_ok_array_or_bytes)
next
  case (P_Record name)
  then show ?case
    using type_ok_record_id by (auto simp: bindR_Inr get_record_type_id_def ok_or_Inr)
qed (auto simp: type_ok_def)

definition plain_record :: "IRecordType \<Rightarrow> bool" where
  "plain_record r \<longleftrightarrow> (\<forall>f\<in>set (rt_fields r). type_record (rf_ty f) = None)"

lemma get_record_type_id_unchecked_ok:
  assumes "resolver_ok r" and "plain_record dflt"
    and "get_record_type_id_unchecked dflt name r = (i, r')" and "length (types_of r') \<le> 2 ^ 32"
  shows "resolver_ok r' \<and> grows (types_of r) (types_of r') \<and>
    hm_get name (rs_types r') = Some i"
proof (cases "hm_get name (rs_types r)")
  case None
  let ?r = "r\<lparr>rs_types := hm_insert name (length (types_of r)) (rs_types r)\<rparr>"
  have r': "r' = (push_type (Ast_Record dflt) ?r)
      \<lparr>rs_unresolved_types_count := rs_unresolved_types_count r + 1\<rparr>" "i = length (types_of r)"
    using None assms(3) by (auto simp: get_record_type_id_unchecked_def Let_def push_type_def)
  then have short: "length (types_of r) < 2 ^ 32"
    using assms(4) by simp
  have "ast_ok (types_of r @ [Ast_Record dflt]) (Ast_Record dflt)"
    using assms(2) by (auto simp: plain_record_def type_ok_def)
  then have "resolver_ok (push_type (Ast_Record dflt) r)"
    using assms(1) short by (intro push_type_ok)
  then have "resolver_ok r'"
    unfolding r' by (auto simp: resolver_ok_def push_type_def is_record_ast_def)
  then show ?thesis
    unfolding r' by simp
qed (use assms in \<open>auto simp: get_record_type_id_unchecked_def\<close>)

lemma ptype_unchecked_ok:
  "resolver_ok r \<Longrightarrow> plain_record dflt \<Longrightarrow> ptype_to_itype_unchecked dflt p r = (t, r') \<Longrightarrow>
   length (types_of r') \<le> 2 ^ 32 \<Longrightarrow>
   resolver_ok r' \<and> grows (types_of r) (types_of r') \<and> type_ok (types_of r') t"
proof (induction p arbitrary: t r')
  case (P_Vector p)
  then show ?case
    by (auto simp: type_ok_array_or_bytes split: prod.splits)
next
  case (P_Record name)
  then obtain i where i: "get_record_type_id_unchecked dflt name r = (i, r')" "t = IT_Record (word_of_nat i)"
    by (auto split: prod.splits)
  then show ?case
    using get_record_type_id_unchecked_ok [OF P_Record(1,2) i(1) P_Record(4)] type_ok_record_id by blast
qed (auto simp: type_ok_def)

lemma insert_record_type_ok:
  assumes "resolver_ok r" and "\<forall>f\<in>set (rt_fields q). type_ok (types_of r) (rf_ty f)"
    and "length (types_of (insert_record_type q r)) \<le> 2 ^ 32"
  shows "resolver_ok (insert_record_type q r) \<and> grows (types_of r) (types_of (insert_record_type q r))"
proof (cases "hm_get (rt_name q) (rs_types r)")
  case None
  have "ast_ok (types_of r @ [Ast_Record q]) (Ast_Record q)"
    using assms(2) type_ok_grows [OF grows_append] by auto
  moreover have "length (types_of r) < 2 ^ 32"
    using assms(3) None by (simp add: insert_record_type_def)
  ultimately have "resolver_ok (push_type (Ast_Record q) r)"
    using assms(1) by (intro push_type_ok)
  then show ?thesis
    using None by (auto simp: insert_record_type_def resolver_ok_def push_type_def is_record_ast_def)
next
  case (Some pos)
  let ?ts = "(types_of r)[pos := Ast_Record q]"
  have pos: "is_record_ast (types_of r ! pos)" "pos < length (types_of r)"
    using assms(1) Some by (auto simp: resolver_ok_def)
  then have gr: "grows (types_of r) ?ts"
    by (intro grows_update) simp_all
  have "ast_ok ?ts t" if "t \<in> set ?ts" for t
  proof (cases "t = Ast_Record q")
    case False
    then have "t \<in> set (types_of r)"
      using that set_update_subset_insert [of "types_of r" pos "Ast_Record q"] by auto
    then show ?thesis
      using assms(1) ast_ok_grows [OF gr] by (auto simp: resolver_ok_def interfaces_ok_def)
  qed (use assms(2) type_ok_grows [OF gr] in auto)
  then have "interfaces_ok ((rs_interfaces r)\<lparr>if_types := ?ts\<rparr>)"
    using assms(1) gr by (intro interfaces_ok_grow) (auto simp: resolver_ok_def interfaces_ok_def)
  moreover have "is_record_ast (?ts ! p) = is_record_ast (types_of r ! p)" for p
    using pos by (intro is_record_update) simp_all
  ultimately show ?thesis
    using assms(1) Some gr by (auto simp: insert_record_type_def resolver_ok_def)
qed

end
