(* ===== verification/ItGenerator.thy ===== *)
theory ItGenerator
  imports ItResolver
begin

text \<open>
  Generation of the interface-types section of a module from the declarations its author made:
  \<open>crates/it-generator/src/interface_generator.rs\<close> and
  \<open>instructions_generator/{record,fn,foreign_mod}_instructions\<close>.  Parameters: the default
  record type \<open>dflt\<close>, the type tag \<open>tag\<close> of a byte (\<open>ser_type_size(&IType::U8)\<close>) and
  \<open>is_complex\<close> (\<open>ParsedType::is_complex_type\<close> of \<open>marine_macro_impl\<close>).
\<close>

subsection \<open>Declarations\<close>

record AstRecordField =
  af_name :: "string option"
  af_ty :: ParsedType

datatype RecordFields = Named "AstRecordField list" | Unnamed "AstRecordField list" | UnitFields

record AstRecordType =
  ar_name :: string
  ar_fields :: RecordFields

record FnType =
  ft_signature :: FnSignature

record ExternFnType =
  ef_link_name :: "string option"
  ef_signature :: FnSignature

record ExternModType =
  em_namespace :: string
  em_imports :: "ExternFnType list"

subsection \<open>Records\<close>

fun record_field_types :: "IRecordType \<Rightarrow> AstRecordField list \<Rightarrow> ITResolver \<Rightarrow>
    RecordFieldType list \<times> ITResolver" where
  "record_field_types dflt [] r = ([], r)"
| "record_field_types dflt (f # fs) r =
    (let (t, r) = ptype_to_itype_unchecked dflt (af_ty f) r;
         (ts, r) = record_field_types dflt fs r
     in (\<lparr>rf_name = (case af_name f of None \<Rightarrow> [] | Some n \<Rightarrow> n), rf_ty = t\<rparr> # ts, r))"

definition generate_record_fields :: "IRecordType \<Rightarrow> string \<Rightarrow> AstRecordField list \<Rightarrow> ITResolver \<Rightarrow>
    ITGeneratorError + ITResolver" where
  "generate_record_fields dflt name fs r =
    (let (ts, r) = record_field_types dflt fs r
     in if ts = [] then Inl (CR_NoFields name) else Inr (add_record_type name ts r))"

definition generate_record :: "IRecordType \<Rightarrow> AstRecordType \<Rightarrow> ITResolver \<Rightarrow> ITGeneratorError + ITResolver" where
  "generate_record dflt q r =
    (case ar_fields q of
       Named fs \<Rightarrow> generate_record_fields dflt (ar_name q) fs r
     | Unnamed fs \<Rightarrow> generate_record_fields dflt (ar_name q) fs r
     | UnitFields \<Rightarrow> Inr r)"

subsection \<open>Exported functions\<close>

fun export_arg_instructions :: "u32 \<Rightarrow> ParsedType \<Rightarrow> u32 \<Rightarrow> ITResolver \<Rightarrow>
    ITGeneratorError + Instruction list" where
  "export_arg_instructions tag P_Boolean index r = Inr [ArgumentGet index, I32FromBool]"
| "export_arg_instructions tag P_I8 index r = Inr [ArgumentGet index, I32FromS8]"
| "export_arg_instructions tag P_I16 index r = Inr [ArgumentGet index, I32FromS16]"
| "export_arg_instructions tag P_I32 index r = Inr [ArgumentGet index, I32FromS32]"
| "export_arg_instructions tag P_I64 index r = Inr [ArgumentGet index, I64FromS64]"
| "export_arg_instructions tag P_U8 index r = Inr [ArgumentGet index, I32FromU8]"
| "export_arg_instructions tag P_U16 index r = Inr [ArgumentGet index, I32FromU16]"
| "export_arg_instructions tag P_U32 index r = Inr [ArgumentGet index, I32FromU32]"
| "export_arg_instructions tag P_U64 index r = Inr [ArgumentGet index, I64FromU64]"
| "export_arg_instructions tag P_F32 index r = Inr [ArgumentGet index]"
| "export_arg_instructions tag P_F64 index r = Inr [ArgumentGet index]"
| "export_arg_instructions tag (P_Vector value_type) index r =
    bindR (ptype_to_itype_checked value_type r) (\<lambda>value_type.
    Inr [ArgumentGet index, ArrayLowerMemory value_type])"
| "export_arg_instructions tag (P_Record record_name) index r =
    bindR (get_record_type_id record_name r) (\<lambda>i.
    Inr [ArgumentGet index, RecordLowerMemory (word_of_nat i)])"
| "export_arg_instructions tag _ index r =
    Inr [ArgumentGet index, StringSize, PushI32 tag, CallCore (ap_id ALLOCATE_FUNC),
         ArgumentGet index, StringLowerMemory]"

fun export_output_instructions :: "ParsedType \<Rightarrow> ITResolver \<Rightarrow> ITGeneratorError + Instruction list" where
  "export_output_instructions P_Boolean r = Inr [BoolFromI32]"
| "export_output_instructions P_I8 r = Inr [S8FromI32]"
| "export_output_instructions P_I16 r = Inr [S16FromI32]"
| "export_output_instructions P_I32 r = Inr [S32FromI32]"
| "export_output_instructions P_I64 r = Inr [S64FromI64]"
| "export_output_instructions P_U8 r = Inr [U8FromI32]"
| "export_output_instructions P_U16 r = Inr [U16FromI32]"
| "export_output_instructions P_U32 r = Inr [U32FromI32]"
| "export_output_instructions P_U64 r = Inr [U64FromI64]"
| "export_output_instructions P_F32 r = Inr []"
| "export_output_instructions P_F64 r = Inr []"
| "export_output_instructions (P_Vector value_type) r =
    bindR (ptype_to_itype_checked value_type r) (\<lambda>value_type.
    Inr [CallCore (ap_id GET_RESULT_PTR_FUNC), CallCore (ap_id GET_RESULT_SIZE_FUNC),
         if value_type = IT_U8 then ByteArrayLiftMemory else ArrayLiftMemory value_type])"
| "export_output_instructions (P_Record record_name) r =
    bindR (get_record_type_id record_name r) (\<lambda>i.
    Inr [CallCore (ap_id GET_RESULT_PTR_FUNC), RecordLiftMemory (word_of_nat i)])"
| "export_output_instructions _ r =
    Inr [CallCore (ap_id GET_RESULT_PTR_FUNC), CallCore (ap_id GET_RESULT_SIZE_FUNC), StringLiftMemory]"

definition fn_generate_it_types :: "FnType \<Rightarrow> ITResolver \<Rightarrow> ITGeneratorError + ITResolver" where
  "fn_generate_it_types f r =
    bindR (generate_it_args (ft_signature f) r) (\<lambda>arguments.
    bindR (generate_it_output_type (ft_signature f) r) (\<lambda>output_types.
    let r = add_fn_type arguments output_types r;
        r = add_fn_type arguments output_types r;
        export_idx = word_of_nat (length (types_of r) - 1)
    in Inr (add_export (fg_name (ft_signature f)) export_idx r)))"

definition fn_generate_instructions :: "u32 \<Rightarrow> (ParsedType \<Rightarrow> bool) \<Rightarrow> FnType \<Rightarrow> ITResolver \<Rightarrow>
    ITGeneratorError + ITResolver" where
  "fn_generate_instructions tag is_complex f r =
    bindR (foldR (\<lambda>instructions (arg_id, arg).
        bindR (export_arg_instructions tag (an_ty arg) (word_of_nat arg_id) r)
          (\<lambda>new. Inr (instructions @ new))) [] (enumerate 0 (fg_arguments (ft_signature f))))
     (\<lambda>instructions.
       let export_function_index = word_of_nat (length (if_exports (rs_interfaces r)) - 1);
           instructions = instructions @ [CallCore export_function_index]
       in bindR (foldR (\<lambda>(instructions, should_generate_release) ty.
            bindR (export_output_instructions ty r)
              (\<lambda>new. Inr (instructions @ new, should_generate_release \<or> is_complex ty)))
            (instructions, False) (fg_output_types (ft_signature f)))
          (\<lambda>(instructions, should_generate_release).
            let instructions = (if should_generate_release
                  then instructions @ [CallCore (ap_id RELEASE_OBJECTS)] else instructions);
                types_count = (word_of_nat (length (types_of r)) :: u32);
                adapter_idx = types_count - 2;
                export_idx = types_count - 1
            in Inr (add_implementation export_idx adapter_idx (add_adapter adapter_idx instructions r))))"

definition generate_fn :: "u32 \<Rightarrow> (ParsedType \<Rightarrow> bool) \<Rightarrow> FnType \<Rightarrow> ITResolver \<Rightarrow>
    ITGeneratorError + ITResolver" where
  "generate_fn tag is_complex f r =
    bindR (fn_generate_it_types f r) (fn_generate_instructions tag is_complex f)"

subsection \<open>Imported functions\<close>

definition HOST_NAMESPACE_V0 :: string where "HOST_NAMESPACE_V0 = ''host''"
definition HOST_NAMESPACE_PREFIX :: string where "HOST_NAMESPACE_PREFIX = ''__marine_host_api_v''"

definition is_host_import :: "string \<Rightarrow> bool" where
  "is_host_import namespace \<longleftrightarrow> namespace = HOST_NAMESPACE_V0 \<or> prefix HOST_NAMESPACE_PREFIX namespace"

fun import_arg_instructions :: "ParsedType \<Rightarrow> u32 \<Rightarrow> ITResolver \<Rightarrow>
    ITGeneratorError + (Instruction list \<times> u32)" where
  "import_arg_instructions P_Boolean index r = Inr ([ArgumentGet index, BoolFromI32], 1)"
| "import_arg_instructions P_I8 index r = Inr ([ArgumentGet index, S8FromI32], 1)"
| "import_arg_instructions P_I16 index r = Inr ([ArgumentGet index, S16FromI32], 1)"
| "import_arg_instructions P_I32 index r = Inr ([ArgumentGet index, S32FromI32], 1)"
| "import_arg_instructions P_I64 index r = Inr ([ArgumentGet index, S64FromI64], 1)"
| "import_arg_instructions P_U8 index r = Inr ([ArgumentGet index, U8FromI32], 1)"
| "import_arg_instructions P_U16 index r = Inr ([ArgumentGet index, U16FromI32], 1)"
| "import_arg_instructions P_U32 index r = Inr ([ArgumentGet index, U32FromI32], 1)"
| "import_arg_instructions P_U64 index r = Inr ([ArgumentGet index, U64FromI64], 1)"
| "import_arg_instructions P_F32 index r = Inr ([ArgumentGet index], 1)"
| "import_arg_instructions P_F64 index r = Inr ([ArgumentGet index], 1)"
| "import_arg_instructions (P_Vector value_type) index r =
    bindR (ptype_to_itype_checked value_type r) (\<lambda>value_type.
    Inr ([ArgumentGet index, ArgumentGet (index + 1),
          if value_type = IT_U8 then ByteArrayLiftMemory else ArrayLiftMemory value_type], 2))"
| "import_arg_instructions (P_Record record_name) index r =
    bindR (get_record_type_id record_name r) (\<lambda>i.
    Inr ([ArgumentGet index, RecordLiftMemory (word_of_nat i)], 1))"
| "import_arg_instructions _ index r =
    Inr ([ArgumentGet index, ArgumentGet (index + 1), StringLiftMemory], 2)"

fun import_output_instructions :: "u32 \<Rightarrow> ParsedType \<Rightarrow> ITResolver \<Rightarrow>
    ITGeneratorError + Instruction list" where
  "import_output_instructions tag P_Boolean r = Inr [I32FromBool]"
| "import_output_instructions tag P_I8 r = Inr [I32FromS8]"
| "import_output_instructions tag P_I16 r = Inr [I32FromS16]"
| "import_output_instructions tag P_I32 r = Inr [I32FromS32]"
| "import_output_instructions tag P_I64 r = Inr [I64FromS64]"
| "import_output_instructions tag P_U8 r = Inr [I32FromU8]"
| "import_output_instructions tag P_U16 r = Inr [I32FromU16]"
| "import_output_instructions tag P_U32 r = Inr [I32FromU32]"
| "import_output_instructions tag P_U64 r = Inr [I64FromU64]"
| "import_output_instructions tag P_F32 r = Inr []"
| "import_output_instructions tag P_F64 r = Inr []"
| "import_output_instructions tag (P_Vector value_type) r =
    bindR (ptype_to_itype_checked value_type r) (\<lambda>value_type.
    Inr [ArrayLowerMemory value_type, CallCore (ap_id SET_RESULT_SIZE_FUNC),
         CallCore (ap_id SET_RESULT_PTR_FUNC)])"
| "import_output_instructions tag (P_Record record_name) r =
    bindR (get_record_type_id record_name r) (\<lambda>i.
    Inr [RecordLowerMemory (word_of_nat i), CallCore (ap_id SET_RESULT_PTR_FUNC)])"
| "import_output_instructions tag _ r =
    Inr [Dup, StringSize, PushI32 tag, CallCore (ap_id ALLOCATE_FUNC), Swap2, StringLowerMemory,
         CallCore (ap_id SET_RESULT_SIZE_FUNC), CallCore (ap_id SET_RESULT_PTR_FUNC)]"

fun to_raw_input_types :: "FnArgument \<Rightarrow> FunctionArg list" where
  "to_raw_input_types arg =
    (case an_ty arg of
       P_I64 \<Rightarrow> [\<lparr>fa_name = an_name arg, fa_ty = IT_I64\<rparr>]
     | P_U64 \<Rightarrow> [\<lparr>fa_name = an_name arg, fa_ty = IT_I64\<rparr>]
     | P_F32 \<Rightarrow> [\<lparr>fa_name = an_name arg, fa_ty = IT_F32\<rparr>]
     | P_F64 \<Rightarrow> [\<lparr>fa_name = an_name arg, fa_ty = IT_F64\<rparr>]
     | P_Utf8Str \<Rightarrow> [\<lparr>fa_name = an_name arg @ ''_ptr'', fa_ty = IT_I32\<rparr>,
                     \<lparr>fa_name = an_name arg @ ''_ptr'', fa_ty = IT_I32\<rparr>]
     | P_Utf8String \<Rightarrow> [\<lparr>fa_name = an_name arg @ ''_ptr'', fa_ty = IT_I32\<rparr>,
                     \<lparr>fa_name = an_name arg @ ''_ptr'', fa_ty = IT_I32\<rparr>]
     | P_Vector _ \<Rightarrow> [\<lparr>fa_name = an_name arg @ ''_ptr'', fa_ty = IT_I32\<rparr>,
                     \<lparr>fa_name = an_name arg @ ''_ptr'', fa_ty = IT_I32\<rparr>]
     | _ \<Rightarrow> [\<lparr>fa_name = an_name arg, fa_ty = IT_I32\<rparr>])"

fun to_raw_output_type :: "ParsedType \<Rightarrow> RustType list" where
  "to_raw_output_type P_I64 = [R_I64]"
| "to_raw_output_type P_U64 = [R_I64]"
| "to_raw_output_type P_F32 = [R_F32]"
| "to_raw_output_type P_F64 = [R_F64]"
| "to_raw_output_type P_Utf8Str = []"
| "to_raw_output_type P_Utf8String = []"
| "to_raw_output_type (P_Vector _) = []"
| "to_raw_output_type (P_Record _) = []"
| "to_raw_output_type _ = [R_I32]"

definition generate_raw_args :: "FnSignature \<Rightarrow> FunctionArg list" where
  "generate_raw_args signature = concat (List.map to_raw_input_types (fg_arguments signature))"

definition generate_raw_output_type :: "FnSignature \<Rightarrow> IType list" where
  "generate_raw_output_type signature =
    concat (List.map (\<lambda>ty. List.map wtype_to_itype (to_raw_output_type ty)) (fg_output_types signature))"

definition import_generate_it_types :: "ExternFnType \<Rightarrow> string \<Rightarrow> ITResolver \<Rightarrow>
    ITGeneratorError + ITResolver" where
  "import_generate_it_types f namespace r =
    bindR (generate_it_args (ef_signature f) r) (\<lambda>arguments.
    bindR (generate_it_output_type (ef_signature f) r) (\<lambda>output_types.
    let r = add_fn_type arguments output_types r;
        raw_arguments = generate_raw_args (ef_signature f);
        raw_output_types = generate_raw_output_type (ef_signature f);
        r = add_fn_type raw_arguments raw_output_types r;
        r = add_fn_type raw_arguments raw_output_types r;
        types_count = (word_of_nat (length (types_of r)) :: u32);
        import_idx = types_count - 3;
        raw_import_idx = types_count - 1;
        link_name = (case ef_link_name f of Some n \<Rightarrow> n | None \<Rightarrow> fg_name (ef_signature f));
        r = add_import namespace link_name import_idx r
    in Inr (add_import namespace link_name raw_import_idx r)))"

definition import_generate_it_instructions :: "u32 \<Rightarrow> (ParsedType \<Rightarrow> bool) \<Rightarrow> ExternFnType \<Rightarrow>
    ITResolver \<Rightarrow> ITGeneratorError + ITResolver" where
  "import_generate_it_instructions tag is_complex f r =
    (let adapter_idx = word_of_nat (length (types_of r) - 2);
         raw_import_idx = word_of_nat (length (types_of r) - 1)
     in bindR (foldR (\<lambda>(arg_id, instructions, should_generate_release) arg.
           bindR (import_arg_instructions (an_ty arg) arg_id r) (\<lambda>(new, shift).
           Inr (arg_id + shift, instructions @ new, should_generate_release \<or> is_complex (an_ty arg))))
         (0, [], False) (fg_arguments (ef_signature f)))
      (\<lambda>(_, instructions, should_generate_release).
        let instructions = (if should_generate_release
              then instructions @ [CallCore (ap_id RELEASE_OBJECTS)] else instructions);
            import_function_index = word_of_nat (length (if_exports (rs_interfaces r)) +
              length (if_imports (rs_interfaces r)) div 2 - 1);
            instructions = instructions @ [CallCore import_function_index]
        in bindR (foldR (\<lambda>instructions ty.
             bindR (import_output_instructions tag ty r) (\<lambda>new. Inr (instructions @ new)))
             instructions (fg_output_types (ef_signature f)))
          (\<lambda>instructions.
            Inr (add_implementation raw_import_idx adapter_idx (add_adapter adapter_idx instructions r)))))"

definition generate_it_for_import :: "u32 \<Rightarrow> (ParsedType \<Rightarrow> bool) \<Rightarrow> ExternFnType \<Rightarrow> string \<Rightarrow>
    ITResolver \<Rightarrow> ITGeneratorError + ITResolver" where
  "generate_it_for_import tag is_complex f namespace r =
    bindR (import_generate_it_types f namespace r) (import_generate_it_instructions tag is_complex f)"

definition generate_extern_mod :: "u32 \<Rightarrow> (ParsedType \<Rightarrow> bool) \<Rightarrow> ExternModType \<Rightarrow> ITResolver \<Rightarrow>
    ITGeneratorError + ITResolver" where
  "generate_extern_mod tag is_complex em r =
    (if is_host_import (em_namespace em) then Inr r
     else foldR (\<lambda>r f. generate_it_for_import tag is_complex f (em_namespace em) r) r (em_imports em))"

subsection \<open>The section\<close>

record ModuleAST =
  ma_records :: "AstRecordType list"
  ma_functions :: "FnType list"
  ma_extern_mods :: "ExternModType list"

text \<open>
  The declarations are custom sections of the compiled module whose names start with a prefix of
  \<open>marine_macro_impl\<close> (\<open>prefix1\<close>, \<open>prefix2\<close>); \<open>from_slice\<close> is \<open>serde_json::from_slice\<close>.
\<close>

datatype SDKAst = SDK_Record AstRecordType | SDK_Function FnType | SDK_ExternMod ExternModType

fun push_ast :: "ModuleAST \<Rightarrow> SDKAst \<Rightarrow> ModuleAST" where
  "push_ast a (SDK_Record q) = a\<lparr>ma_records := ma_records a @ [q]\<rparr>"
| "push_ast a (SDK_Function f) = a\<lparr>ma_functions := ma_functions a @ [f]\<rparr>"
| "push_ast a (SDK_ExternMod m) = a\<lparr>ma_extern_mods := ma_extern_mods a @ [m]\<rparr>"

definition wasm_ast_extractor :: "string \<Rightarrow> string \<Rightarrow> (u8 list \<Rightarrow> string + SDKAst) \<Rightarrow>
    (string \<times> u8 list) list \<Rightarrow> ITGeneratorError + ModuleAST" where
  "wasm_ast_extractor prefix1 prefix2 from_slice customs =
    foldR (\<lambda>a (_, raw_data). bindR (map_err DeserializationError (from_slice raw_data))
        (\<lambda>decoded. Inr (push_ast a decoded)))
      \<lparr>ma_records = [], ma_functions = [], ma_extern_mods = []\<rparr>
      (filter (\<lambda>(name, _). prefix prefix1 name \<or> prefix prefix2 name) customs)"

definition GENERATOR_RECURSION_LIMIT :: nat where
  "GENERATOR_RECURSION_LIMIT = 1024"

function (sequential) validate_record_type :: "IRecordType \<Rightarrow> nat \<Rightarrow> ITResolver \<Rightarrow> ITGeneratorError + unit" where
  "validate_record_type record_type recursion_level r =
    (if recursion_level \<ge> GENERATOR_RECURSION_LIMIT then Inl CR_TooManyLevels
     else foldR (\<lambda>_ f. case rf_ty f of
         IT_Record record_type_id \<Rightarrow>
           bindR (get_record_type record_type_id r)
             (\<lambda>inner. validate_record_type inner (recursion_level + 1) r)
       | _ \<Rightarrow> Inr ()) () (rt_fields record_type))"
  by pat_completeness auto
termination
  by (relation "measure (\<lambda>(_, l, _). 1024 - l)") (auto simp: GENERATOR_RECURSION_LIMIT_def)

declare validate_record_type.simps [simp del]

definition validate_records :: "ITResolver \<Rightarrow> ITGeneratorError + unit" where
  "validate_records r =
    (if rs_unresolved_types_count r \<noteq> 0 then Inl (CR_Unresolved (rs_unresolved_types_count r))
     else foldR (\<lambda>_ ty. case ty of
         Ast_Record record_type \<Rightarrow> validate_record_type record_type 0 r
       | Ast_Function _ _ \<Rightarrow> Inr ()) () (types_of r))"

definition generate_interfaces :: "IRecordType \<Rightarrow> u32 \<Rightarrow> (ParsedType \<Rightarrow> bool) \<Rightarrow> ModuleAST \<Rightarrow>
    ITGeneratorError + Interfaces" where
  "generate_interfaces dflt tag is_complex ast =
    (let r = ITResolver_default\<lparr>rs_interfaces := generate_default_export_api Interfaces_default\<rparr>
     in bindR (foldR (\<lambda>r q. generate_record dflt q r) r (ma_records ast)) (\<lambda>r.
        bindR (validate_records r) (\<lambda>_.
        bindR (foldR (\<lambda>r f. generate_fn tag is_complex f r) r (ma_functions ast)) (\<lambda>r.
        bindR (foldR (\<lambda>r m. generate_extern_mod tag is_complex m r) r (ma_extern_mods ast)) (\<lambda>r.
        Inr (rs_interfaces r))))))"

end
