(* ===== verification/Cli.thy ===== *)
theory Cli
  imports ItGenerator ItParser ModuleInterface MarineConfig Texts
begin

text \<open>
  The command line tool: \<open>tools/cli/src/{main,build,cargo_manifest,generate,utils,errors}.rs\<close>, and the entry point
  \<open>embed_it\<close> of the generator.  Commands act on a state \<open>'f\<close> of files and processes; what they print is a list of
  lines.  The parser of arguments (\<open>clap\<close>), cargo and its files are parameters.
\<close>

subsection \<open>Processes\<close>

text \<open>\<open>ps_run\<close>: spawn a program with arguments, with its standard output piped or inherited, and wait: whether it
  succeeded, and its piped output.\<close>

record 'f process_env =
  ps_run :: "string \<Rightarrow> string list \<Rightarrow> bool \<Rightarrow> 'f \<Rightarrow> (string + bool \<times> u8 list) \<times> 'f"
  ps_from_utf8_lossy :: "u8 list \<Rightarrow> string"

datatype run_error = Cannot_spawn string | Exited_with_failure

definition run_command :: "'f process_env \<Rightarrow> string \<Rightarrow> string list \<Rightarrow> bool \<Rightarrow> 'f \<Rightarrow> (run_error + string) \<times> 'f" where
  "run_command P program args piped f =
    (case ps_run P program args piped f of
      (Inl e, f) \<Rightarrow> (Inl (Cannot_spawn e), f)
    | (Inr (success, output), f) \<Rightarrow>
        (if \<not> success then Inl Exited_with_failure else Inr (ps_from_utf8_lossy P output), f))"

definition run_command_inherited :: "'f process_env \<Rightarrow> string \<Rightarrow> string list \<Rightarrow> 'f \<Rightarrow> (run_error + string) \<times> 'f" where
  "run_command_inherited P program args = run_command P program args False"

definition run_command_piped :: "'f process_env \<Rightarrow> string \<Rightarrow> string list \<Rightarrow> 'f \<Rightarrow> (run_error + string) \<times> 'f" where
  "run_command_piped P program args = run_command P program args True"

subsection \<open>New projects\<close>

definition MARINE_TEMPLATE_URL :: string where
  "MARINE_TEMPLATE_URL = ''https://github.com/fluencelabs/marine-template''"

definition is_cargo_generate_installed :: "'f process_env \<Rightarrow> 'f \<Rightarrow> (run_error + bool) \<times> 'f" where
  "is_cargo_generate_installed P f =
    (case run_command_piped P ''cargo'' [''install'', ''--list''] f of
      (r, f) \<Rightarrow> (bindR r (\<lambda>output. Inr (sublist ''cargo-generate'' output)), f))"

definition generate_command :: "string option \<Rightarrow> bool \<Rightarrow> string list" where
  "generate_command project_name should_be_initialized =
    [''generate'', ''--git'', MARINE_TEMPLATE_URL] @
    (case project_name of None \<Rightarrow> [] | Some n \<Rightarrow> [''--name'', n]) @
    (if should_be_initialized then [''--init''] else [])"

text \<open>The result tells whether the template was asked for.\<close>

definition cli_generate :: "'f process_env \<Rightarrow> string option \<Rightarrow> bool \<Rightarrow> 'f \<Rightarrow> (run_error + bool) \<times> 'f" where
  "cli_generate P project_name should_be_initialized f =
    (case is_cargo_generate_installed P f of
      (Inl e, f) \<Rightarrow> (Inl e, f)
    | (Inr False, f) \<Rightarrow> (Inr False, f)
    | (Inr True, f) \<Rightarrow>
        (case run_command_inherited P ''cargo'' (generate_command project_name should_be_initialized) f of
          (r, f) \<Rightarrow> (bindR r (\<lambda>_. Inr True), f)))"

subsection \<open>The version of the SDK a package is built with\<close>

definition SDK_CRATE_NAME :: string where
  "SDK_CRATE_NAME = ''marine-rs-sdk''"

datatype 'te CargoTomlError =
    CT_Parse 'te | CT_Io string | CT_InheritedUnknownValue | CT_WorkspaceIntegrity string | CT_Other string | CT_Unknown

datatype 'te cargo_manifest_error =
    NonMarineWasm
  | CM_Io string
  | CM_ParseError 'te
  | CannotProcessManifest string
  | PackageNotFoundInLockfile string string
  | SdkDependencyNotFoundInLockfile string string
  | NoPackageInManifest string

record Package =
  pkg_name :: string
  pkg_version :: string

record Manifest =
  mf_dependencies :: "string list"
  mf_package :: "Package option"

text \<open>A locked package: its name, its version and the versions of what it depends on.\<close>

record 'v LockedPackage =
  lp_name :: string
  lp_version :: 'v
  lp_dependencies :: "(string \<times> 'v) list"

fun from_cargo_error :: "'te CargoTomlError \<Rightarrow> 'te cargo_manifest_error" where
  "from_cargo_error (CT_Parse e) = CM_ParseError e"
| "from_cargo_error (CT_Io e) = CM_Io e"
| "from_cargo_error CT_InheritedUnknownValue = CannotProcessManifest ''inherited unknown value''"
| "from_cargo_error (CT_WorkspaceIntegrity reason) = CannotProcessManifest reason"
| "from_cargo_error (CT_Other reason) = CannotProcessManifest reason"
| "from_cargo_error CT_Unknown = CannotProcessManifest ''Unknown''"

definition extract_sdk_version_from_lockfile :: "('v \<Rightarrow> string) \<Rightarrow> Package \<Rightarrow> 'v LockedPackage list \<Rightarrow>
  'te cargo_manifest_error + 'v" where
  "extract_sdk_version_from_lockfile to_string target_package lockfile =
    bindR (ok_or (PackageNotFoundInLockfile (pkg_name target_package) (pkg_version target_package))
      (List.find (\<lambda>p. lp_name p = pkg_name target_package \<and> to_string (lp_version p) = pkg_version target_package) lockfile))
      (\<lambda>package.
    ok_or (SdkDependencyNotFoundInLockfile (pkg_name target_package) (pkg_version target_package))
      (map_option snd (List.find (\<lambda>(name, _). name = SDK_CRATE_NAME) (lp_dependencies package))))"

definition extract_sdk_version :: "('v \<Rightarrow> string) \<Rightarrow> (string \<Rightarrow> 'te CargoTomlError + Manifest) \<Rightarrow> string \<Rightarrow>
  'v LockedPackage list \<Rightarrow> 'te cargo_manifest_error + 'v" where
  "extract_sdk_version to_string from_path path lockfile =
    bindR (map_err from_cargo_error (from_path path)) (\<lambda>manifest.
    if SDK_CRATE_NAME \<notin> set (mf_dependencies manifest) then Inl NonMarineWasm
    else bindR (ok_or (NoPackageInManifest path) (mf_package manifest)) (\<lambda>package.
      extract_sdk_version_from_lockfile to_string package lockfile))"

subsection \<open>The manifest path among the arguments of cargo\<close>

definition manifest_path_argument :: "string list \<Rightarrow> string option" where
  "manifest_path_argument args =
    (case dropWhile (\<lambda>arg. \<not> prefix ''--manifest-path'' arg) args of
      [] \<Rightarrow> None
    | p # rest \<Rightarrow>
        if p = ''--manifest-path'' then (case rest of [] \<Rightarrow> None | path # _ \<Rightarrow> Some path)
        else Some (trim_start_matches ''--manifest-path='' p))"

subsection \<open>Wasm files\<close>

text \<open>\<open>walrus\<close> on files, the declarations of the SDK in custom sections, the binary and the textual form of interface
  types, versions and times.\<close>

record ('f, 'v, 'w, 't) wasm_tools =
  wt_parse :: "string \<Rightarrow> 'f \<Rightarrow> string + Walrus"
  wt_emit :: "Walrus \<Rightarrow> string \<Rightarrow> 'f \<Rightarrow> (string + unit) \<times> 'f"
  wt_prefix :: string
  wt_prefix_fce :: string
  wt_from_slice :: "u8 list \<Rightarrow> string + SDKAst"
  wt_default_record :: IRecordType
  wt_tag :: u32
  wt_is_complex :: "ParsedType \<Rightarrow> bool"
  wt_it_version :: 'w
  wt_it_to_bytes :: "'w \<times> Interfaces \<Rightarrow> u8 list"
  wt_it_decode :: "'w decoder"
  wt_it_to_text :: "'w \<times> Interfaces \<Rightarrow> string"
  wt_it_parse_text :: "string \<Rightarrow> string + 'w \<times> Interfaces"
  wt_version_section :: string
  wt_as_bytes :: "string \<Rightarrow> u8 list"
  wt_from_utf8 :: "u8 list \<Rightarrow> string + string"
  wt_version_text :: "'v \<Rightarrow> string"
  wt_version_parse :: "string \<Rightarrow> string + 'v"
  wt_manifest_section :: string
  wt_parse_time :: "string \<Rightarrow> string + 't"

text \<open>\<open>embed_it\<close> of the generator; both I/O messages keep the error.\<close>

definition generator_interfaces :: "('f, 'v, 'w, 't) wasm_tools \<Rightarrow> (string \<times> u8 list) list \<Rightarrow> ITGeneratorError + Interfaces" where
  "generator_interfaces W sections =
    bindR (wasm_ast_extractor (wt_prefix W) (wt_prefix_fce W) (wt_from_slice W) sections)
      (generate_interfaces (wt_default_record W) (wt_tag W) (wt_is_complex W))"

definition generator_embed_it :: "('f, 'v, 'w, 't) wasm_tools \<Rightarrow> string \<Rightarrow> 'f \<Rightarrow> (ITGeneratorError + unit) \<times> 'f" where
  "generator_embed_it W path f =
    (case wt_parse W path f of
      Inl e \<Rightarrow> (Inl (IOError e), f)
    | Inr wasm_module \<Rightarrow>
        (case generator_interfaces W (List.map snd (wm_customs wasm_module)) of
          Inl e \<Rightarrow> (Inl e, f)
        | Inr interfaces \<Rightarrow>
            (case wt_emit W (embed_it (wt_it_to_bytes W) (delete_it_section wasm_module) (wt_it_version W, interfaces)) path f of
              (r, f) \<Rightarrow> (map_err IOError r, f))))"

abbreviation embed_version :: "('f, 'v, 'w, 't) wasm_tools \<Rightarrow> string \<Rightarrow> string \<Rightarrow> 'v \<Rightarrow> 'f \<Rightarrow> (ModuleInfoError + unit) \<times> 'f" where
  "embed_version W \<equiv> embed_from_path (wt_parse W) (wt_emit W) (wt_version_section W) (wt_as_bytes W) (wt_version_text W)"

subsection \<open>Building\<close>

datatype ('te, 'le, 'me) CLIError =
    NoSuchCommand string
  | VersionEmbeddingError ModuleInfoError
  | CLI_ITGeneratorError ITGeneratorError
  | CLI_ITParserError ITParserError
  | WasmCompilationError run_error
  | CLI_IOError string
  | CLI_ManifestError "'te cargo_manifest_error"
  | LockfileError string 'le
  | MetadataError 'me

datatype DiagnosticMessage =
    BuildScriptExecuted
  | BuildFinished
  | CompilerArtifact "string list" string
  | RunWithArgs

datatype 'te build_log = Skipping string | Extraction_failed "'te cargo_manifest_error"

record ('f, 'v, 'te, 'le, 'me, 'je) build_env =
  be_process :: "'f process_env"
  be_metadata :: "string option \<Rightarrow> 'f \<Rightarrow> 'me + string"
  be_lockfile :: "string \<Rightarrow> 'f \<Rightarrow> 'le + 'v LockedPackage list"
  be_cargo_toml :: "string \<Rightarrow> 'f \<Rightarrow> 'te CargoTomlError + Manifest"
  be_diagnostic :: "string \<Rightarrow> 'je + DiagnosticMessage"

definition build_args :: "string list \<Rightarrow> string list" where
  "build_args trailing_args =
    [''build'', ''--target'', ''wasm32-wasi'', ''--message-format'', ''json-render-diagnostics''] @ trailing_args"

definition get_cargo_metadata :: "('f, 'v, 'te, 'le, 'me, 'je) build_env \<Rightarrow> string list \<Rightarrow> 'f \<Rightarrow>
  ('te, 'le, 'me) CLIError + string" where
  "get_cargo_metadata G args f = map_err MetadataError (be_metadata G (manifest_path_argument args) f)"

definition load_lockfile :: "('f, 'v, 'te, 'le, 'me, 'je) build_env \<Rightarrow> string \<Rightarrow> 'f \<Rightarrow>
  ('te, 'le, 'me) CLIError + 'v LockedPackage list" where
  "load_lockfile G workspace_root f =
    (let lockfile_path = path_join workspace_root ''Cargo.lock'' in
     map_err (LockfileError lockfile_path) (be_lockfile G lockfile_path f))"

definition artifact_wasms :: "('v \<Rightarrow> string) \<Rightarrow> (string \<Rightarrow> 'te CargoTomlError + Manifest) \<Rightarrow> (string \<Rightarrow> 'je + DiagnosticMessage) \<Rightarrow>
  'v LockedPackage list \<Rightarrow> string \<Rightarrow> (string \<times> 'v) list \<times> 'te build_log list" where
  "artifact_wasms to_string from_path from_str lockfile line =
    (case from_str line of
      Inr (CompilerArtifact filenames manifest_path) \<Rightarrow>
        (let new_wasms = filter (suffix ''.wasm'') filenames in
         if new_wasms = [] then ([], [])
         else (case extract_sdk_version to_string from_path manifest_path lockfile of
             Inr sdk_version \<Rightarrow> (List.map (\<lambda>name. (name, sdk_version)) new_wasms, [])
           | Inl NonMarineWasm \<Rightarrow> ([], [Skipping manifest_path])
           | Inl e \<Rightarrow> ([], [Extraction_failed e])))
    | _ \<Rightarrow> ([], []))"

fun embed_all :: "('f, 'v, 'w, 't) wasm_tools \<Rightarrow> (string \<times> 'v) list \<Rightarrow> 'f \<Rightarrow> (('te, 'le, 'me) CLIError + unit) \<times> 'f" where
  "embed_all W [] f = (Inr (), f)"
| "embed_all W ((wasm_path, sdk_version) # wasms) f =
    (case generator_embed_it W wasm_path f of
      (Inl e, f) \<Rightarrow> (Inl (CLI_ITGeneratorError e), f)
    | (Inr _, f) \<Rightarrow>
        (case embed_version W wasm_path wasm_path sdk_version f of
          (Inl e, f) \<Rightarrow> (Inl (VersionEmbeddingError e), f)
        | (Inr _, f) \<Rightarrow> embed_all W wasms f))"

definition build_artifacts :: "('f, 'v, 'te, 'le, 'me, 'je) build_env \<Rightarrow> ('f, 'v, 'w, 't) wasm_tools \<Rightarrow> 'v LockedPackage list \<Rightarrow>
  string \<Rightarrow> 'f \<Rightarrow> ((string \<times> 'v) list \<times> 'te build_log list) list" where
  "build_artifacts G W lockfile output f =
    List.map (artifact_wasms (wt_version_text W) (\<lambda>p. be_cargo_toml G p f) (be_diagnostic G) lockfile) (lines output)"

definition cli_build :: "('f, 'v, 'te, 'le, 'me, 'je) build_env \<Rightarrow> ('f, 'v, 'w, 't) wasm_tools \<Rightarrow> string list \<Rightarrow> 'f \<Rightarrow>
  (('te, 'le, 'me) CLIError + unit) \<times> 'te build_log list \<times> 'f" where
  "cli_build G W trailing_args f =
    (case run_command_piped (be_process G) ''cargo'' (build_args trailing_args) f of
      (Inl e, f) \<Rightarrow> (Inl (WasmCompilationError e), [], f)
    | (Inr output, f) \<Rightarrow>
        (case bindR (get_cargo_metadata G trailing_args f) (\<lambda>root. load_lockfile G root f) of
          Inl e \<Rightarrow> (Inl e, [], f)
        | Inr lockfile \<Rightarrow>
            (let found = build_artifacts G W lockfile output f;
                 wasms = concat (List.map fst found) in
             case (if wasms = [] then (Inr (), f) else embed_all W wasms f) of
               (r, f) \<Rightarrow> (r, concat (List.map snd found), f))))"

subsection \<open>The other commands\<close>

datatype cli_failure =
    Not_a_file
  | Parser_failed ITParserError
  | Io_failed string
  | Not_utf8 string
  | Bad_version string
  | Not_a_module string
  | Info_failed ModuleInfoError

text \<open>Printing of the interface for Aqua (\<open>module_interface.rs\<close>); \<open>None\<close> is the panic on several results.\<close>

definition signature_to_text :: "FunctionSignature \<Rightarrow> string option" where
  "signature_to_text s =
    (let args = join '', '' (List.map (\<lambda>(name, ty). name @ '': '' @ ty) (sg_arguments s)) in
     case sg_output_types s of
       [] \<Rightarrow> Some (sg_name s @ ''('' @ args @ '') '' @ [] @ '' '' @ [] @ nl)
     | [ty] \<Rightarrow> Some (sg_name s @ ''('' @ args @ '') '' @ ''->'' @ '' '' @ ty @ nl)
     | _ \<Rightarrow> None)"

definition record_to_text :: "RecordType \<Rightarrow> string" where
  "record_to_text r = ''data '' @ rc_name r @ '':'' @ nl @ concat (List.map (\<lambda>f. ''  '' @ rd_name f @ '': '' @ rd_ty f @ nl) (rc_fields r))"

text \<open>The outcome of a command that only prints: the texts printed, and how it ends; \<open>None\<close> is a panic.
  \<open>sort\<close> is \<open>sort\<close> of the standard library with the order on signatures, \<open>pascal\<close> the conversion of names.\<close>

definition print_signatures :: "FunctionSignature list \<Rightarrow> string list option" where
  "print_signatures signatures = those (List.map (\<lambda>s. map_option ((@) ''  '') (signature_to_text s)) signatures)"

definition aqua :: "('f, 'v, 'w, 't) wasm_tools \<Rightarrow> (string \<Rightarrow> string) \<Rightarrow> (FunctionSignature list \<Rightarrow> FunctionSignature list) \<Rightarrow>
  string \<Rightarrow> string option \<Rightarrow> string option \<Rightarrow> 'f \<Rightarrow> (string list \<times> (cli_failure + unit)) option" where
  "aqua W pascal sort_signatures wasm_path service_name service_id f =
    (case (case service_name of Some n \<Rightarrow> Some n | None \<Rightarrow> file_stem wasm_path) of
      None \<Rightarrow> Some ([], Inl Not_a_file)
    | Some service_name \<Rightarrow>
        (let service_name = pascal service_name; first = ''aqua '' @ service_name @ '' declares *'' @ nl @ nl in
         case module_interface (\<lambda>p. wt_parse W p f) (wt_it_decode W) wasm_path of
           None \<Rightarrow> None
         | Some (Inl e) \<Rightarrow> Some ([first], Inl (Parser_failed e))
         | Some (Inr i) \<Rightarrow>
             (let records = List.map (\<lambda>r. record_to_text r @ nl) (mi_record_types i);
                  service = (case service_id of
                      Some sid \<Rightarrow> ''service '' @ service_name @ [CHR ''('', CHR 0x22] @ sid @ [CHR 0x22, CHR '')'', CHR '':''] @ nl
                    | None \<Rightarrow> ''service '' @ service_name @ '':'' @ nl) in
              map_option (\<lambda>functions. (first # records @ service # functions, Inr ()))
                (print_signatures (sort_signatures (mi_function_signatures i))))))"

definition set_it :: "('f, 'v, 'w, 't) wasm_tools \<Rightarrow> (string \<Rightarrow> 'f \<Rightarrow> string + u8 list) \<Rightarrow> string \<Rightarrow> string \<Rightarrow> string option \<Rightarrow>
  'f \<Rightarrow> (cli_failure + unit) \<times> 'f" where
  "set_it W read_file in_wasm_path it_path out f =
    (let out_wasm_path = (case out of Some path \<Rightarrow> path | None \<Rightarrow> in_wasm_path) in
     case bindR (map_err Io_failed (read_file it_path f)) (\<lambda>it. map_err Not_utf8 (wt_from_utf8 W it)) of
       Inl e \<Rightarrow> (Inl e, f)
     | Inr it \<Rightarrow>
         (case embed_text_it (wt_parse W) (wt_emit W) (wt_it_to_bytes W) (wt_it_parse_text W) in_wasm_path out_wasm_path it f of
           (r, f) \<Rightarrow> (map_err Parser_failed r, f)))"

definition set_version :: "('f, 'v, 'w, 't) wasm_tools \<Rightarrow> string \<Rightarrow> string \<Rightarrow> string option \<Rightarrow> 'f \<Rightarrow> (cli_failure + unit) \<times> 'f" where
  "set_version W in_wasm_path version out f =
    (let out_wasm_path = (case out of Some path \<Rightarrow> path | None \<Rightarrow> in_wasm_path) in
     case wt_version_parse W version of
       Inl e \<Rightarrow> (Inl (Bad_version e), f)
     | Inr version \<Rightarrow>
         (case embed_version W in_wasm_path out_wasm_path version f of (r, f) \<Rightarrow> (map_err Info_failed r, f)))"

definition show_it :: "('f, 'v, 'w, 't) wasm_tools \<Rightarrow> string \<Rightarrow> 'f \<Rightarrow> cli_failure + string" where
  "show_it W wasm_path f =
    map_err Parser_failed (extract_text_it (\<lambda>p. wt_parse W p f) (wt_it_decode W) (wt_it_to_text W) wasm_path)"

text \<open>What \<open>info\<close> prints: the version of interface types, then the version of the SDK and the manifest if the
  module has them.\<close>

datatype ('v, 'w, 't) info_line = It_version 'w | Sdk_version 'v | No_sdk_version | Manifest_text "('v, 't) ModuleManifest" | No_manifest

definition info :: "('f, 'v, 'w, 't) wasm_tools \<Rightarrow> string \<Rightarrow> 'f \<Rightarrow> ('v, 'w, 't) info_line list \<times> (cli_failure + unit)" where
  "info W wasm_path f =
    (case wt_parse W wasm_path f of
      Inl e \<Rightarrow> ([], Inl (Not_a_module e))
    | Inr wasm_module \<Rightarrow>
      (let sdk_version = sdk_extract_from_module (wt_version_section W) (wt_from_utf8 W) (wt_version_parse W) wasm_module;
           module_manifest = manifest_extract_from_module (wt_manifest_section W) (wt_from_utf8 W) (wt_version_parse W)
             (wt_parse_time W) wasm_module in
       case extract_version_from_module (wt_it_decode W) wasm_module of
         Inl e \<Rightarrow> ([], Inl (Parser_failed e))
       | Inr it_version \<Rightarrow>
         (case (case sdk_version of
             Inr v \<Rightarrow> Inr (Sdk_version v) | Inl (NoCustomSection _) \<Rightarrow> Inr No_sdk_version | Inl e \<Rightarrow> Inl e) of
           Inl e \<Rightarrow> ([It_version it_version], Inl (Info_failed e))
         | Inr sdk_line \<Rightarrow>
           (case module_manifest of
             Inr m \<Rightarrow> ([It_version it_version, sdk_line, Manifest_text m], Inr ())
           | Inl (NoCustomSection _) \<Rightarrow> ([It_version it_version, sdk_line, No_manifest], Inr ())
           | Inl e \<Rightarrow> ([It_version it_version, sdk_line], Inl (Info_failed e))))))"

text \<open>The REPL command: it starts \<open>mrepl\<close> with the trailing arguments; the exit code of the tool is that of \<open>mrepl\<close>.\<close>

datatype repl_status = Not_found | Start_error string | Exited "u32 option"

datatype repl_result = Message_not_found | Message_error string | Exit_with u32

fun cli_repl :: "repl_status \<Rightarrow> repl_result" where
  "cli_repl Not_found = Message_not_found"
| "cli_repl (Start_error e) = Message_error e"
| "cli_repl (Exited code) = Exit_with (case code of None \<Rightarrow> 0 | Some c \<Rightarrow> c)"

end
