(* ===== verification/CliArgs.thy ===== *)
theory CliArgs
  imports Cli
begin

text \<open>
  The arguments of the command line tool (\<open>tools/cli/src/args.rs\<close>) and the dispatch of \<open>main.rs\<close>.  Help texts are left
  out.  What \<open>clap\<close> accepts for a declaration is a predicate on the matches it returns.
\<close>

subsection \<open>Declarations\<close>

record Arg =
  ar_name :: string
  ar_required :: bool
  ar_takes_value :: bool
  ar_index :: "nat option"
  ar_short :: "string option"
  ar_long :: "string option"
  ar_multiple :: bool

datatype AppSetting = ArgRequiredElseHelp | TrailingVarArg | AllowLeadingHyphen

datatype App = SubCommand (app_name: string) (app_settings: "AppSetting list") (app_args: "Arg list") (app_subcommands: "App list")

definition IN_WASM_PATH :: string where "IN_WASM_PATH = ''in-wasm-path''"
definition IT_PATH :: string where "IT_PATH = ''it-path''"
definition OUT_WASM_PATH :: string where "OUT_WASM_PATH = ''out-wasm-path''"
definition SERVICE_NAME :: string where "SERVICE_NAME = ''service-name''"
definition PROJECT_NAME :: string where "PROJECT_NAME = ''generate-project-name''"
definition SHOULD_INIT_OPTION :: string where "SHOULD_INIT_OPTION = ''should-init''"
definition SERVICE_ID :: string where "SERVICE_ID = ''service-id''"
definition SDK_VERSION :: string where "SDK_VERSION = ''sdk-version''"

lemmas arg_names = IN_WASM_PATH_def IT_PATH_def OUT_WASM_PATH_def SERVICE_NAME_def PROJECT_NAME_def SHOULD_INIT_OPTION_def
  SERVICE_ID_def SDK_VERSION_def

text \<open>Arguments by position and by option; those after the command are one argument of many values.\<close>

definition positional :: "string \<Rightarrow> Arg" where
  "positional name = \<lparr>ar_name = name, ar_required = True, ar_takes_value = True, ar_index = Some 1, ar_short = None, ar_long = None,
    ar_multiple = False\<rparr>"

definition option_arg :: "string \<Rightarrow> bool \<Rightarrow> bool \<Rightarrow> string \<Rightarrow> string \<Rightarrow> Arg" where
  "option_arg name required takes_value short long = \<lparr>ar_name = name, ar_required = required, ar_takes_value = takes_value,
    ar_index = None, ar_short = Some short, ar_long = Some long, ar_multiple = False\<rparr>"

definition trailing_args :: Arg where
  "trailing_args = \<lparr>ar_name = ''optional'', ar_required = False, ar_takes_value = True, ar_index = None, ar_short = None, ar_long = None,
    ar_multiple = True\<rparr>"

definition args_aqua :: App where
  "args_aqua = SubCommand ''aqua'' []
    [positional IN_WASM_PATH, option_arg SERVICE_NAME False True ''s'' ''service'', option_arg SERVICE_ID False True ''i'' ''id''] []"

definition args_build :: App where
  "args_build = SubCommand ''build'' [TrailingVarArg, AllowLeadingHyphen] [trailing_args] []"

definition args_generate :: App where
  "args_generate = SubCommand ''generate'' []
    [option_arg PROJECT_NAME False True ''n'' ''name'', option_arg SHOULD_INIT_OPTION False False ''i'' ''init''] []"

definition args_set_it :: App where
  "args_set_it = SubCommand ''it'' []
    [option_arg IN_WASM_PATH True True ''i'' ''input'', option_arg IT_PATH True True ''w'' ''wit'',
     option_arg OUT_WASM_PATH False True ''o'' ''output''] []"

definition args_set_version :: App where
  "args_set_version = SubCommand ''version'' []
    [option_arg IN_WASM_PATH True True ''i'' ''input'', option_arg SDK_VERSION True True ''v'' ''version'',
     option_arg OUT_WASM_PATH False True ''o'' ''output''] []"

definition args_set :: App where
  "args_set = SubCommand ''set'' [] [] [args_set_it, args_set_version]"

definition args_show_wit :: App where
  "args_show_wit = SubCommand ''it'' [ArgRequiredElseHelp] [positional IN_WASM_PATH] []"

definition args_show_manifest :: App where
  "args_show_manifest = SubCommand ''info'' [ArgRequiredElseHelp] [positional IN_WASM_PATH] []"

definition args_repl :: App where
  "args_repl = SubCommand ''repl'' [TrailingVarArg, AllowLeadingHyphen] [trailing_args] []"

definition cli_app :: App where
  "cli_app = SubCommand ''marine'' [ArgRequiredElseHelp] []
    [args_aqua, args_build, args_generate, args_set, args_show_manifest, args_show_wit, args_repl]"

lemmas app_defs = args_aqua_def args_build_def args_generate_def args_set_it_def args_set_version_def args_set_def
  args_show_wit_def args_show_manifest_def args_repl_def cli_app_def positional_def option_arg_def trailing_args_def

subsection \<open>Matches\<close>

datatype ArgMatches = ArgMatches (am_values: "(string \<times> string list) list") (am_subcommand: "(string \<times> ArgMatches) option")

definition value_of :: "string \<Rightarrow> ArgMatches \<Rightarrow> string option" where
  "value_of name m = (case map_of (am_values m) name of Some (v # _) \<Rightarrow> Some v | _ \<Rightarrow> None)"

definition values_of :: "string \<Rightarrow> ArgMatches \<Rightarrow> string list" where
  "values_of name m = (case map_of (am_values m) name of None \<Rightarrow> [] | Some vs \<Rightarrow> vs)"

definition is_present :: "string \<Rightarrow> ArgMatches \<Rightarrow> bool" where
  "is_present name m \<longleftrightarrow> map_of (am_values m) name \<noteq> None"

text \<open>What \<open>clap\<close> returns: only declared arguments, those with a value with at least one, every required one,
  and a declared subcommand with its own matches; help is shown instead of returning nothing where the
  setting asks for it.\<close>

fun accepts :: "App \<Rightarrow> ArgMatches \<Rightarrow> bool" where
  "accepts app (ArgMatches vals sub) \<longleftrightarrow>
    (\<forall>(name, vs)\<in>set vals. \<exists>a\<in>set (app_args app). ar_name a = name \<and> (ar_takes_value a \<longrightarrow> vs \<noteq> [])) \<and>
    (\<forall>a\<in>set (app_args app). ar_required a \<longrightarrow> ar_name a \<in> fst ` set vals) \<and>
    (ArgRequiredElseHelp \<in> set (app_settings app) \<longrightarrow> vals \<noteq> [] \<or> sub \<noteq> None) \<and>
    (case sub of None \<Rightarrow> True
     | Some (name, m) \<Rightarrow> \<exists>s\<in>set (app_subcommands app). app_name s = name \<and> accepts s m)"

subsection \<open>Dispatch\<close>

text \<open>A command with the arguments its function takes; \<open>None\<close> is a panic of \<open>unwrap\<close>.\<close>

datatype cli_request =
    Do_aqua string "string option" "string option"
  | Do_build "string list"
  | Do_generate "string option" bool
  | Do_set_it string string "string option"
  | Do_set_version string string "string option"
  | Do_it string
  | Do_info string
  | Do_repl "string list"
  | Unknown_command string

definition aqua_request :: "ArgMatches \<Rightarrow> cli_request option" where
  "aqua_request args = map_option (\<lambda>wasm_path. Do_aqua wasm_path (value_of SERVICE_NAME args) (value_of SERVICE_ID args))
    (value_of IN_WASM_PATH args)"

definition set_it_request :: "ArgMatches \<Rightarrow> cli_request option" where
  "set_it_request args =
    Option.bind (value_of IN_WASM_PATH args) (\<lambda>in_wasm_path.
    Option.bind (value_of IT_PATH args) (\<lambda>it_path.
    Some (Do_set_it in_wasm_path it_path (value_of OUT_WASM_PATH args))))"

definition set_version_request :: "ArgMatches \<Rightarrow> cli_request option" where
  "set_version_request args =
    Option.bind (value_of IN_WASM_PATH args) (\<lambda>in_wasm_path.
    Option.bind (value_of SDK_VERSION args) (\<lambda>version.
    Some (Do_set_version in_wasm_path version (value_of OUT_WASM_PATH args))))"

definition set_request :: "ArgMatches \<Rightarrow> cli_request option" where
  "set_request args =
    (case am_subcommand args of
      Some (c, args) \<Rightarrow>
        if c = ''it'' then set_it_request args
        else if c = ''version'' then set_version_request args
        else Some (Unknown_command c)
    | None \<Rightarrow> Some (Unknown_command []))"

definition main_request :: "ArgMatches \<Rightarrow> cli_request option" where
  "main_request arg_matches =
    (case am_subcommand arg_matches of
      Some (c, args) \<Rightarrow>
        if c = ''aqua'' then aqua_request args
        else if c = ''build'' then Some (Do_build (values_of ''optional'' args))
        else if c = ''generate'' then Some (Do_generate (value_of PROJECT_NAME args) (is_present SHOULD_INIT_OPTION args))
        else if c = ''set'' then set_request args
        else if c = ''it'' then map_option Do_it (value_of IN_WASM_PATH args)
        else if c = ''info'' then map_option Do_info (value_of IN_WASM_PATH args)
        else if c = ''repl'' then Some (Do_repl (values_of ''optional'' args))
        else Some (Unknown_command c)
    | None \<Rightarrow> Some (Unknown_command []))"

subsection \<open>Running a command\<close>

datatype ('te, 'le, 'me, 'v, 'w, 't) cli_outcome =
    Aqua_shown "string list" "cli_failure + unit"
  | Built "('te, 'le, 'me) CLIError + unit" "'te build_log list"
  | Generated "run_error + bool"
  | It_set "cli_failure + unit"
  | Version_set "cli_failure + unit"
  | It_shown "cli_failure + string"
  | Info_shown "('v, 'w, 't) info_line list" "cli_failure + unit"
  | Repl_left repl_result
  | No_such_command string

record ('f, 'v, 'te, 'le, 'me, 'je) cli_env =
  ce_build :: "('f, 'v, 'te, 'le, 'me, 'je) build_env"
  ce_pascal :: "string \<Rightarrow> string"
  ce_sort :: "FunctionSignature list \<Rightarrow> FunctionSignature list"
  ce_read_file :: "string \<Rightarrow> 'f \<Rightarrow> string + u8 list"
  ce_mrepl :: "string list \<Rightarrow> 'f \<Rightarrow> repl_status \<times> 'f"

fun run_request :: "('f, 'v, 'te, 'le, 'me, 'je) cli_env \<Rightarrow> ('f, 'v, 'w, 't) wasm_tools \<Rightarrow> cli_request \<Rightarrow> 'f \<Rightarrow>
  (('te, 'le, 'me, 'v, 'w, 't) cli_outcome \<times> 'f) option" where
  "run_request C W (Do_aqua path name sid) f =
    map_option (\<lambda>(out, r). (Aqua_shown out r, f)) (aqua W (ce_pascal C) (ce_sort C) path name sid f)"
| "run_request C W (Do_build args) f = (case cli_build (ce_build C) W args f of (r, logs, f) \<Rightarrow> Some (Built r logs, f))"
| "run_request C W (Do_generate name init) f =
    (case cli_generate (be_process (ce_build C)) name init f of (r, f) \<Rightarrow> Some (Generated r, f))"
| "run_request C W (Do_set_it in_path it_path out) f =
    (case set_it W (ce_read_file C) in_path it_path out f of (r, f) \<Rightarrow> Some (It_set r, f))"
| "run_request C W (Do_set_version in_path version out) f =
    (case set_version W in_path version out f of (r, f) \<Rightarrow> Some (Version_set r, f))"
| "run_request C W (Do_it path) f = Some (It_shown (show_it W path f), f)"
| "run_request C W (Do_info path) f = (case info W path f of (ls, r) \<Rightarrow> Some (Info_shown ls r, f))"
| "run_request C W (Do_repl args) f = (case ce_mrepl C args f of (s, f) \<Rightarrow> Some (Repl_left (cli_repl s), f))"
| "run_request C W (Unknown_command c) f = Some (No_such_command c, f)"

definition cli_main :: "('f, 'v, 'te, 'le, 'me, 'je) cli_env \<Rightarrow> ('f, 'v, 'w, 't) wasm_tools \<Rightarrow> ArgMatches \<Rightarrow> 'f \<Rightarrow>
  (('te, 'le, 'me, 'v, 'w, 't) cli_outcome \<times> 'f) option" where
  "cli_main C W arg_matches f = Option.bind (main_request arg_matches) (\<lambda>r. run_request C W r f)"

subsection \<open>Accepted arguments never panic\<close>

lemma required_value:
  assumes "accepts app m" and "a \<in> set (app_args app)" and "ar_required a" and "ar_takes_value a"
    and "\<forall>b\<in>set (app_args app). ar_name b = ar_name a \<longrightarrow> b = a"
  shows "value_of (ar_name a) m \<noteq> None"
proof -
  obtain vals sub where m: "m = ArgMatches vals sub"
    by (cases m)
  have "ar_name a \<in> fst ` set vals"
    using assms(1-3) by (simp add: m)
  then obtain vs where vs: "map_of vals (ar_name a) = Some vs"
    by (metis map_of_eq_None_iff option.exhaust)
  then have "(ar_name a, vs) \<in> set vals"
    by (rule map_of_SomeD)
  then have "vs \<noteq> []"
    using assms(1,4,5) by (fastforce simp: m)
  then show ?thesis
    by (auto simp: value_of_def m vs split: list.split)
qed

lemma required_positional:
  "accepts (SubCommand n ss [positional IN_WASM_PATH] []) m \<Longrightarrow> value_of IN_WASM_PATH m \<noteq> None"
  using required_value [of "SubCommand n ss [positional IN_WASM_PATH] []" m "positional IN_WASM_PATH"]
  by (simp add: positional_def)

lemma accepted_aqua: "accepts args_aqua m \<Longrightarrow> \<exists>p n s. aqua_request m = Some (Do_aqua p n s)"
  using required_value [of args_aqua m "positional IN_WASM_PATH"]
  by (auto simp: app_defs arg_names aqua_request_def)

lemma accepted_set_it: "accepts args_set_it m \<Longrightarrow> \<exists>p i out. set_it_request m = Some (Do_set_it p i out)"
  using required_value [of args_set_it m "option_arg IN_WASM_PATH True True ''i'' ''input''"]
    required_value [of args_set_it m "option_arg IT_PATH True True ''w'' ''wit''"]
  by (auto simp: app_defs arg_names set_it_request_def)

lemma accepted_set_version: "accepts args_set_version m \<Longrightarrow> \<exists>p v out. set_version_request m = Some (Do_set_version p v out)"
  using required_value [of args_set_version m "option_arg IN_WASM_PATH True True ''i'' ''input''"]
    required_value [of args_set_version m "option_arg SDK_VERSION True True ''v'' ''version''"]
  by (auto simp: app_defs arg_names set_version_request_def)

lemma app_names:
  "app_name args_aqua = ''aqua''" "app_name args_build = ''build''" "app_name args_generate = ''generate''" "app_name args_set = ''set''"
  "app_name args_show_manifest = ''info''" "app_name args_show_wit = ''it''" "app_name args_repl = ''repl''"
  by (simp_all add: app_defs)

lemma accepted_set:
  assumes "accepts args_set m"
  shows "set_request m \<noteq> None \<and> (set_request m = Some (Unknown_command c) \<longleftrightarrow> c = [] \<and> am_subcommand m = None)"
proof -
  obtain vals sub where m: "m = ArgMatches vals sub"
    by (cases m)
  show ?thesis
  proof (cases sub)
    case (Some nm)
    then obtain name n where sub: "sub = Some (name, n)"
      by (cases nm) simp
    have "name = ''it'' \<and> accepts args_set_it n \<or> name = ''version'' \<and> accepts args_set_version n"
      using assms by (auto simp: m sub args_set_def args_set_it_def args_set_version_def)
    then show ?thesis
      using accepted_set_it [of n] accepted_set_version [of n] by (auto simp: set_request_def m sub)
  qed (auto simp: set_request_def m)
qed

text \<open>C39: whatever arguments the parser accepts, no command panics on a missing one: every argument a
  command unwraps is declared as required.  The only accepted command line without a command of its own is
  \<open>marine set\<close>, which is reported as an unknown command with an empty name.\<close>

theorem accepted_arguments_dispatch:
  assumes "accepts cli_app m"
  shows "main_request m \<noteq> None \<and>
    (main_request m = Some (Unknown_command c) \<longleftrightarrow>
      c = [] \<and> (\<exists>n. am_subcommand m = Some (''set'', n) \<and> am_subcommand n = None))"
proof -
  obtain vals sub where m: "m = ArgMatches vals sub"
    by (cases m)
  have "vals = []"
    using assms by (cases vals) (auto simp: m cli_app_def)
  then obtain name n where sub: "sub = Some (name, n)"
    using assms by (auto simp: m cli_app_def)
  have "\<exists>s\<in>set (app_subcommands cli_app). app_name s = name \<and> accepts s n"
    using assms by (simp add: m sub)
  then obtain s where s: "s \<in> {args_aqua, args_build, args_generate, args_set, args_show_manifest, args_show_wit, args_repl}"
      "name = app_name s" "accepts s n"
    by (auto simp: cli_app_def)
  have main: "main_request m = (if name = ''aqua'' then aqua_request n
        else if name = ''build'' then Some (Do_build (values_of ''optional'' n))
        else if name = ''generate'' then Some (Do_generate (value_of PROJECT_NAME n) (is_present SHOULD_INIT_OPTION n))
        else if name = ''set'' then set_request n
        else if name = ''it'' then map_option Do_it (value_of IN_WASM_PATH n)
        else if name = ''info'' then map_option Do_info (value_of IN_WASM_PATH n)
        else if name = ''repl'' then Some (Do_repl (values_of ''optional'' n))
        else Some (Unknown_command name))"
    by (simp add: main_request_def m sub)
  have wasm_path: "value_of IN_WASM_PATH n \<noteq> None" if "s \<in> {args_show_manifest, args_show_wit}"
    using that s(3) required_positional by (auto simp: args_show_manifest_def args_show_wit_def)
  show ?thesis
    using s(1)
  proof (elim insertE emptyE)
    assume "s = args_aqua"
    then show ?thesis
      using s(2,3) accepted_aqua [of n] main by (auto simp: app_names m sub)
  next
    assume "s = args_set"
    then show ?thesis
      using s(2,3) accepted_set [of n c] main by (simp add: app_names m sub)
  next
    assume "s = args_show_manifest"
    then show ?thesis
      using s(2) wasm_path main by (auto simp: app_names m sub)
  next
    assume "s = args_show_wit"
    then show ?thesis
      using s(2) wasm_path main by (auto simp: app_names m sub)
  qed (use s(2) main in \<open>auto simp: app_names m sub\<close>)
qed

theorem accepted_arguments_dispatch_witness:
  "main_request (ArgMatches [] (Some (''it'', ArgMatches [(IN_WASM_PATH, [''m.wasm''])] None))) \<noteq> None"
  by (rule accepted_arguments_dispatch [THEN conjunct1]) (auto simp: app_defs arg_names)

end
