(* ===== verification/CliProps.thy ===== *)
theory CliProps
  imports Cli
begin

text \<open>
  What \<open>marine build\<close> produces: every artifact of a package that depends on the SDK ends up with exactly one
  section of interface types, generated from its declarations, and exactly one with the version of the SDK.
\<close>

subsection \<open>Custom sections of a built module\<close>

definition sections :: "Walrus \<Rightarrow> (string \<times> u8 list) list" where
  "sections m = List.map snd (wm_customs m)"

definition kept_sections :: "('f, 'v, 'w, 't) wasm_tools \<Rightarrow> (string \<times> u8 list) list \<Rightarrow> (string \<times> u8 list) list" where
  "kept_sections W = filter (\<lambda>(name, _). name \<noteq> IT_SECTION_NAME \<and> name \<noteq> wt_version_section W)"

text \<open>A file that is written can be read again with the same custom sections, other files stay; versions survive
  their text; the names of the sections are told apart.\<close>

definition lawful_tools :: "('f, 'v, 'w, 't) wasm_tools \<Rightarrow> bool" where
  "lawful_tools W \<longleftrightarrow>
    (\<forall>m p f f'. wt_emit W m p f = (Inr (), f') \<longrightarrow>
      (\<exists>m'. wt_parse W p f' = Inr m' \<and> sections m' = sections m) \<and>
      (\<forall>q. q \<noteq> p \<longrightarrow> wt_parse W q f' = wt_parse W q f)) \<and>
    (\<forall>p f m. wt_parse W p f = Inr m \<longrightarrow> distinct (List.map fst (wm_customs m))) \<and>
    (\<forall>v. wt_from_utf8 W (wt_as_bytes W (wt_version_text W v)) = Inr (wt_version_text W v)) \<and>
    (\<forall>v. wt_version_parse W (wt_version_text W v) = Inr v) \<and>
    (\<forall>name \<in> {IT_SECTION_NAME, wt_version_section W}. \<not> prefix (wt_prefix W) name \<and> \<not> prefix (wt_prefix_fce W) name) \<and>
    wt_version_section W \<noteq> IT_SECTION_NAME"

lemma lawful_emit:
  assumes "lawful_tools W" and "wt_emit W m p f = (Inr (), f')"
  obtains m' where "wt_parse W p f' = Inr m'" and "sections m' = sections m"
    and "\<forall>q. q \<noteq> p \<longrightarrow> wt_parse W q f' = wt_parse W q f"
proof -
  have "(\<exists>m'. wt_parse W p f' = Inr m' \<and> sections m' = sections m) \<and> (\<forall>q. q \<noteq> p \<longrightarrow> wt_parse W q f' = wt_parse W q f)"
    using assms(1) [unfolded lawful_tools_def, THEN conjunct1] assms(2) by simp
  then show thesis
    using that by blast
qed

lemma lawful_ids: "lawful_tools W \<Longrightarrow> wt_parse W p f = Inr m \<Longrightarrow> distinct (List.map fst (wm_customs m))"
  unfolding lawful_tools_def by blast

lemma sections_deleted:
  assumes "distinct (List.map fst (wm_customs m))"
  shows "sections (fold customs_delete (section_ids name m) m) = filter (\<lambda>(n, _). n \<noteq> name) (sections m)"
proof -
  have "(i \<notin> set (section_ids name m)) = (n \<noteq> name)" if "(i, n, d) \<in> set (wm_customs m)" for i n d
    using that assms by (auto simp: set_section_ids dest: eq_key_imp_eq_value)
  then have "filter (\<lambda>(j, _). j \<notin> set (section_ids name m)) (wm_customs m) = filter (\<lambda>(_, n, _). n \<noteq> name) (wm_customs m)"
    by (auto intro!: filter_cong)
  then show ?thesis
    by (simp add: sections_def filter_map comp_def case_prod_beta')
qed

lemma sections_add [simp]: "sections (customs_add name d m) = sections m @ [(name, d)]"
  by (simp add: sections_def customs_add_def)

lemma interfaces_from_kept:
  assumes "lawful_tools W"
  shows "generator_interfaces W (kept_sections W ss @ [(IT_SECTION_NAME, a), (wt_version_section W, b)]) = generator_interfaces W ss"
proof -
  have "filter (\<lambda>(name, _). prefix (wt_prefix W) name \<or> prefix (wt_prefix_fce W) name)
      (kept_sections W ss @ [(IT_SECTION_NAME, a), (wt_version_section W, b)]) =
    filter (\<lambda>(name, _). prefix (wt_prefix W) name \<or> prefix (wt_prefix_fce W) name) ss"
    using assms unfolding lawful_tools_def kept_sections_def by (auto intro!: filter_cong)
  then show ?thesis
    unfolding generator_interfaces_def wasm_ast_extractor_def by simp
qed

text \<open>The module after both sections are embedded.\<close>

abbreviation built_sections :: "('f, 'v, 'w, 't) wasm_tools \<Rightarrow> (string \<times> u8 list) list \<Rightarrow> Interfaces \<Rightarrow> 'v \<Rightarrow> (string \<times> u8 list) list" where
  "built_sections W ss i v \<equiv> kept_sections W ss @ [(IT_SECTION_NAME, wt_it_to_bytes W (wt_it_version W, i)),
    (wt_version_section W, wt_as_bytes W (wt_version_text W v))]"

lemma embed_it_file:
  assumes "lawful_tools W" and "generator_embed_it W p f = (Inr (), f')"
  obtains m i m' where "wt_parse W p f = Inr m" and "generator_interfaces W (sections m) = Inr i"
    and "wt_parse W p f' = Inr m'" and "\<And>q. q \<noteq> p \<Longrightarrow> wt_parse W q f' = wt_parse W q f"
    and "sections m' = filter (\<lambda>(n, _). n \<noteq> IT_SECTION_NAME) (sections m) @ [(IT_SECTION_NAME, wt_it_to_bytes W (wt_it_version W, i))]"
proof -
  obtain m i where m: "wt_parse W p f = Inr m" "generator_interfaces W (sections m) = Inr i"
    and emit: "wt_emit W (embed_it (wt_it_to_bytes W) (delete_it_section m) (wt_it_version W, i)) p f = (Inr (), f')"
    using assms(2) by (auto simp: generator_embed_it_def sections_def map_err_Inr split: sum.splits prod.splits)
  have "distinct (List.map fst (wm_customs m))"
    by (rule lawful_ids [OF assms(1) m(1)])
  then have "sections (embed_it (wt_it_to_bytes W) (delete_it_section m) (wt_it_version W, i)) =
      filter (\<lambda>(n, _). n \<noteq> IT_SECTION_NAME) (sections m) @ [(IT_SECTION_NAME, wt_it_to_bytes W (wt_it_version W, i))]"
    by (simp add: embed_it_def delete_it_section_def sections_deleted)
  moreover obtain m' where "wt_parse W p f' = Inr m'"
      "sections m' = sections (embed_it (wt_it_to_bytes W) (delete_it_section m) (wt_it_version W, i))"
      and "\<forall>q. q \<noteq> p \<longrightarrow> wt_parse W q f' = wt_parse W q f"
    by (rule lawful_emit [OF assms(1) emit])
  ultimately show thesis
    using that m by simp
qed

lemma embed_version_file:
  assumes "lawful_tools W" and "embed_version W p p v f = (Inr (), f')"
  obtains m m' where "wt_parse W p f = Inr m" and "wt_parse W p f' = Inr m'" and "\<And>q. q \<noteq> p \<Longrightarrow> wt_parse W q f' = wt_parse W q f"
    and "sections m' = filter (\<lambda>(n, _). n \<noteq> wt_version_section W) (sections m) @
      [(wt_version_section W, wt_as_bytes W (wt_version_text W v))]"
proof -
  let ?embed = "\<lambda>m. embed_from_module (wt_version_section W) (wt_as_bytes W) (wt_version_text W) m v"
  obtain m where m: "wt_parse W p f = Inr m" and emit: "wt_emit W (?embed m) p f = (Inr (), f')"
    using assms(2) by (auto simp: embed_from_path_def Let_def map_err_Inr split: sum.splits prod.splits)
  have "distinct (List.map fst (wm_customs m))"
    by (rule lawful_ids [OF assms(1) m])
  then have "sections (?embed m) = filter (\<lambda>(n, _). n \<noteq> wt_version_section W) (sections m) @
      [(wt_version_section W, wt_as_bytes W (wt_version_text W v))]"
    by (simp add: embed_from_module_def delete_version_sections_def sections_deleted)
  moreover obtain m' where "wt_parse W p f' = Inr m'" "sections m' = sections (?embed m)"
      and "\<forall>q. q \<noteq> p \<longrightarrow> wt_parse W q f' = wt_parse W q f"
    by (rule lawful_emit [OF assms(1) emit])
  ultimately show thesis
    using that m by simp
qed

lemma lawful_names:
  "lawful_tools W \<Longrightarrow> wt_version_section W \<noteq> IT_SECTION_NAME"
  by (simp add: lawful_tools_def)

lemma embed_one:
  assumes "lawful_tools W" and "generator_embed_it W p f = (Inr (), f1)" and "embed_version W p p v f1 = (Inr (), f2)"
  shows "\<exists>m i m'. wt_parse W p f = Inr m \<and> generator_interfaces W (sections m) = Inr i \<and> wt_parse W p f2 = Inr m' \<and>
    sections m' = built_sections W (sections m) i v \<and> (\<forall>q. q \<noteq> p \<longrightarrow> wt_parse W q f2 = wt_parse W q f)"
  using assms(1,2)
proof (rule embed_it_file)
  fix m i m1
  assume 1: "wt_parse W p f = Inr m" "generator_interfaces W (sections m) = Inr i" "wt_parse W p f1 = Inr m1"
      "\<And>q. q \<noteq> p \<Longrightarrow> wt_parse W q f1 = wt_parse W q f"
      "sections m1 = filter (\<lambda>(n, _). n \<noteq> IT_SECTION_NAME) (sections m) @ [(IT_SECTION_NAME, wt_it_to_bytes W (wt_it_version W, i))]"
  show ?thesis
    using assms(1,3)
  proof (rule embed_version_file)
    fix m0 m2
    assume 2: "wt_parse W p f1 = Inr m0" "wt_parse W p f2 = Inr m2" "\<And>q. q \<noteq> p \<Longrightarrow> wt_parse W q f2 = wt_parse W q f1"
      "sections m2 = filter (\<lambda>(n, _). n \<noteq> wt_version_section W) (sections m0) @
        [(wt_version_section W, wt_as_bytes W (wt_version_text W v))]"
    have "m0 = m1"
      using 1(3) 2(1) by simp
    then have "sections m2 = built_sections W (sections m) i v"
      using lawful_names [OF assms(1)] by (simp add: 2(4) 1(5) kept_sections_def case_prod_beta' conj_commute)
    then show ?thesis
      using 1 2 by auto
  qed
qed

lemma kept_idem:
  "kept_sections W (kept_sections W ss @ [(IT_SECTION_NAME, a), (wt_version_section W, b)]) = kept_sections W ss"
  by (simp add: kept_sections_def case_prod_beta')

text \<open>The artifacts of a build: the last version given for a path is the one that stays.\<close>

lemma embed_all_sections:
  assumes "lawful_tools W" and "(embed_all W wasms f :: (('te, 'le, 'me) CLIError + unit) \<times> _) = (Inr (), f')"
  shows "(\<forall>p v. map_of (rev wasms) p = Some v \<longrightarrow> (\<exists>m i m'. wt_parse W p f = Inr m \<and> generator_interfaces W (sections m) = Inr i \<and>
      wt_parse W p f' = Inr m' \<and> sections m' = built_sections W (sections m) i v)) \<and>
    (\<forall>p. map_of (rev wasms) p = None \<longrightarrow> wt_parse W p f' = wt_parse W p f)"
  using assms(2)
proof (induction wasms arbitrary: f)
  case (Cons w wasms)
  obtain p0 v0 where w: "w = (p0, v0)"
    by (cases w)
  obtain f1 f2 where run: "generator_embed_it W p0 f = (Inr (), f1)" "embed_version W p0 p0 v0 f1 = (Inr (), f2)"
      and rest: "(embed_all W wasms f2 :: (('te, 'le, 'me) CLIError + unit) \<times> _) = (Inr (), f')"
    using Cons.prems by (auto simp: w split: prod.splits sum.splits)
  obtain m0 i0 m2 where first: "wt_parse W p0 f = Inr m0" "generator_interfaces W (sections m0) = Inr i0"
      "wt_parse W p0 f2 = Inr m2" "sections m2 = built_sections W (sections m0) i0 v0"
      and others: "\<And>q. q \<noteq> p0 \<Longrightarrow> wt_parse W q f2 = wt_parse W q f"
    using embed_one [OF assms(1) run] by blast
  have again: "generator_interfaces W (sections m2) = Inr i0" "kept_sections W (sections m2) = kept_sections W (sections m0)"
    by (simp_all only: first(4) interfaces_from_kept [OF assms(1)] kept_idem first(2))
  note IH = Cons.IH [OF rest]
  have lookup: "map_of (rev (w # wasms)) p = (case map_of (rev wasms) p of Some v \<Rightarrow> Some v | None \<Rightarrow> if p = p0 then Some v0 else None)" for p
    by (simp add: w map_add_def split: option.split)
  show ?case
  proof (intro conjI allI impI)
    fix p v
    assume v: "map_of (rev (w # wasms)) p = Some v"
    show "\<exists>m i m'. wt_parse W p f = Inr m \<and> generator_interfaces W (sections m) = Inr i \<and>
        wt_parse W p f' = Inr m' \<and> sections m' = built_sections W (sections m) i v"
    proof (cases "map_of (rev wasms) p")
      case None
      then have "p = p0" "v = v0" "wt_parse W p f' = wt_parse W p f2"
        using v [unfolded lookup] IH by (auto split: if_splits)
      then show ?thesis
        using first by auto
    next
      case (Some v')
      then have "map_of (rev wasms) p = Some v"
        using v [unfolded lookup] by simp
      then obtain m i m' where last: "wt_parse W p f2 = Inr m" "generator_interfaces W (sections m) = Inr i"
          "wt_parse W p f' = Inr m'" "sections m' = built_sections W (sections m) i v"
        using IH by blast
      show ?thesis
      proof (cases "p = p0")
        case True
        then have "m = m2"
          using last(1) first(3) by simp
        then show ?thesis
          using True last again first(1,2) by auto
      next
        case False
        then show ?thesis
          using last others by auto
      qed
    qed
  next
    fix p
    assume none: "map_of (rev (w # wasms)) p = None"
    then show "wt_parse W p f' = wt_parse W p f"
      using none [unfolded lookup] IH others by (auto split: option.splits if_splits)
  qed
qed simp

subsection \<open>Built modules can be read\<close>

lemma built_it_section:
  assumes "sections m = built_sections W ss i v" and "lawful_tools W"
  shows "it_sections m = [wt_it_to_bytes W (wt_it_version W, i)]"
proof -
  have "it_sections m = List.map snd (filter (\<lambda>(n, _). n = IT_SECTION_NAME) (sections m))"
    by (simp add: it_sections_def sections_def filter_map comp_def case_prod_beta')
  then show ?thesis
    using lawful_names [OF assms(2)] by (auto simp: assms(1) kept_sections_def filter_empty_conv)
qed

lemma built_version_section:
  assumes "sections m = built_sections W ss i v" and "lawful_tools W"
  shows "sdk_extract_from_module (wt_version_section W) (wt_from_utf8 W) (wt_version_parse W) m = Inr v"
proof -
  have "List.map (\<lambda>(_, _, d). d) (filter (\<lambda>(_, n, _). n = wt_version_section W) (wm_customs m)) =
      List.map snd (filter (\<lambda>(n, _). n = wt_version_section W) (sections m))"
    by (simp add: sections_def filter_map comp_def case_prod_beta')
  also have "\<dots> = [wt_as_bytes W (wt_version_text W v)]"
    using lawful_names [OF assms(2)] by (auto simp: assms(1) kept_sections_def filter_empty_conv)
  finally show ?thesis
    using assms(2) by (simp add: sdk_extract_from_module_def extract_custom_sections_by_name_def try_as_one_section_def
        as_semver_def lawful_tools_def)
qed

lemma cli_build_sections:
  assumes "lawful_tools W" and "(cli_build G W args f :: (('te, 'le, 'me) CLIError + unit) \<times> _) = (Inr (), logs, f')"
    and "run_command_piped (be_process G) ''cargo'' (build_args args) f = (Inr output, f1)"
    and "bindR (get_cargo_metadata G args f1) (\<lambda>root. load_lockfile G root f1) = (Inr lockfile :: ('te, 'le, 'me) CLIError + _)"
    and "map_of (rev (concat (List.map fst (build_artifacts G W lockfile output f1)))) p = Some v"
  obtains m i m' where "wt_parse W p f1 = Inr m" and "generator_interfaces W (sections m) = Inr i" and "wt_parse W p f' = Inr m'"
    and "sections m' = built_sections W (sections m) i v"
proof -
  let ?wasms = "concat (List.map fst (build_artifacts G W lockfile output f1))"
  have "?wasms \<noteq> []"
    using assms(5) by (metis map_of.simps(1) option.distinct(1) rev.simps(1))
  then have "(embed_all W ?wasms f1 :: (('te, 'le, 'me) CLIError + unit) \<times> _) = (Inr (), f')"
    using assms(2) by (auto simp: cli_build_def assms(3,4) Let_def simp del: concat_eq_Nil_conv split: prod.splits)
  from embed_all_sections [OF assms(1) this] show thesis
    using that assms(5) by blast
qed


subsection \<open>Arguments, versions and messages\<close>

text \<open>Both forms of the argument are found wherever they are; a repeated prefix is removed as a whole, and
  an argument that only begins like it is taken for it.\<close>

lemma manifest_path_found:
  assumes "\<forall>a\<in>set before. \<not> prefix ''--manifest-path'' a"
  shows "manifest_path_argument (before @ ''--manifest-path'' # path # after) = Some path"
    and "\<not> prefix ''--manifest-path='' path \<Longrightarrow>
      manifest_path_argument (before @ (''--manifest-path='' @ path) # after) = Some path"
proof -
  have skip: "dropWhile (\<lambda>arg. \<not> prefix ''--manifest-path'' arg) (before @ rest) = dropWhile (\<lambda>arg. \<not> prefix ''--manifest-path'' arg) rest" for rest
    using assms by (induction before) auto
  show "manifest_path_argument (before @ ''--manifest-path'' # path # after) = Some path"
    unfolding manifest_path_argument_def skip by simp
  assume "\<not> prefix ''--manifest-path='' path"
  then have "trim_start_matches ''--manifest-path='' (''--manifest-path='' @ path) = path"
    by (subst trim_start_matches_append) (simp_all add: trim_start_matches_other)
  then show "manifest_path_argument (before @ (''--manifest-path='' @ path) # after) = Some path"
    unfolding manifest_path_argument_def skip by simp
qed

lemma manifest_path_misread: "manifest_path_argument [''--manifest-pathology''] = Some ''--manifest-pathology''"
  by (simp add: manifest_path_argument_def trim_start_matches_other)

text \<open>A package without a dependency on the SDK is skipped before anything else is looked at.\<close>

lemma non_marine_skipped:
  fixes from_path :: "string \<Rightarrow> 'te CargoTomlError + Manifest"
  assumes "from_path path = Inr manifest"
  shows "extract_sdk_version to_string from_path path lockfile = Inl NonMarineWasm \<longleftrightarrow> SDK_CRATE_NAME \<notin> set (mf_dependencies manifest)"
proof -
  have missing: "ok_or e x = Inl NonMarineWasm \<longleftrightarrow> x = None \<and> e = NonMarineWasm" for e :: "'te cargo_manifest_error" and x :: "'c option"
    by (cases x) auto
  have "extract_sdk_version_from_lockfile to_string package lockfile \<noteq> (Inl NonMarineWasm :: 'te cargo_manifest_error + _)" for package
    unfolding extract_sdk_version_from_lockfile_def
    by (cases "List.find (\<lambda>p. lp_name p = pkg_name package \<and> to_string (lp_version p) = pkg_version package) lockfile")
      (simp_all, auto simp: not_Some_eq [symmetric] split: option.split elim: ok_or.elims)
  then show ?thesis
    by (cases "mf_package manifest") (simp_all add: extract_sdk_version_def assms)
qed

text \<open>A second \<open>set it\<close> on a module makes it unreadable: the first section is not deleted.\<close>

lemma info_needs_interface_types:
  assumes "wt_parse W path f = Inr m" and "it_sections m = []"
  shows "info W path f = ([], Inl (Parser_failed NoITSection))"
  using assms by (simp add: info_def Let_def extract_version_from_module_def extract_custom_section_sections)

subsection \<open>A build of one module\<close>

text \<open>Files are modules by path, versions are texts, and one byte stands for the only interface there is.\<close>

definition no_record :: IRecordType where
  "no_record = \<lparr>rt_name = [], rt_fields = []\<rparr>"

definition interfaces_of_nothing :: Interfaces where
  "interfaces_of_nothing = projr (generate_interfaces no_record 3 (\<lambda>_. True)
    \<lparr>ma_records = [], ma_functions = [], ma_extern_mods = []\<rparr>)"

definition sample_tools :: "((string \<times> Walrus) list, string, nat, unit) wasm_tools" where
  "sample_tools = \<lparr>
    wt_parse = (\<lambda>p f. case map_of f p of
        Some m \<Rightarrow> if distinct (List.map fst (wm_customs m)) then Inr m else Inl ''broken'' | None \<Rightarrow> Inl ''no file''),
    wt_emit = (\<lambda>m p f. if distinct (List.map fst (wm_customs m)) then (Inr (), (p, m) # f) else (Inl ''broken'', f)),
    wt_prefix = ''__m_generated_section'', wt_prefix_fce = ''__fce_generated_section'', wt_from_slice = (\<lambda>_. Inl []),
    wt_default_record = no_record, wt_tag = 3, wt_is_complex = (\<lambda>_. True), wt_it_version = 20,
    wt_it_to_bytes = (\<lambda>_. [7]), wt_it_decode = (\<lambda>_. Inr ([], 20, interfaces_of_nothing)),
    wt_it_to_text = (\<lambda>_. []), wt_it_parse_text = (\<lambda>_. Inl []),
    wt_version_section = ''sdk-version'', wt_as_bytes = sample_as_bytes, wt_from_utf8 = sample_from_utf8,
    wt_version_text = (\<lambda>v. v), wt_version_parse = Inr, wt_manifest_section = ''manifest'', wt_parse_time = (\<lambda>_. Inr ())\<rparr>"

lemma sample_text_any: "sample_from_utf8 (sample_as_bytes s) = Inr s"
proof -
  have "char_of (unat (word_of_nat (of_char c) :: u8)) = c" for c
    by (simp add: unat_of_nat)
  then show ?thesis
    by (simp add: sample_from_utf8_def sample_as_bytes_def comp_def)
qed

lemma sample_tools_lawful: "lawful_tools sample_tools"
  unfolding lawful_tools_def
  by (auto simp: sample_tools_def sample_text_any IT_SECTION_NAME_def sections_def split: option.splits if_splits)

definition sample_build :: "((string \<times> Walrus) list, string, unit, unit, unit, unit) build_env" where
  "sample_build = \<lparr>be_process = \<lparr>ps_run = (\<lambda>program args piped f. (Inr (True, [65]), f)), ps_from_utf8_lossy = (\<lambda>b. ''A'')\<rparr>,
    be_metadata = (\<lambda>m f. Inr ''/w''),
    be_lockfile = (\<lambda>p f. if p = ''/w/Cargo.lock'' then Inr [\<lparr>lp_name = ''m'', lp_version = ''0.1.0'',
      lp_dependencies = [(''log'', ''0.4.0''), (''marine-rs-sdk'', ''0.7.1'')]\<rparr>] else Inl ()),
    be_cargo_toml = (\<lambda>p f. Inr \<lparr>mf_dependencies = [''marine-rs-sdk''], mf_package = Some \<lparr>pkg_name = ''m'', pkg_version = ''0.1.0''\<rparr>\<rparr>),
    be_diagnostic = (\<lambda>l. Inr (CompilerArtifact [''m.wasm'', ''m.d''] ''Cargo.toml''))\<rparr>"

definition sample_module :: Walrus where
  "sample_module = \<lparr>wm_customs = [(0, ''name'', [1]), (1, IT_SECTION_NAME, [9]), (2, ''sdk-version'', [0])], wm_imports = []\<rparr>"

lemma sample_build_runs:
  obtains f' where "(cli_build sample_build sample_tools [] [(''m.wasm'', sample_module)] :: ((unit, unit, unit) CLIError + unit) \<times> _) = (Inr (), [], f')"
proof -
  have "case (cli_build sample_build sample_tools [] [(''m.wasm'', sample_module)] :: ((unit, unit, unit) CLIError + unit) \<times> _) of
      (r, logs, f') \<Rightarrow> r = Inr () \<and> logs = []"
    by code_simp
  then show thesis
    using that by (auto split: prod.splits)
qed

lemma sample_build_steps:
  "run_command_piped (be_process sample_build) ''cargo'' (build_args []) f = (Inr ''A'', f)"
  "bindR (get_cargo_metadata sample_build [] f) (\<lambda>root. load_lockfile sample_build root f) =
    (Inr [\<lparr>lp_name = ''m'', lp_version = ''0.1.0'', lp_dependencies = [(''log'', ''0.4.0''), (''marine-rs-sdk'', ''0.7.1'')]\<rparr>] ::
      (unit, unit, unit) CLIError + _)"
  "map_of (rev (concat (List.map fst (build_artifacts sample_build sample_tools
    [\<lparr>lp_name = ''m'', lp_version = ''0.1.0'', lp_dependencies = [(''log'', ''0.4.0''), (''marine-rs-sdk'', ''0.7.1'')]\<rparr>] ''A'' f)))) ''m.wasm'' =
    Some ''0.7.1''"
  "wt_parse sample_tools ''m.wasm'' [(''m.wasm'', sample_module)] = Inr sample_module"
  "generator_interfaces sample_tools (sections sample_module) = Inr i \<Longrightarrow> i = interfaces_of_nothing"
  subgoal by (simp add: run_command_piped_def run_command_def sample_build_def)
  subgoal by (simp add: get_cargo_metadata_def load_lockfile_def Let_def sample_build_def path_join_def path_is_absolute_def)
  subgoal by (simp add: build_artifacts_def lines_def artifact_wasms_def sample_build_def sample_tools_def suffix_def
      extract_sdk_version_def extract_sdk_version_from_lockfile_def SDK_CRATE_NAME_def)
  subgoal by (simp add: sample_tools_def sample_module_def)
  subgoal by (simp add: generator_interfaces_def wasm_ast_extractor_def sections_def sample_module_def sample_tools_def
      IT_SECTION_NAME_def interfaces_of_nothing_def)
  done


end
