(* ===== verification/GeneratorInvariant.thy ===== *)
theory GeneratorInvariant
  imports ItGenerator
begin

text \<open>
  The contract of the trait \<open>ITGenerator\<close> as a locale, its three implementations as
  interpretations, and what it gives for the whole section: every index the generated section
  contains is in range and of the right kind.  Two hypotheses recur: the default record of
  \<open>wasmer_it\<close> mentions no record, and a section has at most \<open>2 ^ 32\<close> types, since its indices
  are 32-bit words.
\<close>

locale it_generator =
  fixes gen :: "'a \<Rightarrow> ITResolver \<Rightarrow> ITGeneratorError + ITResolver"
  assumes gen_length: "gen x r = Inr r' \<Longrightarrow> length (types_of r) \<le> length (types_of r')"
    and gen_ok: "resolver_ok r \<Longrightarrow> gen x r = Inr r' \<Longrightarrow> length (types_of r') \<le> 2 ^ 32 \<Longrightarrow>
      resolver_ok r' \<and> grows (types_of r) (types_of r')"
begin

lemma gen_all_length:
  "foldR (\<lambda>r x. gen x r) r xs = Inr r' \<Longrightarrow> length (types_of r) \<le> length (types_of r')"
  by (induction xs arbitrary: r) (auto simp: bindR_Inr dest: gen_length intro: order_trans)

lemma gen_all_ok:
  "resolver_ok r \<Longrightarrow> foldR (\<lambda>r x. gen x r) r xs = Inr r' \<Longrightarrow> length (types_of r') \<le> 2 ^ 32 \<Longrightarrow>
   resolver_ok r' \<and> grows (types_of r) (types_of r')"
proof (induction xs arbitrary: r)
  case (Cons x xs)
  obtain r1 where r1: "gen x r = Inr r1" "foldR (\<lambda>r x. gen x r) r1 xs = Inr r'"
    using Cons.prems(2) by (auto simp: bindR_Inr)
  have "length (types_of r1) \<le> 2 ^ 32"
    using gen_all_length [OF r1(2)] Cons.prems(3) by simp
  then have "resolver_ok r1" "grows (types_of r) (types_of r1)"
    using gen_ok [OF Cons.prems(1) r1(1)] by auto
  then show ?case
    using Cons.IH [OF _ r1(2) Cons.prems(3)] by (auto intro: grows_trans)
qed simp

end

subsection \<open>Records\<close>

lemma ptype_unchecked_length:
  "ptype_to_itype_unchecked dflt p r = (t, r') \<Longrightarrow> length (types_of r) \<le> length (types_of r')"
  by (induction p arbitrary: t r')
    (auto simp: get_record_type_id_unchecked_def push_type_def Let_def split: prod.splits option.splits)

lemma record_field_types_length:
  "record_field_types dflt fs r = (ts, r') \<Longrightarrow>
   length (types_of r) \<le> length (types_of r') \<and> length ts = length fs"
proof (induction fs arbitrary: r ts r')
  case (Cons f fs)
  obtain t r1 where t: "ptype_to_itype_unchecked dflt (af_ty f) r = (t, r1)"
    by (cases "ptype_to_itype_unchecked dflt (af_ty f) r")
  obtain us r2 where us: "record_field_types dflt fs r1 = (us, r2)"
    by (cases "record_field_types dflt fs r1")
  show ?case
    using Cons.IH [OF us] Cons.prems t us ptype_unchecked_length [OF t] by auto
qed simp

lemma record_field_types_ok:
  "resolver_ok r \<Longrightarrow> plain_record dflt \<Longrightarrow> record_field_types dflt fs r = (ts, r') \<Longrightarrow>
   length (types_of r') \<le> 2 ^ 32 \<Longrightarrow>
   resolver_ok r' \<and> grows (types_of r) (types_of r') \<and> (\<forall>f\<in>set ts. type_ok (types_of r') (rf_ty f))"
proof (induction fs arbitrary: r ts r')
  case (Cons f fs)
  obtain t r1 where t: "ptype_to_itype_unchecked dflt (af_ty f) r = (t, r1)"
    by (cases "ptype_to_itype_unchecked dflt (af_ty f) r")
  obtain us r2 where us: "record_field_types dflt fs r1 = (us, r2)"
    by (cases "record_field_types dflt fs r1")
  have r': "r' = r2" and ts: "ts = \<lparr>rf_name = (case af_name f of None \<Rightarrow> [] | Some n \<Rightarrow> n), rf_ty = t\<rparr> # us"
    using Cons.prems(3) t us by auto
  have "length (types_of r1) \<le> 2 ^ 32"
    using record_field_types_length [OF us] Cons.prems(4) r' by simp
  then have r1: "resolver_ok r1" "grows (types_of r) (types_of r1)" "type_ok (types_of r1) t"
    using ptype_unchecked_ok [OF Cons.prems(1,2) t] by auto
  then show ?case
    using Cons.IH [OF r1(1) Cons.prems(2) us] Cons.prems(4) r' ts
    by (auto intro: grows_trans type_ok_grows)
qed simp

lemma insert_record_type_length: "length (types_of r) \<le> length (types_of (insert_record_type q r))"
  by (auto simp: insert_record_type_def split: option.splits)

lemma generate_record_fields_cases:
  assumes "generate_record_fields dflt name fs r = Inr r'"
  obtains ts r1 where "record_field_types dflt fs r = (ts, r1)"
    and "r' = insert_record_type \<lparr>rt_name = name, rt_fields = ts\<rparr> r1"
  using assms by (auto simp: generate_record_fields_def add_record_type_def Let_def
      split: prod.splits if_splits)

lemma generate_record_fields_ok:
  assumes "resolver_ok r" and "plain_record dflt" and "generate_record_fields dflt name fs r = Inr r'"
    and "length (types_of r') \<le> 2 ^ 32"
  shows "resolver_ok r' \<and> grows (types_of r) (types_of r')"
proof -
  obtain ts r1 where ts: "record_field_types dflt fs r = (ts, r1)"
    and r': "r' = insert_record_type \<lparr>rt_name = name, rt_fields = ts\<rparr> r1"
    using assms(3) by (rule generate_record_fields_cases)
  have "length (types_of r1) \<le> 2 ^ 32"
    using insert_record_type_length [of r1] assms(4) r' by (meson order_trans)
  then have "resolver_ok r1" "grows (types_of r) (types_of r1)" "\<forall>f\<in>set ts. type_ok (types_of r1) (rf_ty f)"
    using record_field_types_ok [OF assms(1,2) ts] by auto
  then show ?thesis
    using insert_record_type_ok [of r1] assms(4) r' by (auto intro: grows_trans)
qed

lemma generate_record_fields_length:
  "generate_record_fields dflt name fs r = Inr r' \<Longrightarrow> length (types_of r) \<le> length (types_of r')"
  by (auto elim!: generate_record_fields_cases dest!: record_field_types_length
      intro: order_trans [OF _ insert_record_type_length])

lemma record_generator: "plain_record dflt \<Longrightarrow> it_generator (generate_record dflt)"
  by standard
    (auto simp: generate_record_def split: RecordFields.splits
      dest: generate_record_fields_length generate_record_fields_ok)

text \<open>The record generator is interpreted at a default record without fields.\<close>

definition empty_record :: IRecordType where
  "empty_record = \<lparr>rt_name = [], rt_fields = []\<rparr>"

interpretation record_gen: it_generator "generate_record empty_record"
  by (rule record_generator) (simp add: plain_record_def empty_record_def)

subsection \<open>Functions\<close>

lemma generate_it_args_ok:
  assumes "resolver_ok r" and "generate_it_args sig r = Inr as" and "a \<in> set as"
  shows "type_ok (types_of r) (fa_ty a)"
proof -
  obtain p where "ptype_to_itype_checked p r = Inr (fa_ty a)"
    using mapR_Inr_mem [OF assms(2) [unfolded generate_it_args_def] assms(3)] by (auto simp: bindR_Inr)
  then show ?thesis
    by (rule ptype_checked_ok [OF assms(1)])
qed

lemma generate_it_output_type_ok:
  assumes "resolver_ok r" and "generate_it_output_type sig r = Inr os" and "t \<in> set os"
  shows "type_ok (types_of r) t"
proof -
  obtain p where "ptype_to_itype_checked p r = Inr t"
    using mapR_Inr_mem [OF assms(2) [unfolded generate_it_output_type_def] assms(3)] by auto
  then show ?thesis
    by (rule ptype_checked_ok [OF assms(1)])
qed

lemma fn_at_appended:
  assumes "length (us @ vs) \<le> 2 ^ 32" and "\<forall>v\<in>set vs. \<not> is_record_ast v"
    and "0 < k" and "k \<le> length vs"
  shows "fn_at (us @ vs) (word_of_nat (length (us @ vs)) - word_of_nat k)"
proof -
  have "(word_of_nat (length (us @ vs)) - word_of_nat k :: u32) = word_of_nat (length (us @ vs) - k)"
    using assms(4) by (simp add: of_nat_diff)
  moreover have "unat (word_of_nat (length (us @ vs) - k) :: u32) = length (us @ vs) - k"
    using assms by (intro unat_of_nat_u32) auto
  moreover have "length (us @ vs) - k = length us + (length vs - k)"
    using assms(4) by simp
  then have "(us @ vs) ! (length (us @ vs) - k) \<in> set vs"
    using assms(3,4) by (simp only: nth_append_length_plus) simp
  ultimately show ?thesis
    using assms by (simp add: fn_at_def)
qed

lemmas fn_at_last = fn_at_appended [where k = 1, simplified] fn_at_appended [where k = 2, simplified]
  fn_at_appended [where k = 3, simplified]

lemma fn_generate_it_types_ok:
  assumes "resolver_ok r" and "fn_generate_it_types f r = Inr r'" and "length (types_of r') \<le> 2 ^ 32"
  shows "resolver_ok r' \<and> (\<exists>a os. types_of r' = types_of r @ [Ast_Function a os, Ast_Function a os])"
proof -
  obtain a os where a: "generate_it_args (ft_signature f) r = Inr a"
    and os: "generate_it_output_type (ft_signature f) r = Inr os"
    and r': "r' = add_export (fg_name (ft_signature f))
      (word_of_nat (length (types_of r) + 1)) (add_fn_type a os (add_fn_type a os r))"
    using assms(2) by (auto simp: fn_generate_it_types_def bindR_Inr Let_def)
  have types: "types_of r' = types_of r @ [Ast_Function a os, Ast_Function a os]"
    by (simp add: r')
  have short: "length (types_of r) + 2 \<le> 2 ^ 32"
    using assms(3) types by simp
  have ok1: "resolver_ok (add_fn_type a os r)"
    using short generate_it_args_ok [OF assms(1) a] generate_it_output_type_ok [OF assms(1) os]
    by (intro add_fn_type_ok [OF assms(1)]) auto
  have ok2: "resolver_ok (add_fn_type a os (add_fn_type a os r))"
    using short generate_it_args_ok [OF assms(1) a] generate_it_output_type_ok [OF assms(1) os]
    by (intro add_fn_type_ok [OF ok1]) (auto intro: type_ok_grows [OF grows_append])
  have "fn_at (types_of r') (word_of_nat (length (types_of r) + 1))"
    using fn_at_last(1) [of "types_of r" "[Ast_Function a os, Ast_Function a os]"] short types by simp
  then have "resolver_ok r'"
    unfolding r' by (intro add_entries_ok(3) ok2) simp
  then show ?thesis
    using types by blast
qed

lemma fn_generate_instructions_cases:
  assumes "fn_generate_instructions tag is_complex f r = Inr r'"
  obtains instrs where "r' = add_implementation (word_of_nat (length (types_of r)) - 1)
      (word_of_nat (length (types_of r)) - 2)
      (add_adapter (word_of_nat (length (types_of r)) - 2) instrs r)"
  using assms by (auto simp: fn_generate_instructions_def bindR_Inr Let_def split: prod.splits)

lemma generate_fn_ok:
  assumes "resolver_ok r" and "generate_fn tag is_complex f r = Inr r'" and "length (types_of r') \<le> 2 ^ 32"
  shows "resolver_ok r' \<and> grows (types_of r) (types_of r')"
proof -
  obtain r1 where r1: "fn_generate_it_types f r = Inr r1" "fn_generate_instructions tag is_complex f r1 = Inr r'"
    using assms(2) by (auto simp: generate_fn_def bindR_Inr)
  obtain instrs where r': "r' = add_implementation (word_of_nat (length (types_of r1)) - 1)
      (word_of_nat (length (types_of r1)) - 2) (add_adapter (word_of_nat (length (types_of r1)) - 2) instrs r1)"
    using r1(2) by (rule fn_generate_instructions_cases)
  then have short: "length (types_of r1) \<le> 2 ^ 32"
    using assms(3) by simp
  obtain a os where ok: "resolver_ok r1" and ts: "types_of r1 = types_of r @ [Ast_Function a os, Ast_Function a os]"
    using fn_generate_it_types_ok [OF assms(1) r1(1) short] by blast
  have "fn_at (types_of r1) (word_of_nat (length (types_of r1)) - 1)"
    and "fn_at (types_of r1) (word_of_nat (length (types_of r1)) - 2)"
    using fn_at_last(1,2) [of "types_of r" "[Ast_Function a os, Ast_Function a os]"] short ts by simp_all
  then show ?thesis
    unfolding r' using ok ts by (simp add: add_entries_ok)
qed

lemma generate_fn_length:
  "generate_fn tag is_complex f r = Inr r' \<Longrightarrow> length (types_of r) \<le> length (types_of r')"
  by (auto simp: generate_fn_def fn_generate_it_types_def bindR_Inr Let_def
      elim!: fn_generate_instructions_cases)

interpretation fn_gen: it_generator "generate_fn tag is_complex"
  by standard (auto dest: generate_fn_length generate_fn_ok)

subsection \<open>Imported functions\<close>

text \<open>The raw types have no records, so they are well formed in every section.\<close>

lemma type_ok_no_record: "type_record t = None \<Longrightarrow> type_ok ts t"
  by (simp add: type_ok_def)

lemma raw_args_ok: "a \<in> set (generate_raw_args sig) \<Longrightarrow> type_ok ts (fa_ty a)"
proof -
  assume "a \<in> set (generate_raw_args sig)"
  then obtain x where "a \<in> set (to_raw_input_types x)"
    by (auto simp: generate_raw_args_def simp del: to_raw_input_types.simps)
  then show ?thesis
    by (cases "an_ty x") (auto simp: type_ok_def)
qed

lemma raw_outputs_ok: "t \<in> set (generate_raw_output_type sig) \<Longrightarrow> type_ok ts t"
proof -
  assume "t \<in> set (generate_raw_output_type sig)"
  then obtain rt where "t = wtype_to_itype rt"
    by (auto simp: generate_raw_output_type_def)
  then show ?thesis
    by (cases rt) (auto simp: type_ok_def)
qed

lemma add_raw_fn_type_ok:
  "resolver_ok r \<Longrightarrow> length (types_of r) < 2 ^ 32 \<Longrightarrow>
   resolver_ok (add_fn_type (generate_raw_args sig) (generate_raw_output_type sig) r)"
  by (rule add_fn_type_ok) (auto simp: raw_args_ok raw_outputs_ok)

lemma import_generate_it_types_ok:
  assumes "resolver_ok r" and "import_generate_it_types f ns r = Inr r'" and "length (types_of r') \<le> 2 ^ 32"
  shows "resolver_ok r' \<and> (\<exists>a os b ps. types_of r' =
    types_of r @ [Ast_Function a os, Ast_Function b ps, Ast_Function b ps])"
proof -
  let ?b = "generate_raw_args (ef_signature f)" and ?ps = "generate_raw_output_type (ef_signature f)"
  obtain a os n where a: "generate_it_args (ef_signature f) r = Inr a"
    and os: "generate_it_output_type (ef_signature f) r = Inr os"
    and r': "r' = add_import ns n (word_of_nat (length (types_of r) + 3) - 1)
      (add_import ns n (word_of_nat (length (types_of r) + 3) - 3)
        (add_fn_type ?b ?ps (add_fn_type ?b ?ps (add_fn_type a os r))))"
    using assms(2) by (auto simp: import_generate_it_types_def bindR_Inr Let_def ac_simps)
  let ?vs = "[Ast_Function a os, Ast_Function ?b ?ps, Ast_Function ?b ?ps]"
  have types: "types_of r' = types_of r @ ?vs"
    by (simp add: r')
  have short: "length (types_of r) + 3 \<le> 2 ^ 32"
    using assms(3) types by simp
  have "resolver_ok (add_fn_type a os r)"
    using short generate_it_args_ok [OF assms(1) a] generate_it_output_type_ok [OF assms(1) os]
    by (intro add_fn_type_ok [OF assms(1)]) auto
  then have ok: "resolver_ok (add_fn_type ?b ?ps (add_fn_type ?b ?ps (add_fn_type a os r)))"
    using short by (intro add_raw_fn_type_ok) simp_all
  have "fn_at (types_of r') (word_of_nat (length (types_of r) + 3) - 1)"
    and "fn_at (types_of r') (word_of_nat (length (types_of r) + 3) - 3)"
    using fn_at_last(1,3) [of "types_of r" ?vs] short types by simp_all
  then have "resolver_ok r'"
    unfolding r' by (intro add_entries_ok(4) ok) simp_all
  then show ?thesis
    using types by blast
qed

lemma import_generate_it_instructions_cases:
  assumes "import_generate_it_instructions tag is_complex f r = Inr r'"
  obtains instrs where "r' = add_implementation (word_of_nat (length (types_of r) - 1))
      (word_of_nat (length (types_of r) - 2))
      (add_adapter (word_of_nat (length (types_of r) - 2)) instrs r)"
  using assms by (auto simp: import_generate_it_instructions_def bindR_Inr Let_def split: prod.splits)

lemma generate_it_for_import_ok:
  assumes "resolver_ok r" and "generate_it_for_import tag is_complex f ns r = Inr r'"
    and "length (types_of r') \<le> 2 ^ 32"
  shows "resolver_ok r' \<and> grows (types_of r) (types_of r')"
proof -
  obtain r1 where r1: "import_generate_it_types f ns r = Inr r1"
      "import_generate_it_instructions tag is_complex f r1 = Inr r'"
    using assms(2) by (auto simp: generate_it_for_import_def bindR_Inr)
  obtain instrs where r': "r' = add_implementation (word_of_nat (length (types_of r1) - 1))
      (word_of_nat (length (types_of r1) - 2))
      (add_adapter (word_of_nat (length (types_of r1) - 2)) instrs r1)"
    using r1(2) by (rule import_generate_it_instructions_cases)
  then have short: "length (types_of r1) \<le> 2 ^ 32"
    using assms(3) by simp
  obtain a os b ps where ok: "resolver_ok r1"
    and ts: "types_of r1 = types_of r @ [Ast_Function a os, Ast_Function b ps, Ast_Function b ps]"
    using import_generate_it_types_ok [OF assms(1) r1(1) short] by blast
  have "fn_at (types_of r1) (word_of_nat (length (types_of r1)) - 1)"
    and "fn_at (types_of r1) (word_of_nat (length (types_of r1)) - 2)"
    using fn_at_last(1,2) [of "types_of r" "[Ast_Function a os, Ast_Function b ps, Ast_Function b ps]"]
      short ts by simp_all
  moreover have "(word_of_nat (length (types_of r1) - k) :: u32) = word_of_nat (length (types_of r1)) - word_of_nat k"
    if "k \<le> 3" for k
    using that ts by (simp add: of_nat_diff)
  from this [of 1] this [of 2]
  have "(word_of_nat (length (types_of r1) - 1) :: u32) = word_of_nat (length (types_of r1)) - 1"
    and "(word_of_nat (length (types_of r1) - 2) :: u32) = word_of_nat (length (types_of r1)) - 2"
    by simp_all
  ultimately show ?thesis
    unfolding r' using ok ts by (simp add: add_entries_ok)
qed

lemma generate_it_for_import_length:
  "generate_it_for_import tag is_complex f ns r = Inr r' \<Longrightarrow> length (types_of r) \<le> length (types_of r')"
  by (auto simp: generate_it_for_import_def import_generate_it_types_def bindR_Inr Let_def
      elim!: import_generate_it_instructions_cases)

interpretation import_gen: it_generator "\<lambda>f. generate_it_for_import tag is_complex f ns"
  by standard (auto dest: generate_it_for_import_length generate_it_for_import_ok)

interpretation extern_gen: it_generator "generate_extern_mod tag is_complex"
  by standard
    (auto simp: generate_extern_mod_def split: if_splits
      dest: import_gen.gen_all_length import_gen.gen_all_ok)

subsection \<open>The section\<close>

lemma resolver_ok_initial:
  "resolver_ok (ITResolver_default\<lparr>rs_interfaces := generate_default_export_api Interfaces_default\<rparr>)"
  by (simp add: resolver_ok_def interfaces_ok_def ITResolver_default_def Interfaces_default_def
      generate_default_export_api_def update_interfaces_def api_defs fn_at_def type_ok_def)

lemma generate_interfaces_cases:
  assumes "generate_interfaces dflt tag is_complex ast = Inr i"
  obtains r1 r2 r3 where
    "foldR (\<lambda>r q. generate_record dflt q r)
      (ITResolver_default\<lparr>rs_interfaces := generate_default_export_api Interfaces_default\<rparr>) (ma_records ast) = Inr r1"
    and "validate_records r1 = Inr ()"
    and "foldR (\<lambda>r f. generate_fn tag is_complex f r) r1 (ma_functions ast) = Inr r2"
    and "foldR (\<lambda>r m. generate_extern_mod tag is_complex m r) r2 (ma_extern_mods ast) = Inr r3"
    and "i = rs_interfaces r3"
  using assms by (auto simp: generate_interfaces_def bindR_Inr Let_def)

text \<open>C11: whatever the author declared, a section that the generator returns is closed: every
  type index of an export, import, adapter and implementation is that of a function type, and every
  record a type mentions is a record of the section (provided the section has at most \<open>2 ^ 32\<close>
  types and the placeholder record of an unresolved name mentions no record).\<close>

theorem generated_section_is_closed:
  assumes "plain_record dflt" and "generate_interfaces dflt tag is_complex ast = Inr i"
    and "length (if_types i) \<le> 2 ^ 32"
  shows "interfaces_ok i"
proof -
  obtain r1 r2 r3 where r: "foldR (\<lambda>r q. generate_record dflt q r)
      (ITResolver_default\<lparr>rs_interfaces := generate_default_export_api Interfaces_default\<rparr>) (ma_records ast) = Inr r1"
    "foldR (\<lambda>r f. generate_fn tag is_complex f r) r1 (ma_functions ast) = Inr r2"
    "foldR (\<lambda>r m. generate_extern_mod tag is_complex m r) r2 (ma_extern_mods ast) = Inr r3"
    and i: "i = rs_interfaces r3"
    using assms(2) by (rule generate_interfaces_cases)
  have l2: "length (types_of r2) \<le> 2 ^ 32"
    using extern_gen.gen_all_length [OF r(3)] assms(3) i by simp
  have l1: "length (types_of r1) \<le> 2 ^ 32"
    using fn_gen.gen_all_length [OF r(2)] l2 by simp
  have "resolver_ok r1"
    using it_generator.gen_all_ok [OF record_generator [OF assms(1)] resolver_ok_initial r(1) l1] by simp
  then have "resolver_ok r2"
    using fn_gen.gen_all_ok [OF _ r(2) l2] by simp
  then have "resolver_ok r3"
    using extern_gen.gen_all_ok [OF _ r(3)] assms(3) i by simp
  then show ?thesis
    by (simp add: resolver_ok_def i)
qed

text \<open>A record is used before it is declared, by an exported and by an imported function.\<close>

definition sample_ast :: ModuleAST where
  "sample_ast = \<lparr>
    ma_records = [\<lparr>ar_name = ''Outer'', ar_fields = Named [\<lparr>af_name = Some ''inner'', af_ty = P_Record ''Inner''\<rparr>]\<rparr>,
                  \<lparr>ar_name = ''Inner'', ar_fields = Unnamed [\<lparr>af_name = None, af_ty = P_Vector P_U8\<rparr>]\<rparr>],
    ma_functions = [\<lparr>ft_signature = \<lparr>fg_name = ''greet'',
      fg_arguments = [\<lparr>an_name = ''who'', an_ty = P_Utf8String\<rparr>], fg_output_types = [P_Record ''Outer'']\<rparr>\<rparr>],
    ma_extern_mods = [\<lparr>em_namespace = ''store'', em_imports = [\<lparr>ef_link_name = None,
      ef_signature = \<lparr>fg_name = ''put'', fg_arguments = [\<lparr>an_name = ''o'', an_ty = P_Record ''Outer''\<rparr>],
        fg_output_types = [P_U64]\<rparr>\<rparr>]\<rparr>]\<rparr>"

definition sample_section :: Interfaces where
  "sample_section = projr (generate_interfaces empty_record 3 (\<lambda>_. True) sample_ast)"

lemma sample_section_generated:
  "generate_interfaces empty_record 3 (\<lambda>_. True) sample_ast = Inr sample_section"
  "length (if_types sample_section) = 13"
  by code_simp+

theorem generated_section_is_closed_witness: "interfaces_ok sample_section"
  using generated_section_is_closed [of empty_record 3 "\<lambda>_. True" sample_ast sample_section]
    sample_section_generated by (simp add: plain_record_def empty_record_def)

subsection \<open>Unresolved records\<close>

text \<open>
  A record that is used before it is declared gets a placeholder, and the generator counts the
  placeholders.  When the declared names are distinct, the count is the number of known names
  without a declaration, so a section that passes the validation has none.
\<close>

definition known :: "ITResolver \<Rightarrow> string set" where
  "known r = {n. hm_has n (rs_types r)}"

definition named_at :: "ITResolver \<Rightarrow> string \<Rightarrow> bool" where
  "named_at r n \<longleftrightarrow> (\<exists>pos q. hm_get n (rs_types r) = Some pos \<and> types_of r ! pos = Ast_Record q \<and> rt_name q = n)"

definition counted :: "string set \<Rightarrow> ITResolver \<Rightarrow> bool" where
  "counted D r \<longleftrightarrow> D \<subseteq> known r \<and> card (known r) \<le> length (types_of r) \<and>
    (\<forall>n pos. hm_get n (rs_types r) = Some pos \<longrightarrow> pos < length (types_of r)) \<and>
    (\<forall>n n' pos. hm_get n (rs_types r) = Some pos \<longrightarrow> hm_get n' (rs_types r) = Some pos \<longrightarrow> n = n') \<and>
    (\<forall>n\<in>D. named_at r n) \<and>
    rs_unresolved_types_count r = word_of_nat (card (known r - D))"

lemma finite_known [simp]: "finite (known r)"
  by (simp add: known_def hm_has_iff)

lemma known_iff: "n \<in> known r \<longleftrightarrow> hm_get n (rs_types r) \<noteq> None"
  by (simp add: known_def hm_has_def)

lemma counted_inj:
  "counted D r \<Longrightarrow> hm_get n (rs_types r) = Some p \<Longrightarrow> hm_get n' (rs_types r) = Some p \<Longrightarrow> n = n'"
  by (simp add: counted_def)

lemma counted_count: "counted D r \<Longrightarrow> rs_unresolved_types_count r = word_of_nat (card (known r - D))"
  by (simp only: counted_def)

lemma counted_unchecked_id:
  assumes "counted D r" and "get_record_type_id_unchecked dflt name r = (i, r')"
  shows "counted D r'"
proof (cases "hm_get name (rs_types r)")
  case None
  then have new: "name \<notin> known r" "name \<notin> D"
    using assms(1) by (auto simp: known_iff counted_def)
  have r': "r' = r\<lparr>rs_types := hm_insert name (length (types_of r)) (rs_types r),
      rs_interfaces := (rs_interfaces r)\<lparr>if_types := types_of r @ [Ast_Record dflt]\<rparr>,
      rs_unresolved_types_count := rs_unresolved_types_count r + 1\<rparr>"
    using assms(2) None by (auto simp: get_record_type_id_unchecked_def push_type_def Let_def)
  have known: "known r' = insert name (known r)"
    by (auto simp: r' known_def)
  have at: "named_at r' n" if "n \<in> D" for n
  proof -
    have "named_at r n"
      using assms(1) that by (auto simp: counted_def)
    then obtain pos q where "hm_get n (rs_types r) = Some pos" "types_of r ! pos = Ast_Record q" "rt_name q = n"
      by (auto simp: named_at_def)
    moreover from this have "pos < length (types_of r)"
      using assms(1) by (auto simp: counted_def)
    ultimately show ?thesis
      using that new by (auto simp: named_at_def r' nth_append)
  qed
  have "known r' - D = insert name (known r - D)"
    using new known by auto
  then have "card (known r' - D) = card (known r - D) + 1"
    using new by simp
  then have "rs_unresolved_types_count r' = word_of_nat (card (known r' - D))"
    using assms(1) by (simp add: r' counted_def add.commute)
  moreover have "hm_get n (rs_types r) \<noteq> Some (length (types_of r))" for n
    using assms(1) by (auto simp: counted_def)
  ultimately show ?thesis
    using assms(1) known new at by (auto simp: counted_def r' less_SucI)
qed (use assms in \<open>auto simp: get_record_type_id_unchecked_def\<close>)

lemma counted_ptype:
  "counted D r \<Longrightarrow> ptype_to_itype_unchecked dflt p r = (t, r') \<Longrightarrow> counted D r'"
  by (induction p arbitrary: t r') (auto split: prod.splits dest: counted_unchecked_id)

lemma counted_fields:
  "counted D r \<Longrightarrow> record_field_types dflt fs r = (ts, r') \<Longrightarrow> counted D r'"
  by (induction fs arbitrary: r ts r') (auto split: prod.splits dest: counted_ptype)

lemma counted_push_record:
  assumes "counted D r" and "rt_name q \<notin> D" and "hm_get (rt_name q) (rs_types r) = None"
  shows "counted (insert (rt_name q) D) (insert_record_type q r)"
proof -
  let ?r = "insert_record_type q r"
  have r': "?r = r\<lparr>rs_types := hm_insert (rt_name q) (length (types_of r)) (rs_types r),
      rs_interfaces := (rs_interfaces r)\<lparr>if_types := types_of r @ [Ast_Record q]\<rparr>\<rparr>"
    using assms(3) by (simp add: insert_record_type_def push_type_def)
  have new: "rt_name q \<notin> known r"
    using assms(3) by (simp add: known_iff)
  have known: "known ?r = insert (rt_name q) (known r)"
    by (auto simp: r' known_def)
  have at: "named_at ?r n" if "n \<in> D" for n
  proof -
    have "named_at r n"
      using assms(1) that by (auto simp: counted_def)
    then obtain pos p where "hm_get n (rs_types r) = Some pos" "types_of r ! pos = Ast_Record p" "rt_name p = n"
      by (auto simp: named_at_def)
    moreover from this have "pos < length (types_of r)"
      using assms(1) by (auto simp: counted_def)
    ultimately show ?thesis
      using that assms(2) by (auto simp: named_at_def r' nth_append)
  qed
  have "named_at ?r (rt_name q)"
    by (simp add: named_at_def r')
  moreover have "known ?r - insert (rt_name q) D = known r - D"
    using new known by auto
  moreover have "hm_get n (rs_types r) \<noteq> Some (length (types_of r))" for n
    using assms(1) by (auto simp: counted_def)
  ultimately show ?thesis
    using assms(1) known new at by (auto simp: counted_def r' less_SucI)
qed

lemma counted_replace_record:
  assumes "counted D r" and "rt_name q \<notin> D" and "hm_get (rt_name q) (rs_types r) = Some pos"
  shows "counted (insert (rt_name q) D) (insert_record_type q r)"
proof -
  let ?r = "insert_record_type q r"
  have r': "?r = r\<lparr>rs_interfaces := (rs_interfaces r)\<lparr>if_types := (types_of r)[pos := Ast_Record q]\<rparr>,
      rs_unresolved_types_count := rs_unresolved_types_count r - 1\<rparr>"
    using assms(3) by (simp add: insert_record_type_def)
  have known: "known ?r = known r" and old: "rt_name q \<in> known r"
    using assms(3) by (auto simp: r' known_def hm_has_def)
  have pos: "pos < length (types_of r)"
    using assms(1,3) by (auto simp: counted_def)
  have at: "named_at ?r n" if "n \<in> D" for n
  proof -
    have "named_at r n"
      using assms(1) that by (auto simp: counted_def)
    then obtain p x where x: "hm_get n (rs_types r) = Some p" "types_of r ! p = Ast_Record x" "rt_name x = n"
      by (auto simp: named_at_def)
    have "p \<noteq> pos"
      using counted_inj [OF assms(1) x(1)] assms(3) that assms(2) by blast
    then show ?thesis
      using x by (auto simp: named_at_def r')
  qed
  have self: "named_at ?r (rt_name q)"
    using assms(3) pos by (simp add: named_at_def r')
  define A where "A = known r - insert (rt_name q) D"
  have A: "finite A" "rt_name q \<notin> A" "known r - D = insert (rt_name q) A"
    using old assms(2) by (auto simp: A_def)
  then have "card (known r - D) = card A + 1"
    by simp
  then have "rs_unresolved_types_count r = word_of_nat (card A + 1)"
    using counted_count [OF assms(1)] by (simp only:)
  then have "rs_unresolved_types_count ?r = word_of_nat (card A)"
    unfolding r' by simp
  then have count: "rs_unresolved_types_count ?r = word_of_nat (card (known ?r - insert (rt_name q) D))"
    by (simp only: known A_def)
  have types: "rs_types ?r = rs_types r" and len: "length (types_of ?r) = length (types_of r)"
    by (simp_all add: r')
  have all: "\<forall>n\<in>insert (rt_name q) D. named_at ?r n"
    using at self by blast
  have c: "D \<subseteq> known r" "card (known r) \<le> length (types_of r)"
    "\<forall>n pos. hm_get n (rs_types r) = Some pos \<longrightarrow> pos < length (types_of r)"
    "\<forall>n n' pos. hm_get n (rs_types r) = Some pos \<longrightarrow> hm_get n' (rs_types r) = Some pos \<longrightarrow> n = n'"
    using assms(1) unfolding counted_def by blast+
  have sub: "insert (rt_name q) D \<subseteq> known ?r" "card (known ?r) \<le> length (types_of r)"
    using old c(1,2) known by simp_all
  show ?thesis
    unfolding counted_def types len by (intro conjI) (fact sub all count c)+
qed

lemma counted_insert_record:
  "counted D r \<Longrightarrow> rt_name q \<notin> D \<Longrightarrow> counted (insert (rt_name q) D) (insert_record_type q r)"
  using counted_push_record counted_replace_record by (cases "hm_get (rt_name q) (rs_types r)") blast+

lemma counted_record:
  assumes "counted D r" and "generate_record dflt q r = Inr r'" and "ar_name q \<notin> D"
  shows "counted D r' \<or> counted (insert (ar_name q) D) r'"
proof -
  have "counted (insert (ar_name q) D) r'"
    if "generate_record_fields dflt (ar_name q) fs r = Inr r'" for fs
    using that
  proof (rule generate_record_fields_cases)
    fix ts r1
    assume ts: "record_field_types dflt fs r = (ts, r1)"
      and r': "r' = insert_record_type \<lparr>rt_name = ar_name q, rt_fields = ts\<rparr> r1"
    show ?thesis
      using counted_insert_record [OF counted_fields [OF assms(1) ts], of "\<lparr>rt_name = ar_name q, rt_fields = ts\<rparr>"]
        assms(3) r' by simp
  qed
  then show ?thesis
    using assms by (auto simp: generate_record_def split: RecordFields.splits)
qed

lemma counted_records:
  "counted D r \<Longrightarrow> foldR (\<lambda>r q. generate_record dflt q r) r qs = Inr r' \<Longrightarrow>
   distinct (List.map ar_name qs) \<Longrightarrow> D \<inter> ar_name ` set qs = {} \<Longrightarrow>
   \<exists>D'. counted D' r' \<and> D' \<subseteq> D \<union> ar_name ` set qs"
proof (induction qs arbitrary: D r)
  case (Cons q qs)
  obtain r1 where r1: "generate_record dflt q r = Inr r1" "foldR (\<lambda>r q. generate_record dflt q r) r1 qs = Inr r'"
    using Cons.prems(2) by (auto simp: bindR_Inr)
  have "counted D r1 \<or> counted (insert (ar_name q) D) r1"
    using counted_record [OF Cons.prems(1) r1(1)] Cons.prems(4) by simp
  then obtain D1 where D1: "counted D1 r1" "D1 \<subseteq> insert (ar_name q) D"
    by blast
  have "insert (ar_name q) D \<inter> ar_name ` set qs = {}"
    using Cons.prems(3,4) by auto
  then have "D1 \<inter> ar_name ` set qs = {}"
    using D1(2) by blast
  then obtain D' where "counted D' r'" "D' \<subseteq> D1 \<union> ar_name ` set qs"
    using Cons.IH [OF D1(1) r1(2)] Cons.prems(3) by auto
  then show ?case
    using D1(2) by auto
qed auto

lemma counted_initial:
  "counted {} (ITResolver_default\<lparr>rs_interfaces := generate_default_export_api Interfaces_default\<rparr>)"
  by (simp add: counted_def known_def hm_has_def ITResolver_default_def)



end
