(* ===== verification/GeneratedLinking.thy ===== *)
theory GeneratedLinking
  imports GeneratorInvariant ModuleLinking
begin

text \<open>
  The generator and the loader agree on function indices.  The generator numbers the core functions
  an adapter may call: first the exports of the section, then the imports; the loader builds the table
  of functions from the same section in the same order.  A section lists every import twice (its
  interface type, then its raw type), and only the second entry has an implementation.
\<close>

lemma adapter_types_None:
  "adapter_types_by_core_type (MITInterfaces_new i) c = None \<longleftrightarrow>
    c \<notin> ip_core_function_type ` set (if_implementations i)"
  by (auto simp: MITInterfaces_new_def adapter_types_by_core_type_def mm_get_vec_collect Let_def filter_empty_conv)

lemma adapter_by_type_new:
  "adapter_by_type (MITInterfaces_new i) a =
    map_of (rev (List.map (\<lambda>a. (ad_function_type a, ad_instructions a)) (if_adapters i))) a"
  by (simp add: MITInterfaces_new_def adapter_by_type_def hm_get_collect_hmap)

subsection \<open>Exports and imports before the imported functions\<close>

definition same_entries :: "ITResolver \<Rightarrow> ITResolver \<Rightarrow> bool" where
  "same_entries r r' \<longleftrightarrow> if_exports (rs_interfaces r') = if_exports (rs_interfaces r) \<and>
    if_imports (rs_interfaces r') = if_imports (rs_interfaces r)"

lemma same_entries_trans [trans]: "same_entries a b \<Longrightarrow> same_entries b c \<Longrightarrow> same_entries a c"
  by (simp add: same_entries_def)

lemma ptype_same_entries: "ptype_to_itype_unchecked dflt p r = (t, r') \<Longrightarrow> same_entries r r'"
  by (induction p arbitrary: t r')
    (auto simp: same_entries_def get_record_type_id_unchecked_def push_type_def Let_def
      split: prod.splits option.splits)

lemma fields_same_entries: "record_field_types dflt fs r = (ts, r') \<Longrightarrow> same_entries r r'"
proof (induction fs arbitrary: r ts r')
  case (Cons f fs)
  obtain t r1 ts' r2 where "ptype_to_itype_unchecked dflt (af_ty f) r = (t, r1)"
      "record_field_types dflt fs r1 = (ts', r2)" "r' = r2"
    using Cons.prems by (auto split: prod.splits)
  then show ?case
    using same_entries_trans [OF ptype_same_entries Cons.IH] by blast
qed (simp add: same_entries_def)

lemma record_same_entries: "generate_record dflt q r = Inr r' \<Longrightarrow> same_entries r r'"
proof -
  assume gen: "generate_record dflt q r = Inr r'"
  have "same_entries r r'" if "generate_record_fields dflt name fs r = Inr r'" for name fs
    using that
  proof (rule generate_record_fields_cases)
    fix ts r1
    assume "record_field_types dflt fs r = (ts, r1)"
      and "r' = insert_record_type \<lparr>rt_name = name, rt_fields = ts\<rparr> r1"
    then show ?thesis
      using fields_same_entries [of dflt fs r ts r1]
      by (auto simp: same_entries_def insert_record_type_def push_type_def split: option.splits)
  qed
  then show ?thesis
    using gen by (auto simp: generate_record_def same_entries_def split: RecordFields.splits)
qed

text \<open>Before the imported functions there are no imports, and not more exports than types.\<close>

definition no_imports_yet :: "ITResolver \<Rightarrow> bool" where
  "no_imports_yet r \<longleftrightarrow> if_imports (rs_interfaces r) = [] \<and>
    length (if_exports (rs_interfaces r)) \<le> length (types_of r)"

lemma record_no_imports:
  assumes "generate_record dflt q r = Inr r'" and "no_imports_yet r"
  shows "no_imports_yet r'"
proof -
  have "length (types_of r) \<le> length (types_of r')"
    using assms(1) by (auto simp: generate_record_def split: RecordFields.splits dest: generate_record_fields_length)
  then show ?thesis
    using record_same_entries [OF assms(1)] assms(2) by (simp add: no_imports_yet_def same_entries_def)
qed

lemma fn_no_imports:
  assumes "generate_fn tag is_complex f r = Inr r'" and "no_imports_yet r"
  shows "no_imports_yet r'"
proof -
  obtain r1 where r1: "fn_generate_it_types f r = Inr r1" "fn_generate_instructions tag is_complex f r1 = Inr r'"
    using assms(1) by (auto simp: generate_fn_def bindR_Inr)
  obtain instrs where "r' = add_implementation (word_of_nat (length (types_of r1)) - 1)
      (word_of_nat (length (types_of r1)) - 2)
      (add_adapter (word_of_nat (length (types_of r1)) - 2) instrs r1)"
    using r1(2) by (rule fn_generate_instructions_cases)
  then show ?thesis
    using r1(1) assms(2)
    by (auto simp: no_imports_yet_def fn_generate_it_types_def bindR_Inr Let_def add_implementation_def
        add_adapter_def add_export_def add_fn_type_def push_type_def)
qed

subsection \<open>Imported functions\<close>

text \<open>One import: its namespace and name, and the index of its raw type.\<close>

type_synonym import_entry = "string \<times> string \<times> u32"

fun import_pair :: "import_entry \<Rightarrow> Import list" where
  "import_pair (ns, n, t) = [\<lparr>im_namespace = ns, im_name = n, im_function_type = t - 2\<rparr>,
    \<lparr>im_namespace = ns, im_name = n, im_function_type = t\<rparr>]"

fun raw_import :: "import_entry \<Rightarrow> Import" where
  "raw_import (ns, n, t) = \<lparr>im_namespace = ns, im_name = n, im_function_type = t\<rparr>"

definition core_types :: "ITResolver \<Rightarrow> u32 set" where
  "core_types r = ip_core_function_type ` set (if_implementations (rs_interfaces r))"

definition adapter_at :: "ITResolver \<Rightarrow> u32 \<Rightarrow> Instruction list option" where
  "adapter_at r = map_of (rev (List.map (\<lambda>a. (ad_function_type a, ad_instructions a)) (if_adapters (rs_interfaces r))))"

definition entry_ok :: "ITResolver \<Rightarrow> nat \<Rightarrow> import_entry \<Rightarrow> bool" where
  "entry_ok r k = (\<lambda>(ns, n, t). 2 \<le> unat t \<and> unat t < length (types_of r) \<and>
    t \<in> core_types r \<and> t - 2 \<notin> core_types r \<and>
    (\<exists>instrs. adapter_at r (t - 1) = Some instrs \<and>
      CallCore (word_of_nat (length (if_exports (rs_interfaces r)) + k)) \<in> set instrs))"

definition imports_numbered :: "import_entry list \<Rightarrow> ITResolver \<Rightarrow> bool" where
  "imports_numbered es r \<longleftrightarrow>
    if_imports (rs_interfaces r) = concat (List.map import_pair es) \<and>
    length (if_exports (rs_interfaces r)) + length es \<le> length (types_of r) \<and>
    (\<forall>k < length es. entry_ok r k (es ! k))"

lemma length_import_pairs: "length (concat (List.map import_pair es)) = 2 * length es"
  by (induction es) auto

lemma instructions_call_import:
  assumes "import_generate_it_instructions tag is_complex f r = Inr r'"
  obtains instrs where "r' = add_implementation (word_of_nat (length (types_of r) - 1))
      (word_of_nat (length (types_of r) - 2))
      (add_adapter (word_of_nat (length (types_of r) - 2)) instrs r)"
    and "CallCore (word_of_nat (length (if_exports (rs_interfaces r)) +
      length (if_imports (rs_interfaces r)) div 2 - 1)) \<in> set instrs"
proof -
  let ?c = "CallCore (word_of_nat (length (if_exports (rs_interfaces r)) +
      length (if_imports (rs_interfaces r)) div 2 - 1))"
  let ?out = "\<lambda>instructions ty. bindR (import_output_instructions tag ty r) (\<lambda>new. Inr (instructions @ new))"
  let ?r' = "\<lambda>instrs. add_implementation (word_of_nat (length (types_of r) - 1))
      (word_of_nat (length (types_of r) - 2)) (add_adapter (word_of_nat (length (types_of r) - 2)) instrs r)"
  obtain before where
    "bindR (foldR ?out (before @ [?c]) (fg_output_types (ef_signature f))) (\<lambda>instrs. Inr (?r' instrs)) = Inr r'"
    using assms unfolding import_generate_it_instructions_def Let_def bindR_Inr [of _ "\<lambda>(_, _). _ _ _"]
    by (auto simp only: bindR_Inr split: prod.splits)
  then obtain instrs where out: "foldR ?out (before @ [?c]) (fg_output_types (ef_signature f)) = Inr instrs"
    and r': "r' = ?r' instrs"
    unfolding bindR_Inr by blast
  have "?c \<in> set instrs"
    by (rule foldR_invariant [OF out, where P = "\<lambda>is. ?c \<in> set is"]) (auto simp: bindR_Inr)
  then show thesis
    using that r' by blast
qed

lemma import_types_form:
  assumes "import_generate_it_types f ns r = Inr r1"
  obtains n a os b ps where "r1 = add_import ns n (word_of_nat (length (types_of r) + 3) - 1)
      (add_import ns n (word_of_nat (length (types_of r) + 3) - 3)
        (add_fn_type b ps (add_fn_type b ps (add_fn_type a os r))))"
  using assms by (auto simp: import_generate_it_types_def bindR_Inr Let_def ac_simps)

lemma unat_minus_small: "2 \<le> unat t \<Longrightarrow> unat (t - 2) = unat t - 2 \<and> unat (t - 1) = unat t - 1" for t :: u32
  by (simp add: unat_sub word_le_nat_alt)

lemma import_effect:
  assumes "generate_it_for_import tag is_complex f ns r = Inr r'" and "length (types_of r') \<le> 2 ^ 32"
  obtains t n instrs where "unat t = length (types_of r) + 2" and "t - 2 = word_of_nat (length (types_of r))"
    and "length (types_of r') = length (types_of r) + 3"
    and "if_exports (rs_interfaces r') = if_exports (rs_interfaces r)"
    and "if_imports (rs_interfaces r') = if_imports (rs_interfaces r) @ import_pair (ns, n, t)"
    and "core_types r' = insert t (core_types r)"
    and "\<forall>x. adapter_at r' x = (if x = t - 1 then Some instrs else adapter_at r x)"
    and "CallCore (word_of_nat (length (if_exports (rs_interfaces r)) + length (if_imports (rs_interfaces r)) div 2)) \<in> set instrs"
proof -
  let ?N = "length (types_of r)"
  obtain r1 where r1: "import_generate_it_types f ns r = Inr r1"
      "import_generate_it_instructions tag is_complex f r1 = Inr r'"
    using assms(1) by (auto simp: generate_it_for_import_def bindR_Inr)
  obtain n a os b ps where form: "r1 = add_import ns n (word_of_nat (?N + 3) - 1)
      (add_import ns n (word_of_nat (?N + 3) - 3)
        (add_fn_type b ps (add_fn_type b ps (add_fn_type a os r))))"
    using r1(1) by (rule import_types_form)
  obtain instrs where r': "r' = add_implementation (word_of_nat (length (types_of r1) - 1))
      (word_of_nat (length (types_of r1) - 2)) (add_adapter (word_of_nat (length (types_of r1) - 2)) instrs r1)"
    and call: "CallCore (word_of_nat (length (if_exports (rs_interfaces r1)) +
      length (if_imports (rs_interfaces r1)) div 2 - 1)) \<in> set instrs"
    using r1(2) by (rule instructions_call_import)
  define t :: u32 where "t = word_of_nat (?N + 2)"
  have N1: "length (types_of r1) = ?N + 3"
    by (simp add: form)
  have N: "?N + 3 \<le> 2 ^ 32"
    using assms(2) r' N1 by simp
  have t: "unat t = ?N + 2" "t - 2 = word_of_nat ?N" "t - 1 = word_of_nat (?N + 1)"
      "word_of_nat (?N + 3) - 1 = t" "word_of_nat (?N + 3) - 3 = t - 2"
    using N unat_of_nat_u32 [of "?N + 2"] by (simp_all add: t_def)
  have E1: "if_exports (rs_interfaces r1) = if_exports (rs_interfaces r)"
    and I1: "if_imports (rs_interfaces r1) = if_imports (rs_interfaces r) @ import_pair (ns, n, t)"
    and A1: "if_adapters (rs_interfaces r1) = if_adapters (rs_interfaces r)"
    and P1: "if_implementations (rs_interfaces r1) = if_implementations (rs_interfaces r)"
    using t(4,5) by (simp_all add: form add_import_def add_fn_type_def push_type_def)
  show thesis
  proof (rule that [of t n instrs])
    show "\<forall>x. adapter_at r' x = (if x = t - 1 then Some instrs else adapter_at r x)"
      using A1 N1 t(3) by (auto simp: adapter_at_def r' add_implementation_def add_adapter_def)
    show "core_types r' = insert t (core_types r)"
      using P1 N1 by (auto simp: core_types_def r' add_implementation_def add_adapter_def t_def)
  qed (use t(1,2) N1 E1 I1 call in \<open>simp_all add: r' add_implementation_def add_adapter_def\<close>)
qed

lemma import_step:
  assumes es: "imports_numbered es r" and ok: "resolver_ok r"
    and gen: "generate_it_for_import tag is_complex f ns r = Inr r'" and short: "length (types_of r') \<le> 2 ^ 32"
  shows "\<exists>e. imports_numbered (es @ [e]) r' \<and> if_exports (rs_interfaces r') = if_exports (rs_interfaces r)"
proof -
  let ?N = "length (types_of r)" and ?E = "length (if_exports (rs_interfaces r))"
  obtain t n instrs where t: "unat t = ?N + 2" "t - 2 = word_of_nat ?N"
    and types: "length (types_of r') = ?N + 3"
    and same: "if_exports (rs_interfaces r') = if_exports (rs_interfaces r)"
      "if_imports (rs_interfaces r') = if_imports (rs_interfaces r) @ import_pair (ns, n, t)"
    and cores: "core_types r' = insert t (core_types r)"
    and adapters: "\<forall>x. adapter_at r' x = (if x = t - 1 then Some instrs else adapter_at r x)"
    and call: "CallCore (word_of_nat (?E + length (if_imports (rs_interfaces r)) div 2)) \<in> set instrs"
    by (rule import_effect [OF gen short])
  have imps: "if_imports (rs_interfaces r) = concat (List.map import_pair es)"
    using es by (simp add: imports_numbered_def)
  have call': "CallCore (word_of_nat (?E + length es)) \<in> set instrs"
    using call by (simp add: imps length_import_pairs)
  have below: "unat c < ?N" if "c \<in> core_types r" for c
    using ok that by (auto simp: core_types_def resolver_ok_def interfaces_ok_def fn_at_def)
  have "unat (t - 2) = ?N"
    using short types unat_of_nat_u32 [of ?N] t(2) by simp
  then have fresh: "t - 2 \<notin> core_types r" "t - 2 \<noteq> t"
    using below [of "t - 2"] t(1) by auto
  have "entry_ok r' k ((es @ [(ns, n, t)]) ! k)" if k: "k < length (es @ [(ns, n, t)])" for k
  proof (cases "k < length es")
    case True
    obtain ns' n' t' where e: "es ! k = (ns', n', t')"
      by (cases "es ! k")
    have old: "entry_ok r k (ns', n', t')"
      using es True e by (auto simp: imports_numbered_def)
    then have t': "2 \<le> unat t'" "unat t' < ?N"
      by (auto simp: entry_ok_def)
    then have "t' - 2 \<noteq> t" "t' - 1 \<noteq> t - 1"
      using unat_minus_small [OF t'(1)] t(1) unat_minus_small [of t] by auto
    then show ?thesis
      using old True e types same(1) by (auto simp: entry_ok_def nth_append cores adapters)
  next
    case False
    then have "k = length es"
      using k by simp
    then show ?thesis
      using call' t(1) types same(1) fresh by (auto simp: entry_ok_def cores adapters)
  qed
  then have "imports_numbered (es @ [(ns, n, t)]) r'"
    using es same types imps by (simp add: imports_numbered_def)
  then show ?thesis
    using same(1) by blast
qed

lemma imports_fold:
  assumes "foldR (\<lambda>r f. generate_it_for_import tag is_complex f ns r) r fs = Inr r'"
    and "imports_numbered es r" and "resolver_ok r" and "length (types_of r') \<le> 2 ^ 32"
  shows "\<exists>es'. imports_numbered es' r' \<and> if_exports (rs_interfaces r') = if_exports (rs_interfaces r)"
  using assms
proof (induction fs arbitrary: r es)
  case (Cons f fs)
  obtain r1 where r1: "generate_it_for_import tag is_complex f ns r = Inr r1"
      "foldR (\<lambda>r f. generate_it_for_import tag is_complex f ns r) r1 fs = Inr r'"
    using Cons.prems(1) by (auto simp: bindR_Inr)
  have short: "length (types_of r1) \<le> 2 ^ 32"
    using import_gen.gen_all_length [OF r1(2)] Cons.prems(4) by simp
  obtain e where e: "imports_numbered (es @ [e]) r1" "if_exports (rs_interfaces r1) = if_exports (rs_interfaces r)"
    using import_step [OF Cons.prems(2,3) r1(1) short] by blast
  have "resolver_ok r1"
    using generate_it_for_import_ok [OF Cons.prems(3) r1(1) short] by simp
  then show ?case
    using Cons.IH [OF r1(2) e(1) _ Cons.prems(4)] e(2) by simp
qed auto

lemma extern_mods_fold:
  assumes "foldR (\<lambda>r m. generate_extern_mod tag is_complex m r) r ms = Inr r'"
    and "imports_numbered es r" and "resolver_ok r" and "length (types_of r') \<le> 2 ^ 32"
  shows "\<exists>es'. imports_numbered es' r' \<and> if_exports (rs_interfaces r') = if_exports (rs_interfaces r)"
  using assms
proof (induction ms arbitrary: r es)
  case (Cons m ms)
  obtain r1 where r1: "generate_extern_mod tag is_complex m r = Inr r1"
      "foldR (\<lambda>r m. generate_extern_mod tag is_complex m r) r1 ms = Inr r'"
    using Cons.prems(1) by (auto simp: bindR_Inr)
  have short: "length (types_of r1) \<le> 2 ^ 32"
    using extern_gen.gen_all_length [OF r1(2)] Cons.prems(4) by simp
  obtain es1 where es1: "imports_numbered es1 r1" "if_exports (rs_interfaces r1) = if_exports (rs_interfaces r)"
  proof (cases "is_host_import (em_namespace m)")
    case True
    then show thesis
      using that [of es] r1(1) Cons.prems(2) by (auto simp: generate_extern_mod_def)
  next
    case False
    then have "foldR (\<lambda>r f. generate_it_for_import tag is_complex f (em_namespace m) r) r (em_imports m) = Inr r1"
      using r1(1) by (simp add: generate_extern_mod_def)
    from imports_fold [OF this Cons.prems(2,3) short] show thesis
      using that by blast
  qed
  have "resolver_ok r1"
    using extern_gen.gen_ok [OF Cons.prems(3) r1(1) short] by simp
  then show ?case
    using Cons.IH [OF r1(2) es1(1) _ Cons.prems(4)] es1(2) by simp
qed auto

lemma generated_imports_numbered:
  assumes "plain_record dflt" and "generate_interfaces dflt tag is_complex ast = Inr i"
    and "length (if_types i) \<le> 2 ^ 32"
  obtains es r where "imports_numbered es r" and "i = rs_interfaces r"
proof -
  obtain r1 r2 r3 where r: "foldR (\<lambda>r q. generate_record dflt q r)
      (ITResolver_default\<lparr>rs_interfaces := generate_default_export_api Interfaces_default\<rparr>) (ma_records ast) = Inr r1"
    "foldR (\<lambda>r f. generate_fn tag is_complex f r) r1 (ma_functions ast) = Inr r2"
    "foldR (\<lambda>r m. generate_extern_mod tag is_complex m r) r2 (ma_extern_mods ast) = Inr r3"
    and i: "i = rs_interfaces r3"
    using assms(2) by (rule generate_interfaces_cases)
  have l2: "length (types_of r2) \<le> 2 ^ 32"
    using extern_gen.gen_all_length [OF r(3)] assms(3) i by simp
  have l1: "length (types_of r1) \<le> 2 ^ 32"
    using fn_gen.gen_all_length [OF r(2)] l2 by simp
  have "resolver_ok r1"
    using it_generator.gen_all_ok [OF record_generator [OF assms(1)] resolver_ok_initial r(1) l1] by simp
  then have ok2: "resolver_ok r2"
    using fn_gen.gen_all_ok [OF _ r(2) l2] by simp
  have "no_imports_yet r1"
    by (rule foldR_invariant [OF r(1)])
      (auto simp: no_imports_yet_def ITResolver_default_def generate_default_export_api_def
        update_interfaces_def Interfaces_default_def dest: record_no_imports [unfolded no_imports_yet_def])
  then have "no_imports_yet r2"
    by (rule foldR_invariant [OF r(2)]) (rule fn_no_imports)
  then have "imports_numbered [] r2"
    by (simp add: imports_numbered_def no_imports_yet_def)
  then obtain es where "imports_numbered es r3"
    using extern_mods_fold [OF r(3) _ ok2] assms(3) i by blast
  then show thesis
    using that i by blast
qed

lemma implemented_imports_generated:
  assumes "imports_numbered es r"
  shows "implemented_imports (MITInterfaces_new (rs_interfaces r)) = List.map raw_import es"
proof -
  have "filter (\<lambda>x. im_function_type x \<in> core_types r) (concat (List.map import_pair es)) = List.map raw_import es"
    if "\<forall>e\<in>set es. \<exists>k. entry_ok r k e" for es
    using that
  proof (induction es)
    case (Cons e es)
    obtain ns n t where e: "e = (ns, n, t)"
      by (cases e)
    then have "t \<in> core_types r" "t - 2 \<notin> core_types r"
      using Cons.prems by (auto simp: entry_ok_def)
    then show ?case
      using Cons e by simp
  qed simp
  moreover have "\<forall>e\<in>set es. \<exists>k. entry_ok r k e"
  proof
    fix e assume "e \<in> set es"
    then obtain k where "k < length es" "e = es ! k"
      by (auto simp only: in_set_conv_nth)
    then show "\<exists>k. entry_ok r k e"
      using assms by (auto simp only: imports_numbered_def)
  qed
  moreover have "if_imports (rs_interfaces r) = concat (List.map import_pair es)"
    using assms by (simp add: imports_numbered_def)
  ultimately show ?thesis
    unfolding implemented_imports_def adapter_types_None
    by (simp add: MITInterfaces_new_def core_types_def)
qed

text \<open>C3: in a module whose section was generated, the adapter of the k-th imported function calls
  exactly the function that the loader registers for that import: the index the generator wrote into
  the adapter is the index under which the loader's table holds the exported function of the module
  the import names.\<close>

theorem generated_adapters_call_their_imports:
  assumes "plain_record dflt" and "generate_interfaces dflt tag is_complex ast = Inr i"
    and "length (if_types i) \<le> 2 ^ 32"
    and "extract_imports module_name mods (MITInterfaces_new i) (length (if_exports i)) = Inr imps"
    and "k < length imps"
  shows "\<exists>import instrs index.
    implemented_imports (MITInterfaces_new i) ! k = import \<and>
    adapter_by_type (MITInterfaces_new i) (im_function_type import - 1) = Some instrs \<and>
    CallCore index \<in> set instrs \<and> unat index = fst (imps ! k) \<and>
    linked_to mods (MITInterfaces_new i) import (snd (imps ! k))"
proof -
  obtain es r where es: "imports_numbered es r" and i: "i = rs_interfaces r"
    by (rule generated_imports_numbered [OF assms(1-3)])
  have impl: "implemented_imports (MITInterfaces_new i) = List.map raw_import es"
    unfolding i by (rule implemented_imports_generated [OF es])
  have k: "k < length es"
    using assms(4,5) by (simp add: extract_imports_Inr impl)
  obtain ns n t where e: "es ! k = (ns, n, t)"
    by (cases "es ! k")
  have ok: "entry_ok r k (ns, n, t)"
    using es k e by (auto simp: imports_numbered_def)
  then obtain instrs where instrs: "adapter_at r (t - 1) = Some instrs"
      "CallCore (word_of_nat (length (if_exports i) + k)) \<in> set instrs"
    by (auto simp: entry_ok_def i)
  have "length (if_exports i) + length es \<le> 2 ^ 32"
    using es assms(3) by (simp add: imports_numbered_def i)
  then have "unat (word_of_nat (length (if_exports i) + k) :: u32) = length (if_exports i) + k"
    using k by (intro unat_of_nat_u32) simp
  moreover have "fst (imps ! k) = length (if_exports i) + k"
      "linked_to mods (MITInterfaces_new i) (raw_import (ns, n, t)) (snd (imps ! k))"
    using assms(4,5) k e by (auto simp: extract_imports_Inr impl)
  moreover have "adapter_by_type (MITInterfaces_new i) (t - 1) = Some instrs"
    using instrs(1) by (simp add: adapter_by_type_new adapter_at_def i)
  ultimately show ?thesis
    using instrs(2) impl k e by (intro exI [of _ "raw_import (ns, n, t)"] exI [of _ instrs]
        exI [of _ "word_of_nat (length (if_exports i) + k)"]) simp
qed

text \<open>The sample section imports \<open>put\<close> of \<open>store\<close>; one such module is loaded.\<close>

definition sample_store_module :: "(unit, unit, unit, unit) MModule" where
  "sample_store_module = \<lparr>wasm_instance = (),
    export_funcs = [(''put'', Callable (ITInstance [] [] [])
      \<lparr>imf_interpreter = (), imf_arguments = [], imf_output_types = []\<rparr>)],
    mod_export_record_types = []\<rparr>"

definition sample_linked :: "(nat \<times> (unit, unit, unit) WITFunction) list" where
  "sample_linked = projr (extract_imports ''m'' [(''store'', sample_store_module)]
    (MITInterfaces_new sample_section) (length (if_exports sample_section)) :: (unit, nat) MError + _)"

lemma sample_linked_run:
  "(extract_imports ''m'' [(''store'', sample_store_module)] (MITInterfaces_new sample_section)
    (length (if_exports sample_section)) :: (unit, nat) MError + _) = Inr sample_linked"
  "length sample_linked = 1" "fst (sample_linked ! 0) = length (if_exports sample_section)"
  by code_simp+

theorem generated_adapters_call_their_imports_witness:
  "\<exists>import instrs index.
    implemented_imports (MITInterfaces_new sample_section) ! 0 = import \<and>
    adapter_by_type (MITInterfaces_new sample_section) (im_function_type import - 1) = Some instrs \<and>
    CallCore index \<in> set instrs \<and> unat index = length (if_exports sample_section)"
  using generated_adapters_call_their_imports [OF _ sample_section_generated(1) _ sample_linked_run(1), of 0]
    sample_section_generated(2) sample_linked_run(2,3)
  by (auto simp: plain_record_def empty_record_def)

end
