(* ===== verification/AdapterShape.thy ===== *)
theory AdapterShape
  imports GeneratorInvariant
begin

text \<open>
  The shape of the adapters that the generator writes for exported functions
  (\<open>crates/it-generator/src/instructions_generator/fn_instructions.rs\<close>): apart from functions of the default export
  API, which manage memory, an adapter calls one core function, once.
\<close>

definition API_FUNCS_COUNT :: nat where
  "API_FUNCS_COUNT = 6"

lemma api_exports:
  "length (if_exports (generate_default_export_api Interfaces_default)) = API_FUNCS_COUNT"
  by (simp add: generate_default_export_api_def update_interfaces_def Interfaces_default_def API_FUNCS_COUNT_def)

text \<open>Calls of the default export API only.\<close>

definition api_calls :: "Instruction list \<Rightarrow> bool" where
  "api_calls instrs \<longleftrightarrow> (\<forall>j. CallCore j \<in> set instrs \<longrightarrow> unat j < API_FUNCS_COUNT)"

lemma api_calls_simps [simp]: "api_calls []" "api_calls (xs @ ys) \<longleftrightarrow> api_calls xs \<and> api_calls ys"
  by (auto simp: api_calls_def)

lemma export_arg_api: "export_arg_instructions tag p index r = Inr instrs \<Longrightarrow> api_calls instrs"
  by (cases p) (auto simp: api_calls_def bindR_Inr api_defs API_FUNCS_COUNT_def)

lemma export_output_api: "export_output_instructions p r = Inr instrs \<Longrightarrow> api_calls instrs"
  by (cases p) (auto simp: api_calls_def bindR_Inr api_defs API_FUNCS_COUNT_def split: if_splits)

definition calls_once :: "u32 \<Rightarrow> Instruction list \<Rightarrow> bool" where
  "calls_once index instrs \<longleftrightarrow> (\<exists>pre post. instrs = pre @ CallCore index # post \<and> api_calls pre \<and> api_calls post)"

lemma calls_once_append: "calls_once index instrs \<Longrightarrow> api_calls rest \<Longrightarrow> calls_once index (instrs @ rest)"
  by (fastforce simp: calls_once_def)

text \<open>The calls of an adapter that are not of the default export API.\<close>

fun own_call :: "Instruction \<Rightarrow> bool" where
  "own_call (CallCore j) \<longleftrightarrow> API_FUNCS_COUNT \<le> unat j"
| "own_call _ \<longleftrightarrow> False"

lemma own_calls_api: "api_calls instrs \<Longrightarrow> filter own_call instrs = []"
  by (auto simp: filter_empty_conv api_calls_def elim!: own_call.elims)

lemma own_calls_once: "calls_once index instrs \<Longrightarrow> API_FUNCS_COUNT \<le> unat index \<Longrightarrow> filter own_call instrs = [CallCore index]"
  by (auto simp: calls_once_def own_calls_api)

lemma fn_instructions_shape:
  assumes "fn_generate_instructions tag is_complex f r = Inr r'"
  obtains instrs where "r' = add_implementation (word_of_nat (length (types_of r)) - 1)
      (word_of_nat (length (types_of r)) - 2)
      (add_adapter (word_of_nat (length (types_of r)) - 2) instrs r)"
    and "calls_once (word_of_nat (length (if_exports (rs_interfaces r)) - 1)) instrs"
proof -
  let ?index = "word_of_nat (length (if_exports (rs_interfaces r)) - 1) :: u32"
  let ?arg = "\<lambda>instructions (arg_id, arg). bindR (export_arg_instructions tag (an_ty arg) (word_of_nat arg_id) r)
    (\<lambda>new. Inr (instructions @ new))"
  let ?out = "\<lambda>(instructions, release) ty. bindR (export_output_instructions ty r)
    (\<lambda>new. Inr (instructions @ new, release \<or> is_complex ty))"
  obtain pre instrs release where pre: "foldR ?arg [] (enumerate 0 (fg_arguments (ft_signature f))) = Inr pre"
    and out: "foldR ?out (pre @ [CallCore ?index], False) (fg_output_types (ft_signature f)) = Inr (instrs, release)"
    and r': "r' = add_implementation (word_of_nat (length (types_of r)) - 1) (word_of_nat (length (types_of r)) - 2)
      (add_adapter (word_of_nat (length (types_of r)) - 2)
        (if release then instrs @ [CallCore (ap_id RELEASE_OBJECTS)] else instrs) r)"
    using assms by (auto simp: fn_generate_instructions_def bindR_Inr Let_def split: prod.splits)
  have "api_calls pre"
    by (rule foldR_invariant [OF pre]) (auto simp: bindR_Inr, erule export_arg_api)
  then have "calls_once ?index (pre @ [CallCore ?index])"
    unfolding calls_once_def by (intro exI [of _ pre] exI [of _ "[]"]) simp
  then have "calls_once ?index (fst (instrs, release))"
    by (intro foldR_invariant [OF out, where P = "\<lambda>s. calls_once ?index (fst s)"])
      (auto simp: bindR_Inr split: prod.splits, erule calls_once_append, erule export_output_api)
  moreover have "api_calls [CallCore (ap_id RELEASE_OBJECTS)]"
    by (simp add: api_calls_def api_defs API_FUNCS_COUNT_def)
  ultimately show thesis
    using that r' calls_once_append by auto
qed

end
