(* ===== verification/DeclaredInterface.thy ===== *)
theory DeclaredInterface
  imports GeneratedLinking AdapterShape
begin

text \<open>
  From declarations to the loaded module: the interface that the loader reads from a generated section
  (\<open>crates/module-interface\<close>) is the one its author declared (\<open>crates/it-generator\<close>), and a module that loads
  offers exactly the declared functions.  The default exports of the section and the adapters of imports are
  no functions of the interface, since only exports with an implementation are.
\<close>

subsection \<open>The declared interface\<close>

text \<open>Name, arguments and results of every declared function; a resolver gives the places of the records.\<close>

type_synonym fn_entry = "string \<times> FunctionArg list \<times> IType list"

definition declared_interface :: "ITResolver \<Rightarrow> FnType list \<Rightarrow> ITGeneratorError + fn_entry list" where
  "declared_interface r fs =
    mapR (\<lambda>f. bindR (generate_it_args (ft_signature f) r) (\<lambda>arguments.
      bindR (generate_it_output_type (ft_signature f) r) (\<lambda>output_types.
      Inr (fg_name (ft_signature f), arguments, output_types)))) fs"

lemma ptype_checked_same: "rs_types r' = rs_types r \<Longrightarrow> ptype_to_itype_checked p r' = ptype_to_itype_checked p r"
  by (induction p) (simp_all add: get_record_type_id_def)

lemma signature_same:
  "rs_types r' = rs_types r \<Longrightarrow> generate_it_args sig r' = generate_it_args sig r"
  "rs_types r' = rs_types r \<Longrightarrow> generate_it_output_type sig r' = generate_it_output_type sig r"
  by (simp_all add: generate_it_args_def generate_it_output_type_def ptype_checked_same [of r' r])

subsection \<open>What the functions add to the section\<close>

fun fn_types :: "fn_entry \<Rightarrow> AstType list" where
  "fn_types (n, a, os) = [Ast_Function a os, Ast_Function a os]"

text \<open>The types of the \<open>k\<close>-th function, when \<open>L\<close> types were there before: its adapter's and its core function's.\<close>

definition fn_adapter :: "nat \<Rightarrow> nat \<Rightarrow> u32" where
  "fn_adapter L k = word_of_nat (L + 2 * k)"

definition fn_core :: "nat \<Rightarrow> nat \<Rightarrow> u32" where
  "fn_core L k = word_of_nat (L + 2 * k + 1)"

definition fn_exports :: "nat \<Rightarrow> fn_entry list \<Rightarrow> Export list" where
  "fn_exports L ds = List.map (\<lambda>k. \<lparr>ex_name = fst (ds ! k), ex_function_type = fn_core L k\<rparr>) [0..<length ds]"

definition fn_implementations :: "nat \<Rightarrow> fn_entry list \<Rightarrow> Implementation list" where
  "fn_implementations L ds = List.map (\<lambda>k. \<lparr>ip_core_function_type = fn_core L k,
    ip_adapter_function_type = fn_adapter L k\<rparr>) [0..<length ds]"

text \<open>Adapters of functions whose core functions are the exports from \<open>E\<close> on.\<close>

definition fn_adapters :: "nat \<Rightarrow> nat \<Rightarrow> fn_entry list \<Rightarrow> Adapter list \<Rightarrow> bool" where
  "fn_adapters E L ds as \<longleftrightarrow> length as = length ds \<and> (\<forall>k < length ds. ad_function_type (as ! k) = fn_adapter L k \<and>
    calls_once (word_of_nat (E + k)) (ad_instructions (as ! k)))"

definition fns_added :: "ITResolver \<Rightarrow> fn_entry list \<Rightarrow> ITResolver \<Rightarrow> bool" where
  "fns_added r ds r' \<longleftrightarrow> rs_types r' = rs_types r \<and>
    types_of r' = types_of r @ concat (List.map fn_types ds) \<and>
    if_exports (rs_interfaces r') = if_exports (rs_interfaces r) @ fn_exports (length (types_of r)) ds \<and>
    if_implementations (rs_interfaces r') =
      if_implementations (rs_interfaces r) @ fn_implementations (length (types_of r)) ds \<and>
    (\<exists>as. if_adapters (rs_interfaces r') = if_adapters (rs_interfaces r) @ as \<and>
      fn_adapters (length (if_exports (rs_interfaces r))) (length (types_of r)) ds as)"

lemma length_fn_types: "length (concat (List.map fn_types ds)) = 2 * length ds"
  by (induction ds) auto

lemma fn_tables_snoc:
  "fn_exports L (ds @ [(n, d)]) = fn_exports L ds @ [\<lparr>ex_name = n, ex_function_type = fn_core L (length ds)\<rparr>]"
  "fn_implementations L (ds @ [e]) = fn_implementations L ds @
    [\<lparr>ip_core_function_type = fn_core L (length ds), ip_adapter_function_type = fn_adapter L (length ds)\<rparr>]"
  by (simp_all add: fn_exports_def fn_implementations_def nth_append)

lemma fn_adapters_snoc:
  assumes "fn_adapters E L ds as" and "calls_once (word_of_nat (E + length ds)) instrs"
  shows "fn_adapters E L (ds @ [d]) (as @ [\<lparr>ad_function_type = fn_adapter L (length ds), ad_instructions = instrs\<rparr>])"
  using assms by (auto simp: fn_adapters_def nth_append less_Suc_eq)

lemma fn_step:
  assumes "fns_added r ds r1" and "generate_fn tag is_complex f r1 = Inr r2"
  shows "\<exists>d. declared_interface r [f] = Inr [d] \<and> fns_added r (ds @ [d]) r2"
proof -
  let ?N = "length (types_of r1)" and ?sig = "ft_signature f"
  have N: "?N = length (types_of r) + 2 * length ds" and types: "rs_types r1 = rs_types r"
    using assms(1) by (simp_all add: fns_added_def length_fn_types)
  obtain r' where r': "fn_generate_it_types f r1 = Inr r'" "fn_generate_instructions tag is_complex f r' = Inr r2"
    using assms(2) by (auto simp: generate_fn_def bindR_Inr)
  then obtain a os where a: "generate_it_args ?sig r1 = Inr a" and os: "generate_it_output_type ?sig r1 = Inr os"
    and form: "r' = add_export (fg_name ?sig) (word_of_nat (?N + 1)) (add_fn_type a os (add_fn_type a os r1))"
    by (auto simp: fn_generate_it_types_def bindR_Inr Let_def)
  have "declared_interface r [f] = Inr [(fg_name ?sig, a, os)]"
    using a os by (simp add: declared_interface_def signature_same [OF types])
  obtain instrs where r2: "r2 = add_implementation (word_of_nat (length (types_of r')) - 1)
      (word_of_nat (length (types_of r')) - 2) (add_adapter (word_of_nat (length (types_of r')) - 2) instrs r')"
      and calls: "calls_once (word_of_nat (length (if_exports (rs_interfaces r')) - 1)) instrs"
    using r'(2) by (rule fn_instructions_shape)
  let ?E = "length (if_exports (rs_interfaces r))"
  have "length (if_exports (rs_interfaces r')) - 1 = ?E + length ds"
    using assms(1) by (simp add: form fns_added_def fn_exports_def add_export_def add_fn_type_def push_type_def)
  with calls have "calls_once (word_of_nat (?E + length ds)) instrs"
    by (simp only:)
  moreover obtain as where as: "if_adapters (rs_interfaces r1) = if_adapters (rs_interfaces r) @ as"
      "fn_adapters ?E (length (types_of r)) ds as"
    using assms(1) by (auto simp: fns_added_def)
  ultimately have more: "fn_adapters ?E (length (types_of r)) (ds @ [(fg_name ?sig, a, os)])
      (as @ [\<lparr>ad_function_type = fn_adapter (length (types_of r)) (length ds), ad_instructions = instrs\<rparr>])"
    by (intro fn_adapters_snoc)
  have "if_adapters (rs_interfaces r2) = if_adapters (rs_interfaces r) @
      (as @ [\<lparr>ad_function_type = fn_adapter (length (types_of r)) (length ds), ad_instructions = instrs\<rparr>])"
    by (simp add: r2 form N as(1) fn_adapter_def add_implementation_def add_adapter_def add_export_def add_fn_type_def push_type_def)
  with more have adapters: "\<exists>as. if_adapters (rs_interfaces r2) = if_adapters (rs_interfaces r) @ as \<and>
      fn_adapters ?E (length (types_of r)) (ds @ [(fg_name ?sig, a, os)]) as"
    by blast
  have "fns_added r (ds @ [(fg_name ?sig, a, os)]) r2"
    using assms(1) adapters unfolding fns_added_def fn_tables_snoc
    by (simp add: r2 form N length_fn_types fn_core_def fn_adapter_def add_implementation_def add_adapter_def add_export_def add_fn_type_def push_type_def)
  with \<open>declared_interface r [f] = Inr [(fg_name ?sig, a, os)]\<close> show ?thesis
    by blast
qed

lemma fns_fold:
  assumes "foldR (\<lambda>r f. generate_fn tag is_complex f r) r1 fs = Inr r2" and "fns_added r ds r1"
  shows "\<exists>ds'. declared_interface r fs = Inr ds' \<and> fns_added r (ds @ ds') r2"
  using assms
proof (induction fs arbitrary: r1 ds)
  case (Cons f fs)
  obtain r' where r': "generate_fn tag is_complex f r1 = Inr r'" "foldR (\<lambda>r f. generate_fn tag is_complex f r) r' fs = Inr r2"
    using Cons.prems(1) by (auto simp: bindR_Inr)
  obtain d where d: "declared_interface r [f] = Inr [d]" "fns_added r (ds @ [d]) r'"
    using fn_step [OF Cons.prems(2) r'(1)] by blast
  obtain ds' where ds': "declared_interface r fs = Inr ds'" "fns_added r ((ds @ [d]) @ ds') r2"
    using Cons.IH [OF r'(2) d(2)] by blast
  have "declared_interface r (f # fs) = Inr (d # ds')"
    using d(1) ds'(1) by (auto simp: declared_interface_def bindR_Inr)
  then show ?case
    using ds'(2) by auto
qed (simp add: declared_interface_def)

subsection \<open>What the imports add\<close>

definition later_entries :: "nat \<Rightarrow> ITResolver \<Rightarrow> ITResolver \<Rightarrow> bool" where
  "later_entries L r r' \<longleftrightarrow> if_exports (rs_interfaces r') = if_exports (rs_interfaces r) \<and>
    (\<exists>us. types_of r' = types_of r @ us) \<and>
    (\<exists>ps. if_implementations (rs_interfaces r') = if_implementations (rs_interfaces r) @ ps \<and>
      (\<forall>p\<in>set ps. L \<le> unat (ip_core_function_type p) \<and> L \<le> unat (ip_adapter_function_type p))) \<and>
    (\<exists>bs. if_adapters (rs_interfaces r') = if_adapters (rs_interfaces r) @ bs \<and> (\<forall>b\<in>set bs. L \<le> unat (ad_function_type b)))"

lemma later_refl: "later_entries L r r"
  by (simp add: later_entries_def)

lemma later_trans:
  assumes "later_entries L r r1" and "later_entries L r1 r2"
  shows "later_entries L r r2"
proof -
  obtain us ps bs where first: "types_of r1 = types_of r @ us"
      "if_adapters (rs_interfaces r1) = if_adapters (rs_interfaces r) @ bs" "\<forall>b\<in>set bs. L \<le> unat (ad_function_type b)"
      "if_implementations (rs_interfaces r1) = if_implementations (rs_interfaces r) @ ps"
      "\<forall>p\<in>set ps. L \<le> unat (ip_core_function_type p) \<and> L \<le> unat (ip_adapter_function_type p)"
    using assms(1) unfolding later_entries_def by blast
  obtain us' ps' bs' where second: "types_of r2 = types_of r1 @ us'"
      "if_adapters (rs_interfaces r2) = if_adapters (rs_interfaces r1) @ bs'" "\<forall>b\<in>set bs'. L \<le> unat (ad_function_type b)"
      "if_implementations (rs_interfaces r2) = if_implementations (rs_interfaces r1) @ ps'"
      "\<forall>p\<in>set ps'. L \<le> unat (ip_core_function_type p) \<and> L \<le> unat (ip_adapter_function_type p)"
    using assms(2) unfolding later_entries_def by blast
  show ?thesis
    using assms first second by (auto simp: later_entries_def)
qed

lemma import_later:
  assumes "generate_it_for_import tag is_complex f ns r = Inr r'" and "L \<le> length (types_of r)"
    and "length (types_of r') \<le> 2 ^ 32"
  shows "later_entries L r r'"
proof -
  obtain r1 where r1: "import_generate_it_types f ns r = Inr r1"
      "import_generate_it_instructions tag is_complex f r1 = Inr r'"
    using assms(1) by (auto simp: generate_it_for_import_def bindR_Inr)
  obtain n a os b ps where form: "r1 = add_import ns n (word_of_nat (length (types_of r) + 3) - 1)
      (add_import ns n (word_of_nat (length (types_of r) + 3) - 3)
        (add_fn_type b ps (add_fn_type b ps (add_fn_type a os r))))"
    using r1(1) by (rule import_types_form)
  obtain instrs where r': "r' = add_implementation (word_of_nat (length (types_of r1) - 1))
      (word_of_nat (length (types_of r1) - 2)) (add_adapter (word_of_nat (length (types_of r1) - 2)) instrs r1)"
    using r1(2) by (rule import_generate_it_instructions_cases)
  have "length (types_of r) + 3 \<le> 2 ^ 32"
    using assms(3) by (simp add: r' form)
  then have "unat (word_of_nat (length (types_of r) + 2) :: u32) = length (types_of r) + 2"
      "unat (word_of_nat (length (types_of r) + 1) :: u32) = length (types_of r) + 1"
    by (intro unat_of_nat_u32; simp)+
  then show ?thesis
    using assms(2) by (simp add: later_entries_def r' form add_implementation_def add_adapter_def add_import_def
        add_fn_type_def push_type_def)
qed

lemma imports_later:
  assumes "foldR (\<lambda>r f. generate_it_for_import tag is_complex f ns r) r fs = Inr r'" and "L \<le> length (types_of r)"
    and "length (types_of r') \<le> 2 ^ 32"
  shows "later_entries L r r'"
  using assms
proof (induction fs arbitrary: r)
  case (Cons f fs)
  obtain r1 where r1: "generate_it_for_import tag is_complex f ns r = Inr r1"
      "foldR (\<lambda>r f. generate_it_for_import tag is_complex f ns r) r1 fs = Inr r'"
    using Cons.prems(1) by (auto simp: bindR_Inr)
  have len: "length (types_of r) \<le> length (types_of r1)" "length (types_of r1) \<le> length (types_of r')"
    using import_gen.gen_length [OF r1(1)] import_gen.gen_all_length [OF r1(2)] by auto
  then show ?case
    using import_later [OF r1(1) Cons.prems(2)] Cons.IH [OF r1(2) _ Cons.prems(3)] Cons.prems(2,3)
    by (intro later_trans [of L r r1 r']) simp_all
qed (simp add: later_refl)

lemma extern_mods_later:
  assumes "foldR (\<lambda>r m. generate_extern_mod tag is_complex m r) r ms = Inr r'" and "L \<le> length (types_of r)"
    and "length (types_of r') \<le> 2 ^ 32"
  shows "later_entries L r r'"
  using assms
proof (induction ms arbitrary: r)
  case (Cons m ms)
  obtain r1 where r1: "generate_extern_mod tag is_complex m r = Inr r1"
      "foldR (\<lambda>r m. generate_extern_mod tag is_complex m r) r1 ms = Inr r'"
    using Cons.prems(1) by (auto simp: bindR_Inr)
  have len: "length (types_of r) \<le> length (types_of r1)" "length (types_of r1) \<le> length (types_of r')"
    using extern_gen.gen_length [OF r1(1)] extern_gen.gen_all_length [OF r1(2)] by auto
  have "later_entries L r r1"
    using r1(1) imports_later [of tag is_complex "em_namespace m" r "em_imports m" r1 L] len Cons.prems(2,3)
    by (auto simp: generate_extern_mod_def later_refl split: if_splits)
  then show ?case
    using Cons.IH [OF r1(2) _ Cons.prems(3)] Cons.prems(2) len by (intro later_trans [of L r r1 r']) simp_all
qed (simp add: later_refl)

subsection \<open>The interface of such a section\<close>

lemma mm_insert_append: "k \<notin> fst ` set m \<Longrightarrow> mm_insert k v (m @ m') = m @ mm_insert k v m'"
proof -
  assume k: "k \<notin> fst ` set m"
  then have "hm_get k (m @ m') = hm_get k m'"
    by (simp add: hm_get_def map_add_dom_app_simps(3) dom_map_of_conv_image_fst)
  moreover have "AList.update k x (m @ m') = m @ AList.update k x m'" for x
    using k by (induction m) auto
  ultimately show ?thesis
    by (simp add: mm_insert_def hm_insert_def split: option.splits)
qed

lemma collect_multimap_keys: "fst ` set (collect_multimap ps) = fst ` set ps"
proof (induction ps rule: rev_induct)
  case (snoc p ps)
  then show ?case
    by (cases p) (auto simp: collect_multimap_snoc mm_insert_def hm_insert_def dom_update split: option.splits)
qed (simp add: collect_multimap_def)

lemma collect_multimap_append:
  "fst ` set ps \<inter> fst ` set qs = {} \<Longrightarrow> collect_multimap (ps @ qs) = collect_multimap ps @ collect_multimap qs"
proof (induction qs rule: rev_induct)
  case (snoc q qs)
  obtain k v where q: "q = (k, v)"
    by (cases q)
  have "collect_multimap (ps @ qs) = collect_multimap ps @ collect_multimap qs" "k \<notin> fst ` set (collect_multimap ps)"
    using snoc q by (auto simp: collect_multimap_keys)
  then show ?case
    using collect_multimap_snoc [of "ps @ qs" k v] by (simp add: q collect_multimap_snoc mm_insert_append)
qed (simp add: collect_multimap_def)

lemma collect_multimap_distinct:
  "distinct (List.map fst ps) \<Longrightarrow> collect_multimap ps = List.map (\<lambda>(k, v). (k, [v])) ps"
proof (induction ps)
  case (Cons p ps)
  then have "collect_multimap ([p] @ ps) = collect_multimap [p] @ collect_multimap ps"
    by (intro collect_multimap_append) auto
  then show ?case
    using Cons by (cases p) (simp add: collect_multimap_def mm_insert_def hm_insert_def)
qed (simp add: collect_multimap_def)

lemma exports_by_type_new:
  "exports_by_type (MITInterfaces_new i) c =
    (let ns = List.map ex_name (filter (\<lambda>e. ex_function_type e = c) (if_exports i)) in if ns = [] then None else Some ns)"
proof -
  have pairs: "List.map snd (filter (\<lambda>p. fst p = c) (List.map (\<lambda>e. (ex_function_type e, ex_name e)) xs)) =
      List.map ex_name (filter (\<lambda>e. ex_function_type e = c) xs)" for xs
    by (induction xs) auto
  show ?thesis
    unfolding exports_by_type_def MITInterfaces_new_def MITInterfaces.select_convs mm_get_vec_collect pairs by (rule refl)
qed

definition lists_functions :: "nat \<Rightarrow> fn_entry list \<Rightarrow> Interfaces \<Rightarrow> bool" where
  "lists_functions L ds i \<longleftrightarrow> length (if_types i) \<le> 2 ^ 32 \<and> API_FUNCS_COUNT \<le> L \<and>
    (\<exists>ts us. if_types i = ts @ concat (List.map fn_types ds) @ us \<and> length ts = L) \<and>
    (\<exists>es. if_exports i = es @ fn_exports L ds \<and> length es = API_FUNCS_COUNT \<and> (\<forall>e\<in>set es. unat (ex_function_type e) < L)) \<and>
    (\<exists>ps. if_implementations i = fn_implementations L ds @ ps \<and>
      (\<forall>p\<in>set ps. L + 2 * length ds \<le> unat (ip_core_function_type p) \<and> L + 2 * length ds \<le> unat (ip_adapter_function_type p))) \<and>
    (\<exists>as bs. if_adapters i = as @ bs \<and> fn_adapters API_FUNCS_COUNT L ds as \<and>
      (\<forall>b\<in>set bs. L + 2 * length ds \<le> unat (ad_function_type b)))"

lemma lists_short: "lists_functions L ds i \<Longrightarrow> L + 2 * length ds \<le> 2 ^ 32"
  by (auto simp: lists_functions_def length_fn_types)

lemma lists_unat: "lists_functions L ds i \<Longrightarrow> x < L + 2 * length ds \<Longrightarrow> unat (word_of_nat x :: u32) = x"
  by (intro unat_of_nat_u32) (use lists_short [of L ds i] in simp)

lemma lists_index:
  assumes "lists_functions L ds i" and "k < length ds"
  shows "unat (fn_core L k) = L + 2 * k + 1" and "unat (fn_adapter L k) = L + 2 * k"
  unfolding fn_core_def fn_adapter_def using assms(2) by (intro lists_unat [OF assms(1)]; simp)+

lemma filter_upt_eq: "k < n \<Longrightarrow> filter (\<lambda>j. j = k) [0..<n] = [k]"
  by (induction n) (auto simp: less_Suc_eq filter_empty_conv)

lemma lists_exports:
  assumes "lists_functions L ds i"
  shows "k < length ds \<Longrightarrow> exports_by_type (MITInterfaces_new i) (fn_core L k) = Some [fst (ds ! k)]"
    and "L + 2 * length ds \<le> unat c \<Longrightarrow> exports_by_type (MITInterfaces_new i) c = None"
proof -
  obtain es where es: "if_exports i = es @ fn_exports L ds" "\<forall>e\<in>set es. unat (ex_function_type e) < L"
    using assms by (auto simp: lists_functions_def)
  note idx = lists_index(1) [OF assms]
  have outside: "filter (\<lambda>e. ex_function_type e = c) es = []" if "L \<le> unat c" for c
    using es(2) that by (auto simp: filter_empty_conv)
  show "exports_by_type (MITInterfaces_new i) (fn_core L k) = Some [fst (ds ! k)]" if k: "k < length ds"
  proof -
    have "filter (\<lambda>j. fn_core L j = fn_core L k) [0..<length ds] = filter (\<lambda>j. j = k) [0..<length ds]"
    proof (rule filter_cong [OF refl])
      fix j assume "j \<in> set [0..<length ds]"
      then have "unat (fn_core L j) = L + 2 * j + 1"
        by (intro idx) simp
      then show "(fn_core L j = fn_core L k) = (j = k)"
        using idx [OF k] by (metis add_right_cancel add_left_cancel mult_left_cancel zero_neq_numeral)
    qed
    then have "filter (\<lambda>e. ex_function_type e = fn_core L k) (fn_exports L ds) =
        [\<lparr>ex_name = fst (ds ! k), ex_function_type = fn_core L k\<rparr>]"
      using k by (simp only: fn_exports_def filter_map comp_def Export.select_convs filter_upt_eq list.map)
    moreover have "filter (\<lambda>e. ex_function_type e = fn_core L k) es = []"
      by (rule outside) (simp only: idx [OF k])
    ultimately show ?thesis
      by (simp only: exports_by_type_new es(1) filter_append append_Nil Let_def list.map Export.select_convs) simp
  qed
  show "exports_by_type (MITInterfaces_new i) c = None" if c: "L + 2 * length ds \<le> unat c"
  proof -
    have "ex_function_type e \<noteq> c" if "e \<in> set (fn_exports L ds)" for e
      using that c idx by (auto simp: fn_exports_def)
    then show ?thesis
      using outside [of c] c by (auto simp: exports_by_type_new es(1) filter_empty_conv)
  qed
qed

text \<open>The core type that the iterator yields for an adapter type is one of its core types.\<close>

lemma collect_multimap_heads:
  assumes "(a, c) \<in> set (List.map (\<lambda>(k, vs). (k, hd vs)) (collect_multimap ps))"
  shows "c \<in> snd ` set ps"
proof -
  obtain vs where vs: "(a, vs) \<in> set (collect_multimap ps)" "c = hd vs"
    using assms by auto
  then have "mm_get_vec a (collect_multimap ps) = Some vs"
    by (simp add: mm_get_vec_def hm_get_mem [OF hm_ok_collect_multimap])
  then have "set vs \<subseteq> snd ` set ps" "vs \<noteq> []"
    by (auto simp: mm_get_vec_collect Let_def split: if_splits)
  then show ?thesis
    using vs(2) by auto
qed

lemma fn_adapters_distinct:
  assumes "lists_functions L ds i"
  shows "distinct (List.map (fn_adapter L) [0..<length ds])"
proof -
  have "inj_on (fn_adapter L) {0..<length ds}"
  proof (rule inj_onI)
    fix j k assume "j \<in> {0..<length ds}" "k \<in> {0..<length ds}" "fn_adapter L j = fn_adapter L k"
    then have "L + 2 * j = L + 2 * k"
      using lists_index(2) [OF assms, of j] lists_index(2) [OF assms, of k] by (metis atLeastLessThan_iff)
    then show "j = k"
      by simp
  qed
  then show ?thesis
    by (simp add: distinct_map)
qed

lemma lists_implementations:
  assumes "lists_functions L ds i"
  shows "\<exists>rest. implementations (MITInterfaces_new i) =
      List.map (\<lambda>k. (fn_adapter L k, fn_core L k)) [0..<length ds] @ rest \<and>
    (\<forall>(a, c)\<in>set rest. L + 2 * length ds \<le> unat c)"
proof -
  obtain ps where ps: "if_implementations i = fn_implementations L ds @ ps"
      "\<forall>p\<in>set ps. L + 2 * length ds \<le> unat (ip_core_function_type p) \<and> L + 2 * length ds \<le> unat (ip_adapter_function_type p)"
    using assms by (auto simp: lists_functions_def)
  let ?pair = "\<lambda>p. (ip_adapter_function_type p, ip_core_function_type p)"
  let ?first = "List.map (\<lambda>k. (fn_adapter L k, fn_core L k)) [0..<length ds]"
  have first: "List.map ?pair (fn_implementations L ds) = ?first"
    by (simp add: fn_implementations_def comp_def)
  note idx = lists_index(2) [OF assms]
  have "distinct (List.map fst ?first)"
    using fn_adapters_distinct [OF assms] by (simp add: comp_def)
  then have collected: "collect_multimap ?first = List.map (\<lambda>(k, v). (k, [v])) ?first"
    by (rule collect_multimap_distinct)
  have small: "unat x < L + 2 * length ds" if "x \<in> fst ` set ?first" for x
    using that by (auto simp: idx)
  have big: "L + 2 * length ds \<le> unat x" if "x \<in> fst ` set (List.map ?pair ps)" for x
    using that ps(2) by auto
  have "fst ` set ?first \<inter> fst ` set (List.map ?pair ps) = {}"
    using small big by (meson disjoint_iff leD)
  then have "collect_multimap (?first @ List.map ?pair ps) = collect_multimap ?first @ collect_multimap (List.map ?pair ps)"
    by (rule collect_multimap_append)
  then have impl: "implementations (MITInterfaces_new i) =
      ?first @ List.map (\<lambda>(k, vs). (k, hd vs)) (collect_multimap (List.map ?pair ps))"
    by (simp add: implementations_def MITInterfaces_new_def ps(1) first collected comp_def)
  have "L + 2 * length ds \<le> unat c" if "(a, c) \<in> set (List.map (\<lambda>(k, vs). (k, hd vs)) (collect_multimap (List.map ?pair ps)))" for a c
    using collect_multimap_heads [OF that] ps(2) by auto
  then show ?thesis
    using impl by blast
qed

lemma lists_descriptors:
  assumes "lists_functions L ds i"
  shows "get_export_funcs_descriptors (MITInterfaces_new i) =
    List.map (\<lambda>k. \<lparr>ed_adapter_function_type = fn_adapter L k, ed_name = fst (ds ! k)\<rparr>) [0..<length ds]"
proof -
  let ?f = "\<lambda>(a, c). map_option (\<lambda>names. (a, names)) (exports_by_type (MITInterfaces_new i) c)"
  obtain rest where rest: "implementations (MITInterfaces_new i) =
      List.map (\<lambda>k. (fn_adapter L k, fn_core L k)) [0..<length ds] @ rest"
      "\<forall>(a, c)\<in>set rest. L + 2 * length ds \<le> unat c"
    using lists_implementations [OF assms] by blast
  have skipped: "List.map_filter ?f rest = []"
    using rest(2) lists_exports(2) [OF assms] by (auto simp: map_filter_def filter_empty_conv)
  have found: "List.map_filter ?f (List.map (\<lambda>k. (fn_adapter L k, fn_core L k)) ks) =
      List.map (\<lambda>k. (fn_adapter L k, [fst (ds ! k)])) ks" if "set ks \<subseteq> {0..<length ds}" for ks
    using that lists_exports(1) [OF assms] by (induction ks) (auto simp: map_filter_def)
  have "List.map_filter ?f (implementations (MITInterfaces_new i)) =
      List.map (\<lambda>k. (fn_adapter L k, [fst (ds ! k)])) [0..<length ds]"
    using found [of "[0..<length ds]"] skipped by (simp add: rest(1) map_filter_def)
  then show ?thesis
    by (simp add: get_export_funcs_descriptors_def comp_def)
qed

lemma nth_fn_types:
  "k < length ds \<Longrightarrow> concat (List.map fn_types ds) ! (2 * k) = Ast_Function (fst (snd (ds ! k))) (snd (snd (ds ! k)))"
proof (induction ds arbitrary: k)
  case (Cons d ds)
  then show ?case
    by (cases d; cases k) auto
qed simp

lemma lists_types:
  assumes "lists_functions L ds i" and "k < length ds"
  shows "type_by_idx_r (MITInterfaces_new i) (fn_adapter L k) = Inr (Ast_Function (fst (snd (ds ! k))) (snd (snd (ds ! k))))"
proof -
  obtain ts us where ts: "if_types i = ts @ concat (List.map fn_types ds) @ us" "length ts = L"
    using assms(1) by (auto simp: lists_functions_def)
  have "L + 2 * k < length (if_types i)"
    using assms(2) by (simp add: ts length_fn_types)
  moreover have "if_types i ! (L + 2 * k) = concat (List.map fn_types ds) ! (2 * k)"
    using assms(2) length_fn_types [of ds] by (simp add: ts nth_append)
  ultimately show ?thesis
    using nth_fn_types [OF assms(2)] lists_index(2) [OF assms]
    by (simp add: type_by_idx_r_def type_by_idx_def MITInterfaces_new_def)
qed

lemma lists_export_funcs:
  assumes "lists_functions L ds i"
  shows "get_export_funcs (MITInterfaces_new i) = Inr (List.map (\<lambda>k. \<lparr>fs_name = fst (ds ! k), fs_arguments = fst (snd (ds ! k)),
    fs_outputs = snd (snd (ds ! k)), fs_adapter_function_type = fn_adapter L k\<rparr>) [0..<length ds])"
proof -
  have step: "mapR f (List.map g ks) = Inr (List.map h ks)" if "\<And>k. k \<in> set ks \<Longrightarrow> f (g k) = Inr (h k)" for f g h and ks :: "nat list"
    using that by (induction ks) auto
  show ?thesis
    unfolding get_export_funcs_def lists_descriptors [OF assms]
    by (rule step) (simp add: lists_types [OF assms])
qed

lemma lists_entries:
  assumes "lists_functions L ds i"
  obtains sigs where "get_export_funcs (MITInterfaces_new i) = Inr sigs"
    and "List.map (\<lambda>s. (fs_name s, fs_arguments s, fs_outputs s)) sigs = ds"
proof
  show "get_export_funcs (MITInterfaces_new i) = Inr (List.map (\<lambda>k. \<lparr>fs_name = fst (ds ! k), fs_arguments = fst (snd (ds ! k)),
      fs_outputs = snd (snd (ds ! k)), fs_adapter_function_type = fn_adapter L k\<rparr>) [0..<length ds])"
    by (rule lists_export_funcs [OF assms])
  show "List.map (\<lambda>s. (fs_name s, fs_arguments s, fs_outputs s)) (List.map (\<lambda>k. \<lparr>fs_name = fst (ds ! k), fs_arguments = fst (snd (ds ! k)),
      fs_outputs = snd (snd (ds ! k)), fs_adapter_function_type = fn_adapter L k\<rparr>) [0..<length ds]) = ds"
    by (simp add: comp_def map_nth)
qed

subsection \<open>Generated sections\<close>

definition no_functions :: "ITResolver \<Rightarrow> bool" where
  "no_functions r \<longleftrightarrow> if_implementations (rs_interfaces r) = [] \<and> if_adapters (rs_interfaces r) = [] \<and>
    length (if_exports (rs_interfaces r)) = API_FUNCS_COUNT \<and> API_FUNCS_COUNT \<le> length (types_of r) \<and>
    (\<forall>e\<in>set (if_exports (rs_interfaces r)). unat (ex_function_type e) < length (types_of r))"

lemma record_entries:
  assumes "generate_record dflt q r = Inr r'"
  shows "if_implementations (rs_interfaces r') = if_implementations (rs_interfaces r) \<and>
    if_adapters (rs_interfaces r') = if_adapters (rs_interfaces r) \<and> length (types_of r) \<le> length (types_of r')"
proof -
  let ?same = "\<lambda>r r'. if_implementations (rs_interfaces r') = if_implementations (rs_interfaces r) \<and>
    if_adapters (rs_interfaces r') = if_adapters (rs_interfaces r)"
  have ptype: "?same r r1" if "ptype_to_itype_unchecked dflt p r = (t, r1)" for p t r r1
    using that by (induction p arbitrary: t r1)
      (auto simp: get_record_type_id_unchecked_def push_type_def Let_def split: prod.splits option.splits)
  have fields: "?same r r1" if "record_field_types dflt fs r = (ts, r1)" for fs ts r r1
    using that by (induction fs arbitrary: r ts r1) (auto split: prod.splits dest: ptype)
  have insert: "?same r (insert_record_type q r)" for q r
    by (simp add: insert_record_type_def push_type_def split: option.splits)
  have gen: "?same r r' \<and> length (types_of r) \<le> length (types_of r')"
    if "generate_record_fields dflt name fs r = Inr r'" for name fs
    using generate_record_fields_length [OF that] that
    by (auto elim!: generate_record_fields_cases simp: insert dest: fields)
  then show ?thesis
    using assms by (auto simp: generate_record_def split: RecordFields.splits)
qed

abbreviation initial_resolver :: ITResolver where
  "initial_resolver \<equiv> ITResolver_default\<lparr>rs_interfaces := generate_default_export_api Interfaces_default\<rparr>"

lemma records_entries:
  assumes "foldR (\<lambda>r q. generate_record dflt q r) initial_resolver qs = Inr r"
  shows "no_functions r"
  using assms
proof (rule foldR_invariant)
  show "no_functions initial_resolver"
    by (simp add: no_functions_def API_FUNCS_COUNT_def ITResolver_default_def generate_default_export_api_def update_interfaces_def
        Interfaces_default_def api_defs)
next
  fix u q v
  assume "no_functions u" and "generate_record dflt q u = Inr v"
  then show "no_functions v"
    using record_entries [of dflt q u v] record_same_entries [of dflt q u v] by (auto simp: no_functions_def same_entries_def)
qed

lemma generated_lists_functions:
  assumes "generate_interfaces dflt tag is_complex ast = Inr i" and "length (if_types i) \<le> 2 ^ 32"
  shows "\<exists>r ds. foldR (\<lambda>r q. generate_record dflt q r) initial_resolver (ma_records ast) = Inr r \<and>
    declared_interface r (ma_functions ast) = Inr ds \<and> lists_functions (length (types_of r)) ds i"
  using assms(1)
proof (rule generate_interfaces_cases)
  fix r1 r2 r3
  assume r: "foldR (\<lambda>r q. generate_record dflt q r) initial_resolver (ma_records ast) = Inr r1"
    "foldR (\<lambda>r f. generate_fn tag is_complex f r) r1 (ma_functions ast) = Inr r2"
    "foldR (\<lambda>r m. generate_extern_mod tag is_complex m r) r2 (ma_extern_mods ast) = Inr r3"
    and i: "i = rs_interfaces r3"
  have "fns_added r1 [] r1"
    by (simp add: fns_added_def fn_exports_def fn_implementations_def fn_adapters_def)
  then obtain ds where ds: "declared_interface r1 (ma_functions ast) = Inr ds" "fns_added r1 ds r2"
    using fns_fold [OF r(2)] by fastforce
  have later: "later_entries (length (types_of r1) + 2 * length ds) r2 r3"
    using assms(2) ds(2) by (intro extern_mods_later [OF r(3)]) (simp_all add: i fns_added_def length_fn_types)
  have "lists_functions (length (types_of r1)) ds i"
    using records_entries [OF r(1)] ds(2) later assms(2)
    unfolding lists_functions_def later_entries_def fns_added_def no_functions_def i by auto
  then show ?thesis
    using r(1) ds(1) by blast
qed

lemma declared_names:
  "declared_interface r fs = Inr ds \<Longrightarrow> List.map fst ds = List.map (\<lambda>f. fg_name (ft_signature f)) fs"
  unfolding declared_interface_def mapR_Inr_iff
  by (induction fs ds rule: list_all2_induct) (auto simp: bindR_Inr)

text \<open>The interface that the loader reads from a generated section is the declared one: exactly one
  function for each declaration, with its name and the interface types of its arguments and results; in which
  order, is that of a hash map.  Neither the default exports of the section nor its imports are functions
  of the interface.\<close>

theorem generated_interface_is_the_declared_one:
  assumes "generate_interfaces dflt tag is_complex ast = Inr i" and "length (if_types i) \<le> 2 ^ 32"
  shows "\<exists>r ds sigs. foldR (\<lambda>r q. generate_record dflt q r) initial_resolver (ma_records ast) = Inr r \<and>
    declared_interface r (ma_functions ast) = Inr ds \<and> get_export_funcs (MITInterfaces_new i) = Inr sigs \<and>
    mset (List.map (\<lambda>s. (fs_name s, fs_arguments s, fs_outputs s)) sigs) = mset ds"
proof -
  obtain r ds where r: "foldR (\<lambda>r q. generate_record dflt q r) initial_resolver (ma_records ast) = Inr r"
      "declared_interface r (ma_functions ast) = Inr ds" "lists_functions (length (types_of r)) ds i"
    using generated_lists_functions [OF assms] by blast
  obtain sigs where "get_export_funcs (MITInterfaces_new i) = Inr sigs"
      "List.map (\<lambda>s. (fs_name s, fs_arguments s, fs_outputs s)) sigs = ds"
    using r(3) by (rule lists_entries)
  then show ?thesis
    using r(1,2) by blast
qed

text \<open>A module whose section was generated from declarations offers, once it is loaded, exactly the declared
  functions, each with the argument and result types of its declaration.\<close>

lemma loaded_declarations:
  assumes "generate_interfaces dflt tag is_complex ast = Inr i" and "length (if_types i) \<le> 2 ^ 32"
    and "(MModule_new B E A S name bytes config mods :: (_, ('x, 'v::linorder) MError, _) eff) w = (Returns (Inr m), w')"
    and "\<And>wasm. fst (module_new B bytes w) = Inr wasm \<Longrightarrow>
      extract_it_from_module (sdk_decoder S) (custom_sections B wasm) = Inr (v, i)"
  shows "\<exists>r ds. foldR (\<lambda>r q. generate_record dflt q r) initial_resolver (ma_records ast) = Inr r \<and>
    declared_interface r (ma_functions ast) = Inr ds \<and>
    fst ` set (export_funcs m) = (\<lambda>f. fg_name (ft_signature f)) ` set (ma_functions ast) \<and>
    (\<forall>n c. hm_get n (export_funcs m) = Some c \<longrightarrow>
      (n, imf_arguments (it_module_func c), imf_output_types (it_module_func c)) \<in> set ds)"
  using assms(3)
proof (rule MModule_new_stages)
  fix wasm w1 v' it inst
  assume stages: "module_new B bytes w = (Inr wasm, w1)"
    "extract_it_from_module (sdk_decoder S) (custom_sections B wasm) = Inr (v', it)"
    "(instantiate_exports E inst (MITInterfaces_new it) :: ('x, 'v) MError + _) =
      Inr (export_funcs m, mod_export_record_types m)"
  have it: "it = i"
    using assms(4) [of wasm] stages(1,2) by simp
  obtain r ds where r: "foldR (\<lambda>r q. generate_record dflt q r) initial_resolver (ma_records ast) = Inr r"
      "declared_interface r (ma_functions ast) = Inr ds" "lists_functions (length (types_of r)) ds i"
    using generated_lists_functions [OF assms(1,2)] by blast
  obtain j where j: "it_get_interface (MITInterfaces_new i) = Inr j"
    and names: "fst ` set (export_funcs m) = fs_name ` set (function_signatures j)"
    and each: "\<And>n c. hm_get n (export_funcs m) = Some c \<Longrightarrow> \<exists>sig\<in>set (function_signatures j). fs_name sig = n \<and>
      imf_arguments (it_module_func c) = fs_arguments sig \<and> imf_output_types (it_module_func c) = fs_outputs sig"
    using instantiate_exports_Inr [OF stages(3)] it by blast
  let ?entry = "\<lambda>s. (fs_name s, fs_arguments s, fs_outputs s)"
  have "get_export_funcs (MITInterfaces_new i) = Inr (function_signatures j)"
    using j by (auto simp: it_get_interface_def bindR_Inr)
  then have sigs: "List.map ?entry (function_signatures j) = ds"
    using r(3) by (auto elim: lists_entries)
  then have "fs_name ` set (function_signatures j) = fst ` set ds"
    by (force simp flip: sigs)
  also have "\<dots> = (\<lambda>f. fg_name (ft_signature f)) ` set (ma_functions ast)"
    using declared_names [OF r(2)] by (metis list.set_map)
  finally have "fst ` set (export_funcs m) = (\<lambda>f. fg_name (ft_signature f)) ` set (ma_functions ast)"
    by (simp only: names)
  moreover have "(n, imf_arguments (it_module_func c), imf_output_types (it_module_func c)) \<in> set ds"
    if "hm_get n (export_funcs m) = Some c" for n c
    using each [OF that] by (force simp flip: sigs)
  ultimately show ?thesis
    using r(1,2) by blast
qed

subsection \<open>Examples\<close>

theorem generated_interface_is_the_declared_one_witness:
  "\<exists>sigs. get_export_funcs (MITInterfaces_new sample_section) = Inr sigs \<and> List.map fs_name sigs = [''greet'']"
proof -
  obtain r ds sigs where r: "declared_interface r (ma_functions sample_ast) = Inr ds"
      "get_export_funcs (MITInterfaces_new sample_section) = Inr sigs"
      "mset (List.map (\<lambda>s. (fs_name s, fs_arguments s, fs_outputs s)) sigs) = mset ds"
    using generated_interface_is_the_declared_one [OF sample_section_generated(1)] sample_section_generated(2) by auto
  have "mset (List.map fs_name sigs) = mset (List.map fst ds)"
    using arg_cong [OF r(3), of "image_mset fst"] by (simp add: multiset.map_comp comp_def)
  then have "mset (List.map fs_name sigs) = {#''greet''#}"
    using declared_names [OF r(1)] by (simp add: sample_ast_def)
  then have "List.map fs_name sigs = [''greet'']"
    by (rule mset_single_iff [THEN iffD1])
  with r(2) show ?thesis
    by (intro exI conjI)
qed

text \<open>A function without arguments and results, in a module that exports whatever it is asked for.\<close>

definition plain_ast :: ModuleAST where
  "plain_ast = \<lparr>ma_records = [], ma_functions = [\<lparr>ft_signature = \<lparr>fg_name = ''f'', fg_arguments = [], fg_output_types = []\<rparr>\<rparr>],
    ma_extern_mods = []\<rparr>"

definition plain_section :: Interfaces where
  "plain_section = projr (generate_interfaces empty_record 3 (\<lambda>_. True) plain_ast)"

definition plain_backend :: "(nat sample_world, unit, string list, unit, string, unit, unit, unit) backend" where
  "plain_backend = sample_backend\<lparr>get_function := \<lambda>i name st. Inr name\<rparr>"

definition plain_sdk :: "nat sdk" where
  "plain_sdk = sample_sdk\<lparr>sdk_decoder := \<lambda>bs. Inr ([], 20, plain_section)\<rparr>"

definition plain_load :: "(nat sample_world, (unit, nat) MError, (unit, string, unit, Instruction list) MModule) eff" where
  "plain_load = MModule_new plain_backend sample_engine sample_abi plain_sdk ''m'' [0] MModuleConfig_default []"

lemma plain_section_generated:
  "generate_interfaces empty_record 3 (\<lambda>_. True) plain_ast = Inr plain_section"
  "length (if_types plain_section) = 8"
  by code_simp+

lemma plain_load_succeeds: "\<exists>m w. plain_load sample_start = (Returns (Inr m), w)"
proof -
  have "case plain_load sample_start of (Returns (Inr m), w) \<Rightarrow> True | _ \<Rightarrow> False"
    by code_simp
  then show ?thesis
    by (auto split: prod.splits outcome.splits sum.splits)
qed

lemma plain_load_offers_its_declarations:
  "\<exists>m w. plain_load sample_start = (Returns (Inr m), w) \<and> fst ` set (export_funcs m) = {''f''}"
proof -
  obtain m w where run: "plain_load sample_start = (Returns (Inr m), w)"
    using plain_load_succeeds by blast
  have "extract_it_from_module (sdk_decoder plain_sdk) (custom_sections plain_backend wasm) = Inr (20, plain_section)" for wasm
    by (simp add: extract_it_from_module_Inr plain_backend_def plain_sdk_def sample_backend_def IT_SECTION_NAME_def)
  then have "fst ` set (export_funcs m) = (\<lambda>f. fg_name (ft_signature f)) ` set (ma_functions plain_ast)"
    using loaded_declarations [OF plain_section_generated(1) _ run [unfolded plain_load_def], of 20]
      plain_section_generated(2) by auto
  then show ?thesis
    using run by (simp add: plain_ast_def)
qed

subsection \<open>Records that contain themselves\<close>

text \<open>The generator looks for cycles of records, but not through arrays: a tree is accepted, and no module with
  it can be loaded.\<close>

definition tree_ast :: ModuleAST where
  "tree_ast = \<lparr>ma_records = [\<lparr>ar_name = ''Tree'', ar_fields = Named [\<lparr>af_name = Some ''sub'', af_ty = P_Vector (P_Record ''Tree'')\<rparr>]\<rparr>],
    ma_functions = [\<lparr>ft_signature = \<lparr>fg_name = ''f'', fg_arguments = [\<lparr>an_name = ''t'', an_ty = P_Record ''Tree''\<rparr>],
      fg_output_types = []\<rparr>\<rparr>], ma_extern_mods = []\<rparr>"

definition tree_section :: Interfaces where
  "tree_section = projr (generate_interfaces empty_record 3 (\<lambda>_. True) tree_ast)"

lemma tree_section_generated: "generate_interfaces empty_record 3 (\<lambda>_. True) tree_ast = Inr tree_section"
  by code_simp

lemma tree_parts:
  "get_export_funcs (MITInterfaces_new tree_section) =
    Inr [\<lparr>fs_name = ''f'', fs_arguments = [\<lparr>fa_name = ''t'', fa_ty = IT_Record 6\<rparr>], fs_outputs = [], fs_adapter_function_type = 7\<rparr>]"
  "get_all_records (MITInterfaces_new tree_section) =
    [(6, \<lparr>rt_name = ''Tree'', rt_fields = [\<lparr>rf_name = ''sub'', rf_ty = IT_Array (IT_Record 6)\<rparr>]\<rparr>)]"
  by code_simp+

lemma recursive_record_not_loadable: "\<exists>e. it_get_interface (MITInterfaces_new tree_section) = Inl e"
proof (cases "it_get_interface (MITInterfaces_new tree_section)")
  case (Inr j)
  then obtain full where full: "get_record_types (MITInterfaces_new tree_section) (function_signatures j) = Inr full"
      and sigs: "get_export_funcs (MITInterfaces_new tree_section) = Inr (function_signatures j)"
    by (auto simp: it_get_interface_def bindR_Inr)
  let ?e = "full_export_record_types full"
  have "function_signatures j =
      [\<lparr>fs_name = ''f'', fs_arguments = [\<lparr>fa_name = ''t'', fa_ty = IT_Record 6\<rparr>], fs_outputs = [], fs_adapter_function_type = 7\<rparr>]"
    using sigs tree_parts(1) by simp
  then have "hm_has 6 ?e"
    using get_record_types_spec(4) [OF full, of "hd (function_signatures j)" "IT_Record 6" 6] by simp
  then obtain t where t: "hm_get 6 ?e = Some t"
    by (auto simp: hm_has_def)
  then have "hm_get 6 (get_all_records (MITInterfaces_new tree_section)) = Some t"
    using get_record_types_spec(1) [OF full] by (auto simp: part_of_def)
  then have "t = \<lparr>rt_name = ''Tree'', rt_fields = [\<lparr>rf_name = ''sub'', rf_ty = IT_Array (IT_Record 6)\<rparr>]\<rparr>"
    by (simp add: tree_parts(2) hm_get_def)
  with t have "(6, 6) \<in> record_edges ?e"
    by (simp add: record_edges_def)
  then show ?thesis
    using get_record_types_spec(3) [OF full] by (auto simp: acyclic_def)
qed simp

end
