(* ===== verification/BuiltModules.thy ===== *)
theory BuiltModules
  imports CliProps DeclaredInterface
begin

text \<open>
  From the build to the loaded module: the command line tool (\<open>tools/cli\<close>), the generator (\<open>crates/it-generator\<close>) and
  the loader (\<open>core/src/module\<close>) together.  The tools and the runtime are built against the same libraries for
  versions and for the binary form of interface types, and the engine sees the custom sections of the file.
\<close>

definition same_formats :: "'v sdk \<Rightarrow> ('f, 'v, 'v, 't) wasm_tools \<Rightarrow> bool" where
  "same_formats S W \<longleftrightarrow> sdk_section S = wt_version_section W \<and> sdk_from_utf8 S = wt_from_utf8 W \<and>
    sdk_from_str S = wt_version_parse W \<and> sdk_decoder S = wt_it_decode W"

definition sees_sections :: "('st, 'w, 'l, 'i, 'f, 'h, 'm, 'x) backend \<Rightarrow> u8 list \<Rightarrow> 'st \<Rightarrow> Walrus \<Rightarrow> bool" where
  "sees_sections B bytes st m \<longleftrightarrow> (\<forall>wasm name. fst (module_new B bytes st) = Inr wasm \<longrightarrow>
    custom_sections B wasm name = List.map snd (filter (\<lambda>(n, _). n = name) (sections m)))"

lemma built_named_sections:
  assumes "sections m = built_sections W ss i v" and "lawful_tools W"
  shows "List.map snd (filter (\<lambda>(n, _). n = IT_SECTION_NAME) (sections m)) = [wt_it_to_bytes W (wt_it_version W, i)]"
    and "List.map snd (filter (\<lambda>(n, _). n = wt_version_section W) (sections m)) = [wt_as_bytes W (wt_version_text W v)]"
  using lawful_names [OF assms(2)] by (auto simp: assms(1) kept_sections_def filter_empty_conv)

text \<open>What the loader reads from a built file: the generated section and the locked version.\<close>

lemma built_sections_loaded:
  assumes "lawful_tools W" and "same_formats S W" and "sections m = built_sections W ss i v" and "sees_sections B bytes st m"
    and "wt_it_decode W (wt_it_to_bytes W (wt_it_version W, i)) = Inr ([], wt_it_version W, i)"
    and "fst (module_new B bytes st) = Inr wasm"
  shows "extract_it_from_module (sdk_decoder S) (custom_sections B wasm) = Inr (wt_it_version W, i)"
    and "custom_sections B wasm (sdk_section S) = [wt_as_bytes W (wt_version_text W v)]"
    and "as_semver (sdk_from_utf8 S) (sdk_from_str S) (wt_as_bytes W (wt_version_text W v)) = Inr v"
proof -
  have seen: "custom_sections B wasm name = List.map snd (filter (\<lambda>(n, _). n = name) (sections m))" for name
    using assms(4,6) by (simp add: sees_sections_def)
  show "extract_it_from_module (sdk_decoder S) (custom_sections B wasm) = Inr (wt_it_version W, i)"
    using assms(2,5) unfolding extract_it_from_module_Inr seen built_named_sections(1) [OF assms(3,1)]
    by (simp add: same_formats_def)
  show "custom_sections B wasm (sdk_section S) = [wt_as_bytes W (wt_version_text W v)]"
    using assms(2) built_named_sections(2) [OF assms(3,1)] by (simp add: seen same_formats_def)
  show "as_semver (sdk_from_utf8 S) (sdk_from_str S) (wt_as_bytes W (wt_version_text W v)) = Inr v"
    using assms(1,2) by (simp add: as_semver_def same_formats_def lawful_tools_def)
qed

text \<open>C6: a Wasm artifact that \<open>marine build\<close> has processed and the runtime then loads offers exactly the functions its
  author declared in the code, with the interface types of their arguments and results; it loads only if the
  version of the SDK in the lock file of its package and the version of the interface types of the tool are not below the
  minima of the runtime.\<close>

theorem built_module_offers_its_declarations:
  fixes S :: "'v::linorder sdk"
  assumes "lawful_tools W" and "(cli_build G W args f :: (('te, 'le, 'me) CLIError + unit) \<times> _) = (Inr (), logs, f')"
    and "run_command_piped (be_process G) ''cargo'' (build_args args) f = (Inr output, f1)"
    and "bindR (get_cargo_metadata G args f1) (\<lambda>root. load_lockfile G root f1) = (Inr lockfile :: ('te, 'le, 'me) CLIError + _)"
    and "map_of (rev (concat (List.map fst (build_artifacts G W lockfile output f1)))) p = Some v"
    and "\<forall>m i. wt_parse W p f1 = Inr m \<longrightarrow> generator_interfaces W (sections m) = Inr i \<longrightarrow> length (if_types i) \<le> 2 ^ 32 \<and>
      wt_it_decode W (wt_it_to_bytes W (wt_it_version W, i)) = Inr ([], wt_it_version W, i)"
    and "same_formats S W" and "\<forall>m'. wt_parse W p f' = Inr m' \<longrightarrow> sees_sections B bytes w m'"
    and "(MModule_new B E A S name bytes config mods :: (_, ('x, 'v) MError, _) eff) w = (Returns (Inr module), w')"
  shows "\<exists>m ast r ds min_sdk min_it. wt_parse W p f1 = Inr m \<and>
    wasm_ast_extractor (wt_prefix W) (wt_prefix_fce W) (wt_from_slice W) (sections m) = Inr ast \<and>
    foldR (\<lambda>r q. generate_record (wt_default_record W) q r) initial_resolver (ma_records ast) = Inr r \<and>
    declared_interface r (ma_functions ast) = Inr ds \<and>
    fst ` set (export_funcs module) = (\<lambda>f. fg_name (ft_signature f)) ` set (ma_functions ast) \<and>
    (\<forall>n c. hm_get n (export_funcs module) = Some c \<longrightarrow>
      (n, imf_arguments (it_module_func c), imf_output_types (it_module_func c)) \<in> set ds) \<and>
    sdk_from_str S ''0.6.0'' = Inr min_sdk \<and> min_sdk \<le> v \<and>
    sdk_from_str S ''0.20.0'' = Inr min_it \<and> min_it \<le> wt_it_version W"
proof -
  obtain m i m' where built: "wt_parse W p f1 = Inr m" "generator_interfaces W (sections m) = Inr i" "wt_parse W p f' = Inr m'"
      and sections: "sections m' = built_sections W (sections m) i v"
    by (rule cli_build_sections [OF assms(1-5)])
  obtain ast where ast: "wasm_ast_extractor (wt_prefix W) (wt_prefix_fce W) (wt_from_slice W) (sections m) = Inr ast"
      "generate_interfaces (wt_default_record W) (wt_tag W) (wt_is_complex W) ast = Inr i"
    using built(2) by (auto simp: generator_interfaces_def bindR_Inr)
  have i: "length (if_types i) \<le> 2 ^ 32" "wt_it_decode W (wt_it_to_bytes W (wt_it_version W, i)) = Inr ([], wt_it_version W, i)"
    using assms(6) built(1,2) by auto
  note read = built_sections_loaded [OF assms(1,7) sections assms(8) [rule_format, OF built(3)] i(2)]
  obtain r ds where declared: "foldR (\<lambda>r q. generate_record (wt_default_record W) q r) initial_resolver (ma_records ast) = Inr r"
      "declared_interface r (ma_functions ast) = Inr ds"
      "fst ` set (export_funcs module) = (\<lambda>f. fg_name (ft_signature f)) ` set (ma_functions ast)"
      "\<forall>n c. hm_get n (export_funcs module) = Some c \<longrightarrow>
        (n, imf_arguments (it_module_func c), imf_output_types (it_module_func c)) \<in> set ds"
    using loaded_declarations [OF ast(2) i(1) assms(9) read(1)] by blast
  have "\<exists>min_sdk min_it. sdk_from_str S ''0.6.0'' = Inr min_sdk \<and> min_sdk \<le> v \<and>
      sdk_from_str S ''0.20.0'' = Inr min_it \<and> min_it \<le> wt_it_version W"
    using assms(9)
  proof (rule MModule_new_stages)
    fix wasm w1 v' it
    assume stages: "module_new B bytes w = (Inr wasm, w1)"
      "(check_sdk_version S name (custom_sections B wasm) :: (_, 'v PrepareError, _) eff) w1 = (Returns (Inr ()), w1)"
      "extract_it_from_module (sdk_decoder S) (custom_sections B wasm) = Inr (v', it)"
      "(check_it_version S name v' :: (_, 'v PrepareError, _) eff) w1 = (Returns (Inr ()), w1)"
    have "fst (module_new B bytes w) = Inr wasm"
      by (simp add: stages(1))
    note read = read [OF this]
    show ?thesis
      using stages(2,4) read stages(3) unfolding check_sdk_version_ok check_it_version_ok by auto
  qed
  then show ?thesis
    using built(1) ast(1) declared by blast
qed

subsection \<open>A module that is built and loaded\<close>

text \<open>The text of version \<open>n\<close> has \<open>n\<close> characters, and one declaration is all that a section can hold: that of
  \<open>plain_ast\<close>.  The engine sees the sections of the built file.\<close>

definition built_tools :: "((string \<times> Walrus) list, nat, nat, unit) wasm_tools" where
  "built_tools = \<lparr>
    wt_parse = wt_parse sample_tools, wt_emit = wt_emit sample_tools,
    wt_prefix = ''__m_generated_section'', wt_prefix_fce = ''__fce_generated_section'',
    wt_from_slice = (\<lambda>_. Inr (SDK_Function (hd (ma_functions plain_ast)))),
    wt_default_record = empty_record, wt_tag = 3, wt_is_complex = (\<lambda>_. True), wt_it_version = 20,
    wt_it_to_bytes = (\<lambda>_. [7]), wt_it_decode = (\<lambda>_. Inr ([], 20, plain_section)),
    wt_it_to_text = (\<lambda>_. []), wt_it_parse_text = (\<lambda>_. Inl []),
    wt_version_section = ''sdk-version'', wt_as_bytes = sample_as_bytes, wt_from_utf8 = sample_from_utf8,
    wt_version_text = (\<lambda>v. replicate v CHR ''x''), wt_version_parse = (\<lambda>s. Inr (length s)),
    wt_manifest_section = ''manifest'', wt_parse_time = (\<lambda>_. Inr ())\<rparr>"

lemma built_tools_lawful: "lawful_tools built_tools"
  unfolding lawful_tools_def
  by (auto simp: built_tools_def sample_tools_def sample_text_any IT_SECTION_NAME_def sections_def split: option.splits if_splits)

definition built_env :: "((string \<times> Walrus) list, nat, unit, unit, unit, unit) build_env" where
  "built_env = \<lparr>be_process = be_process sample_build, be_metadata = (\<lambda>m f. Inr ''/w''),
    be_lockfile = (\<lambda>p f. Inr [\<lparr>lp_name = ''m'', lp_version = 3, lp_dependencies = [(''marine-rs-sdk'', 7)]\<rparr>]),
    be_cargo_toml = (\<lambda>p f. Inr \<lparr>mf_dependencies = [''marine-rs-sdk''], mf_package = Some \<lparr>pkg_name = ''m'', pkg_version = ''xxx''\<rparr>\<rparr>),
    be_diagnostic = (\<lambda>l. Inr (CompilerArtifact [''m.wasm''] ''Cargo.toml''))\<rparr>"

definition declaring_module :: Walrus where
  "declaring_module = \<lparr>wm_customs = [(0, ''__m_generated_section__f'', [1])], wm_imports = []\<rparr>"

definition built_file :: "(string \<times> Walrus) list" where
  "built_file = snd (snd (cli_build built_env built_tools [] [(''m.wasm'', declaring_module)] ::
    ((unit, unit, unit) CLIError + unit) \<times> unit build_log list \<times> _))"

definition built_walrus :: Walrus where
  "built_walrus = projr (wt_parse built_tools ''m.wasm'' built_file)"

definition built_backend :: "(nat sample_world, unit, string list, unit, string, unit, unit, unit) backend" where
  "built_backend = plain_backend\<lparr>custom_sections := \<lambda>wasm name. List.map snd (filter (\<lambda>(n, _). n = name) (sections built_walrus))\<rparr>"

definition built_sdk :: "nat sdk" where
  "built_sdk = \<lparr>sdk_section = ''sdk-version'', sdk_from_utf8 = sample_from_utf8, sdk_from_str = (\<lambda>s. Inr (length s)),
    sdk_decoder = (\<lambda>_. Inr ([], 20, plain_section))\<rparr>"

definition built_load :: "(nat sample_world, (unit, nat) MError, (unit, string, unit, Instruction list) MModule) eff" where
  "built_load = MModule_new built_backend sample_engine sample_abi built_sdk ''m'' [0] MModuleConfig_default []"

lemma built_run:
  "(cli_build built_env built_tools [] [(''m.wasm'', declaring_module)] :: ((unit, unit, unit) CLIError + unit) \<times> _) = (Inr (), [], built_file)"
  "wt_parse built_tools ''m.wasm'' built_file = Inr built_walrus"
  "run_command_piped (be_process built_env) ''cargo'' (build_args []) f = (Inr ''A'', f)"
  "bindR (get_cargo_metadata built_env [] f) (\<lambda>root. load_lockfile built_env root f) =
    (Inr [\<lparr>lp_name = ''m'', lp_version = 3, lp_dependencies = [(''marine-rs-sdk'', 7)]\<rparr>] :: (unit, unit, unit) CLIError + _)"
  "map_of (rev (concat (List.map fst (build_artifacts built_env built_tools
    [\<lparr>lp_name = ''m'', lp_version = 3, lp_dependencies = [(''marine-rs-sdk'', 7)]\<rparr>] ''A'' f)))) ''m.wasm'' = Some 7"
  "generator_interfaces built_tools (sections declaring_module) = Inr plain_section"
  "wasm_ast_extractor (wt_prefix built_tools) (wt_prefix_fce built_tools) (wt_from_slice built_tools) (sections declaring_module) = Inr plain_ast"
  "wt_parse built_tools ''m.wasm'' [(''m.wasm'', declaring_module)] = Inr declaring_module"
  subgoal by code_simp
  subgoal by code_simp
  subgoal by (simp add: run_command_piped_def run_command_def built_env_def sample_build_def)
  subgoal by (simp add: get_cargo_metadata_def load_lockfile_def Let_def built_env_def path_join_def path_is_absolute_def)
  subgoal by (simp add: build_artifacts_def lines_def artifact_wasms_def built_env_def built_tools_def suffix_def
      extract_sdk_version_def extract_sdk_version_from_lockfile_def SDK_CRATE_NAME_def numeral_3_eq_3)
  subgoal by code_simp
  subgoal by code_simp
  subgoal by code_simp
  done

lemma built_load_succeeds: "\<exists>m w. built_load sample_start = (Returns (Inr m), w)"
proof -
  have "case built_load sample_start of (Returns (Inr m), w) \<Rightarrow> True | _ \<Rightarrow> False"
    by code_simp
  then show ?thesis
    by (auto split: prod.splits outcome.splits sum.splits)
qed

theorem built_module_offers_its_declarations_witness:
  "\<exists>m w. built_load sample_start = (Returns (Inr m), w) \<and> fst ` set (export_funcs m) = {''f''}"
proof -
  obtain m w where run: "built_load sample_start = (Returns (Inr m), w)"
    using built_load_succeeds by blast
  have "same_formats built_sdk built_tools"
    by (simp add: same_formats_def built_sdk_def built_tools_def)
  moreover have "sees_sections built_backend [0] sample_start m'" if "wt_parse built_tools ''m.wasm'' built_file = Inr m'" for m'
    using that built_run(2) by (simp add: sees_sections_def built_backend_def)
  moreover have "length (if_types i) \<le> 2 ^ 32 \<and> wt_it_decode built_tools (wt_it_to_bytes built_tools (wt_it_version built_tools, i)) =
      Inr ([], wt_it_version built_tools, i)" if "wt_parse built_tools ''m.wasm'' [(''m.wasm'', declaring_module)] = Inr m0"
      "generator_interfaces built_tools (sections m0) = Inr i" for m0 i
    using that built_run(6,8) plain_section_generated(2) by (auto simp: built_tools_def)
  ultimately obtain ast where "wasm_ast_extractor (wt_prefix built_tools) (wt_prefix_fce built_tools) (wt_from_slice built_tools)
      (sections declaring_module) = Inr ast" "fst ` set (export_funcs m) = (\<lambda>f. fg_name (ft_signature f)) ` set (ma_functions ast)"
    using built_module_offers_its_declarations [OF built_tools_lawful built_run(1,3,4,5) _ _ _ run [unfolded built_load_def]] built_run(8)
    by auto
  moreover from this have "ast = plain_ast"
    using built_run(7) by simp
  ultimately show ?thesis
    using run by (simp add: plain_ast_def)
qed

end
