(* ===== verification/ExportedFunctions.thy ===== *)
theory ExportedFunctions
  imports DeclaredInterface
begin

text \<open>
  Calling an exported function of a loaded module whose section was generated: the adapter that runs
  (\<open>crates/it-generator\<close>) calls, by an index into the table that the loader builds (\<open>core/src/module/wit_instance.rs\<close>),
  the core function of the same name of the same Wasm instance, once, and otherwise only the functions of the
  default export API.
\<close>

subsection \<open>Adapters of the section\<close>

lemma map_of_rev_distinct: "distinct (List.map fst xs) \<Longrightarrow> (k, v) \<in> set xs \<Longrightarrow> map_of (rev xs) k = Some v"
  by (rule map_of_is_SomeI) (simp_all add: rev_map [symmetric])

lemma lists_adapter:
  assumes "lists_functions L ds i" and "k < length ds"
  obtains instrs where "adapter_by_type (MITInterfaces_new i) (fn_adapter L k) = Some instrs"
    and "filter own_call instrs = [CallCore (word_of_nat (API_FUNCS_COUNT + k))]"
    and "unat (word_of_nat (API_FUNCS_COUNT + k) :: u32) = API_FUNCS_COUNT + k"
proof -
  obtain as bs where as: "if_adapters i = as @ bs" "fn_adapters API_FUNCS_COUNT L ds as"
      "\<forall>b\<in>set bs. L + 2 * length ds \<le> unat (ad_function_type b)"
    using assms(1) by (auto simp: lists_functions_def)
  let ?pair = "\<lambda>a. (ad_function_type a, ad_instructions a)"
  have len: "length as = length ds"
    and each: "j < length ds \<Longrightarrow> ad_function_type (as ! j) = fn_adapter L j" for j
    using as(2) by (auto simp: fn_adapters_def)
  have "List.map ad_function_type as = List.map (fn_adapter L) [0..<length ds]"
    by (rule nth_equalityI) (simp_all add: len each)
  then have "distinct (List.map fst (List.map ?pair as))"
    using fn_adapters_distinct [OF assms(1)] by (simp add: comp_def)
  moreover have "(fn_adapter L k, ad_instructions (as ! k)) \<in> set (List.map ?pair as)"
    using assms(2) len each [OF assms(2)] by (force simp: in_set_conv_nth)
  ultimately have first: "map_of (rev (List.map ?pair as)) (fn_adapter L k) = Some (ad_instructions (as ! k))"
    by (rule map_of_rev_distinct)
  have "ad_function_type b \<noteq> fn_adapter L k" if "b \<in> set bs" for b
    using as(3) that lists_index(2) [OF assms] assms(2) by fastforce
  then have "map_of (rev (List.map ?pair bs)) (fn_adapter L k) = None"
    unfolding map_of_eq_None_iff by (simp add: image_iff) metis
  then have "adapter_by_type (MITInterfaces_new i) (fn_adapter L k) = Some (ad_instructions (as ! k))"
    using first by (simp add: adapter_by_type_new as(1) map_add_def)
  moreover have index: "unat (word_of_nat (API_FUNCS_COUNT + k) :: u32) = API_FUNCS_COUNT + k"
    using assms by (intro lists_unat [OF assms(1)]) (auto simp: lists_functions_def)
  moreover have "filter own_call (ad_instructions (as ! k)) = [CallCore (word_of_nat (API_FUNCS_COUNT + k))]"
    using as(2) assms(2) index by (intro own_calls_once) (auto simp: fn_adapters_def)
  ultimately show thesis
    using that by blast
qed

lemma lists_export_name:
  assumes "lists_functions L ds i" and "k < length ds"
  shows "API_FUNCS_COUNT + k < length (if_exports i)" and "ex_name (if_exports i ! (API_FUNCS_COUNT + k)) = fst (ds ! k)"
proof -
  obtain es where "if_exports i = es @ fn_exports L ds" "length es = API_FUNCS_COUNT"
    using assms(1) by (auto simp: lists_functions_def)
  then show "API_FUNCS_COUNT + k < length (if_exports i)" and "ex_name (if_exports i ! (API_FUNCS_COUNT + k)) = fst (ds ! k)"
    using assms(2) by (simp_all add: fn_exports_def nth_append)
qed

subsection \<open>The table of the loader\<close>

text \<open>The entry of an export: the function of its name of the Wasm instance.\<close>

definition exported_entry :: "('st, 'w, 'l, 'i, 'f, 'h, 'm, 'x) backend \<Rightarrow> 'i \<Rightarrow> string \<Rightarrow> ('f, 'm, 'p) WITFunction \<Rightarrow> bool" where
  "exported_entry B inst name f \<longleftrightarrow> wf_name f = name \<and> (\<exists>func st. wf_inner f = WI_Export func \<and> get_function B inst name st = Inr func)"

lemma from_export_entry:
  "(from_export B func name :: ('st, ('x, 'v) MError, _) eff) st = (Returns (Inr f), st') \<Longrightarrow> wf_name f = name \<and> wf_inner f = WI_Export func"
  by (auto simp: from_export_def eff_simps)

lemma raw_exports_table:
  assumes "(extract_raw_exports B inst wit :: ('st, ('x, 'v) MError, _) eff) st = (Returns (Inr exports), st')"
  shows "list_all2 (\<lambda>(k, e) (k', f). k' = k \<and> exported_entry B inst (ex_name e) f) (enumerate 0 (mit_exports wit)) exports"
  using assms unfolding extract_raw_exports_def
  by (rule mapM_all2) (auto simp: eff_simps exported_entry_def dest!: from_export_entry, blast)

lemma instance_table:
  assumes "(ITInstance_new B i module_name wit mods :: ('st, ('x, 'v) MError, _) eff) st = (Returns (Inr inst), st')"
    and "k < length (mit_exports wit)"
  shows "\<exists>f. hm_get k (it_funcs inst) = Some f \<and> exported_entry B i (ex_name (mit_exports wit ! k)) f"
proof -
  obtain exports imps where
      exports: "(extract_raw_exports B i wit :: ('st, ('x, 'v) MError, _) eff) st = (Returns (Inr exports), st')"
    and imps: "(extract_imports module_name mods wit (length exports) :: ('x, 'v) MError + _) = Inr imps"
    and inst: "inst = ITInstance (hm_extend exports imps) (extract_memories B i st') (extract_record_types wit)"
    using assms(1) unfolding ITInstance_new_ok by blast
  have len: "length exports = length (mit_exports wit)"
    and each: "j < length exports \<Longrightarrow> fst (exports ! j) = j \<and> exported_entry B i (ex_name (mit_exports wit ! j)) (snd (exports ! j))" for j
    using raw_exports_table [OF exports] by (auto simp: list_all2_conv_all_nth nth_enumerate_eq case_prod_beta)
  have "List.map fst exports = [0..<length exports]"
    by (rule nth_equalityI) (simp_all add: each)
  then have "distinct (List.map fst exports)"
    by simp
  moreover have "(k, snd (exports ! k)) \<in> set exports"
    using each [of k] assms(2) len by (metis nth_mem prod.collapse)
  ultimately have found: "hm_get k exports = Some (snd (exports ! k))"
    by (simp add: hm_get_def)
  have "k' \<noteq> k" if "(k', f) \<in> set imps" for k' f
    using imps that assms(2) len by (fastforce simp: extract_imports_Inr in_set_conv_nth)
  then have "map_of (rev imps) k = None"
    unfolding map_of_eq_None_iff by force
  then show ?thesis
    using found each [of k] assms(2) len by (simp add: inst hm_extend_get)
qed

text \<open>A callable is compiled from the adapter of a signature of its name, over the instance.\<close>

lemma exported_callable:
  assumes "(instantiate_exports E inst mit :: ('x, 'v) MError + _) = Inr (funcs, recs)" and "hm_get n funcs = Some c"
  shows "\<exists>sigs sig instrs. get_export_funcs mit = Inr sigs \<and> sig \<in> set sigs \<and> fs_name sig = n \<and> it_instance c = inst \<and>
    adapter_by_type mit (fs_adapter_function_type sig) = Some instrs \<and> compile E instrs = Some (imf_interpreter (it_module_func c))"
proof -
  obtain i pairs where i: "it_get_interface mit = Inr i"
    and pairs: "mapR (instantiate_export E inst mit) (function_signatures i) = (Inr pairs :: ('x, 'v) MError + _)"
    and funcs: "funcs = collect_hmap pairs"
    using assms(1) by (auto simp: instantiate_exports_def bindR_Inr map_err_Inr)
  have "(n, c) \<in> set pairs"
    using assms(2) by (auto simp: funcs dest: collect_hmap_get)
  then obtain sig where "sig \<in> set (function_signatures i)" "(instantiate_export E inst mit sig :: ('x, 'v) MError + _) = Inr (n, c)"
    using mapR_Inr_mem [OF pairs] by blast
  moreover have "get_export_funcs mit = Inr (function_signatures i)"
    using i by (auto simp: it_get_interface_def bindR_Inr)
  ultimately show ?thesis
    by (force simp: instantiate_export_def bindR_Inr map_err_Inr ok_or_Inr adapter_by_type_r_def adapter_by_type_def)
qed

subsection \<open>Calling an exported function\<close>

text \<open>C4: every function that a loaded module with a generated section offers runs an adapter that was compiled from
  instructions with exactly one call of a core function outside the default export API.  The index of that call,
  written by the generator, is in the table that the loader builds the index of the function of the same name of the
  module's own Wasm instance.\<close>

theorem exported_function_calls_its_namesake:
  assumes "generate_interfaces dflt tag is_complex ast = Inr i" and "length (if_types i) \<le> 2 ^ 32"
    and "(MModule_new B E A S name bytes config mods :: (_, ('x, 'v::linorder) MError, _) eff) w = (Returns (Inr m), w')"
    and "\<And>wasm. fst (module_new B bytes w) = Inr wasm \<Longrightarrow>
      extract_it_from_module (sdk_decoder S) (custom_sections B wasm) = Inr (v, i)"
    and "hm_get n (export_funcs m) = Some c"
  shows "\<exists>instrs index f. compile E instrs = Some (imf_interpreter (it_module_func c)) \<and>
    filter own_call instrs = [CallCore index] \<and> hm_get (unat index) (it_funcs (it_instance c)) = Some f \<and>
    exported_entry B (wasm_instance m) n f"
  using assms(3)
proof (rule MModule_new_stages)
  fix wasm w1 v' it w3 inst w4
  assume stages: "module_new B bytes w = (Inr wasm, w1)"
    "extract_it_from_module (sdk_decoder S) (custom_sections B wasm) = Inr (v', it)"
    "(ITInstance_new B (wasm_instance m) name (MITInterfaces_new it) mods :: (_, ('x, 'v) MError, _) eff) w3 =
      (Returns (Inr inst), w4)"
    "(instantiate_exports E inst (MITInterfaces_new it) :: ('x, 'v) MError + _) =
      Inr (export_funcs m, mod_export_record_types m)"
  have it: "it = i"
    using assms(4) [of wasm] stages(1,2) by simp
  obtain L ds where lists: "lists_functions L ds i"
    using generated_lists_functions [OF assms(1,2)] by blast
  obtain sigs sig instrs where sig: "get_export_funcs (MITInterfaces_new i) = Inr sigs" "sig \<in> set sigs" "fs_name sig = n"
      and c: "it_instance c = inst" "adapter_by_type (MITInterfaces_new i) (fs_adapter_function_type sig) = Some instrs"
        "compile E instrs = Some (imf_interpreter (it_module_func c))"
    using exported_callable [OF stages(4) assms(5)] it by blast
  obtain k where k: "k < length ds" "fst (ds ! k) = n" "fs_adapter_function_type sig = fn_adapter L k"
    using sig by (auto simp: lists_export_funcs [OF lists])
  let ?index = "word_of_nat (API_FUNCS_COUNT + k) :: u32"
  have "filter own_call instrs = [CallCore ?index]" and index: "unat ?index = API_FUNCS_COUNT + k"
    using lists_adapter [OF lists k(1)] c(2) k(3) by auto
  moreover have "\<exists>f. hm_get (unat ?index) (it_funcs inst) = Some f \<and> exported_entry B (wasm_instance m) n f"
    unfolding index
    using instance_table [OF stages(3), of "API_FUNCS_COUNT + k"] lists_export_name [OF lists k(1)] it k(2)
    by (simp add: MITInterfaces_new_def)
  ultimately show ?thesis
    using c(1,3) by blast
qed

theorem exported_function_calls_its_namesake_witness:
  "\<exists>m w c instrs index f. plain_load sample_start = (Returns (Inr m), w) \<and> hm_get ''f'' (export_funcs m) = Some c \<and>
    filter own_call instrs = [CallCore index] \<and> hm_get (unat index) (it_funcs (it_instance c)) = Some f \<and>
    wf_name f = ''f'' \<and> wf_inner f = WI_Export ''f''"
proof -
  from plain_load_offers_its_declarations
  obtain m w where run: "plain_load sample_start = (Returns (Inr m), w)" and offers: "fst ` set (export_funcs m) = {''f''}"
    by (elim exE conjE)
  have stored: "extract_it_from_module (sdk_decoder plain_sdk) (custom_sections plain_backend wasm) = Inr (20, plain_section)" for wasm
    by (simp add: extract_it_from_module_Inr plain_backend_def plain_sdk_def sample_backend_def IT_SECTION_NAME_def)
  obtain c where c: "hm_get ''f'' (export_funcs m) = Some c"
    using offers by (cases "hm_get ''f'' (export_funcs m)") (simp_all add: hm_get_def map_of_eq_None_iff)
  obtain instrs index f where "filter own_call instrs = [CallCore index]"
      "hm_get (unat index) (it_funcs (it_instance c)) = Some f" "exported_entry plain_backend (wasm_instance m) ''f'' f"
    using exported_function_calls_its_namesake [OF plain_section_generated(1) _ run [unfolded plain_load_def] stored c]
      plain_section_generated(2) by auto
  then show ?thesis
    using run c by (auto simp: exported_entry_def plain_backend_def)
qed

end
