(* ===== verification/Spec2Isabelle.thy ===== *)
theory Spec2Isabelle
  imports Memory StoreLimiter WasmtimeFunction JsonSerde HostImports ServiceFactory AppServiceProps
    WasmtimeBackend JsMachine HostFunctionKinds MarineJs ReplProps CliArgs BuiltModules ExportedFunctions
begin

text \<open>
  \<^bold>\<open>Marine\<close>: a runtime that links WebAssembly modules by interface types.  A module carries, in
  custom sections, the version of the SDK it was built with, a manifest and an interface section: types,
  imports, exports and adapters, which are small stack programs that lift Wasm values to interface values
  and lower them.  The runtime loads modules in order, registers the adapters of loaded modules as imports
  of the later ones, and calls exports with JSON or interface values.  An application service is a runtime
  with one module as its facade.

  \<^bold>\<open>The parts and where they are modelled\<close> (paths under \<open>src/\<close>).

  \<^item> \<open>Prelude\<close>, \<open>Effects\<close>: machine integers, fallible computations, hash maps as association
    lists; computations on a state that return, fail or panic.  \<open>Floats\<close>: casts between floats and integers
    on bit patterns.
  \<^item> \<open>WasmTypes\<close> (\<open>crates/wasm-backend-traits\<close>, \<open>crates/utils\<close>): values, types, errors, pages.
  \<^item> The wasmtime backend (\<open>crates/wasmtime-backend\<close>): \<open>WasmtimeFunction\<close> (conversions, host and export
    functions), \<open>Memory\<close> (both backends' memories), \<open>StoreLimiter\<close> (memory limit and statistics),
    \<open>WasmtimeBackend\<close> (instances, import calls, modules, WASI, configuration).
  \<^item> The JavaScript backend (\<open>crates/js-backend\<close>): \<open>JsModuleInfo\<close> (what is read from the bytes),
    \<open>JsBackend\<close> (conversions, store, functions, calls), \<open>JsLinking\<close> (imports, instances, modules, WASI),
    \<open>JsAsync\<close> (the executor of futures), \<open>JsImportProps\<close> (the contract of import objects), \<open>JsMachine\<close>
    (nested calls as a step relation).  \<open>HostFunctionKinds\<close>: typed and asynchronous host functions of both.
  \<^item> Interface types: \<open>ItTypes\<close> (types, records, values), \<open>MitInterfaces\<close> (\<open>crates/it-interfaces\<close>),
    \<open>ItInterface\<close> and \<open>ModuleInterface\<close> (\<open>crates/module-interface\<close>), \<open>ItParser\<close>
    (\<open>crates/it-parser\<close>), \<open>JsonSerde\<close> (\<open>crates/it-json-serde\<close>).
  \<^item> The generator (\<open>crates/it-generator\<close>): \<open>ItResolver\<close> (types, records and imports of the section being
    written), \<open>ItGenerator\<close> (adapters), \<open>GeneratorInvariant\<close>, \<open>AdapterShape\<close> (an adapter of an exported
    function calls one core function besides the default export API).
  \<^item> \<open>ModuleInfo\<close> (\<open>crates/module-info-parser\<close>): manifest and SDK version sections.
  \<^item> The core (\<open>core/src\<close>): \<open>HostImports\<close> (lifting and lowering for host functions), \<open>ItInstance\<close> and
    \<open>MarineModule\<close> (loading one module), \<open>ModuleLinking\<close> (what loading guarantees), \<open>MarineCore\<close> (the map
    of modules), \<open>GeneratedLinking\<close> (generated adapters against the loader), \<open>DeclaredInterface\<close> (declarations against
    the interface that is loaded), \<open>ExportedFunctions\<close> (from a call of an export to the function of the instance).
  \<^item> The runtime (\<open>marine/src\<close>): \<open>MarineConfig\<close>, \<open>ModuleConfigBuilder\<close>, \<open>HostFunctions\<close> (logger, mounted
    binaries, call parameters), \<open>MarineApi\<close> (\<open>marine.rs\<close>), \<open>MarineCalls\<close>.
  \<^item> \<open>AppServiceModel\<close>, \<open>ServiceFactory\<close>, \<open>AppServiceProps\<close> (\<open>crates/fluence-app-service\<close>).
  \<^item> What people use: \<open>InterfaceText\<close> (printing of interfaces and statistics), \<open>MarineJs\<close> (\<open>marine-js\<close>, the
    entry points for JavaScript), \<open>ReplSession\<close>, \<open>Repl\<close>, \<open>ReplProps\<close> (\<open>tools/repl\<close>: sessions and commands),
    \<open>Cli\<close>, \<open>CliArgs\<close>, \<open>CliProps\<close> (\<open>tools/cli\<close>: commands, their arguments, what building guarantees), \<open>Texts\<close> (texts
    and paths).  \<open>BuiltModules\<close>: tools, generator and loader together.

  \<^bold>\<open>How state and operations correspond to the code.\<close>  A struct is a record, an enum a datatype, a method a
  definition of the same name (with the type's name first where two would clash) from the arguments and the
  state to the result and the new state.  \<open>Result\<close> is a sum with the error on the left; error messages that
  the code formats are constructors that keep what is formatted.  A panic is \<open>Panics\<close> in a computation on a
  state and \<open>None\<close> elsewhere; a computation that may not end has \<open>None\<close> or fuel.  Fixed-width integers
  are words and wrap as a release build does; \<open>usize\<close> has 64 bits; floats are bit patterns.  A
  \<open>HashMap\<close> is an association list whose order is not specified: theorems hold for every order.
  The store, the core and the runtime are threaded as states; the cell \<open>Arc<MaybeUninit<ITInstance>>\<close> through
  which raw imports find their instance is an entry of the state, and reading it before it is written, which is
  undefined in Rust, is a panic; the call parameters that host functions share are cells of the same kind.

  \<^bold>\<open>What is a parameter.\<close>  Code outside of \<open>src/\<close>: the Wasm engines (record \<open>backend\<close> for the core;
  \<open>wasmtime_api\<close>, \<open>js_api\<close> for the two backends), the interpreter of adapters (\<open>it_engine\<close>), the
  parsers of \<open>walrus\<close>, \<open>wasmparser\<close>, \<open>semver\<close>, TOML and JSON texts, files, processes, WASI.  Types of
  such code appear with the constructors that the code matches on.  A law of a parameter is a hypothesis of the
  theorem that needs it, with a concrete instance in its witness.

  \<^bold>\<open>What the lemmas show.\<close>  In each theory: the outcome of its operations on every branch.  Beyond that:
  \<^item> sessions: the locale \<open>session_contract\<close>, interpreted on the service, carries what holds of a created service
    through every command of the REPL;
  \<^item> invariants: the limiter never grants more than the limit; generated sections are closed under type and
    record references; the call stack of the JavaScript backend is the stack of running instances;
  \<^item> refinement: the core implements a finite map of modules; the interfaces \<open>imports_interface\<close> and the other
    locales are interpreted on the definitions of the code;
  \<^item> linking: after loading, adapters call the functions registered for them, raw imports find their own
    instance, and calls pass through no more instances than were loaded;
  \<^item> composition: a module that is built and loaded offers the functions its author declared, and each of them
    calls the function of its name of the module;
  \<^item> round trips: JSON, manifest, versions, interface sections, built modules, scalars through the host, values
    through JavaScript;
  \<^item> equivalence of the two backends: checked memory access, registration of imports, custom sections;
  \<^item> errors: which failures are reported, and where the code reports another module or panics.

  \<^bold>\<open>Bounds.\<close>  The recursion limit of record nesting in the generator and the interface (1024 in the code) is
  kept as the code has it.  The depth first sort of records terminates by the measure of unvisited records.
  Calls between modules are followed with fuel, and \<open>module_calls_are_bounded\<close> shows that the number of loaded
  modules is enough.  The executor of futures is a partial function and returns exactly on futures that become
  ready.

  \<^bold>\<open>Not modelled\<close>: the library that parses command line arguments and the line editor, which the tools only configure;
  trait declarations and the repetition of an implementation for each number of parameters; printing by
  \<open>Debug\<close>; elapsed times; the epoch interruption that wasmtime does on its own; unsafe sharing of the store
  pointer between JavaScript closures (the store is threaded instead); examples and tests.
\<close>

end
